(* ===== verification/Go_Prelude.thy ===== *)
theory Go_Prelude
  imports Main "HOL-Library.Word"
begin

text \<open>
  Shared vocabulary of the development: the machine integers of the Go sources as words, Go
  strings as HOL strings (a Go string is a sequence of bytes, a HOL \<open>char\<close> is a byte), the
  little- and big-endian encodings of \<open>encoding/binary\<close>, and the slice operations
  (\<open>copy\<close>, \<open>strings.TrimRight\<close>) the packages under src/internal share, with the lemmas
  every component proof uses.
\<close>

unbundle bit_operations_syntax

section \<open>Collections and type names\<close>

named_theorems wire_defs \<open>encoders and decoders of wire formats\<close>
named_theorems const_defs \<open>named constants of the sources\<close>

type_synonym byte = "8 word"
type_synonym u16 = "16 word"
type_synonym u32 = "32 word"

section \<open>Errors as values\<close>

text \<open>
  A Go function returning \<open>(T, error)\<close> is modelled by a sum: \<open>Inl\<close> carries the error,
  \<open>Inr\<close> the value. A function returning only an \<open>error\<close> is modelled by an option whose
  \<open>None\<close> is the nil error.
\<close>

definition isOk :: "'e + 'a \<Rightarrow> bool" where
  "isOk r = (case r of Inl _ \<Rightarrow> False | Inr _ \<Rightarrow> True)"

lemma isOk_simps [simp]: "isOk (Inr a)" "\<not> isOk (Inl e)"
  by (simp_all add: isOk_def)

lemma isOkE: "isOk r \<Longrightarrow> (\<And>a. r = Inr a \<Longrightarrow> P) \<Longrightarrow> P"
  by (cases r) auto

section \<open>Go strings and byte slices\<close>

definition byte_char :: "byte \<Rightarrow> char" where
  "byte_char b = char_of (unat b)"

definition char_byte :: "char \<Rightarrow> byte" where
  "char_byte c = word_of_nat (of_char c)"

lemma char_byte_char [simp]: "char_byte (byte_char b) = b"
proof -
  have "unat b mod 256 = unat b"
    using unsigned_less [of b, where ?'a = nat] by simp
  then show ?thesis
    by (simp add: char_byte_def byte_char_def)
qed

lemma byte_char_byte [simp]: "byte_char (char_byte c) = c"
  by (simp add: char_byte_def byte_char_def unat_of_nat)

text \<open>\<open>string(bs)\<close> and \<open>[]byte(s)\<close>.\<close>

definition string_of_bytes :: "byte list \<Rightarrow> string" where
  "string_of_bytes bs = map byte_char bs"

definition bytes_of_string :: "string \<Rightarrow> byte list" where
  "bytes_of_string s = map char_byte s"

lemma string_bytes_string [simp]: "string_of_bytes (bytes_of_string s) = s"
  by (induction s) (simp_all add: string_of_bytes_def bytes_of_string_def)

lemma bytes_string_bytes [simp]: "bytes_of_string (string_of_bytes bs) = bs"
  by (induction bs) (simp_all add: string_of_bytes_def bytes_of_string_def)

lemma bytes_of_string_inj [simp]: "bytes_of_string s = bytes_of_string t \<longleftrightarrow> s = t"
  by (metis string_bytes_string)

lemma length_string_of_bytes [simp]: "length (string_of_bytes bs) = length bs"
  by (simp add: string_of_bytes_def)

lemma length_bytes_of_string [simp]: "length (bytes_of_string s) = length s"
  by (simp add: bytes_of_string_def)

lemma string_of_bytes_append [simp]:
  "string_of_bytes (xs @ ys) = string_of_bytes xs @ string_of_bytes ys"
  by (simp add: string_of_bytes_def)

text \<open>\<open>copy(dst, src)\<close>: the slice \<open>dst\<close> after the call.\<close>

definition go_copy :: "'a list \<Rightarrow> 'a list \<Rightarrow> 'a list" where
  "go_copy dst src = take (length dst) src @ drop (length src) dst"

lemma length_go_copy [simp]: "length (go_copy dst src) = length dst"
  by (simp add: go_copy_def)

lemma go_copy_same_length [simp]: "length src = length dst \<Longrightarrow> go_copy dst src = src"
  by (simp add: go_copy_def)

text \<open>\<open>data[lo:hi]\<close> on a slice whose bounds the code has checked.\<close>

definition slice :: "nat \<Rightarrow> nat \<Rightarrow> 'a list \<Rightarrow> 'a list" where
  "slice lo hi xs = take (hi - lo) (drop lo xs)"

lemma length_slice [simp]: "hi \<le> length xs \<Longrightarrow> length (slice lo hi xs) = hi - lo"
  by (simp add: slice_def)

lemma slice_append_left: "hi \<le> length xs \<Longrightarrow> slice lo hi (xs @ ys) = slice lo hi xs"
  by (cases "lo \<le> length xs") (simp_all add: slice_def)

text \<open>\<open>strings.TrimRight(s, "\x00")\<close>.\<close>

definition trim_right_nul :: "string \<Rightarrow> string" where
  "trim_right_nul s = rev (dropWhile (\<lambda>c. c = CHR 0x00) (rev s))"

lemma trim_right_nul_Nil [simp]: "trim_right_nul [] = []"
  by (simp add: trim_right_nul_def)

lemma trim_right_nul_id: "s = [] \<or> last s \<noteq> CHR 0x00 \<Longrightarrow> trim_right_nul s = s"
  by (cases s rule: rev_cases) (auto simp: trim_right_nul_def)

lemma trim_right_nul_pad:
  "trim_right_nul (s @ replicate n (CHR 0x00)) = trim_right_nul s"
proof (induction n)
  case (Suc n)
  then show ?case
    by (simp add: trim_right_nul_def replicate_app_Cons_same)
qed simp

lemma length_trim_right_nul: "length (trim_right_nul s) \<le> length s"
  using length_dropWhile_le [of _ "rev s"] by (simp add: trim_right_nul_def)

section \<open>Search loops\<close>

text \<open>
  \<open>for i := a; i < b; i++ { if p(i) { return i } }\<close> is \<open>find p [a..<b]\<close>: it returns the
  least index with the property.
\<close>

lemma find_upt_Some:
  "find P [a..<b] = Some i \<longleftrightarrow> a \<le> i \<and> i < b \<and> P i \<and> (\<forall>j. a \<le> j \<and> j < i \<longrightarrow> \<not> P j)"
proof (induction "b - a" arbitrary: a)
  case 0
  then show ?case by simp
next
  case (Suc n)
  then have ab: "a < b" by simp
  with Suc have IH: "find P [Suc a..<b] = Some i \<longleftrightarrow>
      Suc a \<le> i \<and> i < b \<and> P i \<and> (\<forall>j. Suc a \<le> j \<and> j < i \<longrightarrow> \<not> P j)"
    by simp
  show ?case
  proof (cases "P a")
    case True
    with ab show ?thesis
      by (auto simp: upt_conv_Cons)
  next
    case False
    then have split_a: "(\<forall>j. a \<le> j \<and> j < i \<longrightarrow> \<not> P j) \<longleftrightarrow> (\<forall>j. Suc a \<le> j \<and> j < i \<longrightarrow> \<not> P j)"
      by (metis Suc_leD Suc_leI le_neq_implies_less)
    from False have "P i \<Longrightarrow> a \<le> i \<longleftrightarrow> Suc a \<le> i"
      by (metis Suc_leD Suc_leI le_neq_implies_less)
    with False ab IH split_a show ?thesis
      by (auto simp: upt_conv_Cons simp del: upt_Suc)
  qed
qed

lemma find_upt_None: "find P [a..<b] = None \<longleftrightarrow> (\<forall>i. a \<le> i \<and> i < b \<longrightarrow> \<not> P i)"
  by (auto simp: find_None_iff)

text \<open>Index ranges stay folded: the bounds of the loops are named constants.\<close>

declare upt_Suc [simp del]

text \<open>A counting loop over an index range.\<close>

lemma foldl_count:
  "foldl (\<lambda>c i. if P i then c + 1 else c) (k::'a::len word) xs
    = k + word_of_nat (length (filter P xs))"
  by (induction xs arbitrary: k) (simp_all add: algebra_simps)

section \<open>Masks and flag bits\<close>

named_theorems flag_bits \<open>tests of single bits and masks of a byte\<close>

lemma and_flag [flag_bits]:
  "(b::byte) AND 0x80 = 0 \<longleftrightarrow> \<not> bit b 7" "b AND 0x40 = 0 \<longleftrightarrow> \<not> bit b 6"
  "b AND 0x20 = 0 \<longleftrightarrow> \<not> bit b 5" "b AND 0x10 = 0 \<longleftrightarrow> \<not> bit b 4"
  by (simp_all add: bit_iff_and_push_bit_not_eq_0 push_bit_of_1)

lemma and_mask_take_bit [flag_bits]:
  "(b::byte) AND 0x3F = take_bit 6 b" "b AND 0x7F = take_bit 7 b" "b AND 0x0F = take_bit 4 b"
  "b AND 0x07 = take_bit 3 b" "b AND 0x03 = take_bit 2 b"
  by (simp_all add: take_bit_eq_mask mask_eq_exp_minus_1)

lemma byte_bits_eq:
  "(a::byte) = b \<longleftrightarrow> (\<forall>n \<in> {0, 1, 2, 3, 4, 5, 6, 7}. bit a n = bit b n)"
proof (rule iffI, simp, rule bit_word_eqI)
  fix n :: nat
  assume bits: "\<forall>n \<in> {0, 1, 2, 3, 4, 5, 6, 7}. bit a n = bit b n" and "n < LENGTH(8)"
  then have "n < 8"
    by simp
  then consider "n = 0" | "n = 1" | "n = 2" | "n = 3" | "n = 4" | "n = 5" | "n = 6" | "n = 7"
    by linarith
  then show "bit a n = bit b n"
    by cases (use bits in simp_all)
qed

lemma take_bit_byte_small: "unat (b::byte) < 2 ^ n \<Longrightarrow> take_bit n b = b"
  by (simp add: word_unat_eq_iff unsigned_take_bit_eq take_bit_nat_eq_self)

lemma unat_take_bit_byte: "unat (take_bit n (b::byte)) = unat b mod 2 ^ n"
  by (simp only: unsigned_take_bit_eq take_bit_nat_def)

text \<open>\<open>if b { x |= m }\<close>.\<close>

definition set_bit_if :: "bool \<Rightarrow> byte \<Rightarrow> byte \<Rightarrow> byte" where
  "set_bit_if b m x = (if b then x OR m else x)"

section \<open>Fixed-width integers on the wire\<close>

definition put_u16_le :: "u16 \<Rightarrow> byte list" where
  "put_u16_le w = [ucast w, ucast (drop_bit 8 w)]"

definition put_u32_le :: "u32 \<Rightarrow> byte list" where
  "put_u32_le w = [ucast w, ucast (drop_bit 8 w), ucast (drop_bit 16 w), ucast (drop_bit 24 w)]"

definition put_u32_be :: "u32 \<Rightarrow> byte list" where
  "put_u32_be w = rev (put_u32_le w)"

definition get_u16_le :: "byte list \<Rightarrow> u16" where
  "get_u16_le bs = ucast (bs ! 0) OR push_bit 8 (ucast (bs ! 1))"

definition get_u32_le :: "byte list \<Rightarrow> u32" where
  "get_u32_le bs = ucast (bs ! 0) OR push_bit 8 (ucast (bs ! 1))
     OR push_bit 16 (ucast (bs ! 2)) OR push_bit 24 (ucast (bs ! 3))"

lemma length_put_u16_le [simp]: "length (put_u16_le w) = 2"
  by (simp add: put_u16_le_def)

lemma length_put_u32_le [simp]: "length (put_u32_le w) = 4"
  by (simp add: put_u32_le_def)

lemma length_put_u32_be [simp]: "length (put_u32_be w) = 4"
  by (simp add: put_u32_be_def)

lemma get_put_u16_le [simp]: "get_u16_le (put_u16_le w @ rest) = w"
proof (rule bit_word_eqI)
  fix n
  assume n: "n < LENGTH(16)"
  show "bit (get_u16_le (put_u16_le w @ rest)) n \<longleftrightarrow> bit w n"
    using n by (cases "n < 8")
      (simp_all add: get_u16_le_def put_u16_le_def bit_simps, linarith+)
qed

lemma get_put_u32_le [simp]: "get_u32_le (put_u32_le w @ rest) = w"
proof (rule bit_word_eqI)
  fix n
  assume n: "n < LENGTH(32)"
  consider "n < 8" | "8 \<le> n" "n < 16" | "16 \<le> n" "n < 24" | "24 \<le> n"
    by linarith
  then show "bit (get_u32_le (put_u32_le w @ rest)) n \<longleftrightarrow> bit w n"
    using n by cases (simp_all add: get_u32_le_def put_u32_le_def bit_simps, linarith+)
qed

lemma nth_eq_of_take_eq: "take n xs = take n ys \<Longrightarrow> i < n \<Longrightarrow> xs ! i = ys ! i"
  by (metis nth_take)

lemma get_u32_le_take: "4 \<le> n \<Longrightarrow> get_u32_le (take n bs) = get_u32_le bs"
  by (simp add: get_u32_le_def)

end
