(* ===== verification/Bmc_State.thy ===== *)
theory Bmc_State
  imports Go_Prelude
begin

text \<open>
  The BMC configuration store of src/internal/bmc/state.go: the table of user slots, the LAN
  parameters and the channel access settings that Redfish, IPMI over LAN and in-band IPMI share.
  Every method of the Go type \<open>State\<close> takes the store's lock for its whole body, so a method is
  one atomic state function here: a reader returns its value, a writer returns the new state, a
  fallible writer the new state together with the error it returns.
\<close>

section \<open>Data\<close>

definition maxUsers :: nat where
  "maxUsers = 15"

datatype bmc_error =
    ErrUserExists
  | ErrNoFreeSlot
  | ErrNotFound
  | ErrEmptyName
  | ErrUserIDRange byte

record Account =
  acc_ID :: byte
  acc_Name :: string
  acc_Privilege :: byte
  acc_Enabled :: bool

record AccountUpdate =
  upd_Name :: "string option"
  upd_Password :: "string option"
  upd_Privilege :: "byte option"
  upd_Enabled :: "bool option"

record UserAccess =
  PrivilegeLimit :: byte
  Enabled :: bool
  IPMIMessaging :: bool
  LinkAuth :: bool
  CallinCallback :: bool

record userSlot =
  slot_name :: string
  slot_password :: string
  slot_access :: UserAccess

record ChannelAccess =
  AccessMode :: byte
  UserLevelAuth :: bool
  PerMsgAuth :: bool
  AlertingEnabled :: bool
  ca_PrivilegeLimit :: byte

record ChannelInfo =
  ChannelNumber :: byte
  ChannelMedium :: byte
  ChannelProtocol :: byte
  SessionSupport :: byte
  ActiveSessions :: byte

record State =
  users :: "userSlot list"
  lanConfig :: "byte \<rightharpoonup> byte list"
  channelAccess :: "ChannelAccess list"

text \<open>The zero values of the Go structs.\<close>

definition zeroUserAccess :: UserAccess where
  "zeroUserAccess = \<lparr>PrivilegeLimit = 0, Enabled = False, IPMIMessaging = False,
     LinkAuth = False, CallinCallback = False\<rparr>"

definition zeroUserSlot :: userSlot where
  "zeroUserSlot = \<lparr>slot_name = [], slot_password = [], slot_access = zeroUserAccess\<rparr>"

definition zeroChannelAccess :: ChannelAccess where
  "zeroChannelAccess = \<lparr>AccessMode = 0, UserLevelAuth = False, PerMsgAuth = False,
     AlertingEnabled = False, ca_PrivilegeLimit = 0\<rparr>"

section \<open>Operations\<close>

definition NewState :: "string \<Rightarrow> string \<Rightarrow> State" where
  "NewState defaultUser defaultPass =
     \<lparr>users = (replicate (maxUsers + 1) zeroUserSlot)
        [2 := \<lparr>slot_name = defaultUser, slot_password = defaultPass,
               slot_access = \<lparr>PrivilegeLimit = 4, Enabled = True, IPMIMessaging = True,
                 LinkAuth = True, CallinCallback = False\<rparr>\<rparr>],
      lanConfig = [
        1 \<mapsto> [0x97],
        2 \<mapsto> [0x14, 0x14, 0x14, 0x14, 0x00],
        3 \<mapsto> [0, 0, 0, 0],
        4 \<mapsto> [0x01],
        5 \<mapsto> [0, 0, 0, 0, 0, 0],
        6 \<mapsto> [0, 0, 0, 0],
        12 \<mapsto> [0, 0, 0, 0]],
      channelAccess = (replicate 16 zeroChannelAccess)
        [1 := \<lparr>AccessMode = 2, UserLevelAuth = True, PerMsgAuth = True,
               AlertingEnabled = False, ca_PrivilegeLimit = 4\<rparr>]\<rparr>"

definition validateUserID :: "byte \<Rightarrow> bmc_error option" where
  "validateUserID userID =
     (if userID < 1 \<or> userID > word_of_nat maxUsers then Some (ErrUserIDRange userID) else None)"

definition MaxUsers :: "State \<Rightarrow> byte" where
  "MaxUsers s = word_of_nat maxUsers"

text \<open>\<open>s.users[userID]\<close> and the assignment to (a field of) it.\<close>

definition user_at :: "State \<Rightarrow> nat \<Rightarrow> userSlot" where
  "user_at s i = users s ! i"

definition set_user_at :: "State \<Rightarrow> nat \<Rightarrow> userSlot \<Rightarrow> State" where
  "set_user_at s i u = s\<lparr>users := (users s)[i := u]\<rparr>"

definition GetUserName :: "State \<Rightarrow> byte \<Rightarrow> bmc_error + string" where
  "GetUserName s userID =
     (case validateUserID userID of
        Some e \<Rightarrow> Inl e
      | None \<Rightarrow> Inr (slot_name (user_at s (unat userID))))"

definition SetUserName :: "State \<Rightarrow> byte \<Rightarrow> string \<Rightarrow> State \<times> bmc_error option" where
  "SetUserName s userID nm =
     (case validateUserID userID of
        Some e \<Rightarrow> (s, Some e)
      | None \<Rightarrow> (set_user_at s (unat userID)
          ((user_at s (unat userID))\<lparr>slot_name := nm\<rparr>), None))"

definition SetUserPassword :: "State \<Rightarrow> byte \<Rightarrow> string \<Rightarrow> State \<times> bmc_error option" where
  "SetUserPassword s userID pw =
     (case validateUserID userID of
        Some e \<Rightarrow> (s, Some e)
      | None \<Rightarrow> (set_user_at s (unat userID)
          ((user_at s (unat userID))\<lparr>slot_password := pw\<rparr>), None))"

definition GetUserPassword :: "State \<Rightarrow> byte \<Rightarrow> bmc_error + string" where
  "GetUserPassword s userID =
     (case validateUserID userID of
        Some e \<Rightarrow> Inl e
      | None \<Rightarrow> Inr (slot_password (user_at s (unat userID))))"

text \<open>
  \<open>subtle.ConstantTimeCompare(a, b) == 1\<close> is equality of the byte slices; only its running
  time, which the model does not have, sets it apart.
\<close>

definition CheckPassword :: "State \<Rightarrow> byte \<Rightarrow> string \<Rightarrow> bool" where
  "CheckPassword s userID pw =
     (if validateUserID userID \<noteq> None then False
      else let stored = slot_password (user_at s (unat userID))
           in if stored = [] then False
              else bytes_of_string stored = bytes_of_string pw)"

definition GetUserAccess :: "State \<Rightarrow> byte \<Rightarrow> byte \<Rightarrow> bmc_error + UserAccess" where
  "GetUserAccess s channel userID =
     (case validateUserID userID of
        Some e \<Rightarrow> Inl e
      | None \<Rightarrow> Inr (slot_access (user_at s (unat userID))))"

definition SetUserAccess :: "State \<Rightarrow> byte \<Rightarrow> byte \<Rightarrow> UserAccess \<Rightarrow> State \<times> bmc_error option" where
  "SetUserAccess s channel userID acc =
     (case validateUserID userID of
        Some e \<Rightarrow> (s, Some e)
      | None \<Rightarrow> (set_user_at s (unat userID)
          ((user_at s (unat userID))\<lparr>slot_access := acc\<rparr>), None))"

definition EnabledUserCount :: "State \<Rightarrow> byte" where
  "EnabledUserCount s =
     foldl (\<lambda>count i. if Enabled (slot_access (user_at s i)) then count + 1 else count)
       0 [1..<maxUsers + 1]"

definition lookupUserByNameLocked :: "State \<Rightarrow> string \<Rightarrow> byte option" where
  "lookupUserByNameLocked s nm =
     map_option word_of_nat (find (\<lambda>i. slot_name (user_at s i) = nm) [1..<maxUsers + 1])"

definition LookupUserByName :: "State \<Rightarrow> string \<Rightarrow> byte option" where
  "LookupUserByName s nm = (if nm = [] then None else lookupUserByNameLocked s nm)"

definition accountLocked :: "State \<Rightarrow> byte \<Rightarrow> Account" where
  "accountLocked s id' =
     (let u = user_at s (unat id')
      in \<lparr>acc_ID = id', acc_Name = slot_name u,
          acc_Privilege = PrivilegeLimit (slot_access u), acc_Enabled = Enabled (slot_access u)\<rparr>)"

definition Accounts :: "State \<Rightarrow> Account list" where
  "Accounts s = map (\<lambda>i. accountLocked s (word_of_nat i))
     (filter (\<lambda>i. slot_name (user_at s i) \<noteq> []) [1..<maxUsers + 1])"

definition Account_of :: "State \<Rightarrow> byte \<Rightarrow> Account option" where
  "Account_of s id' =
     (if validateUserID id' \<noteq> None then None
      else if slot_name (user_at s (unat id')) = [] then None
      else Some (accountLocked s id'))"

definition CreateAccount ::
    "State \<Rightarrow> string \<Rightarrow> string \<Rightarrow> byte \<Rightarrow> bool \<Rightarrow> State \<times> (bmc_error + byte)" where
  "CreateAccount s nm pw privilege enabled =
     (if nm = [] then (s, Inl ErrEmptyName)
      else case lookupUserByNameLocked s nm of
        Some _ \<Rightarrow> (s, Inl ErrUserExists)
      | None \<Rightarrow>
          (case find (\<lambda>i. slot_name (user_at s i) = []) [2..<maxUsers + 1] of
             None \<Rightarrow> (s, Inl ErrNoFreeSlot)
           | Some i \<Rightarrow>
               (set_user_at s i
                  \<lparr>slot_name = nm, slot_password = pw,
                   slot_access = \<lparr>PrivilegeLimit = privilege, Enabled = enabled,
                     IPMIMessaging = True, LinkAuth = True, CallinCallback = False\<rparr>\<rparr>,
                Inr (word_of_nat i))))"

text \<open>The assignments of \<open>UpdateAccount\<close> after its checks, in the source's order.\<close>

definition apply_update :: "AccountUpdate \<Rightarrow> userSlot \<Rightarrow> userSlot" where
  "apply_update u sl =
     (let s1 = (case upd_Name u of None \<Rightarrow> sl | Some nm \<Rightarrow> sl\<lparr>slot_name := nm\<rparr>);
          s2 = (case upd_Password u of None \<Rightarrow> s1 | Some pw \<Rightarrow> s1\<lparr>slot_password := pw\<rparr>);
          s3 = (case upd_Privilege u of None \<Rightarrow> s2
                | Some p \<Rightarrow> s2\<lparr>slot_access := (slot_access s2)\<lparr>PrivilegeLimit := p\<rparr>\<rparr>)
      in case upd_Enabled u of None \<Rightarrow> s3
         | Some b \<Rightarrow> s3\<lparr>slot_access := (slot_access s3)\<lparr>Enabled := b\<rparr>\<rparr>)"

definition UpdateAccount :: "State \<Rightarrow> byte \<Rightarrow> AccountUpdate \<Rightarrow> State \<times> bmc_error option" where
  "UpdateAccount s id' u =
     (if validateUserID id' \<noteq> None then (s, Some ErrNotFound)
      else if upd_Name u = Some [] then (s, Some ErrEmptyName)
      else
        let sl = user_at s (unat id')
        in if slot_name sl = [] then (s, Some ErrNotFound)
           else if (case upd_Name u of None \<Rightarrow> False
                    | Some nm \<Rightarrow> nm \<noteq> slot_name sl \<and> lookupUserByNameLocked s nm \<noteq> None)
             then (s, Some ErrUserExists)
           else (set_user_at s (unat id') (apply_update u sl), None))"

definition DeleteAccount :: "State \<Rightarrow> byte \<Rightarrow> State \<times> bmc_error option" where
  "DeleteAccount s id' =
     (if validateUserID id' \<noteq> None then (s, Some ErrNotFound)
      else if slot_name (user_at s (unat id')) = [] then (s, Some ErrNotFound)
      else (set_user_at s (unat id') zeroUserSlot, None))"

definition Authenticate :: "State \<Rightarrow> string \<Rightarrow> string \<Rightarrow> bool" where
  "Authenticate s nm pw =
     (if nm = [] then False
      else case lookupUserByNameLocked s nm of
        None \<Rightarrow> False
      | Some id' \<Rightarrow>
          if \<not> Enabled (slot_access (user_at s (unat id'))) then False
          else let stored = slot_password (user_at s (unat id'))
               in if stored = [] then False
                  else bytes_of_string stored = bytes_of_string pw)"

definition GetLANConfig :: "State \<Rightarrow> byte \<Rightarrow> byte list option" where
  "GetLANConfig s param = lanConfig s param"

definition SetLANConfig :: "State \<Rightarrow> byte \<Rightarrow> byte list \<Rightarrow> State" where
  "SetLANConfig s param d = s\<lparr>lanConfig := (lanConfig s)(param \<mapsto> d)\<rparr>"

definition GetChannelAccess :: "State \<Rightarrow> byte \<Rightarrow> ChannelAccess" where
  "GetChannelAccess s channel =
     (if channel > 15 then zeroChannelAccess else channelAccess s ! unat channel)"

definition SetChannelAccess :: "State \<Rightarrow> byte \<Rightarrow> ChannelAccess \<Rightarrow> State" where
  "SetChannelAccess s channel acc =
     (if channel > 15 then s
      else s\<lparr>channelAccess := (channelAccess s)[unat channel := acc]\<rparr>)"

definition GetChannelInfo :: "State \<Rightarrow> byte \<Rightarrow> ChannelInfo" where
  "GetChannelInfo s channel =
     \<lparr>ChannelNumber = channel, ChannelMedium = 0x04, ChannelProtocol = 0x01,
      SessionSupport = 0x02, ActiveSessions = 0\<rparr>"

section \<open>Slots and well-formedness\<close>

text \<open>
  The array bounds of the Go type \<open>State\<close>: sixteen user slots (index 0 unused) and sixteen
  channels. Every method keeps them, so no index of the model is out of range.
\<close>

definition wf_State :: "State \<Rightarrow> bool" where
  "wf_State s \<longleftrightarrow> length (users s) = maxUsers + 1 \<and> length (channelAccess s) = 16"

lemma validateUserID_None [simp]:
  "validateUserID b = None \<longleftrightarrow> 1 \<le> unat b \<and> unat b \<le> maxUsers"
  by (auto simp: validateUserID_def maxUsers_def word_less_nat_alt)

lemma validateUserID_Some:
  "validateUserID b = Some e \<longleftrightarrow> \<not> (1 \<le> unat b \<and> unat b \<le> maxUsers) \<and> e = ErrUserIDRange b"
  by (auto simp: validateUserID_def maxUsers_def word_less_nat_alt)

lemma unat_slot_index: "i \<le> maxUsers \<Longrightarrow> unat (word_of_nat i :: byte) = i"
  by (simp add: maxUsers_def unat_of_nat)

lemma users_set_user_at [simp]: "users (set_user_at s i u) = (users s)[i := u]"
  by (simp add: set_user_at_def)

lemma channelAccess_set_user_at [simp]: "channelAccess (set_user_at s i u) = channelAccess s"
  by (simp add: set_user_at_def)

lemma lanConfig_set_user_at [simp]: "lanConfig (set_user_at s i u) = lanConfig s"
  by (simp add: set_user_at_def)

lemma wf_set_user_at [simp]: "wf_State (set_user_at s i u) = wf_State s"
  by (simp add: wf_State_def)

lemma user_at_set_user_at [simp]:
  "wf_State s \<Longrightarrow> i \<le> maxUsers \<Longrightarrow>
    user_at (set_user_at s i u) j = (if j = i then u else user_at s j)"
  by (auto simp: user_at_def wf_State_def nth_list_update)

lemma NewState_wf [simp]: "wf_State (NewState u p)"
  by (simp add: wf_State_def NewState_def)

lemma NewState_user_at:
  "i \<le> maxUsers \<Longrightarrow> user_at (NewState u p) i =
    (if i = 2 then \<lparr>slot_name = u, slot_password = p,
       slot_access = \<lparr>PrivilegeLimit = 4, Enabled = True, IPMIMessaging = True,
         LinkAuth = True, CallinCallback = False\<rparr>\<rparr>
     else zeroUserSlot)"
  by (simp add: NewState_def user_at_def nth_list_update maxUsers_def)

lemma wf_ops:
  assumes "wf_State s"
  shows "wf_State (fst (SetUserName s i nm))"
    and "wf_State (fst (SetUserPassword s i pw))"
    and "wf_State (fst (SetUserAccess s c i acc))"
    and "wf_State (fst (CreateAccount s nm pw p e))"
    and "wf_State (fst (UpdateAccount s i upd))"
    and "wf_State (fst (DeleteAccount s i))"
    and "wf_State (SetLANConfig s k d)"
    and "wf_State (SetChannelAccess s c ca)"
  using assms
  by (simp_all add: SetUserName_def SetUserPassword_def SetUserAccess_def CreateAccount_def
      UpdateAccount_def DeleteAccount_def SetLANConfig_def SetChannelAccess_def Let_def
      wf_State_def split: option.split)

section \<open>Looking users up\<close>

lemma lookup_Some:
  "lookupUserByNameLocked s nm = Some b \<longleftrightarrow>
    1 \<le> unat b \<and> unat b \<le> maxUsers \<and> slot_name (user_at s (unat b)) = nm \<and>
    (\<forall>j. 1 \<le> j \<and> j < unat b \<longrightarrow> slot_name (user_at s j) \<noteq> nm)"
proof
  assume "lookupUserByNameLocked s nm = Some b"
  then obtain i where i: "find (\<lambda>i. slot_name (user_at s i) = nm) [1..<maxUsers + 1] = Some i"
    and b: "b = word_of_nat i"
    by (auto simp: lookupUserByNameLocked_def)
  from i have "i \<le> maxUsers" by (simp add: find_upt_Some)
  with b have "unat b = i" by (simp add: unat_slot_index)
  with i show "1 \<le> unat b \<and> unat b \<le> maxUsers \<and> slot_name (user_at s (unat b)) = nm \<and>
    (\<forall>j. 1 \<le> j \<and> j < unat b \<longrightarrow> slot_name (user_at s j) \<noteq> nm)"
    by (simp add: find_upt_Some)
next
  assume "1 \<le> unat b \<and> unat b \<le> maxUsers \<and> slot_name (user_at s (unat b)) = nm \<and>
    (\<forall>j. 1 \<le> j \<and> j < unat b \<longrightarrow> slot_name (user_at s j) \<noteq> nm)"
  then have "find (\<lambda>i. slot_name (user_at s i) = nm) [1..<maxUsers + 1] = Some (unat b)"
    by (simp add: find_upt_Some)
  then show "lookupUserByNameLocked s nm = Some b"
    by (simp add: lookupUserByNameLocked_def)
qed

lemma lookup_None:
  "lookupUserByNameLocked s nm = None \<longleftrightarrow>
    (\<forall>i. 1 \<le> i \<and> i \<le> maxUsers \<longrightarrow> slot_name (user_at s i) \<noteq> nm)"
  unfolding lookupUserByNameLocked_def by (simp add: find_upt_None less_Suc_eq_le)

text \<open>Names are unique when no two slots carry the same non-empty name.\<close>

definition unique_names :: "State \<Rightarrow> bool" where
  "unique_names s \<longleftrightarrow> (\<forall>i j. 1 \<le> i \<and> i \<le> maxUsers \<and> 1 \<le> j \<and> j \<le> maxUsers \<and>
     slot_name (user_at s i) = slot_name (user_at s j) \<and> slot_name (user_at s i) \<noteq> []
     \<longrightarrow> i = j)"

lemma lookup_unique:
  assumes "unique_names s" and "1 \<le> unat b" and "unat b \<le> maxUsers"
    and "slot_name (user_at s (unat b)) = nm" and "nm \<noteq> []"
  shows "lookupUserByNameLocked s nm = Some b"
  unfolding lookup_Some
proof (intro conjI allI impI)
  fix j
  assume j: "1 \<le> j \<and> j < unat b"
  then have "j \<le> maxUsers" using assms(3) by simp
  with j assms show "slot_name (user_at s j) \<noteq> nm"
    unfolding unique_names_def by (metis nat_neq_iff)
qed (use assms in simp_all)

lemma EnabledUserCount_card:
  "unat (EnabledUserCount s) =
    card {i. 1 \<le> i \<and> i \<le> maxUsers \<and> Enabled (slot_access (user_at s i))}"
proof -
  let ?P = "\<lambda>i. Enabled (slot_access (user_at s i))"
  let ?xs = "filter ?P [1..<maxUsers + 1]"
  have "distinct ?xs" by simp
  moreover have "set ?xs = {i. 1 \<le> i \<and> i \<le> maxUsers \<and> ?P i}" by auto
  ultimately have card: "length ?xs = card {i. 1 \<le> i \<and> i \<le> maxUsers \<and> ?P i}"
    by (metis distinct_card)
  have "length ?xs \<le> maxUsers"
    using length_filter_le [of ?P "[1..<maxUsers + 1]"] by simp
  then have "unat (word_of_nat (length ?xs) :: byte) = length ?xs"
    by (rule unat_slot_index)
  then show ?thesis
    using card by (simp add: EnabledUserCount_def foldl_count)
qed

end
