(* ===== verification/Account_Directory.thy ===== *)
theory Account_Directory
  imports Bmc_State
begin

text \<open>
  What the user table of src/internal/bmc/state.go promises the AccountService and the
  authentication code, apart from its arrays and search loops: an abstract directory (a finite
  map from slot numbers to accounts with pairwise different names), the account operations as a
  step relation on it, the proof that the methods \<open>CreateAccount\<close>, \<open>UpdateAccount\<close> and
  \<open>DeleteAccount\<close> implement the relation, and the interface \<open>account_store\<close> with its
  interpretation on the table.
\<close>

section \<open>The abstract directory\<close>

type_synonym directory = "nat \<rightharpoonup> userSlot"

definition dir_of :: "State \<Rightarrow> directory" where
  "dir_of s = (\<lambda>i. if 1 \<le> i \<and> i \<le> maxUsers \<and> slot_name (user_at s i) \<noteq> []
     then Some (user_at s i) else None)"

definition names :: "directory \<Rightarrow> string set" where
  "names d = slot_name ` ran d"

definition free_slots :: "directory \<Rightarrow> nat set" where
  "free_slots d = {2..maxUsers} - dom d"

definition new_slot :: "string \<Rightarrow> string \<Rightarrow> byte \<Rightarrow> bool \<Rightarrow> userSlot" where
  "new_slot nm pw p e = \<lparr>slot_name = nm, slot_password = pw,
     slot_access = \<lparr>PrivilegeLimit = p, Enabled = e, IPMIMessaging = True,
       LinkAuth = True, CallinCallback = False\<rparr>\<rparr>"

text \<open>A field an update leaves open stays as it is; the channel flags always stay.\<close>

definition updated_slot :: "AccountUpdate \<Rightarrow> userSlot \<Rightarrow> userSlot" where
  "updated_slot u sl =
     \<lparr>slot_name = (case upd_Name u of Some nm \<Rightarrow> nm | None \<Rightarrow> slot_name sl),
      slot_password = (case upd_Password u of Some pw \<Rightarrow> pw | None \<Rightarrow> slot_password sl),
      slot_access = \<lparr>
        PrivilegeLimit = (case upd_Privilege u of Some p \<Rightarrow> p | None \<Rightarrow> PrivilegeLimit (slot_access sl)),
        Enabled = (case upd_Enabled u of Some e \<Rightarrow> e | None \<Rightarrow> Enabled (slot_access sl)),
        IPMIMessaging = IPMIMessaging (slot_access sl), LinkAuth = LinkAuth (slot_access sl),
        CallinCallback = CallinCallback (slot_access sl)\<rparr>\<rparr>"

definition valid_slot :: "byte \<Rightarrow> bool" where
  "valid_slot b \<longleftrightarrow> 1 \<le> unat b \<and> unat b \<le> maxUsers"

datatype account_op =
    OpCreate string string byte bool
  | OpUpdate byte AccountUpdate
  | OpDelete byte

inductive dir_step :: "directory \<Rightarrow> account_op \<Rightarrow> bmc_error + byte \<Rightarrow> directory \<Rightarrow> bool" where
  create_empty: "dir_step d (OpCreate [] pw p e) (Inl ErrEmptyName) d"
| create_exists: "nm \<noteq> [] \<Longrightarrow> nm \<in> names d \<Longrightarrow>
    dir_step d (OpCreate nm pw p e) (Inl ErrUserExists) d"
| create_full: "nm \<noteq> [] \<Longrightarrow> nm \<notin> names d \<Longrightarrow> free_slots d = {} \<Longrightarrow>
    dir_step d (OpCreate nm pw p e) (Inl ErrNoFreeSlot) d"
| create_ok: "nm \<noteq> [] \<Longrightarrow> nm \<notin> names d \<Longrightarrow> i \<in> free_slots d \<Longrightarrow>
    (\<forall>j \<in> free_slots d. i \<le> j) \<Longrightarrow>
    dir_step d (OpCreate nm pw p e) (Inr (word_of_nat i)) (d(i \<mapsto> new_slot nm pw p e))"
| update_bad_id: "\<not> valid_slot b \<Longrightarrow> dir_step d (OpUpdate b u) (Inl ErrNotFound) d"
| update_empty: "valid_slot b \<Longrightarrow> upd_Name u = Some [] \<Longrightarrow>
    dir_step d (OpUpdate b u) (Inl ErrEmptyName) d"
| update_missing: "valid_slot b \<Longrightarrow> upd_Name u \<noteq> Some [] \<Longrightarrow> d (unat b) = None \<Longrightarrow>
    dir_step d (OpUpdate b u) (Inl ErrNotFound) d"
| update_clash: "valid_slot b \<Longrightarrow> d (unat b) = Some sl \<Longrightarrow> upd_Name u = Some nm \<Longrightarrow> nm \<noteq> [] \<Longrightarrow>
    nm \<noteq> slot_name sl \<Longrightarrow> nm \<in> names d \<Longrightarrow>
    dir_step d (OpUpdate b u) (Inl ErrUserExists) d"
| update_ok: "valid_slot b \<Longrightarrow> d (unat b) = Some sl \<Longrightarrow> upd_Name u \<noteq> Some [] \<Longrightarrow>
    (\<forall>nm. upd_Name u = Some nm \<and> nm \<noteq> slot_name sl \<longrightarrow> nm \<notin> names d) \<Longrightarrow>
    dir_step d (OpUpdate b u) (Inr b) (d(unat b \<mapsto> updated_slot u sl))"
| delete_missing: "d (unat b) = None \<Longrightarrow> dir_step d (OpDelete b) (Inl ErrNotFound) d"
| delete_ok: "d (unat b) = Some sl \<Longrightarrow>
    dir_step d (OpDelete b) (Inr b) (d(unat b := None))"

inductive_cases dir_step_createE: "dir_step d (OpCreate nm pw p e) r d'"
inductive_cases dir_step_updateE: "dir_step d (OpUpdate b u) r d'"
inductive_cases dir_step_deleteE: "dir_step d (OpDelete b) r d'"

text \<open>The directory never holds two accounts of one name, nor an account without a name.\<close>

definition dir_ok :: "directory \<Rightarrow> bool" where
  "dir_ok d \<longleftrightarrow>
     (\<forall>i sl. d i = Some sl \<longrightarrow> 1 \<le> i \<and> i \<le> maxUsers \<and> slot_name sl \<noteq> []) \<and>
     (\<forall>i j sl tl. d i = Some sl \<and> d j = Some tl \<and> slot_name sl = slot_name tl \<longrightarrow> i = j)"

lemma namesI: "d i = Some sl \<Longrightarrow> slot_name sl \<in> names d"
  by (auto simp: names_def ran_def)

lemma namesE: "nm \<in> names d \<Longrightarrow> (\<And>i sl. d i = Some sl \<Longrightarrow> slot_name sl = nm \<Longrightarrow> P) \<Longrightarrow> P"
  by (auto simp: names_def ran_def)

lemma slot_name_updated_slot [simp]:
  "slot_name (updated_slot u sl) = (case upd_Name u of None \<Rightarrow> slot_name sl | Some nm \<Rightarrow> nm)"
  by (simp add: updated_slot_def)

lemma dir_step_ok: "dir_step d op r d' \<Longrightarrow> dir_ok d \<Longrightarrow> dir_ok d'"
proof (induction rule: dir_step.induct)
  case (create_ok nm d i pw p e)
  then have "\<And>j sl. d j = Some sl \<Longrightarrow> slot_name sl \<noteq> nm"
    by (auto dest: namesI)
  with create_ok show ?case
    by (auto simp: dir_ok_def free_slots_def new_slot_def split: if_splits)
next
  case (update_ok b d sl u)
  let ?nm = "slot_name (updated_slot u sl)"
  have ne: "?nm \<noteq> []"
    using update_ok by (auto simp: slot_name_updated_slot dir_ok_def split: option.split)
  have other: "slot_name tl \<noteq> ?nm" if "d j = Some tl" and "j \<noteq> unat b" for j tl
    using update_ok that namesI [of d j tl]
    by (auto simp: slot_name_updated_slot dir_ok_def split: option.split)
  show ?case
    unfolding dir_ok_def
  proof (intro conjI allI impI)
    fix i sl'
    assume "(d(unat b \<mapsto> updated_slot u sl)) i = Some sl'"
    then show "1 \<le> i" "i \<le> maxUsers" "slot_name sl' \<noteq> []"
      using ne update_ok by (auto simp: dir_ok_def valid_slot_def split: if_splits)
  next
    fix i j sl' tl'
    assume "(d(unat b \<mapsto> updated_slot u sl)) i = Some sl' \<and>
      (d(unat b \<mapsto> updated_slot u sl)) j = Some tl' \<and> slot_name sl' = slot_name tl'"
    then show "i = j"
      using other update_ok.prems unfolding dir_ok_def
      by (metis fun_upd_other fun_upd_same option.inject)
  qed
qed (auto simp: dir_ok_def split: if_splits)

lemma dir_step_error: "dir_step d op (Inl e) d' \<Longrightarrow> d' = d"
  by (cases op) (auto elim: dir_step_createE dir_step_updateE dir_step_deleteE)

text \<open>The relation is deterministic: the directory and the operation fix the outcome.\<close>

lemma dir_step_det:
  assumes "dir_step d op r d'" and "dir_step d op r2 d2"
  shows "r2 = r \<and> d2 = d'"
proof (cases op)
  case (OpCreate nm pw p e)
  have "i = j" if "i \<in> free_slots d" "\<forall>k \<in> free_slots d. i \<le> k"
      "j \<in> free_slots d" "\<forall>k \<in> free_slots d. j \<le> k" for i j
    using that by (meson order_antisym)
  then show ?thesis
    using assms unfolding OpCreate by (elim dir_step_createE) auto
next
  case (OpUpdate b u)
  then show ?thesis
    using assms unfolding OpUpdate by (elim dir_step_updateE) auto
next
  case (OpDelete b)
  then show ?thesis
    using assms unfolding OpDelete by (elim dir_step_deleteE) auto
qed

section \<open>The table implements the directory\<close>

definition run_account_op :: "State \<Rightarrow> account_op \<Rightarrow> State \<times> (bmc_error + byte)" where
  "run_account_op s op =
     (case op of
        OpCreate nm pw p e \<Rightarrow> CreateAccount s nm pw p e
      | OpUpdate b u \<Rightarrow>
          (case UpdateAccount s b u of (s', None) \<Rightarrow> (s', Inr b) | (s', Some e) \<Rightarrow> (s', Inl e))
      | OpDelete b \<Rightarrow>
          (case DeleteAccount s b of (s', None) \<Rightarrow> (s', Inr b) | (s', Some e) \<Rightarrow> (s', Inl e)))"

lemma dir_of_set_user_at:
  assumes "wf_State s" and "1 \<le> i" and "i \<le> maxUsers"
  shows "dir_of (set_user_at s i u) = (dir_of s)(i := (if slot_name u = [] then None else Some u))"
  using assms by (auto simp: dir_of_def fun_eq_iff)

lemma in_names_dir_of:
  "nm \<noteq> [] \<Longrightarrow> nm \<in> names (dir_of s) \<longleftrightarrow> lookupUserByNameLocked s nm \<noteq> None"
  unfolding lookup_None
  by (auto simp: names_def dir_of_def ran_def split: if_splits)

lemma free_slots_dir_of:
  "j \<in> free_slots (dir_of s) \<longleftrightarrow> 2 \<le> j \<and> j < maxUsers + 1 \<and> slot_name (user_at s j) = []"
  by (auto simp: free_slots_def dir_of_def)

lemma find_free_slot:
  "find (\<lambda>i. slot_name (user_at s i) = []) [2..<maxUsers + 1] = Some i \<longleftrightarrow>
     i \<in> free_slots (dir_of s) \<and> (\<forall>j \<in> free_slots (dir_of s). i \<le> j)"
  unfolding find_upt_Some Ball_def free_slots_dir_of
  by (meson le_trans less_imp_le linorder_not_less)

lemma find_no_free_slot:
  "find (\<lambda>i. slot_name (user_at s i) = []) [2..<maxUsers + 1] = None \<longleftrightarrow>
     free_slots (dir_of s) = {}"
  unfolding find_upt_None set_eq_iff free_slots_dir_of by auto

lemma create_refines:
  assumes wf: "wf_State s"
  shows "dir_step (dir_of s) (OpCreate nm pw p e) (snd (CreateAccount s nm pw p e))
    (dir_of (fst (CreateAccount s nm pw p e)))"
proof (cases "nm = [] \<or> lookupUserByNameLocked s nm \<noteq> None")
  case True
  show ?thesis
  proof (cases "nm = []")
    case False
    with True have "nm \<in> names (dir_of s)" by (simp add: in_names_dir_of)
    with True False show ?thesis
      by (auto simp: CreateAccount_def intro: dir_step.create_exists)
  qed (simp add: CreateAccount_def dir_step.create_empty)
next
  case False
  then have nm: "nm \<noteq> []" "nm \<notin> names (dir_of s)" and lk: "lookupUserByNameLocked s nm = None"
    by (auto simp: in_names_dir_of)
  show ?thesis
  proof (cases "find (\<lambda>i. slot_name (user_at s i) = []) [2..<maxUsers + 1]")
    case None
    then have "free_slots (dir_of s) = {}" by (simp only: find_no_free_slot)
    with nm lk None show ?thesis
      by (simp add: CreateAccount_def dir_step.create_full)
  next
    case (Some i)
    then have i: "i \<in> free_slots (dir_of s)" "\<forall>j \<in> free_slots (dir_of s). i \<le> j"
      using find_free_slot by blast+
    then have "1 \<le> i" "i \<le> maxUsers" by (auto simp: free_slots_def)
    with wf nm lk Some have "CreateAccount s nm pw p e =
        (set_user_at s i (new_slot nm pw p e), Inr (word_of_nat i))"
      and "dir_of (set_user_at s i (new_slot nm pw p e)) = (dir_of s)(i \<mapsto> new_slot nm pw p e)"
      by (simp_all add: CreateAccount_def new_slot_def dir_of_set_user_at)
    with nm i show ?thesis
      by (simp add: dir_step.create_ok)
  qed
qed

text \<open>The code's sequence of assignments has that effect.\<close>

lemma apply_update_updated: "apply_update u sl = updated_slot u sl"
  by (cases sl; cases "slot_access sl") (simp add: apply_update_def updated_slot_def Let_def split: option.split)

lemma dir_of_slot:
  "valid_slot b \<Longrightarrow> dir_of s (unat b) =
     (if slot_name (user_at s (unat b)) = [] then None else Some (user_at s (unat b)))"
  by (simp add: dir_of_def valid_slot_def)

lemma update_refines:
  assumes wf: "wf_State s"
  shows "dir_step (dir_of s) (OpUpdate b u) (snd (run_account_op s (OpUpdate b u)))
    (dir_of (fst (run_account_op s (OpUpdate b u))))"
proof -
  let ?sl = "user_at s (unat b)"
  let ?clash = "case upd_Name u of None \<Rightarrow> False
    | Some nm \<Rightarrow> nm \<noteq> slot_name ?sl \<and> lookupUserByNameLocked s nm \<noteq> None"
  consider "\<not> valid_slot b" | "valid_slot b" "upd_Name u = Some []"
    | "valid_slot b" "upd_Name u \<noteq> Some []" "slot_name ?sl = []"
    | "valid_slot b" "upd_Name u \<noteq> Some []" "slot_name ?sl \<noteq> []" ?clash
    | "valid_slot b" "upd_Name u \<noteq> Some []" "slot_name ?sl \<noteq> []" "\<not> ?clash"
    by blast
  then show ?thesis
  proof cases
    case 4
    then show ?thesis
      by (auto simp: run_account_op_def UpdateAccount_def Let_def dir_of_slot valid_slot_def
          in_names_dir_of split: option.splits intro!: dir_step.update_clash [where sl = ?sl])
  next
    case 5
    have "slot_name (updated_slot u ?sl) \<noteq> []"
      using 5 by (auto simp: slot_name_updated_slot split: option.split)
    with 5 wf have run: "run_account_op s (OpUpdate b u) =
        (set_user_at s (unat b) (updated_slot u ?sl), Inr b)"
      and dir: "dir_of (set_user_at s (unat b) (updated_slot u ?sl)) =
        (dir_of s)(unat b \<mapsto> updated_slot u ?sl)"
      by (auto simp: run_account_op_def UpdateAccount_def apply_update_updated Let_def valid_slot_def
          dir_of_set_user_at split: option.splits)
    have "\<forall>nm. upd_Name u = Some nm \<and> nm \<noteq> slot_name ?sl \<longrightarrow> nm \<notin> names (dir_of s)"
      using 5 by (auto simp: in_names_dir_of)
    with 5 show ?thesis
      unfolding run dir snd_conv fst_conv
      by (intro dir_step.update_ok) (simp_all add: dir_of_slot)
  qed (auto simp: run_account_op_def UpdateAccount_def Let_def dir_of_slot valid_slot_def
      intro: dir_step.intros)
qed

lemma delete_refines:
  assumes wf: "wf_State s"
  shows "dir_step (dir_of s) (OpDelete b) (snd (run_account_op s (OpDelete b)))
    (dir_of (fst (run_account_op s (OpDelete b))))"
proof (cases "dir_of s (unat b)")
  case None
  then have "DeleteAccount s b = (s, Some ErrNotFound)"
    by (auto simp: DeleteAccount_def dir_of_def split: if_splits)
  with None show ?thesis
    by (simp add: run_account_op_def dir_step.delete_missing)
next
  case (Some sl)
  then have v: "valid_slot b" and ne: "slot_name (user_at s (unat b)) \<noteq> []"
    by (auto simp: dir_of_def valid_slot_def split: if_splits)
  with wf have "run_account_op s (OpDelete b) = (set_user_at s (unat b) zeroUserSlot, Inr b)"
    and "dir_of (set_user_at s (unat b) zeroUserSlot) = (dir_of s)(unat b := None)"
    by (simp_all add: run_account_op_def DeleteAccount_def valid_slot_def dir_of_set_user_at
        zeroUserSlot_def)
  with Some show ?thesis
    by (simp add: dir_step.delete_ok)
qed

lemma account_op_refines:
  "wf_State s \<Longrightarrow> dir_step (dir_of s) op (snd (run_account_op s op))
    (dir_of (fst (run_account_op s op)))"
  using create_refines update_refines delete_refines
  by (cases op) (auto simp: run_account_op_def)

lemma account_op_wf: "wf_State s \<Longrightarrow> wf_State (fst (run_account_op s op))"
  using wf_ops by (cases op) (auto simp: run_account_op_def split: prod.split option.split
    dest!: arg_cong [where f = fst])

lemma unique_names_dir: "unique_names s \<longleftrightarrow> dir_ok (dir_of s)"
proof
  assume "unique_names s"
  then show "dir_ok (dir_of s)"
    by (auto simp: unique_names_def dir_ok_def dir_of_def split: if_splits)
next
  assume ok: "dir_ok (dir_of s)"
  show "unique_names s"
    unfolding unique_names_def
  proof (intro allI impI)
    fix i j
    assume a: "1 \<le> i \<and> i \<le> maxUsers \<and> 1 \<le> j \<and> j \<le> maxUsers \<and>
      slot_name (user_at s i) = slot_name (user_at s j) \<and> slot_name (user_at s i) \<noteq> []"
    then have "slot_name (user_at s j) \<noteq> []" by metis
    with a have "dir_of s i = Some (user_at s i)" "dir_of s j = Some (user_at s j)"
      by (simp_all add: dir_of_def)
    with a ok show "i = j" unfolding dir_ok_def by blast
  qed
qed

section \<open>The interface of the AccountService and of basic authentication\<close>

text \<open>
  What handler_accounts.go and middleware.go of the Redfish server rely on: how the accounts a
  client sees and the credentials the server accepts change with each operation.
\<close>

locale account_store =
  fixes inv :: "'s \<Rightarrow> bool"
    and auth :: "'s \<Rightarrow> string \<Rightarrow> string \<Rightarrow> bool"
    and account :: "'s \<Rightarrow> byte \<Rightarrow> Account option"
    and create :: "'s \<Rightarrow> string \<Rightarrow> string \<Rightarrow> byte \<Rightarrow> bool \<Rightarrow> 's \<times> (bmc_error + byte)"
    and delete :: "'s \<Rightarrow> byte \<Rightarrow> 's \<times> bmc_error option"
  assumes create_inv: "inv s \<Longrightarrow> create s nm pw p e = (s', Inr i) \<Longrightarrow> inv s'"
    and create_account: "inv s \<Longrightarrow> create s nm pw p e = (s', Inr i) \<Longrightarrow>
      account s' = (account s)(i \<mapsto> \<lparr>acc_ID = i, acc_Name = nm, acc_Privilege = p,
        acc_Enabled = e\<rparr>)"
    and create_fresh: "inv s \<Longrightarrow> create s nm pw p e = (s', Inr i) \<Longrightarrow>
      account s i = None \<and> \<not> auth s nm q"
    and create_auth: "inv s \<Longrightarrow> create s nm pw p e = (s', Inr i) \<Longrightarrow>
      auth s' n q \<longleftrightarrow> (if n = nm then e \<and> pw \<noteq> [] \<and> q = pw else auth s n q)"
    and create_error: "create s nm pw p e = (s', Inl err) \<Longrightarrow> s' = s"
    and delete_inv: "inv s \<Longrightarrow> delete s i = (s', None) \<Longrightarrow> inv s'"
    and delete_account: "inv s \<Longrightarrow> delete s i = (s', None) \<Longrightarrow>
      account s' = (account s)(i := None)"
    and delete_auth: "inv s \<Longrightarrow> delete s i = (s', None) \<Longrightarrow> account s i = Some a \<Longrightarrow>
      auth s' n q \<longleftrightarrow> n \<noteq> acc_Name a \<and> auth s n q"
    and delete_ok: "inv s \<Longrightarrow> account s i = Some a \<Longrightarrow> \<exists>s'. delete s i = (s', None)"
    and delete_error: "delete s i = (s', Some err) \<Longrightarrow> s' = s"
begin

lemma create_then_delete:
  assumes inv: "inv s" and c: "create s nm pw p e = (s1, Inr i)" and d: "delete s1 i = (s2, None)"
  shows "account s2 = account s" and "auth s2 = auth s"
proof -
  note inv1 = create_inv [OF inv c]
  let ?a = "\<lparr>acc_ID = i, acc_Name = nm, acc_Privilege = p, acc_Enabled = e\<rparr>"
  have a: "account s1 i = Some ?a"
    by (simp add: create_account [OF inv c])
  show "account s2 = account s"
    using create_fresh [OF inv c]
    by (auto simp: delete_account [OF inv1 d] create_account [OF inv c] fun_eq_iff)
  show "auth s2 = auth s"
    using create_fresh [OF inv c]
    by (auto simp: delete_auth [OF inv1 d a] create_auth [OF inv c] fun_eq_iff)
qed

lemma created_can_be_deleted:
  assumes "inv s" and "create s nm pw p e = (s1, Inr i)"
  shows "\<exists>s2. delete s1 i = (s2, None)"
  using delete_ok [OF create_inv [OF assms]] create_account [OF assms] by auto

lemma deleted_no_auth:
  assumes "inv s" and "account s i = Some a" and "delete s i = (s', None)"
  shows "\<not> auth s' (acc_Name a) q"
  using delete_auth [OF assms(1,3,2)] by simp

end

section \<open>The table as an account store\<close>

definition store_inv :: "State \<Rightarrow> bool" where
  "store_inv s \<longleftrightarrow> wf_State s \<and> unique_names s"

lemma store_inv_dir: "store_inv s \<longleftrightarrow> wf_State s \<and> dir_ok (dir_of s)"
  by (simp add: store_inv_def unique_names_dir)

lemma store_inv_op: "store_inv s \<Longrightarrow> store_inv (fst (run_account_op s op))"
  using account_op_refines account_op_wf dir_step_ok unfolding store_inv_dir by blast

lemma NewState_store_inv: "store_inv (NewState u p)"
  by (auto simp: store_inv_def unique_names_def NewState_user_at zeroUserSlot_def
      split: if_splits)

lemma Account_of_dir:
  "Account_of s b = map_option (\<lambda>sl. \<lparr>acc_ID = b, acc_Name = slot_name sl,
     acc_Privilege = PrivilegeLimit (slot_access sl), acc_Enabled = Enabled (slot_access sl)\<rparr>)
     (dir_of s (unat b))"
  by (auto simp: Account_of_def accountLocked_def Let_def dir_of_def)

definition dir_auth :: "directory \<Rightarrow> string \<Rightarrow> string \<Rightarrow> bool" where
  "dir_auth d nm pw \<longleftrightarrow> (\<exists>i sl. d i = Some sl \<and> slot_name sl = nm \<and>
     Enabled (slot_access sl) \<and> slot_password sl \<noteq> [] \<and> slot_password sl = pw)"

lemma Authenticate_dir:
  assumes "store_inv s"
  shows "Authenticate s nm pw \<longleftrightarrow> dir_auth (dir_of s) nm pw"
proof
  assume a: "Authenticate s nm pw"
  then obtain b where "nm \<noteq> []" and b: "lookupUserByNameLocked s nm = Some b"
    and rest: "Enabled (slot_access (user_at s (unat b)))"
      "slot_password (user_at s (unat b)) \<noteq> []" "slot_password (user_at s (unat b)) = pw"
    by (auto simp: Authenticate_def Let_def split: if_splits option.splits)
  then have "dir_of s (unat b) = Some (user_at s (unat b))"
    and "slot_name (user_at s (unat b)) = nm"
    by (auto simp: lookup_Some dir_of_def)
  with rest show "dir_auth (dir_of s) nm pw" by (auto simp: dir_auth_def)
next
  assume "dir_auth (dir_of s) nm pw"
  then obtain i where i: "1 \<le> i" "i \<le> maxUsers" and nm: "slot_name (user_at s i) = nm" "nm \<noteq> []"
    and rest: "Enabled (slot_access (user_at s i))" "slot_password (user_at s i) \<noteq> []"
      "slot_password (user_at s i) = pw"
    by (auto simp: dir_auth_def dir_of_def split: if_splits)
  let ?b = "word_of_nat i :: byte"
  have b: "unat ?b = i" using i by (simp add: unat_slot_index)
  with i nm assms have "lookupUserByNameLocked s nm = Some ?b"
    by (intro lookup_unique) (simp_all add: store_inv_def)
  with b nm rest show "Authenticate s nm pw"
    by (simp add: Authenticate_def Let_def)
qed

lemma CreateAccount_Inr:
  assumes "store_inv s" and c: "CreateAccount s nm pw p e = (s', Inr b)"
  shows "store_inv s'" and "dir_of s' = (dir_of s)(unat b \<mapsto> new_slot nm pw p e)"
    and "dir_of s (unat b) = None" and "nm \<notin> names (dir_of s)" and "nm \<noteq> []"
    and "2 \<le> unat b" and "unat b \<le> maxUsers"
proof -
  have op: "run_account_op s (OpCreate nm pw p e) = (s', Inr b)"
    by (simp add: run_account_op_def c)
  show "store_inv s'"
    using store_inv_op [OF assms(1), of "OpCreate nm pw p e"] by (simp add: op)
  have "dir_step (dir_of s) (OpCreate nm pw p e) (Inr b) (dir_of s')"
    using account_op_refines [of s "OpCreate nm pw p e"] assms(1) by (simp add: op store_inv_def)
  then obtain i where i: "b = word_of_nat i" "i \<in> free_slots (dir_of s)" and
    *: "dir_of s' = (dir_of s)(i \<mapsto> new_slot nm pw p e)" "nm \<notin> names (dir_of s)" "nm \<noteq> []"
    by (auto elim: dir_step_createE)
  have "unat b = i" using i by (simp add: free_slots_def unat_slot_index)
  with i * show "dir_of s' = (dir_of s)(unat b \<mapsto> new_slot nm pw p e)"
    and "dir_of s (unat b) = None" and "nm \<notin> names (dir_of s)" and "nm \<noteq> []"
    and "2 \<le> unat b" and "unat b \<le> maxUsers"
    by (auto simp: free_slots_def)
qed

lemma DeleteAccount_None:
  assumes "store_inv s" and d: "DeleteAccount s b = (s', None)"
  shows "store_inv s'" and "dir_of s' = (dir_of s)(unat b := None)"
proof -
  have op: "run_account_op s (OpDelete b) = (s', Inr b)"
    by (simp add: run_account_op_def d)
  show "store_inv s'"
    using store_inv_op [OF assms(1), of "OpDelete b"] by (simp add: op)
  have "dir_step (dir_of s) (OpDelete b) (Inr b) (dir_of s')"
    using account_op_refines [of s "OpDelete b"] assms(1) by (simp add: op store_inv_def)
  then show "dir_of s' = (dir_of s)(unat b := None)"
    by (auto elim: dir_step_deleteE)
qed

lemma dir_auth_delete:
  assumes "dir_ok d" and "d i = Some sl"
  shows "dir_auth (d(i := None)) n q \<longleftrightarrow> n \<noteq> slot_name sl \<and> dir_auth d n q"
proof -
  have "(d(i := None)) j = Some tl \<longleftrightarrow> d j = Some tl \<and> slot_name tl \<noteq> slot_name sl" for j tl
    using assms unfolding dir_ok_def by (cases "j = i") auto
  then show ?thesis
    unfolding dir_auth_def by blast
qed

interpretation accounts: account_store store_inv Authenticate Account_of CreateAccount DeleteAccount
proof unfold_locales
  fix s s' :: State and nm pw n q and p i :: byte and e
  assume inv: "store_inv s" and c: "CreateAccount s nm pw p e = (s', Inr i)"
  note C = CreateAccount_Inr [OF inv c]
  show "store_inv s'" by (rule C(1))
  show "Account_of s' = (Account_of s)(i \<mapsto> \<lparr>acc_ID = i, acc_Name = nm, acc_Privilege = p,
      acc_Enabled = e\<rparr>)"
    by (auto simp: fun_eq_iff Account_of_dir C(2) new_slot_def word_unat_eq_iff [symmetric])
  show "Account_of s i = None \<and> \<not> Authenticate s nm q"
    using C(3,4) by (auto simp: Account_of_dir Authenticate_dir inv dir_auth_def dest: namesI)
  show "Authenticate s' n q \<longleftrightarrow> (if n = nm then e \<and> pw \<noteq> [] \<and> q = pw else Authenticate s n q)"
    using C(3,4) unfolding Authenticate_dir [OF inv] Authenticate_dir [OF C(1)] C(2) dir_auth_def
    by (auto simp: new_slot_def dest: namesI split: if_splits) (metis option.distinct(1))
next
  fix s s' :: State and nm pw and p :: byte and e err
  assume "CreateAccount s nm pw p e = (s', Inl err)"
  then show "s' = s"
    by (auto simp: CreateAccount_def split: if_splits option.splits)
next
  fix s s' :: State and i :: byte
  assume inv: "store_inv s" and d: "DeleteAccount s i = (s', None)"
  note D = DeleteAccount_None [OF inv d]
  show "store_inv s'" by (rule D(1))
  show "Account_of s' = (Account_of s)(i := None)"
    by (auto simp: fun_eq_iff Account_of_dir D(2) word_unat_eq_iff [symmetric])
  fix a n q
  assume a: "Account_of s i = Some a"
  then obtain sl where sl: "dir_of s (unat i) = Some sl" "acc_Name a = slot_name sl"
    by (auto simp: Account_of_dir)
  then show "Authenticate s' n q \<longleftrightarrow> n \<noteq> acc_Name a \<and> Authenticate s n q"
    using inv unfolding Authenticate_dir [OF inv] Authenticate_dir [OF D(1)] D(2)
    by (simp add: dir_auth_delete store_inv_dir)
next
  fix s :: State and i :: byte and a
  assume "Account_of s i = Some a"
  then show "\<exists>s'. DeleteAccount s i = (s', None)"
    by (auto simp: Account_of_def DeleteAccount_def split: if_splits)
next
  fix s s' :: State and i :: byte and err
  assume "DeleteAccount s i = (s', Some err)"
  then show "s' = s"
    by (auto simp: DeleteAccount_def split: if_splits)
qed

end
