(* ===== verification/Account_Properties.thy ===== *)
theory Account_Properties
  imports Account_Directory
begin

text \<open>
  The properties of the account table of src/internal/bmc/state.go, over the abstract directory
  and the interface of Account_Directory.
\<close>

section \<open>Sequences of operations\<close>

text \<open>The store after a sequence of account operations, whatever each of them returned.\<close>

definition run_account_ops :: "State \<Rightarrow> account_op list \<Rightarrow> State" where
  "run_account_ops s ops = foldl (\<lambda>s op. fst (run_account_op s op)) s ops"

lemma run_account_ops_inv: "store_inv s \<Longrightarrow> store_inv (run_account_ops s ops)"
  unfolding run_account_ops_def
  by (induction ops arbitrary: s) (simp_all add: store_inv_op)

definition admin_store :: State where
  "admin_store = NewState ''admin'' ''secret''"

lemma admin_store_inv [simp]: "store_inv admin_store" "wf_State admin_store"
  by (simp_all add: admin_store_def NewState_store_inv)

section \<open>Properties\<close>

text \<open>
  C7: The account methods implement the directory: on every well-formed store, creating,
  updating or deleting an account returns the result and leaves the accounts that the abstract
  directory prescribes for the operation, errors and their precedence included; the relation
  admits no other outcome, so this determines the method.
\<close>

theorem account_operations_refine_directory:
  assumes "wf_State s"
  shows "dir_step (dir_of s) op r d \<longleftrightarrow>
    r = snd (run_account_op s op) \<and> d = dir_of (fst (run_account_op s op))"
  using account_op_refines [OF assms] dir_step_det by blast

lemma account_operations_refine_directory_witness:
  "dir_step (dir_of admin_store) (OpCreate ''admin'' ''x'' 4 True) (Inl ErrUserExists)
     (dir_of admin_store)"
proof -
  have "lookupUserByNameLocked admin_store ''admin'' = Some 2"
    by (simp add: admin_store_def lookupUserByNameLocked_def maxUsers_def upt_conv_Cons
        NewState_user_at zeroUserSlot_def)
  then have "run_account_op admin_store (OpCreate ''admin'' ''x'' 4 True)
      = (admin_store, Inl ErrUserExists)"
    by (simp add: run_account_op_def CreateAccount_def)
  then show ?thesis
    using account_operations_refine_directory [of admin_store "OpCreate ''admin'' ''x'' 4 True"
        "Inl ErrUserExists" "dir_of admin_store"] by simp
qed

text \<open>
  From the initial store, no sequence of account operations leads to two accounts of one
  name, to more than fifteen enabled users, or out of the bounds of the slot array, and the
  enabled user count is the number of enabled slots.
\<close>

theorem account_operations_keep_table:
  "wf_State (run_account_ops (NewState u p) ops)
   \<and> unique_names (run_account_ops (NewState u p) ops)
   \<and> unat (EnabledUserCount (run_account_ops (NewState u p) ops)) =
       card {i. 1 \<le> i \<and> i \<le> maxUsers
         \<and> Enabled (slot_access (user_at (run_account_ops (NewState u p) ops) i))}
   \<and> unat (EnabledUserCount (run_account_ops (NewState u p) ops)) \<le> 15"
proof -
  let ?s = "run_account_ops (NewState u p) ops"
  let ?on = "{i. 1 \<le> i \<and> i \<le> maxUsers \<and> Enabled (slot_access (user_at ?s i))}"
  have "store_inv ?s"
    by (simp add: run_account_ops_inv NewState_store_inv)
  moreover have "card ?on \<le> card {1..maxUsers}"
    by (intro card_mono) auto
  ultimately show ?thesis
    using EnabledUserCount_card [of ?s] by (simp add: store_inv_def maxUsers_def)
qed

text \<open>
  Basic authentication accepts a name and password exactly when there is an account with
  that name that is enabled and has that, non-empty, password.
\<close>

theorem authenticate_iff_enabled_account:
  assumes "store_inv s"
  shows "Authenticate s nm pw \<longleftrightarrow>
    (\<exists>i. 1 \<le> i \<and> i \<le> 15 \<and> nm \<noteq> [] \<and> pw \<noteq> [] \<and> slot_name (user_at s i) = nm
       \<and> Enabled (slot_access (user_at s i)) \<and> slot_password (user_at s i) = pw)"
  using assms
  by (auto simp: Authenticate_dir dir_auth_def dir_of_def maxUsers_def split: if_splits)

lemma authenticate_iff_enabled_account_witness:
  "Authenticate admin_store ''admin'' ''secret'' \<and> \<not> Authenticate admin_store ''admin'' ''''"
proof -
  have "slot_name (user_at admin_store 2) = ''admin''"
    "slot_password (user_at admin_store 2) = ''secret''"
    "Enabled (slot_access (user_at admin_store 2))"
    by (simp_all add: admin_store_def NewState_user_at maxUsers_def)
  then show ?thesis
    using authenticate_iff_enabled_account [of admin_store "''admin''" "''secret''"]
      authenticate_iff_enabled_account [of admin_store "''admin''" "''''"] by auto
qed

text \<open>
  Creating an account and deleting it again is the identity on what clients see: the created
  account can always be deleted, and afterwards the accounts and the credentials accepted are the
  ones before; in between, exactly the new credentials are accepted in addition, if the account
  is enabled and its password is not empty.
\<close>

theorem create_delete_round_trip:
  assumes "store_inv s" and "CreateAccount s nm pw p e = (s1, Inr i)"
  shows "\<exists>s2. DeleteAccount s1 i = (s2, None) \<and> Account_of s2 = Account_of s
    \<and> Authenticate s2 = Authenticate s
    \<and> (\<forall>n q. Authenticate s1 n q = (Authenticate s n q \<or> n = nm \<and> e \<and> pw \<noteq> [] \<and> q = pw))"
proof -
  obtain s2 where d: "DeleteAccount s1 i = (s2, None)"
    using accounts.created_can_be_deleted [OF assms] by blast
  have "Authenticate s1 n q = (Authenticate s n q \<or> n = nm \<and> e \<and> pw \<noteq> [] \<and> q = pw)" for n q
    using accounts.create_auth [OF assms, of n q] accounts.create_fresh [OF assms, of q] by auto
  with d accounts.create_then_delete [OF assms d] show ?thesis
    by blast
qed

lemma create_delete_round_trip_witness:
  "\<exists>s1 i s2. CreateAccount admin_store ''op'' ''pw'' 3 True = (s1, Inr i)
    \<and> DeleteAccount s1 i = (s2, None) \<and> Account_of s2 = Account_of admin_store"
proof -
  have "lookupUserByNameLocked admin_store ''op'' = None"
    by (simp add: admin_store_def lookupUserByNameLocked_def maxUsers_def upt_conv_Cons
        NewState_user_at zeroUserSlot_def)
  moreover have "find (\<lambda>i. slot_name (user_at admin_store i) = []) [2..<maxUsers + 1] = Some 3"
    by (simp add: admin_store_def maxUsers_def upt_conv_Cons NewState_user_at zeroUserSlot_def)
  ultimately obtain s1 where c: "CreateAccount admin_store ''op'' ''pw'' 3 True = (s1, Inr 3)"
    by (simp add: CreateAccount_def)
  then show ?thesis
    using create_delete_round_trip [OF _ c] by auto
qed

end
