(* ===== verification/Ipmi_Types.thy ===== *)
theory Ipmi_Types
  imports Go_Prelude
begin

text \<open>
  The constants of src/internal/ipmi/types.go, the message of rmcp.go all IPMI front ends share,
  the errors of the package as one datatype, and the two parameters of the package: the
  cryptographic primitives of the Go standard library it calls, and its source of randomness.
\<close>

section \<open>Constants\<close>

definition RMCPVersion1 :: byte where [const_defs]: "RMCPVersion1 = 0x06"
definition RMCPClassASF :: byte where [const_defs]: "RMCPClassASF = 0x06"
definition RMCPClassIPMI :: byte where [const_defs]: "RMCPClassIPMI = 0x07"

definition AuthTypeNone :: byte where [const_defs]: "AuthTypeNone = 0x00"
definition AuthTypeMD5 :: byte where [const_defs]: "AuthTypeMD5 = 0x02"
definition AuthTypeRMCPPlus :: byte where [const_defs]: "AuthTypeRMCPPlus = 0x06"

definition NetFnChassis :: byte where [const_defs]: "NetFnChassis = 0x00"
definition NetFnApp :: byte where [const_defs]: "NetFnApp = 0x06"
definition NetFnTransport :: byte where [const_defs]: "NetFnTransport = 0x0C"

definition CmdSetLANConfigParams :: byte where [const_defs]: "CmdSetLANConfigParams = 0x01"
definition CmdGetLANConfigParams :: byte where [const_defs]: "CmdGetLANConfigParams = 0x02"

definition CmdGetDeviceID :: byte where [const_defs]: "CmdGetDeviceID = 0x01"
definition CmdGetChannelAuthCapabilities :: byte where
  [const_defs]: "CmdGetChannelAuthCapabilities = 0x38"
definition CmdGetSessionChallenge :: byte where [const_defs]: "CmdGetSessionChallenge = 0x39"
definition CmdActivateSession :: byte where [const_defs]: "CmdActivateSession = 0x3A"
definition CmdSetSessionPrivilege :: byte where [const_defs]: "CmdSetSessionPrivilege = 0x3B"
definition CmdCloseSession :: byte where [const_defs]: "CmdCloseSession = 0x3C"

definition CmdSetChannelAccess :: byte where [const_defs]: "CmdSetChannelAccess = 0x40"
definition CmdGetChannelAccess :: byte where [const_defs]: "CmdGetChannelAccess = 0x41"
definition CmdGetChannelInfo :: byte where [const_defs]: "CmdGetChannelInfo = 0x42"
definition CmdSetUserAccess :: byte where [const_defs]: "CmdSetUserAccess = 0x43"
definition CmdGetUserAccess :: byte where [const_defs]: "CmdGetUserAccess = 0x44"
definition CmdSetUserName :: byte where [const_defs]: "CmdSetUserName = 0x45"
definition CmdGetUserName :: byte where [const_defs]: "CmdGetUserName = 0x46"
definition CmdSetUserPassword :: byte where [const_defs]: "CmdSetUserPassword = 0x47"

definition CmdGetChassisStatus :: byte where [const_defs]: "CmdGetChassisStatus = 0x01"
definition CmdChassisControl :: byte where [const_defs]: "CmdChassisControl = 0x02"
definition CmdChassisIdentify :: byte where [const_defs]: "CmdChassisIdentify = 0x04"
definition CmdSetBootOptions :: byte where [const_defs]: "CmdSetBootOptions = 0x08"
definition CmdGetBootOptions :: byte where [const_defs]: "CmdGetBootOptions = 0x09"

definition ChassisControlPowerDown :: byte where [const_defs]: "ChassisControlPowerDown = 0x00"
definition ChassisControlPowerUp :: byte where [const_defs]: "ChassisControlPowerUp = 0x01"
definition ChassisControlPowerCycle :: byte where [const_defs]: "ChassisControlPowerCycle = 0x02"
definition ChassisControlHardReset :: byte where [const_defs]: "ChassisControlHardReset = 0x03"
definition ChassisControlPulse :: byte where [const_defs]: "ChassisControlPulse = 0x04"
definition ChassisControlSoftOff :: byte where [const_defs]: "ChassisControlSoftOff = 0x05"

definition PayloadTypeIPMI :: byte where [const_defs]: "PayloadTypeIPMI = 0x00"
definition PayloadTypeOpenSessionRequest :: byte where
  [const_defs]: "PayloadTypeOpenSessionRequest = 0x10"
definition PayloadTypeOpenSessionResponse :: byte where
  [const_defs]: "PayloadTypeOpenSessionResponse = 0x11"
definition PayloadTypeRAKPMessage1 :: byte where [const_defs]: "PayloadTypeRAKPMessage1 = 0x12"
definition PayloadTypeRAKPMessage2 :: byte where [const_defs]: "PayloadTypeRAKPMessage2 = 0x13"
definition PayloadTypeRAKPMessage3 :: byte where [const_defs]: "PayloadTypeRAKPMessage3 = 0x14"
definition PayloadTypeRAKPMessage4 :: byte where [const_defs]: "PayloadTypeRAKPMessage4 = 0x15"

definition AuthAlgorithmHMACSHA1 :: byte where [const_defs]: "AuthAlgorithmHMACSHA1 = 0x01"
definition IntegrityAlgorithmHMACSHA1_96 :: byte where
  [const_defs]: "IntegrityAlgorithmHMACSHA1_96 = 0x01"
definition ConfAlgorithmAESCBC128 :: byte where [const_defs]: "ConfAlgorithmAESCBC128 = 0x01"

definition OpenSessionStatusSuccess :: byte where [const_defs]: "OpenSessionStatusSuccess = 0x00"
definition OpenSessionStatusInvalidAuthAlgorithm :: byte where
  [const_defs]: "OpenSessionStatusInvalidAuthAlgorithm = 0x11"
definition OpenSessionStatusInvalidIntegrityAlgorithm :: byte where
  [const_defs]: "OpenSessionStatusInvalidIntegrityAlgorithm = 0x12"
definition OpenSessionStatusInvalidConfAlgorithm :: byte where
  [const_defs]: "OpenSessionStatusInvalidConfAlgorithm = 0x18"

section \<open>Completion codes\<close>

type_synonym CompletionCode = byte

definition CompletionCodeOK :: CompletionCode where [const_defs]: "CompletionCodeOK = 0x00"
definition CompletionCodeInvalidCommand :: CompletionCode where
  [const_defs]: "CompletionCodeInvalidCommand = 0xC1"
definition CompletionCodeParameterOutOfRange :: CompletionCode where
  [const_defs]: "CompletionCodeParameterOutOfRange = 0xC9"
definition CompletionCodeInvalidField :: CompletionCode where
  [const_defs]: "CompletionCodeInvalidField = 0xCC"
definition CompletionCodeUnspecified :: CompletionCode where
  [const_defs]: "CompletionCodeUnspecified = 0xFF"

text \<open>
  What a command handler answers: a completion code and the response data. A Go handler returns
  either nil or a byte slice as data; the responses are built by copying it, so nil is the empty
  list here.
\<close>

type_synonym reply = "CompletionCode \<times> byte list"

section \<open>Messages\<close>

record IPMIMessage =
  TargetAddress :: byte
  TargetLun :: byte
  msg_Checksum :: byte
  SourceAddress :: byte
  SourceLun :: byte
  Command :: byte
  Data :: "byte list"

definition GetNetFn :: "IPMIMessage \<Rightarrow> byte" where
  "GetNetFn m = drop_bit 2 (TargetLun m) AND 0x3F"

section \<open>Errors\<close>

text \<open>
  One constructor per error the package creates. \<open>GoPanic\<close> is not an error value of the code: it
  stands for a run-time panic (a slice bound out of range), which no caller recovers.
\<close>

datatype ipmi_error =
    RMCPTooShort nat
  | UnsupportedRMCPVersion byte
  | SessionMessageTooShort
  | EOF
  | AuthCodeTruncated
  | MessageTruncated
  | IPMIMessageTooShort nat
  | UnsupportedRMCPClass byte
  | NoIPMIMessage
  | ASFTooShort
  | UnsupportedASFType byte
  | RMCPPlusTooShort
  | UnsupportedPayloadType byte
  | OpenSessionParse
  | RAKP1TooShort nat
  | RAKP1UserNameTooShort nat nat
  | RAKP3Parse
  | SessionNotFound u32
  | PayloadLengthExceedsData
  | IntegrityTooShort int
  | EncryptedDataTooShort
  | CiphertextNotAligned
  | EmptyData
  | InvalidPaddingLength nat
  | IPMIDataTooShort nat
  | RandFailed
  | VMRequestTooShort nat
  | VMChecksumMismatch
  | VMTrailingEscape
  | VMControlEmpty
  | GoPanic

section \<open>Standard library primitives\<close>

text \<open>
  The package calls \<open>hmac.New(sha1.New, key)\<close>, \<open>md5.New\<close> and an AES block cipher, and reads
  \<open>crypto/rand\<close>. They are parameters of the model; where a property needs more than that they are
  functions, it states their documented behaviour as the hypothesis \<open>crypto_ok\<close>.
\<close>

record crypto =
  hmac_sha1 :: "byte list \<Rightarrow> byte list \<Rightarrow> byte list"
  md5 :: "byte list \<Rightarrow> byte list"
  aes_encrypt :: "byte list \<Rightarrow> byte list \<Rightarrow> byte list"
  aes_decrypt :: "byte list \<Rightarrow> byte list \<Rightarrow> byte list"

definition crypto_ok :: "crypto \<Rightarrow> bool" where
  "crypto_ok c \<longleftrightarrow>
     (\<forall>k m. length (hmac_sha1 c k m) = 20) \<and>
     (\<forall>m. length (md5 c m) = 16) \<and>
     (\<forall>k b. length b = 16 \<longrightarrow> length (aes_encrypt c k b) = 16) \<and>
     (\<forall>k b. length b = 16 \<longrightarrow> length (aes_decrypt c k b) = 16) \<and>
     (\<forall>k b. length k = 16 \<longrightarrow> length b = 16 \<longrightarrow> aes_decrypt c k (aes_encrypt c k b) = b)"

text \<open>
  \<open>rand.Read\<close> on a slice of the given length: the bytes read, or None for its error, and the
  generator's next state.
\<close>

type_synonym 'r random = "nat \<Rightarrow> 'r \<Rightarrow> byte list option \<times> 'r"

text \<open>\<open>rand.Read(b)\<close> fills a slice of n bytes, whatever the source hands out.\<close>

definition rand_Read :: "'r random \<Rightarrow> nat \<Rightarrow> 'r \<Rightarrow> byte list option \<times> 'r" where
  "rand_Read rnd n r =
     (case rnd n r of (res, r') \<Rightarrow> (map_option (go_copy (replicate n 0)) res, r'))"

lemma length_rand_Read: "rand_Read rnd n r = (Some bs, r') \<Longrightarrow> length bs = n"
  by (auto simp: rand_Read_def split: prod.splits)

end
