(* ===== verification/Rmcp.thy ===== *)
theory Rmcp
  imports Ipmi_Types
begin

text \<open>
  The RMCP framing and the IPMI 1.5 session wrapper of src/internal/ipmi/rmcp.go: parsers,
  serialisers, the two's complement checksums and the IPMI 1.5 authentication code.
\<close>

section \<open>Parsing and serialising\<close>

record RMCPHeader =
  rmcp_Version :: byte
  rmcp_Reserved :: byte
  rmcp_Sequence :: byte
  rmcp_Class :: byte

record IPMISessionHeader =
  AuthType :: byte
  SequenceNumber :: u32
  SessionID :: u32

definition ParseRMCPMessage :: "byte list \<Rightarrow> ipmi_error + (RMCPHeader \<times> byte list)" where
  "ParseRMCPMessage d =
     (if length d < 4 then Inl (RMCPTooShort (length d))
      else
        let header = \<lparr>rmcp_Version = d ! 0, rmcp_Reserved = d ! 1, rmcp_Sequence = d ! 2,
              rmcp_Class = d ! 3\<rparr>
        in if rmcp_Version header \<noteq> RMCPVersion1
           then Inl (UnsupportedRMCPVersion (rmcp_Version header))
           else Inr (header, drop 4 d))"

definition SerializeRMCPMessage :: "byte \<Rightarrow> byte list \<Rightarrow> byte list" where
  "SerializeRMCPMessage cls payload = [RMCPVersion1, 0x00, 0xFF, cls] @ payload"

definition ParseIPMIMessageBytes :: "byte list \<Rightarrow> ipmi_error + IPMIMessage" where
  "ParseIPMIMessageBytes d =
     (if length d < 7 then Inl (IPMIMessageTooShort (length d))
      else Inr \<lparr>TargetAddress = d ! 0, TargetLun = d ! 1, msg_Checksum = d ! 2,
        SourceAddress = d ! 3, SourceLun = d ! 4, Command = d ! 5,
        Data = (if length d > 7 then slice 6 (length d - 1) d else [])\<rparr>)"

text \<open>
  The \<open>bytes.Buffer\<close> the code reads from is the list of the bytes not yet read. The session
  fields fit into the ten bytes checked first, so only the later reads can fail.
\<close>

definition ParseIPMI15Message ::
    "byte list \<Rightarrow> ipmi_error + (IPMISessionHeader \<times> IPMIMessage option)" where
  "ParseIPMI15Message d =
     (if length d < 10 then Inl SessionMessageTooShort
      else
        let session = \<lparr>AuthType = d ! 0, SequenceNumber = get_u32_le (drop 1 d),
              SessionID = get_u32_le (drop 5 d)\<rparr>;
            buf = drop 9 d
        in if AuthType session = AuthTypeRMCPPlus then Inr (session, None)
           else if AuthType session \<noteq> AuthTypeNone \<and> length buf < 16 then Inl AuthCodeTruncated
           else
             let buf = (if AuthType session \<noteq> AuthTypeNone then drop 16 buf else buf)
             in case buf of
                  [] \<Rightarrow> Inl EOF
                | msgLen # rest \<Rightarrow>
                    if length rest < unat msgLen then Inl MessageTruncated
                    else (case ParseIPMIMessageBytes (take (unat msgLen) rest) of
                            Inl e \<Rightarrow> Inl e
                          | Inr msg \<Rightarrow> Inr (session, Some msg)))"

section \<open>Checksums\<close>

text \<open>The accumulation \<open>sum += uint32(b)\<close> over a byte slice, from a start value.\<close>

definition add_bytes :: "u32 \<Rightarrow> byte list \<Rightarrow> u32" where
  "add_bytes s bs = foldl (\<lambda>acc b. acc + ucast b) s bs"

text \<open>\<open>uint8(0x100 - (sum & 0xFF))\<close>.\<close>

definition negate_sum :: "u32 \<Rightarrow> byte" where
  "negate_sum s = ucast (0x100 - (s AND 0xFF))"

definition Checksum :: "byte list \<Rightarrow> byte" where
  "Checksum bs = negate_sum (add_bytes 0 bs)"

definition buildIPMIResponseMessageWithSeq ::
    "byte \<Rightarrow> byte \<Rightarrow> CompletionCode \<Rightarrow> byte list \<Rightarrow> byte \<Rightarrow> byte list" where
  "buildIPMIResponseMessageWithSeq netFn cmd code d reqSeqLun =
     (let targetAddr = 0x81;
          sourceAddr = 0x20;
          targetLun = push_bit 2 netFn OR 0x00;
          sourceLun = reqSeqLun;
          headerSum = ucast targetAddr + ucast targetLun :: u32;
          headerChecksum = negate_sum headerSum;
          dataSum = ucast sourceAddr + ucast sourceLun + ucast cmd + ucast code :: u32;
          dataChecksum = negate_sum (add_bytes dataSum d)
      in [targetAddr, targetLun, headerChecksum, sourceAddr, sourceLun, cmd, code]
           @ d @ [dataChecksum])"

definition buildIPMIResponseMessage ::
    "byte \<Rightarrow> byte \<Rightarrow> CompletionCode \<Rightarrow> byte list \<Rightarrow> byte list" where
  "buildIPMIResponseMessage netFn cmd code d =
     buildIPMIResponseMessageWithSeq netFn cmd code d 0x00"

definition computeIPMI15AuthCode ::
    "crypto \<Rightarrow> byte \<Rightarrow> string \<Rightarrow> u32 \<Rightarrow> u32 \<Rightarrow> byte list \<Rightarrow> byte list" where
  "computeIPMI15AuthCode c authType password sessionID seqNum msg =
     (let passKey = go_copy (replicate 16 0) (bytes_of_string password);
          authCode = replicate 16 0
      in if authType = AuthTypeMD5
         then go_copy authCode
           (md5 c (passKey @ put_u32_le sessionID @ msg @ put_u32_le seqNum @ passKey))
         else authCode)"

definition SerializeIPMIResponse ::
    "crypto \<Rightarrow> IPMISessionHeader \<Rightarrow> byte \<Rightarrow> byte \<Rightarrow> CompletionCode \<Rightarrow> byte list \<Rightarrow> byte \<Rightarrow> string
      \<Rightarrow> byte list" where
  "SerializeIPMIResponse c session netFn cmd code d reqSeqLun password =
     (let msg = buildIPMIResponseMessageWithSeq netFn cmd code d reqSeqLun
      in [AuthType session] @ put_u32_le (SequenceNumber session)
           @ put_u32_le (SessionID session)
           @ (if AuthType session \<noteq> AuthTypeNone
              then computeIPMI15AuthCode c (AuthType session) password (SessionID session)
                     (SequenceNumber session) msg
              else [])
           @ [word_of_nat (length msg)] @ msg)"

section \<open>Lemmas\<close>

lemma ucast_add_down: "(ucast (a + b :: u32) :: byte) = ucast a + ucast b"
  by (simp add: word_unat_eq_iff unsigned_ucast_eq unat_word_ariths take_bit_eq_mod
      mod_mod_cancel mod_add_eq)

lemma ucast_byte_u32 [simp]: "(ucast (ucast (b::byte) :: u32) :: byte) = b"
  by (rule bit_word_eqI) (simp add: bit_simps)

lemma unat_mask255: "unat ((s::u32) AND 0xFF) = unat s mod 256"
proof -
  have "s AND 0xFF = take_bit 8 s"
    using take_bit_eq_mask [of 8 s] by (simp add: mask_eq_exp_minus_1)
  then show ?thesis
    by (simp add: unat_mod_distrib take_bit_eq_mod)
qed

lemma complement_mod: "(256 - u mod 256 + u) mod 256 = (0::nat)"
proof -
  define q r where "q = u div 256" and "r = u mod 256"
  have "u = 256 * q + r" and "r < 256"
    by (simp_all add: q_def r_def)
  then have "256 - r + u = 256 * (1 + q)"
    by simp
  then show ?thesis
    by (simp add: r_def [symmetric])
qed

lemma negate_sum_eq: "negate_sum s = - ucast s"
proof -
  have "unat ((0x100::u32) - (s AND 0xFF)) = 256 - unat s mod 256"
    by (subst unat_sub_if_size) (simp add: unat_mask255 word_size word_le_nat_alt)
  then have "unat (negate_sum s + ucast s) = (256 - unat s mod 256 + unat s) mod 256"
    by (simp add: negate_sum_def unsigned_ucast_eq unat_word_ariths take_bit_eq_mod mod_add_eq)
  then have "negate_sum s + ucast s = 0"
    by (simp only: complement_mod unat_eq_zero)
  then show ?thesis by (simp add: eq_neg_iff_add_eq_0)
qed

lemma ucast_add_bytes: "(ucast (add_bytes s bs) :: byte) = ucast s + sum_list bs"
  unfolding add_bytes_def
  by (induction bs arbitrary: s) (simp_all add: ucast_add_down algebra_simps)

lemma Checksum_eq: "Checksum bs = - sum_list bs"
  by (simp add: Checksum_def negate_sum_eq ucast_add_bytes)

lemma Checksum_closes: "sum_list (bs @ [Checksum bs]) = 0"
  by (simp add: Checksum_eq)

lemma length_build [simp]:
  "length (buildIPMIResponseMessageWithSeq netFn cmd code d s) = 8 + length d"
  by (simp add: buildIPMIResponseMessageWithSeq_def Let_def)

lemma ParseRMCP_Serialize:
  "ParseRMCPMessage (SerializeRMCPMessage cls payload) =
     Inr (\<lparr>rmcp_Version = 0x06, rmcp_Reserved = 0, rmcp_Sequence = 0xFF, rmcp_Class = cls\<rparr>,
       payload)"
  by (simp add: ParseRMCPMessage_def SerializeRMCPMessage_def const_defs numeral_eq_Suc)

lemma ParseRMCPMessage_Inr:
  "ParseRMCPMessage d = Inr (h, p) \<longleftrightarrow> (\<exists>r s c. d = [RMCPVersion1, r, s, c] @ p \<and>
     h = \<lparr>rmcp_Version = RMCPVersion1, rmcp_Reserved = r, rmcp_Sequence = s, rmcp_Class = c\<rparr>)"
proof (cases "length d < 4")
  case False
  then obtain a b c e p' where "d = a # b # c # e # p'"
    by (auto simp: numeral_eq_Suc not_less Suc_le_length_iff)
  then show ?thesis
    by (auto simp: ParseRMCPMessage_def Let_def numeral_eq_Suc)
qed (auto simp: ParseRMCPMessage_def)

lemma build_checksums:
  fixes netFn cmd code s :: byte and d :: "byte list"
  defines "m \<equiv> buildIPMIResponseMessageWithSeq netFn cmd code d s"
  shows "sum_list (take 3 m) = 0" and "sum_list (drop 3 m) = 0"
  unfolding m_def buildIPMIResponseMessageWithSeq_def Let_def
  by (simp_all only: negate_sum_eq ucast_add_bytes ucast_add_down ucast_byte_u32) simp_all

lemma ParseIPMI_build:
  "ParseIPMIMessageBytes (buildIPMIResponseMessageWithSeq netFn cmd code d s) =
     Inr \<lparr>TargetAddress = 0x81, TargetLun = push_bit 2 netFn,
       msg_Checksum = - (0x81 + push_bit 2 netFn), SourceAddress = 0x20, SourceLun = s,
       Command = cmd, Data = code # d\<rparr>"
  by (simp add: ParseIPMIMessageBytes_def buildIPMIResponseMessageWithSeq_def Let_def slice_def
      negate_sum_eq ucast_add_down)

lemma length_authcode [simp]: "length (computeIPMI15AuthCode c a pw sid sq msg) = 16"
  by (simp add: computeIPMI15AuthCode_def Let_def)

lemma Parse15_Serialize:
  assumes "AuthType session \<noteq> AuthTypeRMCPPlus" and "length d \<le> 247"
  shows "ParseIPMI15Message (SerializeIPMIResponse c session netFn cmd code d s pw) =
    (case ParseIPMIMessageBytes (buildIPMIResponseMessageWithSeq netFn cmd code d s) of
       Inl e \<Rightarrow> Inl e | Inr msg \<Rightarrow> Inr (session, Some msg))"
proof -
  let ?msg = "buildIPMIResponseMessageWithSeq netFn cmd code d s"
  let ?code = "computeIPMI15AuthCode c (AuthType session) pw (SessionID session)
    (SequenceNumber session) ?msg"
  have len: "unat (word_of_nat (length ?msg) :: byte) = length ?msg"
    using assms(2) unfolding length_build by (simp only: unat_of_nat) simp
  have code: "length ?code = 16"
    by simp
  obtain tail where tail: "SerializeIPMIResponse c session netFn cmd code d s pw =
      AuthType session # put_u32_le (SequenceNumber session) @ put_u32_le (SessionID session)
        @ tail"
    and t: "tail = (if AuthType session \<noteq> AuthTypeNone then ?code else [])
      @ word_of_nat (length ?msg) # ?msg"
    by (simp add: SerializeIPMIResponse_def Let_def)
  have drop5: "drop 4 (put_u32_le (SequenceNumber session) @ put_u32_le (SessionID session)
      @ tail) = put_u32_le (SessionID session) @ tail"
    by simp
  have drop9: "drop 8 (put_u32_le (SequenceNumber session) @ put_u32_le (SessionID session)
      @ tail) = tail"
    by simp
  have rec: "\<lparr>AuthType = AuthType session, SequenceNumber = SequenceNumber session,
      SessionID = SessionID session\<rparr> = session"
    by simp
  show ?thesis
    using assms(1) code len unfolding tail
    by (simp add: ParseIPMI15Message_def Let_def drop_Cons' drop5 drop9 t rec)
qed

section \<open>Properties\<close>

text \<open>
  A response the server frames for IPMI 1.5 is read back by its own parsers: the RMCP class,
  the session header it was given, and a message carrying the command, the sequence byte and the
  completion code in front of the data, with both checksums closing their parts to zero; for
  data of at most 247 bytes, the most the one-byte length field can announce.
\<close>

theorem ipmi15_response_round_trip:
  assumes "AuthType session \<noteq> AuthTypeRMCPPlus" and "length d \<le> 247"
    and "payload = SerializeIPMIResponse c session netFn cmd code d s pw"
  shows "ParseRMCPMessage (SerializeRMCPMessage RMCPClassIPMI payload) =
      Inr (\<lparr>rmcp_Version = 0x06, rmcp_Reserved = 0, rmcp_Sequence = 0xFF,
        rmcp_Class = RMCPClassIPMI\<rparr>, payload)
    \<and> ParseIPMI15Message payload =
      Inr (session, Some \<lparr>TargetAddress = 0x81, TargetLun = push_bit 2 netFn,
        msg_Checksum = - (0x81 + push_bit 2 netFn), SourceAddress = 0x20, SourceLun = s,
        Command = cmd, Data = code # d\<rparr>)
    \<and> sum_list (take 3 (buildIPMIResponseMessageWithSeq netFn cmd code d s)) = 0
    \<and> sum_list (drop 3 (buildIPMIResponseMessageWithSeq netFn cmd code d s)) = 0"
  unfolding assms(3)
  by (simp add: ParseRMCP_Serialize Parse15_Serialize [OF assms(1,2)] ParseIPMI_build
      build_checksums del: sum_list_eq_0_iff)

lemma ipmi15_response_round_trip_witness:
  "ParseIPMI15Message (SerializeIPMIResponse
     \<lparr>hmac_sha1 = (\<lambda>k m. []), md5 = (\<lambda>m. []), aes_encrypt = (\<lambda>k b. b), aes_decrypt = (\<lambda>k b. b)\<rparr>
     \<lparr>AuthType = 0, SequenceNumber = 5, SessionID = 9\<rparr> 0x07 0x01 0x00 [0x20] 0x04 ''pw'') =
   Inr (\<lparr>AuthType = 0, SequenceNumber = 5, SessionID = 9\<rparr>,
     Some \<lparr>TargetAddress = 0x81, TargetLun = 0x1C, msg_Checksum = - 0x9D, SourceAddress = 0x20,
       SourceLun = 0x04, Command = 0x01, Data = [0x00, 0x20]\<rparr>)"
  using ipmi15_response_round_trip [of "\<lparr>AuthType = 0, SequenceNumber = 5, SessionID = 9\<rparr>"
      "[0x20]", OF _ _ refl, of _ "0x07" "0x01" "0x00" "0x04"]
  by (simp add: AuthTypeRMCPPlus_def)

end
