(* ===== verification/Ipmi_User.thy ===== *)
theory Ipmi_User
  imports Ipmi_Types Bmc_State
begin

text \<open>
  The user commands of src/internal/ipmi/handler_user.go. A handler takes the request data and
  the BMC store and gives the reply and the store after it. The store refuses user ids outside
  1 to 15; the handlers mask the id to six bits first.
\<close>

section \<open>Handlers\<close>

definition handleGetUserAccess :: "byte list \<Rightarrow> State \<Rightarrow> reply" where
  "handleGetUserAccess reqData st =
     (if length reqData < 2 then (CompletionCodeInvalidField, [])
      else
        let channel = reqData ! 0 AND 0x0F;
            userID = reqData ! 1 AND 0x3F
        in case GetUserAccess st channel userID of
             Inl _ \<Rightarrow> (CompletionCodeParameterOutOfRange, [])
           | Inr acc \<Rightarrow>
               let flagsByte = set_bit_if (CallinCallback acc) 0x40
                     (set_bit_if (LinkAuth acc) 0x20
                       (set_bit_if (IPMIMessaging acc) 0x10 (PrivilegeLimit acc AND 0x0F)))
               in (CompletionCodeOK,
                   [MaxUsers st AND 0x3F, EnabledUserCount st AND 0x3F, 0x01, flagsByte]))"

definition handleGetUserName :: "byte list \<Rightarrow> State \<Rightarrow> reply" where
  "handleGetUserName reqData st =
     (if length reqData < 1 then (CompletionCodeInvalidField, [])
      else
        let userID = reqData ! 0 AND 0x3F
        in case GetUserName st userID of
             Inl _ \<Rightarrow> (CompletionCodeParameterOutOfRange, [])
           | Inr nm \<Rightarrow> (CompletionCodeOK, go_copy (replicate 16 0) (bytes_of_string nm)))"

definition handleSetUserName :: "byte list \<Rightarrow> State \<Rightarrow> reply \<times> State" where
  "handleSetUserName reqData st =
     (if length reqData < 17 then ((CompletionCodeInvalidField, []), st)
      else
        let userID = reqData ! 0 AND 0x3F;
            nameBytes = slice 1 17 reqData;
            nm = trim_right_nul (string_of_bytes nameBytes)
        in case SetUserName st userID nm of
             (st', Some _) \<Rightarrow> ((CompletionCodeParameterOutOfRange, []), st')
           | (st', None) \<Rightarrow> ((CompletionCodeOK, []), st'))"

text \<open>The body shared by the operations 0 and 1 of Set User Password.\<close>

definition set_enabled :: "byte \<Rightarrow> bool \<Rightarrow> State \<Rightarrow> reply \<times> State" where
  "set_enabled userID b st =
     (case GetUserAccess st 0 userID of
        Inl _ \<Rightarrow> ((CompletionCodeParameterOutOfRange, []), st)
      | Inr acc \<Rightarrow>
          (case SetUserAccess st 0 userID (acc\<lparr>Enabled := b\<rparr>) of
             (st', Some _) \<Rightarrow> ((CompletionCodeParameterOutOfRange, []), st')
           | (st', None) \<Rightarrow> ((CompletionCodeOK, []), st')))"

definition handleSetUserPassword :: "byte list \<Rightarrow> State \<Rightarrow> reply \<times> State" where
  "handleSetUserPassword reqData st =
     (if length reqData < 2 then ((CompletionCodeInvalidField, []), st)
      else
        let userID = reqData ! 0 AND 0x3F;
            is20Byte = reqData ! 0 AND 0x80 \<noteq> 0;
            operation = reqData ! 1 AND 0x03;
            passLen = (if is20Byte then 20 else 16)
        in if operation = 0x00 then set_enabled userID False st
           else if operation = 0x01 then set_enabled userID True st
           else if operation = 0x02 then
             (if length reqData < 2 + passLen then ((CompletionCodeInvalidField, []), st)
              else
                let password = trim_right_nul (string_of_bytes (slice 2 (2 + passLen) reqData))
                in case SetUserPassword st userID password of
                     (st', Some _) \<Rightarrow> ((CompletionCodeParameterOutOfRange, []), st')
                   | (st', None) \<Rightarrow> ((CompletionCodeOK, []), st'))
           else if operation = 0x03 then
             (if length reqData < 2 + passLen then ((CompletionCodeInvalidField, []), st)
              else
                let password = trim_right_nul (string_of_bytes (slice 2 (2 + passLen) reqData))
                in if CheckPassword st userID password then ((CompletionCodeOK, []), st)
                   else ((CompletionCodeInvalidField, []), st))
           else ((CompletionCodeInvalidField, []), st))"

text \<open>
  \<open>existing, _ := state.GetUserAccess(...)\<close>: on the (ignored) error the code goes on with the
  zero value of the struct.
\<close>

definition handleSetUserAccess :: "byte list \<Rightarrow> State \<Rightarrow> reply \<times> State" where
  "handleSetUserAccess reqData st =
     (if length reqData < 4 then ((CompletionCodeInvalidField, []), st)
      else
        let channel = reqData ! 0 AND 0x0F;
            ipmiMsg = reqData ! 0 AND 0x10 \<noteq> 0;
            linkAuth = reqData ! 0 AND 0x20 \<noteq> 0;
            callin = reqData ! 0 AND 0x40 \<noteq> 0;
            userID = reqData ! 1 AND 0x3F;
            privLimit = reqData ! 2 AND 0x0F;
            existing = (case GetUserAccess st channel userID of
              Inl _ \<Rightarrow> zeroUserAccess | Inr acc \<Rightarrow> acc);
            acc = \<lparr>PrivilegeLimit = privLimit, Enabled = Enabled existing,
              IPMIMessaging = ipmiMsg, LinkAuth = linkAuth, CallinCallback = callin\<rparr>
        in case SetUserAccess st channel userID acc of
             (st', Some _) \<Rightarrow> ((CompletionCodeParameterOutOfRange, []), st')
           | (st', None) \<Rightarrow> ((CompletionCodeOK, []), st'))"

section \<open>Lemmas\<close>

lemma userID_mask: "unat (uid::byte) \<le> maxUsers \<Longrightarrow> uid AND 0x3F = uid"
  by (simp add: flag_bits maxUsers_def take_bit_byte_small)

lemma validate_ok: "1 \<le> unat uid \<Longrightarrow> unat uid \<le> maxUsers \<Longrightarrow> validateUserID uid = None"
  by simp

lemma NewState_enabled_count [simp]: "EnabledUserCount (NewState u p) = 1"
  by (simp add: EnabledUserCount_def maxUsers_def upt_conv_Cons NewState_user_at
      zeroUserSlot_def zeroUserAccess_def)

lemma user_handlers_wf:
  assumes "wf_State st"
  shows "wf_State (snd (handleSetUserName req st))"
    and "wf_State (snd (handleSetUserPassword req st))"
    and "wf_State (snd (handleSetUserAccess req st))"
  by (simp_all add: handleSetUserName_def handleSetUserPassword_def set_enabled_def
      handleSetUserAccess_def Let_def case_prod_beta wf_ops [OF assms] assms
      split: option.split sum.split)

text \<open>A password or name as the fixed-width field of a request.\<close>

definition nul_pad :: "nat \<Rightarrow> string \<Rightarrow> byte list" where
  "nul_pad n s = bytes_of_string s @ replicate (n - length s) 0"

lemma length_nul_pad [simp]: "length s \<le> n \<Longrightarrow> length (nul_pad n s) = n"
  by (simp add: nul_pad_def)

lemma string_of_zeros: "string_of_bytes (replicate n 0) = replicate n (CHR 0x00)"
  by (simp add: string_of_bytes_def byte_char_def char_of_def)

lemma trim_nul_pad:
  "s = [] \<or> last s \<noteq> CHR 0x00 \<Longrightarrow> trim_right_nul (string_of_bytes (nul_pad n s)) = s"
  by (simp add: nul_pad_def string_of_zeros trim_right_nul_pad trim_right_nul_id)

section \<open>Requests a client builds\<close>

text \<open>
  The Set User Password request: the user id with the 20-byte flag, the operation, the field.
\<close>

definition password_req :: "bool \<Rightarrow> byte \<Rightarrow> byte \<Rightarrow> string \<Rightarrow> byte list" where
  "password_req big uid operation pw =
     [if big then uid OR 0x80 else uid, operation] @ nul_pad (if big then 20 else 16) pw"

text \<open>Strings a fixed-width NUL padded field can carry.\<close>

definition field_string :: "nat \<Rightarrow> string \<Rightarrow> bool" where
  "field_string n s \<longleftrightarrow> length s \<le> n \<and> (s = [] \<or> last s \<noteq> CHR 0x00)"

lemma password_req_uid:
  assumes "unat (uid::byte) \<le> maxUsers"
  shows "(if big then uid OR 0x80 else uid) AND 0x3F = uid"
    and "((if big then uid OR 0x80 else uid) AND 0x80 \<noteq> 0) = big"
proof -
  have small: "take_bit 6 uid = uid" "take_bit 7 uid = uid"
    using assms by (simp_all add: take_bit_byte_small maxUsers_def)
  have "(uid OR 0x80) AND 0x3F = take_bit 6 uid"
    unfolding byte_bits_eq by (simp add: bit_simps)
  with small show "(if big then uid OR 0x80 else uid) AND 0x3F = uid"
    by (simp add: flag_bits)
  have "\<not> bit (take_bit 7 uid) 7"
    by (simp add: bit_simps)
  with small show "((if big then uid OR 0x80 else uid) AND 0x80 \<noteq> 0) = big"
    by (simp add: flag_bits bit_simps)
qed

lemma password_req_parse:
  assumes "unat uid \<le> maxUsers" and "field_string (if big then 20 else 16) pw"
  shows "password_req big uid operation pw ! 0 AND 0x3F = uid"
    and "(password_req big uid operation pw ! 0 AND 0x80 \<noteq> 0) = big"
    and "password_req big uid operation pw ! 1 = operation"
    and "length (password_req big uid operation pw) = 2 + (if big then 20 else 16)"
    and "trim_right_nul (string_of_bytes
      (slice 2 (2 + (if big then 20 else 16)) (password_req big uid operation pw))) = pw"
  using assms password_req_uid [of uid big]
  by (auto simp: password_req_def field_string_def slice_def trim_nul_pad)

lemma handle_set_password:
  assumes "1 \<le> unat uid" and "unat uid \<le> maxUsers"
    and "field_string (if big then 20 else 16) pw"
  shows "handleSetUserPassword (password_req big uid 0x02 pw) st =
    ((CompletionCodeOK, []),
     set_user_at st (unat uid) ((user_at st (unat uid))\<lparr>slot_password := pw\<rparr>))"
  unfolding handleSetUserPassword_def Let_def password_req_parse [OF assms(2,3)]
  by (simp add: SetUserPassword_def validate_ok [OF assms(1,2)])

lemma handle_test_password:
  assumes "1 \<le> unat uid" and "unat uid \<le> maxUsers"
    and "field_string (if big then 20 else 16) pw"
  shows "handleSetUserPassword (password_req big uid 0x03 pw) st =
    ((if CheckPassword st uid pw then CompletionCodeOK else CompletionCodeInvalidField, []), st)"
  unfolding handleSetUserPassword_def Let_def password_req_parse [OF assms(2,3)]
  by simp

section \<open>Properties\<close>

text \<open>
  A password set with the IPMI Set User Password command is the one and only password the
  same command's test operation accepts afterwards, whichever of the 16-byte and the 20-byte
  format either request uses.
\<close>

theorem set_password_then_test:
  assumes "wf_State st" and "1 \<le> unat uid" and "unat uid \<le> maxUsers"
    and "field_string (if big then 20 else 16) pw" and "pw \<noteq> []"
    and "field_string (if big' then 20 else 16) q"
  shows "handleSetUserPassword (password_req big uid 0x02 pw) st =
      ((CompletionCodeOK, []), snd (handleSetUserPassword (password_req big uid 0x02 pw) st))
    \<and> fst (fst (handleSetUserPassword (password_req big' uid 0x03 q)
        (snd (handleSetUserPassword (password_req big uid 0x02 pw) st)))) =
      (if q = pw then CompletionCodeOK else CompletionCodeInvalidField)"
  using assms by (simp add: handle_set_password handle_test_password CheckPassword_def Let_def)

lemma set_password_then_test_witness:
  "fst (fst (handleSetUserPassword (password_req True 2 0x03 ''secret'')
     (snd (handleSetUserPassword (password_req False 2 0x02 ''secret'')
        (NewState ''admin'' ''admin''))))) = CompletionCodeOK"
  using set_password_then_test [of "NewState ''admin'' ''admin''" 2 False "''secret''" True
      "''secret''"]
  by (simp add: field_string_def maxUsers_def)

text \<open>
  Get User Access reports what Set User Access stored: bits 4 to 6 of the first request byte
  come back as the messaging, link authentication and callback flags and the low nibble of the
  third as the privilege limit, next to the number of slots and of enabled slots; the enabled
  flag of the slot, which this command does not carry, is kept.
\<close>

theorem set_access_then_get:
  assumes "wf_State st" and "1 \<le> unat uid" and "unat uid \<le> maxUsers"
  shows "handleSetUserAccess [ch, uid, lim, sess] st =
      ((CompletionCodeOK, []), snd (handleSetUserAccess [ch, uid, lim, sess] st))
    \<and> handleGetUserAccess [ch', uid] (snd (handleSetUserAccess [ch, uid, lim, sess] st)) =
      (CompletionCodeOK,
       [15, EnabledUserCount st AND 0x3F, 0x01, (ch AND 0x70) OR (lim AND 0x0F)])"
proof -
  let ?old = "user_at st (unat uid)"
  let ?acc = "\<lparr>PrivilegeLimit = lim AND 0x0F, Enabled = Enabled (slot_access ?old),
    IPMIMessaging = ch AND 0x10 \<noteq> 0, LinkAuth = ch AND 0x20 \<noteq> 0,
    CallinCallback = ch AND 0x40 \<noteq> 0\<rparr>"
  let ?st' = "set_user_at st (unat uid) (?old\<lparr>slot_access := ?acc\<rparr>)"
  have set: "handleSetUserAccess [ch, uid, lim, sess] st = ((CompletionCodeOK, []), ?st')"
    using assms(3)
    by (simp add: handleSetUserAccess_def Let_def userID_mask GetUserAccess_def SetUserAccess_def
        validate_ok [OF assms(2,3)])
  have "Enabled (slot_access (user_at ?st' i)) = Enabled (slot_access (user_at st i))" for i
    using assms by simp
  then have count: "EnabledUserCount ?st' = EnabledUserCount st"
    by (simp add: EnabledUserCount_def)
  have flags: "set_bit_if (ch AND 0x40 \<noteq> 0) 0x40 (set_bit_if (ch AND 0x20 \<noteq> 0) 0x20
      (set_bit_if (ch AND 0x10 \<noteq> 0) 0x10 ((lim AND 0x0F) AND 0x0F)))
    = (ch AND 0x70) OR (lim AND 0x0F)"
    unfolding byte_bits_eq by (simp add: set_bit_if_def and_flag bit_simps)
  have get: "GetUserAccess ?st' channel uid = Inr ?acc" for channel
    using assms(1,3) by (simp add: GetUserAccess_def validate_ok [OF assms(2,3)])
  show ?thesis
    unfolding set snd_conv handleGetUserAccess_def Let_def
    using assms(3) flags
    by (simp add: userID_mask get count MaxUsers_def maxUsers_def)
qed

lemma set_access_then_get_witness:
  "handleGetUserAccess [0x01, 2]
     (snd (handleSetUserAccess [0xB1, 2, 0x03, 0] (NewState ''admin'' ''admin''))) =
     (CompletionCodeOK, [15, 1, 0x01, 0x33])"
  using set_access_then_get [of "NewState ''admin'' ''admin''" 2 "0xB1" "0x03" 0 "0x01"]
  by (simp add: maxUsers_def)

end
