(* ===== verification/Ipmi_Config.thy ===== *)
theory Ipmi_Config
  imports Ipmi_Types Bmc_State
begin

text \<open>
  The channel commands of src/internal/ipmi/handler_channel.go and the LAN configuration commands
  of src/internal/ipmi/handler_lan.go, over the BMC store.
\<close>

section \<open>Channel commands\<close>

definition handleGetChannelAccess :: "byte list \<Rightarrow> State \<Rightarrow> reply" where
  "handleGetChannelAccess reqData st =
     (if length reqData < 2 then (CompletionCodeInvalidField, [])
      else
        let channel = reqData ! 0 AND 0x0F;
            acc = GetChannelAccess st channel;
            byte0 = set_bit_if (\<not> AlertingEnabled acc) 0x80
              (set_bit_if (PerMsgAuth acc) 0x40
                (set_bit_if (UserLevelAuth acc) 0x20 (AccessMode acc AND 0x07)));
            byte1 = ca_PrivilegeLimit acc AND 0x0F
        in (CompletionCodeOK, [byte0, byte1]))"

definition handleSetChannelAccess :: "byte list \<Rightarrow> State \<Rightarrow> reply \<times> State" where
  "handleSetChannelAccess reqData st =
     (if length reqData < 3 then ((CompletionCodeInvalidField, []), st)
      else
        let channel = reqData ! 0 AND 0x0F;
            accessMode = reqData ! 1 AND 0x07;
            userLevelAuth = reqData ! 1 AND 0x20 \<noteq> 0;
            perMsgAuth = reqData ! 1 AND 0x40 \<noteq> 0;
            alertingDisabled = reqData ! 1 AND 0x80 \<noteq> 0;
            privLimit = reqData ! 2 AND 0x0F;
            acc = \<lparr>AccessMode = accessMode, UserLevelAuth = userLevelAuth,
              PerMsgAuth = perMsgAuth, AlertingEnabled = (\<not> alertingDisabled),
              ca_PrivilegeLimit = privLimit\<rparr>
        in ((CompletionCodeOK, []), SetChannelAccess st channel acc))"

definition handleGetChannelInfo :: "byte list \<Rightarrow> State \<Rightarrow> reply" where
  "handleGetChannelInfo reqData st =
     (if length reqData < 1 then (CompletionCodeInvalidField, [])
      else
        let channel = reqData ! 0 AND 0x0F;
            channel = (if channel = 0x0E then 1 else channel);
            info = GetChannelInfo st channel;
            byte3 = push_bit 6 (SessionSupport info AND 0x03) OR (ActiveSessions info AND 0x3F)
        in (CompletionCodeOK,
            [ChannelNumber info, ChannelMedium info, ChannelProtocol info, byte3,
             0x00, 0x00, 0x00, 0x00, 0x00]))"

section \<open>LAN configuration commands\<close>

definition lanConfigRevision :: byte where
  "lanConfigRevision = 0x11"

text \<open>The Go maps from parameter numbers to true, as predicates (an absent key reads false).\<close>

definition supportedLANParams :: "byte \<Rightarrow> bool" where
  "supportedLANParams p \<longleftrightarrow> p \<in> {0, 1, 2, 3, 4, 5, 6, 7, 12, 13}"

definition readOnlyLANParams :: "byte \<Rightarrow> bool" where
  "readOnlyLANParams p \<longleftrightarrow> p = 1"

definition handleGetLANConfigParams :: "byte list \<Rightarrow> State \<Rightarrow> reply" where
  "handleGetLANConfigParams reqData st =
     (if length reqData < 4 then (CompletionCodeInvalidField, [])
      else
        let param = reqData ! 1
        in if \<not> supportedLANParams param then (CompletionCodeParameterOutOfRange, [])
           else if param = 0 then (CompletionCodeOK, [lanConfigRevision, 0x00])
           else (case GetLANConfig st param of
                   None \<Rightarrow> (CompletionCodeParameterOutOfRange, [])
                 | Some paramData \<Rightarrow> (CompletionCodeOK, lanConfigRevision # paramData)))"

definition handleSetLANConfigParams :: "byte list \<Rightarrow> State \<Rightarrow> reply \<times> State" where
  "handleSetLANConfigParams reqData st =
     (if length reqData < 2 then ((CompletionCodeInvalidField, []), st)
      else
        let param = reqData ! 1
        in if \<not> supportedLANParams param then ((CompletionCodeParameterOutOfRange, []), st)
           else if param = 0 then ((CompletionCodeOK, []), st)
           else if readOnlyLANParams param then ((CompletionCodeInvalidField, []), st)
           else ((CompletionCodeOK, []), SetLANConfig st param (drop 2 reqData)))"

definition handleTransportCommand :: "IPMIMessage \<Rightarrow> State \<Rightarrow> reply \<times> State" where
  "handleTransportCommand msg st =
     (if Command msg = CmdGetLANConfigParams then (handleGetLANConfigParams (Data msg) st, st)
      else if Command msg = CmdSetLANConfigParams then handleSetLANConfigParams (Data msg) st
      else ((CompletionCodeInvalidCommand, []), st))"

section \<open>Lemmas\<close>

lemma config_handlers_wf:
  assumes "wf_State st"
  shows "wf_State (snd (handleSetChannelAccess req st))"
    and "wf_State (snd (handleSetLANConfigParams req st))"
    and "wf_State (snd (handleTransportCommand m st))"
  by (simp_all add: handleSetChannelAccess_def handleSetLANConfigParams_def
      handleTransportCommand_def Let_def wf_ops [OF assms] assms)

lemma config_handlers_users [simp]:
  "users (snd (handleSetChannelAccess req st)) = users st"
  "users (snd (handleSetLANConfigParams req st)) = users st"
  "users (snd (handleTransportCommand m st)) = users st"
  by (simp_all add: handleSetChannelAccess_def handleSetLANConfigParams_def
      handleTransportCommand_def SetLANConfig_def SetChannelAccess_def Let_def)

lemma unat_channel_nibble: "unat ((ch::byte) AND 0x0F) < 16"
  by (simp add: flag_bits unat_take_bit_byte)

lemma channel_nibble: "\<not> (ch AND 0x0F > (15::byte))"
  using unat_channel_nibble [of ch] by (simp add: word_less_nat_alt)

section \<open>Properties\<close>

text \<open>
  Get Channel Access reports what Set Channel Access stored for the channel: access mode,
  user level authentication, per-message authentication and (inverted) alerting bits come back in
  place, reserved bits are cleared, and every other channel reads as before.
\<close>

theorem set_channel_access_then_get:
  assumes "wf_State st"
  shows "handleGetChannelAccess [ch', t] (snd (handleSetChannelAccess [ch, a, p] st)) =
    (if ch' AND 0x0F = ch AND 0x0F then (CompletionCodeOK, [a AND 0xE7, p AND 0x0F])
     else handleGetChannelAccess [ch', t] st)"
proof -
  have flags: "set_bit_if (a AND 0x80 \<noteq> 0) 0x80 (set_bit_if (a AND 0x40 \<noteq> 0) 0x40
      (set_bit_if (a AND 0x20 \<noteq> 0) 0x20 ((a AND 0x07) AND 0x07))) = a AND 0xE7"
    unfolding byte_bits_eq by (simp add: set_bit_if_def and_flag bit_simps)
  have "unat (ch AND 0x0F) < length (channelAccess st)"
    using assms unat_channel_nibble [of ch] by (simp add: wf_State_def)
  then show ?thesis
    using flags
    by (simp add: handleGetChannelAccess_def handleSetChannelAccess_def Let_def
        GetChannelAccess_def SetChannelAccess_def channel_nibble nth_list_update
        word_unat_eq_iff)
qed

lemma set_channel_access_then_get_witness:
  "handleGetChannelAccess [0x01, 0x40]
     (snd (handleSetChannelAccess [0x41, 0xA2, 0x44] (NewState ''admin'' ''admin''))) =
     (CompletionCodeOK, [0xA2, 0x04])"
  using set_channel_access_then_get [of "NewState ''admin'' ''admin''" "0x01" "0x40" "0x41"
      "0xA2" "0x44"]
  by simp

text \<open>
  The LAN parameters behave as a store with the documented exceptions: what Set LAN
  Configuration Parameters accepts is read back after the revision byte, every other parameter
  keeps its value, the authentication type support (1) cannot be written, and Set In Progress (0)
  always reads as complete; a refused request changes nothing.
\<close>

theorem set_lan_then_get:
  "handleGetLANConfigParams [c', q, s, b] (snd (handleSetLANConfigParams ([c, p] @ d) st)) =
     (if q = p \<and> supportedLANParams p \<and> p \<noteq> 0 \<and> p \<noteq> 1
      then (CompletionCodeOK, lanConfigRevision # d)
      else handleGetLANConfigParams [c', q, s, b] st)
   \<and> (fst (fst (handleSetLANConfigParams ([c, p] @ d) st)) \<noteq> CompletionCodeOK \<longrightarrow>
      snd (handleSetLANConfigParams ([c, p] @ d) st) = st)"
  by (simp add: handleGetLANConfigParams_def handleSetLANConfigParams_def Let_def
      GetLANConfig_def SetLANConfig_def readOnlyLANParams_def)

lemma set_lan_then_get_witness:
  "fst (fst (handleSetLANConfigParams ([1, 1] @ [0x80]) (NewState ''admin'' ''admin'')))
     \<noteq> CompletionCodeOK
   \<and> snd (handleSetLANConfigParams ([1, 1] @ [0x80]) (NewState ''admin'' ''admin''))
     = NewState ''admin'' ''admin''"
proof -
  have "fst (fst (handleSetLANConfigParams ([1, 1] @ [0x80]) (NewState ''admin'' ''admin'')))
      \<noteq> CompletionCodeOK"
    by (simp add: handleSetLANConfigParams_def supportedLANParams_def readOnlyLANParams_def
        const_defs)
  then show ?thesis
    using set_lan_then_get [of 1 1 0 0 1 1 "[0x80]" "NewState ''admin'' ''admin''"] by blast
qed

end
