(* ===== verification/Machine_Api.thy ===== *)
theory Machine_Api
  imports Go_Prelude
begin

text \<open>
  What the IPMI and Redfish front ends see of src/internal/machine: the boot override and power
  state types, the Go interface \<open>MachineInterface\<close> (src/internal/ipmi/types.go) as a record of
  operations over a world \<open>'w\<close> the machine lives in, and the contract its boot override
  operations promise, as a locale. The theory Machine interprets the contract on the model of
  machine.go.
\<close>

section \<open>Types\<close>

datatype PowerState = PowerOn | PowerOff

record BootOverride =
  bo_Enabled :: string
  bo_Target :: string
  bo_Mode :: string

text \<open>
  The errors of the package: its own messages, and those it wraps or passes on from the QMP
  client and the process manager, whose text is a Go string.
\<close>

type_synonym go_error = string

datatype mach_error =
    InvalidBootTarget string
  | InvalidBootEnabled string
  | UnsupportedResetType string
  | QMPError go_error
  | ProcessError go_error
  | StartError go_error
  | QMPConnectTimeout int
  | FetchError go_error

section \<open>The interface\<close>

record 'w MachineInterface =
  mi_GetPowerState :: "'w \<Rightarrow> (mach_error + PowerState) \<times> 'w"
  mi_Reset :: "string \<Rightarrow> 'w \<Rightarrow> mach_error option \<times> 'w"
  mi_GetBootOverride :: "'w \<Rightarrow> BootOverride"
  mi_SetBootOverride :: "BootOverride \<Rightarrow> 'w \<Rightarrow> mach_error option \<times> 'w"

text \<open>The sets \<open>validTargets\<close> and \<open>validEnabled\<close> of SetBootOverride.\<close>

definition validTargets :: "string set" where
  "validTargets = {''None'', ''Pxe'', ''Hdd'', ''Cd'', ''BiosSetup''}"

definition validEnabled :: "string set" where
  "validEnabled = {''Disabled'', ''Once'', ''Continuous''}"

definition valid_override :: "BootOverride \<Rightarrow> bool" where
  "valid_override bo \<longleftrightarrow> bo_Target bo \<in> validTargets \<and> bo_Enabled bo \<in> validEnabled"

section \<open>The boot override contract\<close>

locale boot_override_store =
  fixes get :: "'w \<Rightarrow> BootOverride"
    and set_override :: "BootOverride \<Rightarrow> 'w \<Rightarrow> mach_error option \<times> 'w"
  assumes set_valid: "valid_override bo \<Longrightarrow> fst (set_override bo w) = None"
    and get_set: "valid_override bo \<Longrightarrow> get (snd (set_override bo w)) = bo"
    and set_invalid: "\<not> valid_override bo \<Longrightarrow> fst (set_override bo w) \<noteq> None"
    and set_invalid_id: "\<not> valid_override bo \<Longrightarrow> snd (set_override bo w) = w"
begin

lemma set_ok_iff: "fst (set_override bo w) = None \<longleftrightarrow> valid_override bo"
  using set_valid set_invalid by blast

lemma get_after_set:
  "get (snd (set_override bo w)) = (if fst (set_override bo w) = None then bo else get w)"
  by (cases "valid_override bo") (simp_all add: set_ok_iff get_set set_invalid_id)

lemma set_set:
  assumes "valid_override bo"
  shows "get (snd (set_override bo (snd (set_override bo' w)))) = bo"
  using assms by (rule get_set)

lemma valid_kept:
  "valid_override (get w) \<Longrightarrow> valid_override (get (snd (set_override bo w)))"
  using get_after_set [of bo w] set_ok_iff [of bo w] by auto

end

end
