(* ===== verification/Ipmi_Chassis.thy ===== *)
theory Ipmi_Chassis
  imports Ipmi_Types Machine_Api
begin

text \<open>
  The chassis commands of src/internal/ipmi/handler_chassis.go over a machine interface: status,
  power control, and the mapping between the IPMI boot flags and the boot override. The log lines
  of the handlers are not modelled.
\<close>

section \<open>Handlers\<close>

definition handleGetChassisStatus :: "'w MachineInterface \<Rightarrow> 'w \<Rightarrow> reply \<times> 'w" where
  "handleGetChassisStatus m w =
     (case mi_GetPowerState m w of
        (Inl _, w') \<Rightarrow> ((CompletionCodeUnspecified, []), w')
      | (Inr state, w') \<Rightarrow>
          let powerByte = (if state = PowerOn then 0x01 else 0x00)
          in ((CompletionCodeOK, [powerByte, 0x00, 0x00, 0x00]), w'))"

definition handleChassisControl ::
    "byte list \<Rightarrow> 'w MachineInterface \<Rightarrow> 'w \<Rightarrow> reply \<times> 'w" where
  "handleChassisControl reqData m w =
     (if length reqData < 1 then ((CompletionCodeInvalidField, []), w)
      else
        let control = reqData ! 0;
            finish = (\<lambda>(err, w'). (case err of
              Some _ \<Rightarrow> ((CompletionCodeUnspecified, []), w')
            | None \<Rightarrow> ((CompletionCodeOK, []), w')))
        in if control = ChassisControlPowerDown then finish (mi_Reset m ''ForceOff'' w)
           else if control = ChassisControlPowerUp then finish (mi_Reset m ''On'' w)
           else if control = ChassisControlPowerCycle then
             finish (case mi_Reset m ''ForceOff'' w of
                       (Some e, w') \<Rightarrow> (Some e, w')
                     | (None, w') \<Rightarrow> mi_Reset m ''On'' w')
           else if control = ChassisControlHardReset then finish (mi_Reset m ''ForceRestart'' w)
           else if control = ChassisControlPulse \<or> control = ChassisControlSoftOff then
             finish (None, w)
           else ((CompletionCodeInvalidField, []), w))"

definition handleChassisIdentify :: reply where
  "handleChassisIdentify = (CompletionCodeOK, [])"

definition target_of_bits :: "byte \<Rightarrow> string" where
  "target_of_bits deviceBits =
     (if deviceBits = 0x00 then ''None''
      else if deviceBits = 0x01 then ''Pxe''
      else if deviceBits = 0x02 then ''Hdd''
      else if deviceBits = 0x05 then ''Cd''
      else if deviceBits = 0x06 then ''BiosSetup''
      else ''None'')"

definition handleSetBootOptions ::
    "byte list \<Rightarrow> 'w MachineInterface \<Rightarrow> 'w \<Rightarrow> reply \<times> 'w" where
  "handleSetBootOptions reqData m w =
     (if length reqData < 1 then ((CompletionCodeInvalidField, []), w)
      else
        let paramSelector = reqData ! 0 AND 0x7F
        in if paramSelector = 5 then
             (if length reqData < 6 then ((CompletionCodeInvalidField, []), w)
              else
                let bootFlags = drop 1 reqData;
                    enabled = (if bootFlags ! 0 AND 0x80 \<noteq> 0 then ''Once'' else ''Disabled'');
                    deviceBits = drop_bit 2 (bootFlags ! 1) AND 0x0F;
                    mode = (if bootFlags ! 0 AND 0x20 \<noteq> 0 then ''UEFI'' else ''Legacy'');
                    override = \<lparr>bo_Enabled = enabled, bo_Target = target_of_bits deviceBits,
                      bo_Mode = mode\<rparr>
                in case mi_SetBootOverride m override w of
                     (Some _, w') \<Rightarrow> ((CompletionCodeInvalidField, []), w')
                   | (None, w') \<Rightarrow> ((CompletionCodeOK, []), w'))
           else ((CompletionCodeOK, []), w))"

definition bits_of_target :: "string \<Rightarrow> byte" where
  "bits_of_target target =
     (if target = ''Pxe'' then 0x01
      else if target = ''Hdd'' then 0x02
      else if target = ''Cd'' then 0x05
      else if target = ''BiosSetup'' then 0x06
      else 0x00)"

definition handleGetBootOptions :: "byte list \<Rightarrow> 'w MachineInterface \<Rightarrow> 'w \<Rightarrow> reply" where
  "handleGetBootOptions reqData m w =
     (if length reqData < 1 then (CompletionCodeInvalidField, [])
      else
        let paramSelector = reqData ! 0 AND 0x7F
        in if paramSelector = 0 then (CompletionCodeOK, [0x01, 0x80 OR 0x00, 0x00])
           else if paramSelector = 5 then
             (let boot = mi_GetBootOverride m w;
                  d2 = set_bit_if (bo_Mode boot = ''UEFI'') 0x20
                    (if bo_Enabled boot \<noteq> ''Disabled'' then 0x80 else 0x00);
                  deviceBits = bits_of_target (bo_Target boot)
              in (CompletionCodeOK,
                  [0x01, 0x80 OR 0x05, d2, push_bit 2 deviceBits, 0x00, 0x00, 0x00]))
           else (CompletionCodeOK, [0x01, paramSelector, 0x00]))"

definition handleChassisCommand ::
    "IPMIMessage \<Rightarrow> 'w MachineInterface \<Rightarrow> 'w \<Rightarrow> reply \<times> 'w" where
  "handleChassisCommand msg m w =
     (if Command msg = CmdGetChassisStatus then handleGetChassisStatus m w
      else if Command msg = CmdChassisControl then handleChassisControl (Data msg) m w
      else if Command msg = CmdChassisIdentify then (handleChassisIdentify, w)
      else if Command msg = CmdSetBootOptions then handleSetBootOptions (Data msg) m w
      else if Command msg = CmdGetBootOptions then (handleGetBootOptions (Data msg) m w, w)
      else ((CompletionCodeInvalidCommand, []), w))"

section \<open>Boot flags\<close>

text \<open>The device code a client reads back: unknown codes have become None.\<close>

definition known_device :: "byte \<Rightarrow> byte" where
  "known_device b = (if b \<in> {0x01, 0x02, 0x05, 0x06} then b else 0x00)"

lemma bits_of_target_of_bits: "bits_of_target (target_of_bits b) = known_device b"
  by (simp add: bits_of_target_def target_of_bits_def known_device_def)

lemma target_of_bits_valid: "target_of_bits b \<in> validTargets"
  by (simp add: target_of_bits_def validTargets_def)

text \<open>A client of the boot override contract: the IPMI boot flags over any machine that keeps it.\<close>

locale boot_flags_client = boot_override_store get set_override
  for get :: "'w \<Rightarrow> BootOverride"
    and set_override :: "BootOverride \<Rightarrow> 'w \<Rightarrow> mach_error option \<times> 'w" +
  fixes m :: "'w MachineInterface"
  assumes set_op: "mi_SetBootOverride m = set_override"
    and get_op: "mi_GetBootOverride m = get"
begin

lemma set_boot_flags:
  assumes "sel AND 0x7F = 5"
  shows "fst (handleSetBootOptions (sel # f # dev # a # b # c # rest) m w) = (CompletionCodeOK, [])"
    and "get (snd (handleSetBootOptions (sel # f # dev # a # b # c # rest) m w)) =
      \<lparr>bo_Enabled = (if f AND 0x80 \<noteq> 0 then ''Once'' else ''Disabled''),
       bo_Target = target_of_bits (drop_bit 2 dev AND 0x0F),
       bo_Mode = (if f AND 0x20 \<noteq> 0 then ''UEFI'' else ''Legacy'')\<rparr>"
proof -
  let ?bo = "\<lparr>bo_Enabled = (if f AND 0x80 \<noteq> 0 then ''Once'' else ''Disabled''),
       bo_Target = target_of_bits (drop_bit 2 dev AND 0x0F),
       bo_Mode = (if f AND 0x20 \<noteq> 0 then ''UEFI'' else ''Legacy'')\<rparr>"
  have valid: "valid_override ?bo"
    by (simp add: valid_override_def target_of_bits_valid validEnabled_def)
  have eq: "handleSetBootOptions (sel # f # dev # a # b # c # rest) m w =
      (case set_override ?bo w of
         (Some _, w') \<Rightarrow> ((CompletionCodeInvalidField, []), w')
       | (None, w') \<Rightarrow> ((CompletionCodeOK, []), w'))"
    unfolding handleSetBootOptions_def Let_def set_op using assms by simp
  from set_valid [OF valid] show "fst (handleSetBootOptions (sel # f # dev # a # b # c # rest) m w)
      = (CompletionCodeOK, [])"
    unfolding eq by (simp add: case_prod_beta)
  from set_valid [OF valid] get_set [OF valid]
  show "get (snd (handleSetBootOptions (sel # f # dev # a # b # c # rest) m w)) = ?bo"
    unfolding eq by (simp add: case_prod_beta)
qed

lemma boot_flags_read_back:
  assumes "sel AND 0x7F = 5" and "sel' AND 0x7F = 5"
  shows "handleGetBootOptions (sel' # rest') m
      (snd (handleSetBootOptions (sel # f # dev # a # b # c # rest) m w)) =
    (CompletionCodeOK,
     [0x01, 0x85, f AND 0xA0, push_bit 2 (known_device (drop_bit 2 dev AND 0x0F)), 0, 0, 0])"
proof -
  have flags: "set_bit_if (f AND 0x20 \<noteq> 0) 0x20 (if f AND 0x80 \<noteq> 0 then 0x80 else 0x00)
      = f AND 0xA0"
    unfolding byte_bits_eq by (simp add: set_bit_if_def and_flag bit_simps)
  show ?thesis
    unfolding handleGetBootOptions_def Let_def get_op set_boot_flags(2) [OF assms(1)]
    using assms(2) by (simp add: bits_of_target_of_bits flags [symmetric])
qed

end

end
