(* ===== verification/Ipmi_Command.thy ===== *)
theory Ipmi_Command
  imports Ipmi_User Ipmi_Config Ipmi_Chassis
begin

text \<open>
  The application commands of src/internal/ipmi/handler_app.go and the dispatcher
  \<open>handleIPMICommand\<close> of rmcp_plus.go, the one entry point IPMI over LAN (pre-session,
  session and IPMI 1.5) and the in-band VM server share. The world a command acts on holds the
  machine, the BMC store, the random generator and the three package variables of IPMI 1.5.
\<close>

section \<open>The world of a command\<close>

record ('w, 'r) bmc_world =
  bw_machine :: 'w
  bw_state :: State
  bw_rng :: 'r
  ipmi15TempSessionID :: u32
  ipmi15Challenge :: "byte list"
  ipmi15ActiveSessionID :: u32

section \<open>Application commands\<close>

definition handleGetDeviceID :: reply where
  "handleGetDeviceID =
     (CompletionCodeOK,
      [0x20, 0x01, 0x02, 0x00, 0x02, 0xBF, 0x00, 0x00, 0x00, 0x00, 0x00, 0x00, 0x00, 0x00, 0x00])"

definition handleGetChannelAuthCapabilities :: "byte list \<Rightarrow> reply" where
  "handleGetChannelAuthCapabilities reqData =
     (CompletionCodeOK, [0x01, 0x97, 0x06, 0x02, 0x00, 0x00, 0x00, 0x00])"

text \<open>
  When a read of the generator fails the command stops there; the temporary session id stored by
  the first read stays. What a failed read left in the challenge is not modelled (nothing reads
  it): it stays as it was.
\<close>

definition handleGetSessionChallenge ::
    "'r random \<Rightarrow> byte list \<Rightarrow> ('w, 'r) bmc_world \<Rightarrow> reply \<times> ('w, 'r) bmc_world" where
  "handleGetSessionChallenge rnd reqData bw =
     (case rand_Read rnd 4 (bw_rng bw) of
        (None, r) \<Rightarrow> ((CompletionCodeUnspecified, []), bw\<lparr>bw_rng := r\<rparr>)
      | (Some b, r) \<Rightarrow>
          let bw1 = bw\<lparr>bw_rng := r, ipmi15TempSessionID := get_u32_le b\<rparr>
          in case rand_Read rnd 16 (bw_rng bw1) of
               (None, r) \<Rightarrow> ((CompletionCodeUnspecified, []), bw1\<lparr>bw_rng := r\<rparr>)
             | (Some ch, r) \<Rightarrow>
                 let bw2 = bw1\<lparr>bw_rng := r, ipmi15Challenge := ch\<rparr>
                 in ((CompletionCodeOK,
                      put_u32_le (ipmi15TempSessionID bw2) @ ipmi15Challenge bw2), bw2))"

definition handleActivateSession ::
    "'r random \<Rightarrow> byte list \<Rightarrow> ('w, 'r) bmc_world \<Rightarrow> reply \<times> ('w, 'r) bmc_world" where
  "handleActivateSession rnd reqData bw =
     (if length reqData < 22 then ((CompletionCodeInvalidField, []), bw)
      else
        let authType = reqData ! 0;
            maxPriv = reqData ! 1
        in case rand_Read rnd 4 (bw_rng bw) of
             (None, r) \<Rightarrow> ((CompletionCodeUnspecified, []), bw\<lparr>bw_rng := r\<rparr>)
           | (Some b, r) \<Rightarrow>
               let sid = get_u32_le b;
                   sid = (if sid = 0 then 1 else sid)
               in ((CompletionCodeOK,
                    [authType] @ put_u32_le sid @ put_u32_le 1 @ [maxPriv]),
                   bw\<lparr>bw_rng := r, ipmi15ActiveSessionID := sid\<rparr>))"

definition handleSetSessionPrivilege :: "byte list \<Rightarrow> reply" where
  "handleSetSessionPrivilege reqData =
     (if length reqData < 1 then (CompletionCodeInvalidField, [])
      else (CompletionCodeOK, [reqData ! 0]))"

section \<open>Dispatch\<close>

text \<open>Runs a handler over the store part of the world.\<close>

definition on_state ::
    "(State \<Rightarrow> reply \<times> State) \<Rightarrow> ('w, 'r) bmc_world \<Rightarrow> reply \<times> ('w, 'r) bmc_world" where
  "on_state h bw = (case h (bw_state bw) of (rep, st) \<Rightarrow> (rep, bw\<lparr>bw_state := st\<rparr>))"

definition handleAppCommand ::
    "'r random \<Rightarrow> IPMIMessage \<Rightarrow> ('w, 'r) bmc_world \<Rightarrow> reply \<times> ('w, 'r) bmc_world" where
  "handleAppCommand rnd msg bw =
     (let c = Command msg; d = Data msg; st = bw_state bw
      in if c = CmdGetDeviceID then (handleGetDeviceID, bw)
         else if c = CmdGetChannelAuthCapabilities then (handleGetChannelAuthCapabilities d, bw)
         else if c = CmdGetSessionChallenge then handleGetSessionChallenge rnd d bw
         else if c = CmdActivateSession then handleActivateSession rnd d bw
         else if c = CmdSetSessionPrivilege then (handleSetSessionPrivilege d, bw)
         else if c = CmdCloseSession then ((CompletionCodeOK, []), bw)
         else if c = CmdGetUserAccess then (handleGetUserAccess d st, bw)
         else if c = CmdGetUserName then (handleGetUserName d st, bw)
         else if c = CmdSetUserName then on_state (handleSetUserName d) bw
         else if c = CmdSetUserPassword then on_state (handleSetUserPassword d) bw
         else if c = CmdSetUserAccess then on_state (handleSetUserAccess d) bw
         else if c = CmdGetChannelAccess then (handleGetChannelAccess d st, bw)
         else if c = CmdSetChannelAccess then on_state (handleSetChannelAccess d) bw
         else if c = CmdGetChannelInfo then (handleGetChannelInfo d st, bw)
         else ((CompletionCodeInvalidCommand, []), bw))"

definition handleIPMICommand ::
    "'w MachineInterface \<Rightarrow> 'r random \<Rightarrow> IPMIMessage \<Rightarrow> ('w, 'r) bmc_world
      \<Rightarrow> reply \<times> ('w, 'r) bmc_world" where
  "handleIPMICommand m rnd msg bw =
     (let netFn = GetNetFn msg
      in if netFn = NetFnApp then handleAppCommand rnd msg bw
         else if netFn = NetFnChassis then
           (case handleChassisCommand msg m (bw_machine bw) of
              (rep, w) \<Rightarrow> (rep, bw\<lparr>bw_machine := w\<rparr>))
         else if netFn = NetFnTransport then on_state (handleTransportCommand msg) bw
         else ((CompletionCodeInvalidCommand, []), bw))"

section \<open>What a command can change\<close>

lemma on_state_machine [simp]: "bw_machine (snd (on_state h bw)) = bw_machine bw"
  by (simp add: on_state_def case_prod_beta)

lemma on_state_state [simp]: "bw_state (snd (on_state h bw)) = snd (h (bw_state bw))"
  by (simp add: on_state_def case_prod_beta)

lemma challenge_frame [simp]:
  "bw_state (snd (handleGetSessionChallenge rnd d bw)) = bw_state bw"
  "bw_machine (snd (handleGetSessionChallenge rnd d bw)) = bw_machine bw"
  by (simp_all add: handleGetSessionChallenge_def Let_def split: prod.split option.split)

lemma activate_frame [simp]:
  "bw_state (snd (handleActivateSession rnd d bw)) = bw_state bw"
  "bw_machine (snd (handleActivateSession rnd d bw)) = bw_machine bw"
  by (simp_all add: handleActivateSession_def Let_def split: prod.split option.split)

lemma handleAppCommand_machine [simp]:
  "bw_machine (snd (handleAppCommand rnd msg bw)) = bw_machine bw"
  by (simp add: handleAppCommand_def Let_def)

lemma handleAppCommand_wf:
  assumes "wf_State (bw_state bw)"
  shows "wf_State (bw_state (snd (handleAppCommand rnd msg bw)))"
  by (simp add: handleAppCommand_def Let_def assms user_handlers_wf [OF assms]
      config_handlers_wf [OF assms])

lemma handleIPMICommand_wf:
  assumes "wf_State (bw_state bw)"
  shows "wf_State (bw_state (snd (handleIPMICommand m rnd msg bw)))"
  using handleAppCommand_wf [OF assms] config_handlers_wf [OF assms] assms
  by (simp add: handleIPMICommand_def Let_def case_prod_beta)

text \<open>A refused store command changes nothing.\<close>

lemma user_handlers_refused:
  "fst (fst (handleSetUserName d st)) \<noteq> CompletionCodeOK \<Longrightarrow> snd (handleSetUserName d st) = st"
  "fst (fst (handleSetUserPassword d st)) \<noteq> CompletionCodeOK \<Longrightarrow>
    snd (handleSetUserPassword d st) = st"
  "fst (fst (handleSetUserAccess d st)) \<noteq> CompletionCodeOK \<Longrightarrow>
    snd (handleSetUserAccess d st) = st"
  by (simp_all add: handleSetUserName_def handleSetUserPassword_def set_enabled_def
      handleSetUserAccess_def SetUserName_def SetUserPassword_def SetUserAccess_def
      GetUserAccess_def Let_def del: validateUserID_None split: if_splits option.splits)

lemma config_handlers_refused:
  "fst (fst (handleSetChannelAccess d st)) \<noteq> CompletionCodeOK \<Longrightarrow>
    snd (handleSetChannelAccess d st) = st"
  "fst (fst (handleTransportCommand msg st)) \<noteq> CompletionCodeOK \<Longrightarrow>
    snd (handleTransportCommand msg st) = st"
  by (simp_all add: handleSetChannelAccess_def handleTransportCommand_def
      handleSetLANConfigParams_def Let_def split: if_splits)

lemma handleAppCommand_refused:
  "fst (fst (handleAppCommand rnd msg bw)) \<noteq> CompletionCodeOK \<Longrightarrow>
    bw_state (snd (handleAppCommand rnd msg bw)) = bw_state bw"
  by (auto simp: handleAppCommand_def Let_def on_state_def case_prod_beta user_handlers_refused
      config_handlers_refused split: if_splits)

lemma handleAppCommand_users:
  "Command msg \<noteq> CmdSetUserName \<Longrightarrow> Command msg \<noteq> CmdSetUserPassword \<Longrightarrow>
    Command msg \<noteq> CmdSetUserAccess \<Longrightarrow>
    users (bw_state (snd (handleAppCommand rnd msg bw))) = users (bw_state bw)"
  by (simp add: handleAppCommand_def Let_def)

lemma handleChassisCommand_frame:
  "Command msg \<noteq> CmdGetChassisStatus \<Longrightarrow> Command msg \<noteq> CmdChassisControl \<Longrightarrow>
    Command msg \<noteq> CmdSetBootOptions \<Longrightarrow> snd (handleChassisCommand msg m w) = w"
  by (simp add: handleChassisCommand_def)

section \<open>Properties\<close>

text \<open>
  C14: What an IPMI command can change, for every machine and every message: a command that is
  refused leaves the BMC store as it is; only the three user-setting commands change a user slot,
  and then they report success; and only chassis status, chassis control and Set Boot Options
  reach the machine.
\<close>

theorem command_frame:
  "(fst (fst (handleIPMICommand m rnd msg bw)) \<noteq> CompletionCodeOK \<longrightarrow>
      bw_state (snd (handleIPMICommand m rnd msg bw)) = bw_state bw)
   \<and> (users (bw_state (snd (handleIPMICommand m rnd msg bw))) \<noteq> users (bw_state bw) \<longrightarrow>
      GetNetFn msg = NetFnApp
      \<and> Command msg \<in> {CmdSetUserName, CmdSetUserPassword, CmdSetUserAccess}
      \<and> fst (fst (handleIPMICommand m rnd msg bw)) = CompletionCodeOK)
   \<and> (bw_machine (snd (handleIPMICommand m rnd msg bw)) \<noteq> bw_machine bw \<longrightarrow>
      GetNetFn msg = NetFnChassis
      \<and> Command msg \<in> {CmdGetChassisStatus, CmdChassisControl, CmdSetBootOptions})"
proof -
  have refused: "fst (fst (handleIPMICommand m rnd msg bw)) \<noteq> CompletionCodeOK \<Longrightarrow>
      bw_state (snd (handleIPMICommand m rnd msg bw)) = bw_state bw"
    by (auto simp: handleIPMICommand_def Let_def on_state_def case_prod_beta
        handleAppCommand_refused config_handlers_refused split: if_splits)
  have users_app: "users (bw_state (snd (handleIPMICommand m rnd msg bw))) \<noteq> users (bw_state bw) \<Longrightarrow>
      GetNetFn msg = NetFnApp
      \<and> Command msg \<in> {CmdSetUserName, CmdSetUserPassword, CmdSetUserAccess}"
    using handleAppCommand_users [of msg rnd bw]
    by (auto simp: handleIPMICommand_def Let_def case_prod_beta split: if_splits)
  have mach: "bw_machine (snd (handleIPMICommand m rnd msg bw)) \<noteq> bw_machine bw \<Longrightarrow>
      GetNetFn msg = NetFnChassis
      \<and> Command msg \<in> {CmdGetChassisStatus, CmdChassisControl, CmdSetBootOptions}"
    using handleChassisCommand_frame [of msg m "bw_machine bw"]
    by (auto simp: handleIPMICommand_def Let_def case_prod_beta split: if_splits)
  show ?thesis
    using refused users_app mach by metis
qed

text \<open>A machine that only counts its resets, for the witnesses.\<close>

definition counting_machine :: "nat MachineInterface" where
  "counting_machine = \<lparr>mi_GetPowerState = (\<lambda>w. (Inr PowerOn, w)),
     mi_Reset = (\<lambda>_ w. (None, w + 1)),
     mi_GetBootOverride = (\<lambda>w. \<lparr>bo_Enabled = ''Disabled'', bo_Target = ''None'',
       bo_Mode = ''UEFI''\<rparr>),
     mi_SetBootOverride = (\<lambda>_ w. (None, w))\<rparr>"

definition sample_world :: "(nat, nat) bmc_world" where
  "sample_world = \<lparr>bw_machine = 0, bw_state = NewState ''admin'' ''admin'', bw_rng = 0,
     ipmi15TempSessionID = 0, ipmi15Challenge = replicate 16 0, ipmi15ActiveSessionID = 0\<rparr>"

lemma command_frame_witness:
  "let msg = \<lparr>TargetAddress = 0x20, TargetLun = 0x00, msg_Checksum = 0, SourceAddress = 0x81,
         SourceLun = 0, Command = 0x02, Data = [0x03]\<rparr>;
       res = handleIPMICommand counting_machine (\<lambda>n r. (None, r)) msg sample_world
   in bw_machine (snd res) = 1 \<and> GetNetFn msg = NetFnChassis"
proof -
  let ?msg = "\<lparr>TargetAddress = 0x20, TargetLun = 0x00, msg_Checksum = 0, SourceAddress = 0x81,
         SourceLun = 0, Command = 0x02, Data = [0x03]\<rparr>"
  have one: "bw_machine (snd (handleIPMICommand counting_machine (\<lambda>n r. (None, r)) ?msg
      sample_world)) = 1"
    by (simp add: handleIPMICommand_def handleChassisCommand_def handleChassisControl_def
        GetNetFn_def const_defs counting_machine_def sample_world_def)
  moreover have "bw_machine sample_world = 0"
    by (simp add: sample_world_def)
  ultimately show ?thesis
    using command_frame [of counting_machine "\<lambda>n r. (None, r)" ?msg sample_world]
    by (auto simp: Let_def)
qed

end
