(* ===== verification/Rmcp_Plus.thy ===== *)
theory Rmcp_Plus
  imports Rmcp Ipmi_Command
begin

text \<open>
  RMCP+ sessions: the session table of src/internal/ipmi/session.go and the message handlers of
  src/internal/ipmi/rmcp_plus.go (Open Session, RAKP 1 and 3, session and pre-session IPMI,
  AES-CBC payloads). The Go map of session pointers is a map of session values: the UDP server
  handles one datagram at a time, and a handler that changes a session it looked up writes it
  back under the key it was found at.
\<close>

section \<open>Sessions\<close>

record Session =
  RemoteConsoleSessionID :: u32
  ManagedSystemSessionID :: u32
  RemoteConsoleRandomNumber :: "byte list"
  ManagedSystemRandomNumber :: "byte list"
  RequestedPrivilegeLevel :: byte
  ManagedSystemGUID :: "byte list"
  UserName :: "byte list"
  UserNameLength :: byte
  SessionIntegrityKey :: "byte list"
  IntegrityKey :: "byte list"
  ConfidentialityKey :: "byte list"
  Authenticated :: bool
  AuthAlgorithm :: byte
  IntegrityAlgorithm :: byte
  ConfidentialityAlgorithm :: byte
  OutboundSequenceNumber :: u32

type_synonym session_table = "u32 \<rightharpoonup> Session"

definition NewSessionManager :: session_table where
  "NewSessionManager = Map.empty"

definition generateRandomUint32 :: "'r random \<Rightarrow> 'r \<Rightarrow> u32 option \<times> 'r" where
  "generateRandomUint32 rnd r =
     (case rand_Read rnd 4 r of (b, r') \<Rightarrow> (map_option get_u32_le b, r'))"

definition new_session :: "u32 \<Rightarrow> u32 \<Rightarrow> Session" where
  "new_session remote sid = \<lparr>RemoteConsoleSessionID = remote, ManagedSystemSessionID = sid,
     RemoteConsoleRandomNumber = replicate 16 0, ManagedSystemRandomNumber = replicate 16 0,
     RequestedPrivilegeLevel = 0, ManagedSystemGUID = replicate 16 0, UserName = [],
     UserNameLength = 0, SessionIntegrityKey = [], IntegrityKey = [], ConfidentialityKey = [],
     Authenticated = False, AuthAlgorithm = 0, IntegrityAlgorithm = 0,
     ConfidentialityAlgorithm = 0, OutboundSequenceNumber = 0\<rparr>"

definition CreateSession ::
    "'r random \<Rightarrow> u32 \<Rightarrow> session_table \<times> 'r \<Rightarrow> Session option \<times> session_table \<times> 'r" where
  "CreateSession rnd remote sm =
     (case sm of (ss, r) \<Rightarrow>
      case generateRandomUint32 rnd r of
        (None, r) \<Rightarrow> (None, ss, r)
      | (Some sid, r) \<Rightarrow>
          (case rand_Read rnd 16 r of
             (None, r) \<Rightarrow> (None, ss, r)
           | (Some num, r) \<Rightarrow>
               (case rand_Read rnd 16 r of
                  (None, r) \<Rightarrow> (None, ss, r)
                | (Some guid, r) \<Rightarrow>
                    let session = (new_session remote sid)
                          \<lparr>ManagedSystemRandomNumber := num, ManagedSystemGUID := guid\<rparr>
                    in (Some session, ss(sid \<mapsto> session), r))))"

definition GetSession :: "session_table \<Rightarrow> u32 \<Rightarrow> Session option" where
  "GetSession ss sid = ss sid"

definition RemoveSession :: "session_table \<Rightarrow> u32 \<Rightarrow> session_table" where
  "RemoveSession ss sid = ss(sid := None)"

section \<open>The server\<close>

record ('w, 'r) server_env =
  env_machine :: "'w MachineInterface"
  env_rnd :: "'r random"
  env_crypto :: crypto
  env_user :: string
  env_pass :: string

record ('w, 'r) server =
  srv_bmc :: "('w, 'r) bmc_world"
  srv_sessions :: session_table

type_synonym handled = "ipmi_error + byte list"

text \<open>Writing back a session changed through the pointer \<open>GetSession\<close> returned.\<close>

definition put_session :: "u32 \<Rightarrow> Session \<Rightarrow> ('w, 'r) server \<Rightarrow> ('w, 'r) server" where
  "put_session sid s srv = srv\<lparr>srv_sessions := (srv_sessions srv)(sid \<mapsto> s)\<rparr>"

section \<open>Message headers\<close>

record RMCPPlusSessionHeader =
  hdr_AuthType :: byte
  hdr_PayloadType :: byte
  hdr_SessionID :: u32
  hdr_SessionSequence :: u32
  hdr_PayloadLength :: u16

text \<open>\<open>binary.Read\<close> of the packed little-endian struct; the code has checked the 12 bytes.\<close>

definition read_header :: "byte list \<Rightarrow> RMCPPlusSessionHeader" where
  "read_header d = \<lparr>hdr_AuthType = d ! 0, hdr_PayloadType = d ! 1,
     hdr_SessionID = get_u32_le (drop 2 d), hdr_SessionSequence = get_u32_le (drop 6 d),
     hdr_PayloadLength = get_u16_le (drop 10 d)\<rparr>"

definition wrapRMCPPlusResponse :: "byte \<Rightarrow> u32 \<Rightarrow> u32 \<Rightarrow> byte list \<Rightarrow> byte list" where
  "wrapRMCPPlusResponse payloadType sessionID sequence' payload =
     [AuthTypeRMCPPlus, payloadType] @ put_u32_le sessionID @ put_u32_le sequence'
       @ put_u16_le (word_of_nat (length payload)) @ payload"

section \<open>Open Session\<close>

definition buildOpenSessionError :: "byte \<Rightarrow> u32 \<Rightarrow> byte \<Rightarrow> byte list" where
  "buildOpenSessionError messageTag remote statusCode =
     wrapRMCPPlusResponse PayloadTypeOpenSessionResponse 0 0
       ([messageTag, statusCode, 0x00, 0x00] @ put_u32_le remote)"

definition open_session_response :: "byte \<Rightarrow> Session \<Rightarrow> byte list" where
  "open_session_response messageTag s =
     [messageTag, OpenSessionStatusSuccess, 0x04, 0x00]
       @ put_u32_le (RemoteConsoleSessionID s) @ put_u32_le (ManagedSystemSessionID s)
       @ [0x00, 0, 0, 0x08, AuthAlgorithm s, 0, 0, 0]
       @ [0x01, 0, 0, 0x08, IntegrityAlgorithm s, 0, 0, 0]
       @ [0x02, 0, 0, 0x08, ConfidentialityAlgorithm s, 0, 0, 0]"

definition handleOpenSession ::
    "('w, 'r) server_env \<Rightarrow> byte list \<Rightarrow> ('w, 'r) server \<Rightarrow> handled \<times> ('w, 'r) server" where
  "handleOpenSession env payload srv =
     (if length payload < 32 then (Inl OpenSessionParse, srv)
      else
        let messageTag = payload ! 0;
            remote = get_u32_le (drop 4 payload);
            authAlg = payload ! 12;
            integrityAlg = payload ! 20;
            confAlg = payload ! 28
        in if authAlg \<noteq> AuthAlgorithmHMACSHA1 then
             (Inr (buildOpenSessionError messageTag remote
                OpenSessionStatusInvalidAuthAlgorithm), srv)
           else if integrityAlg \<noteq> IntegrityAlgorithmHMACSHA1_96 then
             (Inr (buildOpenSessionError messageTag remote
                OpenSessionStatusInvalidIntegrityAlgorithm), srv)
           else if confAlg \<noteq> ConfAlgorithmAESCBC128 then
             (Inr (buildOpenSessionError messageTag remote
                OpenSessionStatusInvalidConfAlgorithm), srv)
           else
             (case CreateSession (env_rnd env) remote
                     (srv_sessions srv, bw_rng (srv_bmc srv)) of
                (None, ss, r) \<Rightarrow>
                  (Inl RandFailed,
                   srv\<lparr>srv_sessions := ss, srv_bmc := (srv_bmc srv)\<lparr>bw_rng := r\<rparr>\<rparr>)
              | (Some session, ss, r) \<Rightarrow>
                  let session = session\<lparr>AuthAlgorithm := AuthAlgorithmHMACSHA1,
                        IntegrityAlgorithm := IntegrityAlgorithmHMACSHA1_96,
                        ConfidentialityAlgorithm := ConfAlgorithmAESCBC128\<rparr>;
                      srv' = srv\<lparr>srv_sessions := ss,
                        srv_bmc := (srv_bmc srv)\<lparr>bw_rng := r\<rparr>\<rparr>
                  in (Inr (wrapRMCPPlusResponse PayloadTypeOpenSessionResponse 0 0
                        (open_session_response messageTag session)),
                      put_session (ManagedSystemSessionID session) session srv')))"

section \<open>RAKP messages\<close>

text \<open>The password RAKP message 1 finds in the BMC store: empty when there is none.\<close>

definition stored_password :: "State option \<Rightarrow> string \<Rightarrow> string" where
  "stored_password state nm =
     (case state of
        None \<Rightarrow> []
      | Some st \<Rightarrow>
          (case LookupUserByName st nm of
             None \<Rightarrow> []
           | Some userID \<Rightarrow>
               (case GetUserPassword st userID of Inl _ \<Rightarrow> [] | Inr pw \<Rightarrow> pw)))"

definition rakp2_data :: "Session \<Rightarrow> byte list" where
  "rakp2_data s = put_u32_le (RemoteConsoleSessionID s) @ put_u32_le (ManagedSystemSessionID s)
     @ RemoteConsoleRandomNumber s @ ManagedSystemRandomNumber s @ ManagedSystemGUID s
     @ [RequestedPrivilegeLevel s, UserNameLength s] @ UserName s"

definition handleRAKPMessage1 ::
    "('w, 'r) server_env \<Rightarrow> State option \<Rightarrow> byte list \<Rightarrow> ('w, 'r) server
      \<Rightarrow> handled \<times> ('w, 'r) server" where
  "handleRAKPMessage1 env state payload srv =
     (if length payload < 28 then (Inl (RAKP1TooShort (length payload)), srv)
      else
        let messageTag = payload ! 0;
            sid = get_u32_le (drop 4 payload);
            remoteRandom = slice 8 24 payload;
            privilege = payload ! 24;
            nameLength = payload ! 27
        in if length payload < 28 + unat nameLength then
             (Inl (RAKP1UserNameTooShort (28 + unat nameLength) (length payload)), srv)
           else
             let userName = slice 28 (28 + unat nameLength) payload
             in case GetSession (srv_sessions srv) sid of
                  None \<Rightarrow> (Inl (SessionNotFound sid), srv)
                | Some session \<Rightarrow>
                    let session = session\<lparr>RemoteConsoleRandomNumber := remoteRandom,
                          RequestedPrivilegeLevel := privilege, UserNameLength := nameLength,
                          UserName := userName\<rparr>;
                        srv' = put_session sid session srv;
                        authPass = stored_password state (string_of_bytes (UserName session))
                    in if authPass = [] \<and> string_of_bytes (UserName session) \<noteq> env_user env then
                         (Inr (wrapRMCPPlusResponse PayloadTypeRAKPMessage2 0 0
                            ([messageTag, 0x0D, 0, 0]
                               @ put_u32_le (RemoteConsoleSessionID session))), srv')
                       else
                         let authPass = (if authPass = [] then env_pass env else authPass);
                             authCode = hmac_sha1 (env_crypto env) (bytes_of_string authPass)
                               (rakp2_data session)
                         in (Inr (wrapRMCPPlusResponse PayloadTypeRAKPMessage2 0 0
                               ([messageTag, 0x00, 0, 0]
                                  @ put_u32_le (RemoteConsoleSessionID session)
                                  @ ManagedSystemRandomNumber session
                                  @ ManagedSystemGUID session @ take 20 authCode)), srv'))"

definition rakp3_password :: "string \<Rightarrow> State option \<Rightarrow> string \<Rightarrow> string" where
  "rakp3_password pass state nm =
     (case state of
        None \<Rightarrow> pass
      | Some st \<Rightarrow>
          (case LookupUserByName st nm of
             None \<Rightarrow> pass
           | Some userID \<Rightarrow>
               (case GetUserPassword st userID of
                  Inl _ \<Rightarrow> pass
                | Inr pw \<Rightarrow> if pw \<noteq> [] then pw else pass)))"

definition rakp3_data :: "Session \<Rightarrow> byte list" where
  "rakp3_data s = ManagedSystemRandomNumber s @ put_u32_le (RemoteConsoleSessionID s)
     @ [RequestedPrivilegeLevel s, UserNameLength s] @ UserName s"

definition sik_data :: "Session \<Rightarrow> byte list" where
  "sik_data s = RemoteConsoleRandomNumber s @ ManagedSystemRandomNumber s
     @ [RequestedPrivilegeLevel s, UserNameLength s] @ UserName s"

definition icv_data :: "Session \<Rightarrow> byte list" where
  "icv_data s = RemoteConsoleRandomNumber s @ put_u32_le (ManagedSystemSessionID s)
     @ ManagedSystemGUID s"

text \<open>The key derivation after a successful RAKP 3: SIK, K1 and K2.\<close>

definition derive_keys :: "crypto \<Rightarrow> string \<Rightarrow> Session \<Rightarrow> Session" where
  "derive_keys c authPass s =
     (let sik = hmac_sha1 c (bytes_of_string authPass) (sik_data s)
      in s\<lparr>SessionIntegrityKey := sik,
           IntegrityKey := hmac_sha1 c sik (replicate 20 0x01),
           ConfidentialityKey := hmac_sha1 c sik (replicate 20 0x02),
           Authenticated := True\<rparr>)"

definition handleRAKPMessage3 ::
    "('w, 'r) server_env \<Rightarrow> State option \<Rightarrow> byte list \<Rightarrow> ('w, 'r) server
      \<Rightarrow> handled \<times> ('w, 'r) server" where
  "handleRAKPMessage3 env state payload srv =
     (if length payload < 28 then (Inl RAKP3Parse, srv)
      else
        let messageTag = payload ! 0;
            sid = get_u32_le (drop 4 payload);
            keyExchangeAuthCode = slice 8 28 payload
        in case GetSession (srv_sessions srv) sid of
             None \<Rightarrow> (Inl (SessionNotFound sid), srv)
           | Some session \<Rightarrow>
               let authPass = rakp3_password (env_pass env) state
                     (string_of_bytes (UserName session));
                   expectedAuthCode = hmac_sha1 (env_crypto env) (bytes_of_string authPass)
                     (rakp3_data session)
               in if keyExchangeAuthCode \<noteq> expectedAuthCode then
                    (Inr (wrapRMCPPlusResponse PayloadTypeRAKPMessage4 0 0
                       ([messageTag, 0x0F, 0, 0]
                          @ put_u32_le (RemoteConsoleSessionID session))), srv)
                  else
                    let session = derive_keys (env_crypto env) authPass session;
                        icv = take 12 (hmac_sha1 (env_crypto env)
                          (SessionIntegrityKey session) (icv_data session))
                    in (Inr (wrapRMCPPlusResponse PayloadTypeRAKPMessage4 0 0
                          ([messageTag, 0x00, 0, 0]
                             @ put_u32_le (RemoteConsoleSessionID session) @ icv)),
                        put_session sid session srv))"

end
