(* ===== verification/Aes_Payload.thy ===== *)
theory Aes_Payload
  imports Ipmi_Types
begin

text \<open>
  The confidentiality payload of src/internal/ipmi/rmcp_plus.go: the IPMI 2.0 padding, and
  AES-CBC encryption and decryption with the initialisation vector in front. The block cipher is
  the parameter \<open>crypto\<close>; the chaining mode of crypto/cipher is written out. A key shorter than 16
  bytes makes \<open>key[:16]\<close> panic.
\<close>

section \<open>Padding\<close>

definition BlockSize :: nat where
  "BlockSize = 16"

definition padPayload :: "byte list \<Rightarrow> byte list" where
  "padPayload d =
     (let padSize = BlockSize - length d mod BlockSize;
          padding = map (\<lambda>i. word_of_nat (i + 1)) [0..<padSize];
          padding = padding[padSize - 1 := word_of_nat (padSize - 1)]
      in d @ padding)"

definition unpadPayload :: "byte list \<Rightarrow> ipmi_error + byte list" where
  "unpadPayload d =
     (if length d = 0 then Inl EmptyData
      else
        let padLen = unat (d ! (length d - 1))
        in if padLen \<ge> length d then Inl (InvalidPaddingLength padLen)
           else Inr (take (length d - padLen - 1) d))"

section \<open>Cipher block chaining\<close>

definition xor_bytes :: "byte list \<Rightarrow> byte list \<Rightarrow> byte list" where
  "xor_bytes xs ys = map2 (XOR) xs ys"

function cbc_encrypt :: "crypto \<Rightarrow> byte list \<Rightarrow> byte list \<Rightarrow> byte list \<Rightarrow> byte list" where
  "cbc_encrypt c key iv pt =
     (if length pt < BlockSize then []
      else
        let block = aes_encrypt c key (xor_bytes iv (take BlockSize pt))
        in block @ cbc_encrypt c key block (drop BlockSize pt))"
  by pat_completeness auto
termination
  by (relation "measure (\<lambda>(c, key, iv, pt). length pt)") (auto simp: BlockSize_def)

function cbc_decrypt :: "crypto \<Rightarrow> byte list \<Rightarrow> byte list \<Rightarrow> byte list \<Rightarrow> byte list" where
  "cbc_decrypt c key iv ct =
     (if length ct < BlockSize then []
      else
        let block = take BlockSize ct
        in xor_bytes iv (aes_decrypt c key block) @ cbc_decrypt c key block (drop BlockSize ct))"
  by pat_completeness auto
termination
  by (relation "measure (\<lambda>(c, key, iv, ct). length ct)") (auto simp: BlockSize_def)

declare cbc_encrypt.simps [simp del] cbc_decrypt.simps [simp del]

definition encryptAESCBC ::
    "crypto \<Rightarrow> 'r random \<Rightarrow> byte list \<Rightarrow> byte list \<Rightarrow> 'r \<Rightarrow> (ipmi_error + byte list) \<times> 'r" where
  "encryptAESCBC c rnd key plaintext r =
     (if length key < 16 then (Inl GoPanic, r)
      else
        let padded = padPayload plaintext
        in case rand_Read rnd BlockSize r of
             (None, r') \<Rightarrow> (Inl RandFailed, r')
           | (Some iv, r') \<Rightarrow> (Inr (iv @ cbc_encrypt c (take 16 key) iv padded), r'))"

definition decryptAESCBC :: "crypto \<Rightarrow> byte list \<Rightarrow> byte list \<Rightarrow> ipmi_error + byte list" where
  "decryptAESCBC c key d =
     (if length d < BlockSize then Inl EncryptedDataTooShort
      else if length key < 16 then Inl GoPanic
      else
        let iv = take BlockSize d;
            ciphertext = drop BlockSize d
        in if length ciphertext mod BlockSize \<noteq> 0 then Inl CiphertextNotAligned
           else unpadPayload (cbc_decrypt c (take 16 key) iv ciphertext))"

section \<open>Lemmas\<close>

lemma length_xor_bytes [simp]: "length (xor_bytes xs ys) = min (length xs) (length ys)"
  by (simp add: xor_bytes_def)

lemma xor_bytes_cancel: "length xs = length ys \<Longrightarrow> xor_bytes xs (xor_bytes xs ys) = ys"
  unfolding xor_bytes_def
  by (induction xs ys rule: list_induct2) (simp_all add: xor.assoc [symmetric])

lemma padPayload_parts:
  "\<exists>pad. padPayload d = d @ pad \<and> pad \<noteq> [] \<and> length pad \<le> 16
     \<and> (length d + length pad) mod 16 = 0 \<and> last pad = word_of_nat (length pad - 1)"
proof -
  define k where "k = BlockSize - length d mod BlockSize"
  define pad :: "byte list" where
    "pad = (map (\<lambda>i. word_of_nat (i + 1)) [0..<k])[k - 1 := word_of_nat (k - 1)]"
  have "length d mod 16 < 16" by simp
  then have k: "0 < k" "k \<le> 16" "k + length d mod 16 = 16"
    by (simp_all add: k_def BlockSize_def)
  then have "(length d + k) mod 16 = 0"
    by (metis add.commute mod_add_right_eq mod_self)
  moreover have "length pad = k"
    by (simp add: pad_def)
  moreover from this k(1) have "pad \<noteq> []" by auto
  moreover from this \<open>length pad = k\<close> k(1) have "last pad = word_of_nat (k - 1)"
    by (simp add: last_conv_nth) (simp add: pad_def)
  moreover have "padPayload d = d @ pad"
    by (simp add: padPayload_def Let_def pad_def k_def)
  ultimately show ?thesis
    using k(2) by auto
qed

lemma length_padPayload: "length (padPayload d) mod BlockSize = 0"
  using padPayload_parts [of d] by (auto simp: BlockSize_def)

lemma unpad_pad: "unpadPayload (padPayload d) = Inr d"
proof -
  obtain pad where p: "padPayload d = d @ pad" "pad \<noteq> []" "length pad \<le> 16"
      "last pad = word_of_nat (length pad - 1)"
    using padPayload_parts [of d] by blast
  then have "(d @ pad) ! (length (d @ pad) - 1) = word_of_nat (length pad - 1)"
    by (metis append_is_Nil_conv last_append last_conv_nth)
  moreover have "unat (word_of_nat (length pad - 1) :: byte) = length pad - 1"
    using p(3) by (simp only: unat_of_nat) simp
  moreover have "0 < length pad"
    using p(2) by simp
  moreover from this have "length d + length pad - (length pad - 1) - 1 = length d"
    and "\<not> length d + length pad \<le> length pad - 1"
    by linarith+
  ultimately show ?thesis
    by (simp add: unpadPayload_def Let_def p(1))
qed

lemma cbc_round_trip:
  assumes "crypto_ok c" and "length key = 16" and "length iv = 16"
    and "length pt mod 16 = 0"
  shows "cbc_decrypt c key iv (cbc_encrypt c key iv pt) = pt
    \<and> length (cbc_encrypt c key iv pt) = length pt"
  using assms(3,4)
proof (induction "length pt" arbitrary: iv pt rule: less_induct)
  case less
  show ?case
  proof (cases "length pt < 16")
    case True
    then have "pt = []" using less.prems by simp
    then show ?thesis
      by (simp add: cbc_encrypt.simps cbc_decrypt.simps BlockSize_def)
  next
    case False
    define x where "x = xor_bytes iv (take 16 pt)"
    define b where "b = aes_encrypt c key x"
    have "length x = 16"
      using False less.prems by (simp add: x_def)
    then have b: "length b = 16" "aes_decrypt c key b = x"
      using assms(1,2) by (simp_all add: crypto_ok_def b_def)
    have IH: "cbc_decrypt c key b (cbc_encrypt c key b (drop 16 pt)) = drop 16 pt
        \<and> length (cbc_encrypt c key b (drop 16 pt)) = length (drop 16 pt)"
      using False less.prems b(1) by (intro less.hyps) (auto simp: mod_if [of "length pt"])
    have enc: "cbc_encrypt c key iv pt = b @ cbc_encrypt c key b (drop 16 pt)"
      using False by (subst cbc_encrypt.simps) (simp add: BlockSize_def Let_def b_def x_def)
    have "cbc_decrypt c key iv (b @ rest) = xor_bytes iv x @ cbc_decrypt c key b rest" for rest
      using b by (subst cbc_decrypt.simps) (simp add: BlockSize_def Let_def)
    moreover have "xor_bytes iv x = take 16 pt"
      using False less.prems by (simp add: x_def xor_bytes_cancel)
    ultimately show ?thesis
      using IH False b(1) by (simp add: enc)
  qed
qed

lemma decrypt_encrypt:
  assumes "crypto_ok c" and "16 \<le> length key" and "encryptAESCBC c rnd key pt r = (Inr ct, r')"
  shows "decryptAESCBC c key ct = Inr pt"
proof -
  obtain iv where iv: "rand_Read rnd BlockSize r = (Some iv, r')"
    and ct: "ct = iv @ cbc_encrypt c (take 16 key) iv (padPayload pt)"
    using assms(2,3) by (auto simp: encryptAESCBC_def Let_def split: prod.splits option.splits)
  have "length iv = 16"
    using length_rand_Read [OF iv] by (simp add: BlockSize_def)
  then have "cbc_decrypt c (take 16 key) iv (cbc_encrypt c (take 16 key) iv (padPayload pt))
        = padPayload pt"
    and "length (cbc_encrypt c (take 16 key) iv (padPayload pt)) mod 16 = 0"
    using cbc_round_trip [OF assms(1), of "take 16 key" iv "padPayload pt"] assms(2)
      length_padPayload [of pt] by (simp_all add: BlockSize_def)
  then show ?thesis
    using assms(2) \<open>length iv = 16\<close>
    by (simp add: decryptAESCBC_def Let_def ct BlockSize_def unpad_pad)
qed

end
