(* ===== verification/Ipmi_Server.thy ===== *)
theory Ipmi_Server
  imports Rmcp_Plus Aes_Payload
begin

text \<open>
  The rest of src/internal/ipmi/rmcp_plus.go (pre-session and session IPMI messages and the
  payload dispatcher) and the UDP server of src/internal/ipmi/server.go: one datagram in, one
  response or error out, and the receive loop as a fold over the datagrams.
\<close>

section \<open>IPMI payloads\<close>

definition run_command ::
    "('w, 'r) server_env \<Rightarrow> IPMIMessage \<Rightarrow> ('w, 'r) server \<Rightarrow> reply \<times> ('w, 'r) server" where
  "run_command env msg srv =
     (case handleIPMICommand (env_machine env) (env_rnd env) msg (srv_bmc srv) of
        (rep, bw) \<Rightarrow> (rep, srv\<lparr>srv_bmc := bw\<rparr>))"

definition response_message :: "IPMIMessage \<Rightarrow> reply \<Rightarrow> byte list" where
  "response_message msg rep =
     buildIPMIResponseMessageWithSeq (GetNetFn msg OR 0x01) (Command msg) (fst rep) (snd rep)
       (SourceLun msg)"

definition handlePreSessionIPMI ::
    "('w, 'r) server_env \<Rightarrow> byte list \<Rightarrow> RMCPPlusSessionHeader \<Rightarrow> ('w, 'r) server
      \<Rightarrow> handled \<times> ('w, 'r) server" where
  "handlePreSessionIPMI env d header srv =
     (let payloadEnd = 12 + unat (hdr_PayloadLength header)
      in if payloadEnd > length d then (Inl PayloadLengthExceedsData, srv)
         else
           let ipmiData = slice 12 payloadEnd d
           in if length ipmiData < 7 then (Inl (IPMIDataTooShort (length ipmiData)), srv)
              else (case ParseIPMIMessageBytes ipmiData of
                      Inl e \<Rightarrow> (Inl e, srv)
                    | Inr msg \<Rightarrow>
                        (case run_command env msg srv of
                           (rep, srv') \<Rightarrow>
                             (Inr (wrapRMCPPlusResponse PayloadTypeIPMI 0 0
                                (response_message msg rep)), srv'))))"

text \<open>
  The pointer parameter of the Go function: it increments the session's counter and uses the new
  value.
\<close>

definition buildRMCPPlusEncryptedResponse ::
    "Session \<Rightarrow> byte \<Rightarrow> byte list \<Rightarrow> byte list \<times> Session" where
  "buildRMCPPlusEncryptedResponse s payloadType payload =
     (let s' = s\<lparr>OutboundSequenceNumber := OutboundSequenceNumber s + 1\<rparr>
      in ([AuthTypeRMCPPlus, payloadType] @ put_u32_le (RemoteConsoleSessionID s')
            @ put_u32_le (OutboundSequenceNumber s')
            @ put_u16_le (word_of_nat (length payload)) @ payload, s'))"

text \<open>The integrity trailer: pad to a multiple of four, pad length, next header, auth code.\<close>

definition add_integrity :: "crypto \<Rightarrow> Session \<Rightarrow> byte list \<Rightarrow> byte list" where
  "add_integrity c s respBuf =
     (let padNeeded = (4 - (length respBuf + 1 + 1) mod 4) mod 4;
          buf = respBuf @ replicate padNeeded 0xFF @ [word_of_nat padNeeded] @ [0x07]
      in buf @ take 12 (hmac_sha1 c (IntegrityKey s) buf))"

definition handleEncryptedIPMI ::
    "('w, 'r) server_env \<Rightarrow> byte list \<Rightarrow> RMCPPlusSessionHeader \<Rightarrow> ('w, 'r) server
      \<Rightarrow> handled \<times> ('w, 'r) server" where
  "handleEncryptedIPMI env d header srv =
     (case GetSession (srv_sessions srv) (hdr_SessionID header) of
        None \<Rightarrow> (Inl (SessionNotFound (hdr_SessionID header)), srv)
      | Some session \<Rightarrow>
          let isEncrypted = hdr_PayloadType header AND 0x80 \<noteq> 0;
              isAuthenticated = hdr_PayloadType header AND 0x40 \<noteq> 0;
              payloadEnd = 12 + unat (hdr_PayloadLength header)
          in if payloadEnd > length d then (Inl PayloadLengthExceedsData, srv)
             else
               let payload = slice 12 payloadEnd d
               in if isAuthenticated \<and> length d < payloadEnd + 14 then
                    (Inl (IntegrityTooShort (int (length d) - int payloadEnd)), srv)
                  else
                    (case (if isEncrypted
                           then decryptAESCBC (env_crypto env) (ConfidentialityKey session) payload
                           else Inr payload) of
                       Inl e \<Rightarrow> (Inl e, srv)
                     | Inr ipmiData \<Rightarrow>
                         if length ipmiData < 7 then
                           (Inl (IPMIDataTooShort (length ipmiData)), srv)
                         else
                           (case ParseIPMIMessageBytes ipmiData of
                              Inl e \<Rightarrow> (Inl e, srv)
                            | Inr msg \<Rightarrow>
                                (case run_command env msg srv of
                                   (rep, srv1) \<Rightarrow>
                                     let respMsg = response_message msg rep;
                                         bw1 = srv_bmc srv1
                                     in case (if isEncrypted
                                              then encryptAESCBC (env_crypto env) (env_rnd env)
                                                (ConfidentialityKey session) respMsg (bw_rng bw1)
                                              else (Inr respMsg, bw_rng bw1)) of
                                          (Inl e, r) \<Rightarrow>
                                            (Inl e, srv1\<lparr>srv_bmc := bw1\<lparr>bw_rng := r\<rparr>\<rparr>)
                                        | (Inr respPayload, r) \<Rightarrow>
                                            (case buildRMCPPlusEncryptedResponse session
                                                    (hdr_PayloadType header) respPayload of
                                               (respBuf, session') \<Rightarrow>
                                                 (Inr (if isAuthenticated
                                                       then add_integrity (env_crypto env)
                                                              session' respBuf
                                                       else respBuf),
                                                  put_session (hdr_SessionID header) session'
                                                    (srv1\<lparr>srv_bmc := bw1\<lparr>bw_rng := r\<rparr>\<rparr>)))))))"

section \<open>Dispatch\<close>

definition HandleRMCPPlusMessage ::
    "('w, 'r) server_env \<Rightarrow> byte list \<Rightarrow> ('w, 'r) server \<Rightarrow> handled \<times> ('w, 'r) server" where
  "HandleRMCPPlusMessage env d srv =
     (if length d < 12 then (Inl RMCPPlusTooShort, srv)
      else
        let header = read_header d;
            payload = drop 12 d;
            state = Some (bw_state (srv_bmc srv));
            payloadType = hdr_PayloadType header AND 0x3F
        in if payloadType = PayloadTypeOpenSessionRequest then handleOpenSession env payload srv
           else if payloadType = PayloadTypeRAKPMessage1 then
             handleRAKPMessage1 env state payload srv
           else if payloadType = PayloadTypeRAKPMessage3 then
             handleRAKPMessage3 env state payload srv
           else if payloadType = PayloadTypeIPMI then
             (if hdr_SessionID header = 0 then handlePreSessionIPMI env d header srv
              else handleEncryptedIPMI env d header srv)
           else (Inl (UnsupportedPayloadType payloadType), srv))"

definition handleASFPing :: "byte list \<Rightarrow> handled" where
  "handleASFPing payload =
     (if length payload < 8 then Inl ASFTooShort
      else
        let msgType = payload ! 4;
            msgTag = payload ! 5
        in if msgType \<noteq> 0x80 then Inl (UnsupportedASFType msgType)
           else Inr ([RMCPVersion1, 0x00, 0xFF, RMCPClassASF] @ put_u32_be 0x000011BE
                  @ [0x40, msgTag, 0x00, 0x10] @ put_u32_be 0x000011BE @ [0, 0, 0, 0]
                  @ [0x81, 0x00] @ [0, 0, 0, 0, 0, 0]))"

definition HandleMessage ::
    "('w, 'r) server_env \<Rightarrow> byte list \<Rightarrow> ('w, 'r) server \<Rightarrow> handled \<times> ('w, 'r) server" where
  "HandleMessage env d srv =
     (case ParseRMCPMessage d of
        Inl e \<Rightarrow> (Inl e, srv)
      | Inr (header, payload) \<Rightarrow>
          if rmcp_Class header = RMCPClassASF then (handleASFPing payload, srv)
          else if rmcp_Class header \<noteq> RMCPClassIPMI then
            (Inl (UnsupportedRMCPClass (rmcp_Class header)), srv)
          else if length payload > 0 \<and> payload ! 0 = AuthTypeRMCPPlus then
            (case HandleRMCPPlusMessage env payload srv of
               (Inl e, srv') \<Rightarrow> (Inl e, srv')
             | (Inr resp, srv') \<Rightarrow> (Inr (SerializeRMCPMessage RMCPClassIPMI resp), srv'))
          else
            (case ParseIPMI15Message payload of
               Inl e \<Rightarrow> (Inl e, srv)
             | Inr (session, None) \<Rightarrow> (Inl NoIPMIMessage, srv)
             | Inr (session, Some msg) \<Rightarrow>
                 (case run_command env msg srv of
                    (rep, srv') \<Rightarrow>
                      (Inr (SerializeRMCPMessage RMCPClassIPMI
                         (SerializeIPMIResponse (env_crypto env) session
                            (GetNetFn msg OR 0x01) (Command msg) (fst rep) (snd rep)
                            (SourceLun msg) (env_pass env))), srv'))))"

definition NewServer :: "('w, 'r) bmc_world \<Rightarrow> ('w, 'r) server" where
  "NewServer bw = \<lparr>srv_bmc = bw, srv_sessions = NewSessionManager\<rparr>"

text \<open>
  The receive loop. \<open>ReadFrom\<close> yields a datagram cut to the 1024 byte buffer or an error, which
  ends the loop; an error of HandleMessage is logged and the loop goes on; a panic ends the
  process. A failed write is only logged, so the responses are what the loop hands to WriteTo.
\<close>

datatype read_event = Datagram "byte list" | ReadError go_error

datatype serve_end = ServeError go_error | Crashed | Waiting

fun serve ::
    "('w, 'r) server_env \<Rightarrow> read_event list \<Rightarrow> ('w, 'r) server
      \<Rightarrow> byte list list \<times> serve_end \<times> ('w, 'r) server" where
  "serve env [] srv = ([], Waiting, srv)"
| "serve env (ReadError e # evs) srv = ([], ServeError e, srv)"
| "serve env (Datagram d # evs) srv =
     (case HandleMessage env (take 1024 d) srv of
        (Inl e, srv') \<Rightarrow> if e = GoPanic then ([], Crashed, srv') else serve env evs srv'
      | (Inr resp, srv') \<Rightarrow>
          (case serve env evs srv' of (out, fin) \<Rightarrow> (resp # out, fin)))"

end
