(* ===== verification/Ipmi_Safety.thy ===== *)
theory Ipmi_Safety
  imports Ipmi_Server
begin

text \<open>
  Invariants of the IPMI server over any sequence of datagrams: the shape of the session table,
  how a session becomes authenticated, and when the server panics.
\<close>

section \<open>The session table invariant\<close>

definition session_ok :: "u32 \<Rightarrow> Session \<Rightarrow> bool" where
  "session_ok sid s \<longleftrightarrow>
     ManagedSystemSessionID s = sid \<and>
     length (RemoteConsoleRandomNumber s) = 16 \<and>
     length (ManagedSystemRandomNumber s) = 16 \<and>
     length (ManagedSystemGUID s) = 16 \<and>
     length (UserName s) = unat (UserNameLength s) \<and>
     length (SessionIntegrityKey s) = (if Authenticated s then 20 else 0) \<and>
     length (IntegrityKey s) = (if Authenticated s then 20 else 0) \<and>
     length (ConfidentialityKey s) = (if Authenticated s then 20 else 0)"

definition server_inv :: "('w, 'r) server \<Rightarrow> bool" where
  "server_inv srv \<longleftrightarrow> wf_State (bw_state (srv_bmc srv)) \<and>
     (\<forall>sid s. srv_sessions srv sid = Some s \<longrightarrow> session_ok sid s)"

lemma server_invD: "server_inv srv \<Longrightarrow> srv_sessions srv sid = Some s \<Longrightarrow> session_ok sid s"
  by (simp add: server_inv_def)

lemma put_session_simps [simp]:
  "srv_sessions (put_session sid s srv) = (srv_sessions srv)(sid \<mapsto> s)"
  "srv_bmc (put_session sid s srv) = srv_bmc srv"
  by (simp_all add: put_session_def)

lemma put_session_inv:
  "server_inv srv \<Longrightarrow> session_ok sid s \<Longrightarrow> server_inv (put_session sid s srv)"
  by (simp add: server_inv_def)

lemma run_command_sessions [simp]: "srv_sessions (snd (run_command env msg srv)) = srv_sessions srv"
  by (simp add: run_command_def case_prod_beta)

lemma run_command_inv: "server_inv srv \<Longrightarrow> server_inv (snd (run_command env msg srv))"
  by (simp add: server_inv_def run_command_def case_prod_beta handleIPMICommand_wf)

lemma CreateSession_Some:
  assumes "CreateSession rnd remote (ss, r) = (Some s, ss', r')"
  shows "session_ok (ManagedSystemSessionID s) s" and "\<not> Authenticated s"
    and "ss' = ss(ManagedSystemSessionID s \<mapsto> s)" and "RemoteConsoleSessionID s = remote"
proof -
  obtain sid r1 num r2 guid r3 where
      num: "rand_Read rnd 16 r1 = (Some num, r2)" and guid: "rand_Read rnd 16 r2 = (Some guid, r3)"
    and s: "s = (new_session remote sid)
      \<lparr>ManagedSystemRandomNumber := num, ManagedSystemGUID := guid\<rparr>"
    and ss: "ss' = ss(sid \<mapsto> s)"
    using assms by (auto simp: CreateSession_def Let_def split: prod.splits option.splits)
  have "length num = 16" "length guid = 16"
    using num guid by (auto dest: length_rand_Read)
  then show "session_ok (ManagedSystemSessionID s) s" and "\<not> Authenticated s"
    and "ss' = ss(ManagedSystemSessionID s \<mapsto> s)" and "RemoteConsoleSessionID s = remote"
    by (simp_all add: s ss session_ok_def new_session_def)
qed

lemma CreateSession_None: "CreateSession rnd remote (ss, r) = (None, ss', r') \<Longrightarrow> ss' = ss"
  by (auto simp: CreateSession_def Let_def split: prod.splits option.splits)

section \<open>Every handler keeps it\<close>

lemma open_session_inv:
  assumes "server_inv srv"
  shows "server_inv (snd (handleOpenSession env payload srv))"
proof -
  obtain res ss r where cs: "CreateSession (env_rnd env) (get_u32_le (drop 4 payload))
      (srv_sessions srv, bw_rng (srv_bmc srv)) = (res, ss, r)"
    by (metis prod_cases3)
  show ?thesis
  proof (cases res)
    case None
    with cs have "ss = srv_sessions srv"
      by (simp add: CreateSession_None)
    with assms None cs show ?thesis
      by (simp add: handleOpenSession_def Let_def server_inv_def)
  next
    case (Some s)
    with CreateSession_Some [of "env_rnd env" _ "srv_sessions srv"] cs
    have "session_ok (ManagedSystemSessionID s) s" "ss = (srv_sessions srv)(ManagedSystemSessionID s \<mapsto> s)"
      by blast+
    with assms Some cs show ?thesis
      by (simp add: handleOpenSession_def Let_def server_inv_def session_ok_def)
  qed
qed

lemma rakp1_inv:
  assumes "server_inv srv"
  shows "server_inv (snd (handleRAKPMessage1 env state payload srv))"
proof -
  have "server_inv (put_session (get_u32_le (drop 4 payload))
      (s\<lparr>RemoteConsoleRandomNumber := slice 8 24 payload, RequestedPrivilegeLevel := p,
         UserNameLength := payload ! 27,
         UserName := slice 28 (28 + unat (payload ! 27)) payload\<rparr>) srv)"
    if "28 \<le> length payload" "28 + unat (payload ! 27) \<le> length payload"
      "srv_sessions srv (get_u32_le (drop 4 payload)) = Some s" for s p
    using assms that server_invD [OF assms that(3)]
    by (intro put_session_inv) (simp_all add: session_ok_def)
  then show ?thesis
    using assms by (simp add: handleRAKPMessage1_def Let_def GetSession_def not_less
        split: option.split)
qed

lemma derive_keys_ok:
  "crypto_ok c \<Longrightarrow> session_ok sid s \<Longrightarrow> session_ok sid (derive_keys c pw s)"
  by (simp add: session_ok_def derive_keys_def Let_def crypto_ok_def)

lemma rakp3_inv:
  assumes "server_inv srv" and "crypto_ok (env_crypto env)"
  shows "server_inv (snd (handleRAKPMessage3 env state payload srv))"
  using assms server_invD [OF assms(1)]
  by (auto simp: handleRAKPMessage3_def Let_def GetSession_def derive_keys_ok
      intro!: put_session_inv split: option.split)

lemma pre_session_inv:
  "server_inv srv \<Longrightarrow> server_inv (snd (handlePreSessionIPMI env d header srv))"
  by (simp add: handlePreSessionIPMI_def Let_def case_prod_beta run_command_inv split: sum.split)

lemma rng_inv [simp]: "server_inv (srv\<lparr>srv_bmc := (srv_bmc srv)\<lparr>bw_rng := r\<rparr>\<rparr>) = server_inv srv"
  by (simp add: server_inv_def)

lemma bump_ok [simp]:
  "session_ok sid (s\<lparr>OutboundSequenceNumber := n\<rparr>) = session_ok sid s"
  by (simp add: session_ok_def)

lemma encrypted_inv:
  assumes "server_inv srv"
  shows "server_inv (snd (handleEncryptedIPMI env d header srv))"
proof (cases "srv_sessions srv (hdr_SessionID header)")
  case (Some s)
  have "server_inv (put_session (hdr_SessionID header) (s\<lparr>OutboundSequenceNumber := n\<rparr>)
      (snd (run_command env msg srv)))" for n msg
    using run_command_inv [OF assms] server_invD [OF assms Some] by (intro put_session_inv) simp_all
  moreover have "server_inv (put_session (hdr_SessionID header) (s\<lparr>OutboundSequenceNumber := n\<rparr>)
      ((snd (run_command env msg srv))\<lparr>srv_bmc := (srv_bmc (snd (run_command env msg srv)))
        \<lparr>bw_rng := r\<rparr>\<rparr>))" for n msg r
    using run_command_inv [OF assms] server_invD [OF assms Some] by (intro put_session_inv) simp_all
  ultimately show ?thesis
    using assms Some run_command_inv [OF assms]
    by (simp add: handleEncryptedIPMI_def Let_def GetSession_def case_prod_beta
        buildRMCPPlusEncryptedResponse_def split: sum.split)
qed (use assms in \<open>simp add: handleEncryptedIPMI_def GetSession_def\<close>)

lemma HandleRMCPPlus_inv:
  "server_inv srv \<Longrightarrow> crypto_ok (env_crypto env) \<Longrightarrow>
    server_inv (snd (HandleRMCPPlusMessage env d srv))"
  by (simp add: HandleRMCPPlusMessage_def Let_def open_session_inv rakp1_inv rakp3_inv
      pre_session_inv encrypted_inv)

lemma HandleMessage_inv:
  "server_inv srv \<Longrightarrow> crypto_ok (env_crypto env) \<Longrightarrow> server_inv (snd (HandleMessage env d srv))"
  using HandleRMCPPlus_inv [of srv env] run_command_inv [of srv env]
  by (auto simp: HandleMessage_def case_prod_beta split: sum.split option.split)

section \<open>How a session becomes authenticated\<close>

text \<open>The three keys of an authenticated session, and steps that make no session with new ones.\<close>

definition session_keys :: "Session \<Rightarrow> (byte list \<times> byte list \<times> byte list) option" where
  "session_keys s = (if Authenticated s
     then Some (SessionIntegrityKey s, IntegrityKey s, ConfidentialityKey s) else None)"

definition no_new_keys :: "session_table \<Rightarrow> session_table \<Rightarrow> bool" where
  "no_new_keys ss ss' \<longleftrightarrow> (\<forall>sid s' k. ss' sid = Some s' \<and> session_keys s' = Some k \<longrightarrow>
     (\<exists>s. ss sid = Some s \<and> session_keys s = Some k))"

lemma no_new_keys_refl [simp]: "no_new_keys ss ss"
  by (simp add: no_new_keys_def)

lemma no_new_keys_unauth [simp]: "\<not> Authenticated s \<Longrightarrow> no_new_keys ss (ss(sid \<mapsto> s))"
  by (simp add: no_new_keys_def session_keys_def)

lemma no_new_keys_same [simp]:
  "ss sid = Some s \<Longrightarrow> session_keys s' = session_keys s \<Longrightarrow> no_new_keys ss (ss(sid \<mapsto> s'))"
  by (simp add: no_new_keys_def)

lemma session_keys_simps [simp]:
  "session_keys (s\<lparr>OutboundSequenceNumber := n\<rparr>) = session_keys s"
  "session_keys (s\<lparr>RemoteConsoleRandomNumber := rc, RequestedPrivilegeLevel := p,
     UserNameLength := l, UserName := nm\<rparr>) = session_keys s"
  by (simp_all add: session_keys_def)

lemma open_session_auth [simp]:
  "no_new_keys (srv_sessions srv) (srv_sessions (snd (handleOpenSession env payload srv)))"
proof -
  obtain res ss r where cs: "CreateSession (env_rnd env) (get_u32_le (drop 4 payload))
      (srv_sessions srv, bw_rng (srv_bmc srv)) = (res, ss, r)"
    by (metis prod_cases3)
  show ?thesis
  proof (cases res)
    case None
    with cs have "ss = srv_sessions srv"
      by (simp add: CreateSession_None)
    with None cs show ?thesis
      by (simp add: handleOpenSession_def Let_def)
  next
    case (Some s)
    with CreateSession_Some [of "env_rnd env" _ "srv_sessions srv"] cs
    have "\<not> Authenticated s" "ss = (srv_sessions srv)(ManagedSystemSessionID s \<mapsto> s)"
      by blast+
    with Some cs show ?thesis
      by (simp add: handleOpenSession_def Let_def)
  qed
qed

lemma rakp1_auth [simp]:
  "no_new_keys (srv_sessions srv) (srv_sessions (snd (handleRAKPMessage1 env state payload srv)))"
  by (simp add: handleRAKPMessage1_def Let_def GetSession_def split: option.split)

lemma pre_session_sessions [simp]:
  "srv_sessions (snd (handlePreSessionIPMI env d header srv)) = srv_sessions srv"
  by (simp add: handlePreSessionIPMI_def Let_def case_prod_beta split: sum.split)

lemma encrypted_auth [simp]:
  "no_new_keys (srv_sessions srv) (srv_sessions (snd (handleEncryptedIPMI env d header srv)))"
proof (cases "srv_sessions srv (hdr_SessionID header)")
  case (Some s)
  then show ?thesis
    by (simp add: handleEncryptedIPMI_def Let_def GetSession_def case_prod_beta
        buildRMCPPlusEncryptedResponse_def split: sum.split)
qed (simp add: handleEncryptedIPMI_def GetSession_def)

text \<open>
  The client of a RAKP message 3 has shown that it knows the password of the session's user: the
  code is the HMAC of the server's random number, the client's session id, and the privilege level
  and name it asked for.
\<close>

definition rakp3_proof :: "('w, 'r) server_env \<Rightarrow> State \<Rightarrow> Session \<Rightarrow> byte list \<Rightarrow> bool" where
  "rakp3_proof env st s payload \<longleftrightarrow> 28 \<le> length payload \<and>
     slice 8 28 payload = hmac_sha1 (env_crypto env)
       (bytes_of_string (rakp3_password (env_pass env) (Some st) (string_of_bytes (UserName s))))
       (ManagedSystemRandomNumber s @ put_u32_le (RemoteConsoleSessionID s)
          @ [RequestedPrivilegeLevel s, UserNameLength s] @ UserName s)"

lemma rakp3_auth:
  assumes "srv_sessions (snd (handleRAKPMessage3 env (Some st) payload srv)) sid = Some s'"
    and "session_keys s' = Some k" and "\<not> (\<exists>s. srv_sessions srv sid = Some s \<and> session_keys s = Some k)"
  shows "\<exists>s. srv_sessions srv sid = Some s \<and> rakp3_proof env st s payload
    \<and> sid = get_u32_le (drop 4 payload)
    \<and> s' = derive_keys (env_crypto env)
        (rakp3_password (env_pass env) (Some st) (string_of_bytes (UserName s))) s"
  using assms by (auto simp: handleRAKPMessage3_def rakp3_proof_def rakp3_data_def Let_def GetSession_def
      split: option.splits if_splits)

lemma HandleRMCPPlus_auth:
  assumes "srv_sessions (snd (HandleRMCPPlusMessage env d srv)) sid = Some s'"
    and "session_keys s' = Some k" and "\<not> (\<exists>s. srv_sessions srv sid = Some s \<and> session_keys s = Some k)"
  shows "12 \<le> length d \<and> d ! 1 AND 0x3F = PayloadTypeRAKPMessage3 \<and>
    (\<exists>s. srv_sessions srv sid = Some s \<and> rakp3_proof env (bw_state (srv_bmc srv)) s (drop 12 d)
       \<and> sid = get_u32_le (drop 16 d)
       \<and> s' = derive_keys (env_crypto env) (rakp3_password (env_pass env)
           (Some (bw_state (srv_bmc srv))) (string_of_bytes (UserName s))) s)"
proof -
  have old: "\<not> no_new_keys (srv_sessions srv) (srv_sessions (snd (HandleRMCPPlusMessage env d srv)))"
    using assms unfolding no_new_keys_def by blast
  then have "12 \<le> length d \<and> d ! 1 AND 0x3F = PayloadTypeRAKPMessage3"
    by (auto simp: HandleRMCPPlusMessage_def Let_def read_header_def split: if_splits)
  moreover from this have "HandleRMCPPlusMessage env d srv =
      handleRAKPMessage3 env (Some (bw_state (srv_bmc srv))) (drop 12 d) srv"
    by (simp add: HandleRMCPPlusMessage_def Let_def read_header_def const_defs)
  ultimately show ?thesis
    using rakp3_auth [of env "bw_state (srv_bmc srv)" "drop 12 d" srv sid s' k] assms by simp
qed

text \<open>An RMCP datagram whose payload starts with the RMCP+ authentication type.\<close>

definition plus_datagram :: "byte list \<Rightarrow> byte list \<Rightarrow> bool" where
  "plus_datagram d payload \<longleftrightarrow>
     (\<exists>h. ParseRMCPMessage d = Inr (h, payload) \<and> rmcp_Class h = RMCPClassIPMI)
     \<and> payload \<noteq> [] \<and> payload ! 0 = AuthTypeRMCPPlus"

lemma HandleMessage_plus:
  assumes "plus_datagram d payload"
  shows "snd (HandleMessage env d srv) = snd (HandleRMCPPlusMessage env payload srv)"
    and "fst (HandleMessage env d srv) = (case fst (HandleRMCPPlusMessage env payload srv) of
      Inl e \<Rightarrow> Inl e | Inr resp \<Rightarrow> Inr (SerializeRMCPMessage RMCPClassIPMI resp))"
  using assms
  by (auto simp: plus_datagram_def HandleMessage_def RMCPClassIPMI_def RMCPClassASF_def
      split: prod.split sum.split)

lemma HandleMessage_other:
  assumes "\<And>payload. \<not> plus_datagram d payload"
  shows "srv_sessions (snd (HandleMessage env d srv)) = srv_sessions srv"
  using assms
  by (auto simp: plus_datagram_def HandleMessage_def case_prod_beta split: sum.split option.split)

lemma HandleMessage_auth:
  assumes "srv_sessions (snd (HandleMessage env d srv)) sid = Some s'"
    and "session_keys s' = Some k" and "\<not> (\<exists>s. srv_sessions srv sid = Some s \<and> session_keys s = Some k)"
  shows "\<exists>p s. plus_datagram d p \<and> p ! 1 AND 0x3F = PayloadTypeRAKPMessage3
    \<and> sid = get_u32_le (drop 16 p) \<and> srv_sessions srv sid = Some s
    \<and> rakp3_proof env (bw_state (srv_bmc srv)) s (drop 12 p)
    \<and> s' = derive_keys (env_crypto env) (rakp3_password (env_pass env)
           (Some (bw_state (srv_bmc srv))) (string_of_bytes (UserName s))) s"
proof (cases "\<exists>p. plus_datagram d p")
  case True
  then obtain p where p: "plus_datagram d p" by blast
  with HandleRMCPPlus_auth [of env p srv sid s' k] assms show ?thesis
    by (auto simp: HandleMessage_plus)
next
  case False
  with HandleMessage_other [of d env srv] assms show ?thesis
    by auto
qed

section \<open>When the server panics\<close>

lemma ParseIPMI15_no_panic: "ParseIPMI15Message d \<noteq> Inl GoPanic"
  by (simp add: ParseIPMI15Message_def ParseIPMIMessageBytes_def Let_def
      split: list.split)

lemma ParseRMCP_no_panic: "ParseRMCPMessage d \<noteq> Inl GoPanic"
  by (simp add: ParseRMCPMessage_def Let_def)

lemma decrypt_panic:
  "decryptAESCBC c key d = Inl GoPanic \<longleftrightarrow> 16 \<le> length d \<and> length key < 16"
  by (auto simp: decryptAESCBC_def BlockSize_def unpadPayload_def Let_def)

text \<open>
  The packets that make the server panic: an encrypted IPMI payload of at least one cipher block
  for a session that has not been authenticated, so has no confidentiality key.
\<close>

definition crash_packet :: "session_table \<Rightarrow> byte list \<Rightarrow> bool" where
  "crash_packet ss d \<longleftrightarrow> (\<exists>p s. plus_datagram d p \<and> 12 \<le> length p
     \<and> p ! 1 AND 0x3F = PayloadTypeIPMI \<and> p ! 1 AND 0x80 \<noteq> 0
     \<and> get_u32_le (drop 2 p) \<noteq> 0 \<and> ss (get_u32_le (drop 2 p)) = Some s
     \<and> \<not> Authenticated s
     \<and> 16 \<le> unat (get_u16_le (drop 10 p))
     \<and> 12 + unat (get_u16_le (drop 10 p)) \<le> length p
     \<and> (p ! 1 AND 0x40 \<noteq> 0 \<longrightarrow> 26 + unat (get_u16_le (drop 10 p)) \<le> length p))"

lemma encrypted_panic:
  assumes "server_inv srv"
  shows "fst (handleEncryptedIPMI env d h srv) = Inl GoPanic \<longleftrightarrow>
    (\<exists>s. srv_sessions srv (hdr_SessionID h) = Some s \<and> \<not> Authenticated s
       \<and> hdr_PayloadType h AND 0x80 \<noteq> 0 \<and> 16 \<le> unat (hdr_PayloadLength h)
       \<and> 12 + unat (hdr_PayloadLength h) \<le> length d
       \<and> (hdr_PayloadType h AND 0x40 \<noteq> 0 \<longrightarrow> 26 + unat (hdr_PayloadLength h) \<le> length d))"
proof (cases "srv_sessions srv (hdr_SessionID h)")
  case (Some s)
  have key: "length (ConfidentialityKey s) < 16 \<longleftrightarrow> \<not> Authenticated s"
    using server_invD [OF assms Some] by (simp add: session_ok_def)
  have parse: "ParseIPMIMessageBytes m = Inl e \<Longrightarrow> e \<noteq> GoPanic" for m e
    by (auto simp: ParseIPMIMessageBytes_def split: if_splits)
  consider (plain) "hdr_PayloadType h AND 0x80 = 0"
    | (keyed) "hdr_PayloadType h AND 0x80 \<noteq> 0" "Authenticated s"
    | (unkeyed) "hdr_PayloadType h AND 0x80 \<noteq> 0" "\<not> Authenticated s"
    by blast
  then show ?thesis
  proof cases
    case plain
    then show ?thesis
      using Some
      by (auto simp: handleEncryptedIPMI_def Let_def GetSession_def case_prod_beta
          dest: parse split: sum.split)
  next
    case keyed
    then have "\<not> length (ConfidentialityKey s) < 16"
      using key by simp
    then have enc [simp]: "fst (encryptAESCBC c rnd (ConfidentialityKey s) m r) \<noteq> Inl GoPanic"
      for c m r and rnd :: "'b random"
      by (simp add: encryptAESCBC_def Let_def split: prod.split option.split)
    have dec: "decryptAESCBC c (ConfidentialityKey s) m = Inl e \<Longrightarrow> e \<noteq> GoPanic" for c m e
      using decrypt_panic [of c "ConfidentialityKey s" m] \<open>\<not> length _ < 16\<close> by auto
    show ?thesis
      using keyed Some
      by (auto simp: handleEncryptedIPMI_def Let_def GetSession_def case_prod_beta
          dest: parse dec split: sum.split)
  next
    case unkeyed
    then have dec: "decryptAESCBC c (ConfidentialityKey s) m =
        Inl (if length m < 16 then EncryptedDataTooShort else GoPanic)" for c m
      using key by (simp add: decryptAESCBC_def BlockSize_def)
    show ?thesis
      using unkeyed Some by (simp add: handleEncryptedIPMI_def Let_def GetSession_def dec not_less)
  qed
qed (simp add: handleEncryptedIPMI_def GetSession_def)

lemma HandleRMCPPlus_panic:
  assumes "server_inv srv"
  shows "fst (HandleRMCPPlusMessage env p srv) = Inl GoPanic \<longleftrightarrow>
    12 \<le> length p \<and> p ! 1 AND 0x3F = PayloadTypeIPMI \<and> get_u32_le (drop 2 p) \<noteq> 0
    \<and> fst (handleEncryptedIPMI env p (read_header p) srv) = Inl GoPanic"
proof -
  have parse: "ParseIPMIMessageBytes m = Inl e \<Longrightarrow> e \<noteq> GoPanic" for m e
    by (auto simp: ParseIPMIMessageBytes_def split: if_splits)
  have "fst (handleOpenSession env q srv) \<noteq> Inl GoPanic" for q
    by (simp add: handleOpenSession_def Let_def split: prod.split option.split)
  moreover have "fst (handleRAKPMessage1 env st q srv) \<noteq> Inl GoPanic" for q st
    by (simp add: handleRAKPMessage1_def Let_def split: option.split)
  moreover have "fst (handleRAKPMessage3 env st q srv) \<noteq> Inl GoPanic" for q st
    by (simp add: handleRAKPMessage3_def Let_def split: option.split)
  moreover have "fst (handlePreSessionIPMI env q h srv) \<noteq> Inl GoPanic" for q h
    by (auto simp: handlePreSessionIPMI_def Let_def case_prod_beta dest: parse split: sum.split)
  ultimately show ?thesis
    by (auto simp: HandleRMCPPlusMessage_def Let_def read_header_def const_defs)
qed

lemma HandleMessage_panic:
  assumes "server_inv srv"
  shows "fst (HandleMessage env d srv) = Inl GoPanic \<longleftrightarrow> crash_packet (srv_sessions srv) d"
proof (cases "\<exists>p. plus_datagram d p")
  case True
  then obtain p where p: "plus_datagram d p" by blast
  then have only: "plus_datagram d q \<longleftrightarrow> q = p" for q
    by (auto simp: plus_datagram_def)
  have "fst (HandleMessage env d srv) = Inl GoPanic \<longleftrightarrow>
      fst (HandleRMCPPlusMessage env p srv) = Inl GoPanic"
    by (simp add: HandleMessage_plus [OF p] split: sum.split)
  then show ?thesis
    by (auto simp: HandleRMCPPlus_panic [OF assms] encrypted_panic [OF assms] crash_packet_def
        only read_header_def)
next
  case False
  moreover from False have "fst (HandleMessage env d srv) \<noteq> Inl GoPanic"
    using ParseRMCP_no_panic [of d] ParseIPMI15_no_panic
    by (auto simp: HandleMessage_def plus_datagram_def case_prod_beta handleASFPing_def Let_def
        split: sum.split option.split)
  ultimately show ?thesis
    by (simp add: crash_packet_def)
qed

section \<open>Runs\<close>

text \<open>The states the server passes through, whatever datagrams arrive.\<close>

inductive reaches :: "('w, 'r) server_env \<Rightarrow> ('w, 'r) server \<Rightarrow> ('w, 'r) server \<Rightarrow> bool"
  for env :: "('w, 'r) server_env" where
  start: "reaches env srv srv"
| datagram: "reaches env srv srv' \<Longrightarrow> reaches env srv (snd (HandleMessage env d srv'))"

lemma NewServer_inv: "wf_State (bw_state bw) \<Longrightarrow> server_inv (NewServer bw)"
  by (simp add: server_inv_def NewServer_def NewSessionManager_def)

lemma reaches_inv:
  "reaches env srv srv' \<Longrightarrow> crypto_ok (env_crypto env) \<Longrightarrow> server_inv srv \<Longrightarrow> server_inv srv'"
  by (induction rule: reaches.induct) (simp_all add: HandleMessage_inv)

text \<open>The state after a sequence of datagrams.\<close>

definition received :: "('w, 'r) server_env \<Rightarrow> byte list list \<Rightarrow> ('w, 'r) server \<Rightarrow> ('w, 'r) server" where
  "received env ds srv = fold (\<lambda>d srv. snd (HandleMessage env d srv)) ds srv"

lemma received_simps [simp]:
  "received env [] srv = srv"
  "received env (ds @ [d]) srv = snd (HandleMessage env d (received env ds srv))"
  by (simp_all add: received_def)

lemma reaches_received: "reaches env srv (received env ds srv)"
  by (induction ds rule: rev_induct) (auto intro: reaches.intros)

text \<open>
  The keys of an authenticated session come from a datagram of the sequence, accepted in the state
  that the datagrams before it led to.
\<close>

lemma received_auth:
  assumes "srv_sessions (received env ds srv) sid = Some s'" and "session_keys s' = Some k"
    and "srv_sessions srv = Map.empty"
  shows "\<exists>i < length ds. \<exists>p s. plus_datagram (ds ! i) p
    \<and> p ! 1 AND 0x3F = PayloadTypeRAKPMessage3 \<and> get_u32_le (drop 16 p) = sid
    \<and> srv_sessions (received env (take i ds) srv) sid = Some s
    \<and> rakp3_proof env (bw_state (srv_bmc (received env (take i ds) srv))) s (drop 12 p)
    \<and> session_keys (derive_keys (env_crypto env) (rakp3_password (env_pass env)
        (Some (bw_state (srv_bmc (received env (take i ds) srv)))) (string_of_bytes (UserName s))) s) = Some k"
  using assms(1,2)
proof (induction ds arbitrary: s' rule: rev_induct)
  case (snoc d ds)
  show ?case
  proof (cases "\<exists>s. srv_sessions (received env ds srv) sid = Some s \<and> session_keys s = Some k")
    case True
    with snoc.IH obtain i where "i < length ds" and i: "\<exists>p s. plus_datagram (ds ! i) p
      \<and> p ! 1 AND 0x3F = PayloadTypeRAKPMessage3 \<and> get_u32_le (drop 16 p) = sid
      \<and> srv_sessions (received env (take i ds) srv) sid = Some s
      \<and> rakp3_proof env (bw_state (srv_bmc (received env (take i ds) srv))) s (drop 12 p)
      \<and> session_keys (derive_keys (env_crypto env) (rakp3_password (env_pass env)
          (Some (bw_state (srv_bmc (received env (take i ds) srv)))) (string_of_bytes (UserName s))) s) = Some k"
      by blast
    then show ?thesis
      by (intro exI [of _ i]) (simp add: nth_append)
  next
    case False
    with HandleMessage_auth [of env d "received env ds srv" sid s' k] snoc.prems show ?thesis
      by (intro exI [of _ "length ds"]) (auto simp: nth_append)
  qed
qed (use assms(3) in simp)

end
