(* ===== verification/Ipmi_Handshake.thy ===== *)
theory Ipmi_Handshake
  imports Ipmi_Safety
begin

text \<open>
  The client's side of an RMCP+ session: the packets a client builds, what the server answers to
  each, and the concrete environment the witnesses run in. The lemmas evaluate
  \<open>HandleMessage\<close> on well-formed packets once, so that the properties about the handshake and
  about session traffic are short.
\<close>

section \<open>Packets\<close>

definition plus_packet :: "byte \<Rightarrow> u32 \<Rightarrow> u32 \<Rightarrow> byte list \<Rightarrow> byte list" where
  "plus_packet ptype sid sn payload =
     SerializeRMCPMessage RMCPClassIPMI (wrapRMCPPlusResponse ptype sid sn payload)"

definition open_request :: "byte \<Rightarrow> u32 \<Rightarrow> byte \<Rightarrow> byte \<Rightarrow> byte \<Rightarrow> byte list" where
  "open_request tag remote auth integ conf =
     [tag, 0x04, 0, 0] @ put_u32_le remote @ [0x00, 0, 0, 0x08, auth, 0, 0, 0]
       @ [0x01, 0, 0, 0x08, integ, 0, 0, 0] @ [0x02, 0, 0, 0x08, conf, 0, 0, 0]"

definition rakp1_request :: "byte \<Rightarrow> u32 \<Rightarrow> byte list \<Rightarrow> byte \<Rightarrow> byte list \<Rightarrow> byte list" where
  "rakp1_request tag sid rc priv nm =
     [tag, 0, 0, 0] @ put_u32_le sid @ rc @ [priv, 0, 0, word_of_nat (length nm)] @ nm"

definition rakp3_request :: "byte \<Rightarrow> u32 \<Rightarrow> byte list \<Rightarrow> byte list" where
  "rakp3_request tag sid code = [tag, 0x00, 0, 0] @ put_u32_le sid @ code"

section \<open>Evaluation of the server on packets\<close>

lemma drop_put_u32 [simp]: "drop 4 (put_u32_le w @ xs) = xs" "drop 8 (put_u32_le v @ put_u32_le w @ xs) = xs"
  by simp_all

lemma wrap_header [simp]:
  "length (wrapRMCPPlusResponse ptype sid sn payload) = 12 + length payload"
  "read_header (wrapRMCPPlusResponse ptype sid sn payload) =
     \<lparr>hdr_AuthType = AuthTypeRMCPPlus, hdr_PayloadType = ptype, hdr_SessionID = sid,
      hdr_SessionSequence = sn, hdr_PayloadLength = word_of_nat (length payload)\<rparr>"
  "drop 12 (wrapRMCPPlusResponse ptype sid sn payload) = payload"
proof -
  have "drop 10 (AuthTypeRMCPPlus # ptype # put_u32_le sid @ put_u32_le sn
      @ put_u16_le (word_of_nat (length payload)) @ payload) =
      put_u16_le (word_of_nat (length payload)) @ payload"
    by (simp add: drop_Cons')
  moreover have "drop 12 (AuthTypeRMCPPlus # ptype # put_u32_le sid @ put_u32_le sn
      @ put_u16_le (word_of_nat (length payload)) @ payload) = payload"
    by (simp add: drop_Cons')
  ultimately show "length (wrapRMCPPlusResponse ptype sid sn payload) = 12 + length payload"
    and "read_header (wrapRMCPPlusResponse ptype sid sn payload) =
     \<lparr>hdr_AuthType = AuthTypeRMCPPlus, hdr_PayloadType = ptype, hdr_SessionID = sid,
      hdr_SessionSequence = sn, hdr_PayloadLength = word_of_nat (length payload)\<rparr>"
    and "drop 12 (wrapRMCPPlusResponse ptype sid sn payload) = payload"
    by (simp_all add: wrapRMCPPlusResponse_def read_header_def drop_Cons')
qed

lemma plus_packet_datagram:
  "plus_datagram (plus_packet ptype sid sn payload) (wrapRMCPPlusResponse ptype sid sn payload)"
  by (simp add: plus_datagram_def plus_packet_def ParseRMCP_Serialize)
    (simp add: wrapRMCPPlusResponse_def)

lemmas handle_packet = HandleMessage_plus [OF plus_packet_datagram]

lemma HandleRMCPPlus_wrap:
  "HandleRMCPPlusMessage env (wrapRMCPPlusResponse ptype sid sn payload) srv =
     (let t = ptype AND 0x3F; state = Some (bw_state (srv_bmc srv));
          header = \<lparr>hdr_AuthType = AuthTypeRMCPPlus, hdr_PayloadType = ptype,
            hdr_SessionID = sid, hdr_SessionSequence = sn,
            hdr_PayloadLength = word_of_nat (length payload)\<rparr>;
          d = wrapRMCPPlusResponse ptype sid sn payload
      in if t = PayloadTypeOpenSessionRequest then handleOpenSession env payload srv
         else if t = PayloadTypeRAKPMessage1 then handleRAKPMessage1 env state payload srv
         else if t = PayloadTypeRAKPMessage3 then handleRAKPMessage3 env state payload srv
         else if t = PayloadTypeIPMI then
           (if sid = 0 then handlePreSessionIPMI env d header srv
            else handleEncryptedIPMI env d header srv)
         else (Inl (UnsupportedPayloadType t), srv))"
  by (simp add: HandleRMCPPlusMessage_def Let_def)

lemma open_request_parse:
  "length (open_request tag remote a i c) = 32" "open_request tag remote a i c ! 0 = tag"
  "get_u32_le (drop 4 (open_request tag remote a i c)) = remote"
  "open_request tag remote a i c ! 12 = a" "open_request tag remote a i c ! 20 = i"
  "open_request tag remote a i c ! 28 = c"
  by (simp_all add: open_request_def nth_append nth_Cons' drop_Cons')

lemma byte_length: "length xs < 256 \<Longrightarrow> unat (word_of_nat (length xs) :: byte) = length xs"
  by (simp only: unat_of_nat) simp

lemma rakp1_request_parse:
  assumes "length rc = 16" and "length nm < 256"
  shows "length (rakp1_request tag sid rc priv nm) = 28 + length nm"
    and "rakp1_request tag sid rc priv nm ! 0 = tag"
    and "get_u32_le (drop 4 (rakp1_request tag sid rc priv nm)) = sid"
    and "slice 8 24 (rakp1_request tag sid rc priv nm) = rc"
    and "rakp1_request tag sid rc priv nm ! 24 = priv"
    and "unat (rakp1_request tag sid rc priv nm ! 27) = length nm"
    and "rakp1_request tag sid rc priv nm ! 27 = word_of_nat (length nm)"
    and "slice 28 (28 + length nm) (rakp1_request tag sid rc priv nm) = nm"
proof -
  have "unat (word_of_nat (length nm) :: byte) = length nm"
    using assms(2) by (simp add: unat_of_nat)
  moreover show "rakp1_request tag sid rc priv nm ! 27 = word_of_nat (length nm)"
    using assms(1) by (simp add: rakp1_request_def nth_append nth_Cons')
  ultimately show "unat (rakp1_request tag sid rc priv nm ! 27) = length nm"
    by simp
qed (use assms(1) in \<open>simp_all add: rakp1_request_def nth_append nth_Cons' drop_Cons' slice_def
    take_Cons'\<close>)

lemma rakp3_request_parse:
  assumes "length code = 20"
  shows "length (rakp3_request tag sid code) = 28" and "rakp3_request tag sid code ! 0 = tag"
    and "get_u32_le (drop 4 (rakp3_request tag sid code)) = sid"
    and "slice 8 28 (rakp3_request tag sid code) = code"
  using assms by (simp_all add: rakp3_request_def drop_Cons' slice_def)

section \<open>The three steps of a session activation\<close>

definition open_packet :: "byte \<Rightarrow> u32 \<Rightarrow> byte list" where
  "open_packet tag remote = plus_packet PayloadTypeOpenSessionRequest 0 0
     (open_request tag remote AuthAlgorithmHMACSHA1 IntegrityAlgorithmHMACSHA1_96
        ConfAlgorithmAESCBC128)"

definition rakp1_packet :: "byte \<Rightarrow> u32 \<Rightarrow> byte list \<Rightarrow> byte \<Rightarrow> byte list \<Rightarrow> byte list" where
  "rakp1_packet tag sid rc priv nm =
     plus_packet PayloadTypeRAKPMessage1 0 0 (rakp1_request tag sid rc priv nm)"

definition rakp3_packet :: "byte \<Rightarrow> u32 \<Rightarrow> byte list \<Rightarrow> byte list" where
  "rakp3_packet tag sid code =
     plus_packet PayloadTypeRAKPMessage3 0 0 (rakp3_request tag sid code)"

definition suite3 :: "Session \<Rightarrow> Session" where
  "suite3 s = s\<lparr>AuthAlgorithm := AuthAlgorithmHMACSHA1,
     IntegrityAlgorithm := IntegrityAlgorithmHMACSHA1_96,
     ConfidentialityAlgorithm := ConfAlgorithmAESCBC128\<rparr>"

definition with_user :: "byte list \<Rightarrow> byte \<Rightarrow> byte list \<Rightarrow> Session \<Rightarrow> Session" where
  "with_user rc priv nm s = s\<lparr>RemoteConsoleRandomNumber := rc, RequestedPrivilegeLevel := priv,
     UserNameLength := word_of_nat (length nm), UserName := nm\<rparr>"

lemma handle_open:
  assumes "CreateSession (env_rnd env) remote (srv_sessions srv, bw_rng (srv_bmc srv))
      = (Some s, ss, r)"
  shows "snd (HandleMessage env (open_packet tag remote) srv) =
    srv\<lparr>srv_sessions := (srv_sessions srv)(ManagedSystemSessionID s \<mapsto> suite3 s),
        srv_bmc := (srv_bmc srv)\<lparr>bw_rng := r\<rparr>\<rparr>"
    and "fst (HandleMessage env (open_packet tag remote) srv) =
    Inr (plus_packet PayloadTypeOpenSessionResponse 0 0 (open_session_response tag (suite3 s)))"
  using assms CreateSession_Some(3) [OF assms]
  by (simp_all add: open_packet_def handle_packet HandleRMCPPlus_wrap handleOpenSession_def Let_def
      open_request_parse suite3_def put_session_def plus_packet_def [symmetric] PayloadTypeOpenSessionRequest_def)

lemma handle_rakp1:
  assumes "length rc = 16" and "length nm < 256" and "srv_sessions srv sid = Some s"
  shows "snd (HandleMessage env (rakp1_packet tag sid rc priv nm) srv) =
    put_session sid (with_user rc priv nm s) srv"
  using assms byte_length [OF assms(2)]
  by (simp add: rakp1_packet_def handle_packet HandleRMCPPlus_wrap handleRAKPMessage1_def
      rakp1_request_parse GetSession_def with_user_def Let_def
      PayloadTypeRAKPMessage1_def PayloadTypeOpenSessionRequest_def)

lemma handle_rakp3:
  assumes "length code = 20" and "srv_sessions srv sid = Some s"
    and "pw = rakp3_password (env_pass env) (Some (bw_state (srv_bmc srv)))
      (string_of_bytes (UserName s))"
  shows "HandleMessage env (rakp3_packet tag sid code) srv =
    (if code = hmac_sha1 (env_crypto env) (bytes_of_string pw) (rakp3_data s)
     then (Inr (plus_packet PayloadTypeRAKPMessage4 0 0
             ([tag, 0x00, 0, 0] @ put_u32_le (RemoteConsoleSessionID s)
                @ take 12 (hmac_sha1 (env_crypto env)
                    (SessionIntegrityKey (derive_keys (env_crypto env) pw s)) (icv_data s)))),
           put_session sid (derive_keys (env_crypto env) pw s) srv)
     else (Inr (plus_packet PayloadTypeRAKPMessage4 0 0
             ([tag, 0x0F, 0, 0] @ put_u32_le (RemoteConsoleSessionID s))), srv))"
proof -
  have same: "icv_data (derive_keys c q s) = icv_data s"
    "RemoteConsoleSessionID (derive_keys c q s) = RemoteConsoleSessionID s" for c q
    by (simp_all add: icv_data_def derive_keys_def Let_def)
  show ?thesis
    using assms
    by (auto intro!: prod_eqI simp: rakp3_packet_def handle_packet HandleRMCPPlus_wrap Let_def
        handleRAKPMessage3_def rakp3_request_parse GetSession_def same plus_packet_def [symmetric]
        PayloadTypeRAKPMessage1_def PayloadTypeRAKPMessage3_def PayloadTypeOpenSessionRequest_def)
qed

section \<open>A concrete environment\<close>

definition toy_crypto :: crypto where
  "toy_crypto = \<lparr>hmac_sha1 = (\<lambda>k m. replicate 20 (sum_list k + 3 * sum_list m)),
     md5 = (\<lambda>m. replicate 16 (sum_list m)),
     aes_encrypt = (\<lambda>k b. if length k = 16 then xor_bytes k b else b),
     aes_decrypt = (\<lambda>k b. if length k = 16 then xor_bytes k b else b)\<rparr>"

lemma toy_crypto_ok [simp]: "crypto_ok toy_crypto"
  by (simp add: crypto_ok_def toy_crypto_def xor_bytes_cancel)

definition toy_rnd :: "nat random" where
  "toy_rnd n r = (Some (replicate n (word_of_nat (r + 1))), r + 1)"

definition toy_env :: "(nat, nat) server_env" where
  "toy_env = \<lparr>env_machine = counting_machine, env_rnd = toy_rnd, env_crypto = toy_crypto,
     env_user = ''admin'', env_pass = ''admin''\<rparr>"

definition toy_server :: "(nat, nat) server" where
  "toy_server = NewServer sample_world"

lemma toy_simps [simp]:
  "env_rnd toy_env = toy_rnd" "env_crypto toy_env = toy_crypto" "env_pass toy_env = ''admin''"
  "srv_sessions toy_server = Map.empty" "bw_rng (srv_bmc toy_server) = 0"
  "wf_State (bw_state (srv_bmc toy_server))" "wf_State (bw_state sample_world)"
  by (simp_all add: toy_env_def toy_server_def NewServer_def NewSessionManager_def
      sample_world_def)

definition toy_session :: Session where
  "toy_session = (new_session 9 0x01010101)
     \<lparr>ManagedSystemRandomNumber := replicate 16 2, ManagedSystemGUID := replicate 16 3\<rparr>"

lemma toy_create:
  "CreateSession toy_rnd 9 (Map.empty, 0) = (Some toy_session, [0x01010101 \<mapsto> toy_session], 3)"
proof -
  have "get_u32_le [1, 1, 1, 1] = 0x01010101"
    by (simp add: get_u32_le_def)
  then show ?thesis
    by (simp add: CreateSession_def generateRandomUint32_def rand_Read_def toy_rnd_def Let_def
        toy_session_def numeral_eq_Suc)
qed

section \<open>Properties\<close>

text \<open>
  C1: Session activation is complete and sound for the password: after Open Session and RAKP
  message 1, the session is authenticated by RAKP message 3 exactly when its code is the HMAC,
  under the password the BMC has for that user name, of what the two sides exchanged; and then
  the session's integrity key and its two derived keys are the ones the client computes from the
  same exchange.
\<close>

theorem activation_iff_password:
  assumes "crypto_ok (env_crypto env)"
    and "CreateSession (env_rnd env) remote (srv_sessions srv, bw_rng (srv_bmc srv))
      = (Some s, ss, r)"
    and "length rc = 16" and "length nm < 256" and "length code = 20"
    and "pw = bytes_of_string (rakp3_password (env_pass env) (Some (bw_state (srv_bmc srv)))
      (string_of_bytes nm))"
    and "sid = ManagedSystemSessionID s"
    and "len = word_of_nat (length nm)"
    and "srv3 = snd (HandleMessage env (rakp3_packet t3 sid code)
      (snd (HandleMessage env (rakp1_packet t1 sid rc priv nm)
        (snd (HandleMessage env (open_packet t0 remote) srv)))))"
    and "sik = hmac_sha1 (env_crypto env) pw
      (rc @ ManagedSystemRandomNumber s @ [priv, len] @ nm)"
  shows "\<exists>s'. srv_sessions srv3 sid = Some s'
    \<and> Authenticated s' = (code = hmac_sha1 (env_crypto env) pw
        (ManagedSystemRandomNumber s @ put_u32_le remote @ [priv, len] @ nm))
    \<and> (Authenticated s' \<longrightarrow> SessionIntegrityKey s' = sik
        \<and> IntegrityKey s' = hmac_sha1 (env_crypto env) sik (replicate 20 0x01)
        \<and> ConfidentialityKey s' = hmac_sha1 (env_crypto env) sik (replicate 20 0x02))"
proof -
  note cs = CreateSession_Some(2,4) [OF assms(2)]
  let ?u = "with_user rc priv nm (suite3 s)"
  show ?thesis
    unfolding assms(9) assms(7)
    by (subst handle_rakp3)
      (use assms cs in \<open>auto simp: handle_open(1) [OF assms(2)] handle_rakp1 rakp3_data_def
        sik_data_def derive_keys_def Let_def with_user_def suite3_def\<close>)
qed

lemma activation_iff_password_witness:
  "\<exists>s'. srv_sessions
     (snd (HandleMessage toy_env (rakp3_packet 2 0x01010101
             (hmac_sha1 toy_crypto (bytes_of_string ''admin'')
                (replicate 16 2 @ put_u32_le 9 @ [4, 5] @ bytes_of_string ''admin'')))
       (snd (HandleMessage toy_env
             (rakp1_packet 1 0x01010101 (replicate 16 7) 4 (bytes_of_string ''admin''))
         (snd (HandleMessage toy_env (open_packet 0 9) toy_server)))))) 0x01010101 = Some s'
   \<and> Authenticated s'"
proof -
  have "rakp3_password (env_pass toy_env) (Some (bw_state (srv_bmc toy_server))) ''admin'' = ''admin''"
    by (simp add: rakp3_password_def toy_server_def NewServer_def sample_world_def
        GetUserPassword_def validateUserID_def maxUsers_def NewState_user_at LookupUserByName_def
        lookupUserByNameLocked_def upt_conv_Cons zeroUserSlot_def unat_slot_index
        split: option.split)
  moreover have "ManagedSystemSessionID toy_session = 0x01010101"
    "ManagedSystemRandomNumber toy_session = replicate 16 2"
    by (simp_all add: toy_session_def new_session_def)
  moreover have "length (hmac_sha1 toy_crypto k m) = 20" for k m
    by (simp add: toy_crypto_def)
  ultimately show ?thesis
    using activation_iff_password [of toy_env 9 toy_server toy_session
        "[0x01010101 \<mapsto> toy_session]" 3 "replicate 16 7" "bytes_of_string ''admin''"
        "hmac_sha1 toy_crypto (bytes_of_string ''admin'')
           (replicate 16 2 @ put_u32_le 9 @ [4, 5] @ bytes_of_string ''admin'')",
        OF _ _ _ _ _ refl refl refl refl refl, of 2 1 4 0]
      toy_create
    by auto
qed

section \<open>Traffic of a session\<close>

text \<open>An RMCP+ datagram with bytes after its payload (the integrity trailer).\<close>

definition session_packet :: "byte \<Rightarrow> u32 \<Rightarrow> u32 \<Rightarrow> byte list \<Rightarrow> byte list \<Rightarrow> byte list" where
  "session_packet ptype sid sn payload trailer =
     SerializeRMCPMessage RMCPClassIPMI (wrapRMCPPlusResponse ptype sid sn payload @ trailer)"

lemma wrap_append:
  "wrapRMCPPlusResponse ptype sid sn payload @ trailer =
     AuthTypeRMCPPlus # ptype # put_u32_le sid @ put_u32_le sn
       @ put_u16_le (word_of_nat (length payload)) @ payload @ trailer"
  by (simp add: wrapRMCPPlusResponse_def)

lemma session_packet_parse:
  assumes "length payload < 65536"
  shows "plus_datagram (session_packet ptype sid sn payload trailer)
      (wrapRMCPPlusResponse ptype sid sn payload @ trailer)"
    and "read_header (wrapRMCPPlusResponse ptype sid sn payload @ trailer) =
      read_header (wrapRMCPPlusResponse ptype sid sn payload)"
    and "unat (word_of_nat (length payload) :: u16) = length payload"
    and "slice 12 (12 + length payload) (wrapRMCPPlusResponse ptype sid sn payload @ trailer)
      = payload"
proof -
  show "plus_datagram (session_packet ptype sid sn payload trailer)
      (wrapRMCPPlusResponse ptype sid sn payload @ trailer)"
    by (simp add: plus_datagram_def session_packet_def ParseRMCP_Serialize)
      (simp add: wrapRMCPPlusResponse_def)
  show "read_header (wrapRMCPPlusResponse ptype sid sn payload @ trailer) =
      read_header (wrapRMCPPlusResponse ptype sid sn payload)"
    unfolding wrap_header unfolding wrap_append by (simp add: read_header_def drop_Cons')
  show "unat (word_of_nat (length payload) :: u16) = length payload"
    using assms by (simp only: unat_of_nat) simp
  show "slice 12 (12 + length payload) (wrapRMCPPlusResponse ptype sid sn payload @ trailer)
      = payload"
    unfolding wrap_append by (simp add: slice_def drop_Cons')
qed

lemma handle_session_packet:
  assumes "length payload < 65536" and "sid \<noteq> 0" and "ptype AND 0x3F = 0"
  shows "snd (HandleMessage env (session_packet ptype sid sn payload trailer) srv) =
      snd (handleEncryptedIPMI env (wrapRMCPPlusResponse ptype sid sn payload @ trailer)
        (read_header (wrapRMCPPlusResponse ptype sid sn payload)) srv)"
    and "fst (HandleMessage env (session_packet ptype sid sn payload trailer) srv) =
      (case fst (handleEncryptedIPMI env (wrapRMCPPlusResponse ptype sid sn payload @ trailer)
        (read_header (wrapRMCPPlusResponse ptype sid sn payload)) srv) of
      Inl e \<Rightarrow> Inl e | Inr resp \<Rightarrow> Inr (SerializeRMCPMessage RMCPClassIPMI resp))"
  using assms
  by (simp_all add: HandleMessage_plus [OF session_packet_parse(1) [OF assms(1)]]
      HandleRMCPPlusMessage_def Let_def session_packet_parse(2) const_defs)

lemma pad_aligns: "(k + ((4 - (k + 2) mod 4) mod 4 + 2)) mod 4 = (0::nat)"
proof -
  define r where "r = (k + 2) mod 4"
  have "r < 4"
    by (simp add: r_def)
  then consider "r = 0" | "r = 1" | "r = 2" | "r = 3"
    by linarith
  then have "(r + (4 - r) mod 4) mod 4 = 0"
    by cases simp_all
  moreover have "(k + ((4 - r) mod 4 + 2)) mod 4 = (r + (4 - r) mod 4) mod 4"
    unfolding r_def by (simp only: mod_add_left_eq) (simp add: algebra_simps)
  ultimately show ?thesis
    by (simp add: r_def)
qed

text \<open>The response body: header with the next sequence number, and payload.\<close>

definition session_body :: "byte \<Rightarrow> Session \<Rightarrow> byte list \<Rightarrow> byte list" where
  "session_body ptype s payload = fst (buildRMCPPlusEncryptedResponse s ptype payload)"

text \<open>
  C9: A command in an authenticated, encrypted session packet is executed once, on the message
  the payload decrypts to, and the response is protected: its payload decrypts, under the
  session's confidentiality key, to the response message of that command, its trailer brings it
  to a multiple of four bytes and ends in the truncated HMAC of everything before it under the
  integrity key, and the session's sequence number has moved on by one.
\<close>

theorem session_command_protected:
  assumes "crypto_ok (env_crypto env)" and "sid \<noteq> 0"
    and "srv_sessions srv sid = Some s" and "16 \<le> length (ConfidentialityKey s)"
    and "length payload < 65536" and "14 \<le> length trailer"
    and "decryptAESCBC (env_crypto env) (ConfidentialityKey s) payload = Inr m"
    and "ParseIPMIMessageBytes m = Inr msg"
    and "handleIPMICommand (env_machine env) (env_rnd env) msg (srv_bmc srv) = (rep, bw)"
    and "rand_Read (env_rnd env) 16 (bw_rng bw) = (Some iv, r)"
  shows "\<exists>ct pad. HandleMessage env (session_packet 0xC0 sid sn payload trailer) srv =
      (Inr (SerializeRMCPMessage RMCPClassIPMI (session_body 0xC0 s ct @ pad
         @ take 12 (hmac_sha1 (env_crypto env) (IntegrityKey s) (session_body 0xC0 s ct @ pad)))),
       put_session sid (s\<lparr>OutboundSequenceNumber := OutboundSequenceNumber s + 1\<rparr>)
         (srv\<lparr>srv_bmc := bw\<lparr>bw_rng := r\<rparr>\<rparr>))
    \<and> decryptAESCBC (env_crypto env) (ConfidentialityKey s) ct = Inr (response_message msg rep)
    \<and> (length (session_body 0xC0 s ct) + length pad) mod 4 = 0"
proof -
  let ?s' = "s\<lparr>OutboundSequenceNumber := OutboundSequenceNumber s + 1\<rparr>"
  obtain ct where enc: "encryptAESCBC (env_crypto env) (env_rnd env) (ConfidentialityKey s)
      (response_message msg rep) (bw_rng bw) = (Inr ct, r)"
    using assms(4,10) by (simp add: encryptAESCBC_def BlockSize_def Let_def)
  define body where "body = session_body 0xC0 s ct"
  define n where "n = (4 - (length body + 1 + 1) mod 4) mod 4"
  define pad :: "byte list" where "pad = replicate n 0xFF @ [word_of_nat n] @ [0x07]"
  have build: "buildRMCPPlusEncryptedResponse s 0xC0 ct = (body, ?s')"
    by (simp add: body_def session_body_def buildRMCPPlusEncryptedResponse_def Let_def)
  have "length pad = n + 2"
    by (simp add: pad_def)
  then have aligned: "(length body + length pad) mod 4 = 0"
    using pad_aligns [of "length body"] by (simp add: n_def)
  have add: "add_integrity (env_crypto env) ?s' body = body @ pad
      @ take 12 (hmac_sha1 (env_crypto env) (IntegrityKey s) (body @ pad))"
    by (simp add: add_integrity_def Let_def pad_def n_def)
  have len: "\<not> length m < 7"
    using assms(8) by (auto simp: ParseIPMIMessageBytes_def)
  have "handleEncryptedIPMI env (wrapRMCPPlusResponse 0xC0 sid sn payload @ trailer)
        (read_header (wrapRMCPPlusResponse 0xC0 sid sn payload)) srv =
      (Inr (add_integrity (env_crypto env) ?s' body),
       put_session sid ?s' (srv\<lparr>srv_bmc := bw\<lparr>bw_rng := r\<rparr>\<rparr>))"
    using assms len
    by (simp add: handleEncryptedIPMI_def Let_def GetSession_def session_packet_parse
        run_command_def enc build)
  then have handled: "HandleMessage env (session_packet 0xC0 sid sn payload trailer) srv =
      (Inr (SerializeRMCPMessage RMCPClassIPMI (add_integrity (env_crypto env) ?s' body)),
       put_session sid ?s' (srv\<lparr>srv_bmc := bw\<lparr>bw_rng := r\<rparr>\<rparr>))"
    using assms(2,5) by (intro prod_eqI) (simp_all add: handle_session_packet)
  show ?thesis
    using handled [unfolded add] decrypt_encrypt [OF assms(1,4) enc] aligned
    unfolding body_def by (intro exI conjI)
qed

text \<open>A session of the concrete environment that is already authenticated, and a request in it.\<close>

definition toy_auth :: Session where
  "toy_auth = derive_keys toy_crypto ''admin'' toy_session"

definition toy_auth_server :: "(nat, nat) server" where
  "toy_auth_server = toy_server\<lparr>srv_sessions := [0x01010101 \<mapsto> toy_auth]\<rparr>"

definition toy_request :: "byte list" where
  "toy_request = buildIPMIResponseMessageWithSeq NetFnApp CmdGetDeviceID 0 [] 0"

definition toy_payload :: "byte list" where
  "toy_payload = replicate 16 1 @ cbc_encrypt toy_crypto (take 16 (ConfidentialityKey toy_auth))
     (replicate 16 1) (padPayload toy_request)"

lemma toy_auth_key: "length (ConfidentialityKey toy_auth) = 20"
  by (simp add: toy_auth_def derive_keys_def Let_def toy_crypto_def)

lemma toy_payload_ok:
  "decryptAESCBC toy_crypto (ConfidentialityKey toy_auth) toy_payload = Inr toy_request"
  "length toy_payload < 65536"
proof -
  have "encryptAESCBC toy_crypto toy_rnd (ConfidentialityKey toy_auth) toy_request 0
      = (Inr toy_payload, 1)"
    by (simp add: encryptAESCBC_def toy_auth_key rand_Read_def toy_rnd_def BlockSize_def Let_def
        toy_payload_def)
  then show "decryptAESCBC toy_crypto (ConfidentialityKey toy_auth) toy_payload = Inr toy_request"
    by (rule decrypt_encrypt [rotated 2]) (simp_all add: toy_auth_key)
  have "length (padPayload toy_request) \<le> 24" "length (padPayload toy_request) mod 16 = 0"
    using padPayload_parts [of toy_request] length_padPayload [of toy_request]
    by (auto simp: toy_request_def BlockSize_def)
  then show "length toy_payload < 65536"
    using cbc_round_trip [of toy_crypto "take 16 (ConfidentialityKey toy_auth)" "replicate 16 1"
        "padPayload toy_request"]
    by (simp add: toy_payload_def toy_auth_key)
qed

lemma session_command_protected_witness:
  "\<exists>resp. fst (HandleMessage toy_env
     (session_packet 0xC0 0x01010101 1 toy_payload (replicate 14 0)) toy_auth_server) = Inr resp"
proof -
  have "rand_Read toy_rnd 16 r = (Some (replicate 16 (word_of_nat (r + 1))), r + 1)" for r
    by (simp add: rand_Read_def toy_rnd_def)
  moreover have "ParseIPMIMessageBytes toy_request = Inr \<lparr>TargetAddress = 0x81,
      TargetLun = push_bit 2 NetFnApp, msg_Checksum = - (0x81 + push_bit 2 NetFnApp),
      SourceAddress = 0x20, SourceLun = 0, Command = CmdGetDeviceID, Data = [0]\<rparr>"
    by (simp add: toy_request_def ParseIPMI_build)
  ultimately show ?thesis
    using session_command_protected [where env = toy_env and sid = "0x01010101" and
        srv = toy_auth_server and s = toy_auth and payload = toy_payload and
        trailer = "replicate 14 0" and m = toy_request and sn = 1,
        OF _ _ _ _ _ _ _ _ surjective_pairing]
      toy_payload_ok toy_auth_key
    by (fastforce simp: toy_auth_server_def)
qed

end
