(* ===== verification/Ipmi_Access.thy ===== *)
theory Ipmi_Access
  imports Ipmi_Handshake
begin

text \<open>
  Who gets a command executed over IPMI: what authentication the RMCP+ handshake demands, over
  any run of the server, what the message handlers demand before they execute a command, and when
  a datagram stops the server.
\<close>

section \<open>The concrete run of the witnesses\<close>

definition toy_code :: "byte list" where
  "toy_code = hmac_sha1 toy_crypto (bytes_of_string ''admin'')
     (replicate 16 2 @ put_u32_le 9 @ [4, 5] @ bytes_of_string ''admin'')"

definition toy_opened :: "(nat, nat) server" where
  "toy_opened = snd (HandleMessage toy_env (open_packet 0 9) toy_server)"

definition toy_named :: "(nat, nat) server" where
  "toy_named = snd (HandleMessage toy_env
     (rakp1_packet 1 0x01010101 (replicate 16 7) 4 (bytes_of_string ''admin'')) toy_opened)"

definition toy_activated :: "(nat, nat) server" where
  "toy_activated = snd (HandleMessage toy_env (rakp3_packet 2 0x01010101 toy_code) toy_named)"

lemma toy_sid [simp]: "ManagedSystemSessionID toy_session = 0x01010101"
  by (simp add: toy_session_def new_session_def)

lemma toy_opened_sessions:
  "srv_sessions toy_opened = [0x01010101 \<mapsto> suite3 toy_session]"
  "bw_state (srv_bmc toy_opened) = NewState ''admin'' ''admin''"
  unfolding toy_opened_def
  by (simp_all add: handle_open(1) [where ss = "[0x01010101 \<mapsto> toy_session]"] toy_create)
    (simp add: toy_server_def NewServer_def sample_world_def)

lemma toy_named_sessions:
  "srv_sessions toy_named = [0x01010101 \<mapsto>
     with_user (replicate 16 7) 4 (bytes_of_string ''admin'') (suite3 toy_session)]"
  "bw_state (srv_bmc toy_named) = NewState ''admin'' ''admin''"
  unfolding toy_named_def
  by (simp_all add: handle_rakp1 [where s = "suite3 toy_session"] toy_opened_sessions)

lemma admin_password:
  "rakp3_password p (Some (NewState ''admin'' ''admin'')) ''admin'' = ''admin''"
  by (simp add: rakp3_password_def GetUserPassword_def validateUserID_def maxUsers_def
      NewState_user_at LookupUserByName_def lookupUserByNameLocked_def upt_conv_Cons
      zeroUserSlot_def unat_slot_index split: option.split)

lemma toy_activated_session:
  "\<exists>s. srv_sessions toy_activated 0x01010101 = Some s \<and> Authenticated s"
proof -
  have len: "length toy_code = 20"
    by (simp add: toy_code_def toy_crypto_def)
  have code: "hmac_sha1 toy_crypto (bytes_of_string ''admin'')
      (rakp3_data (with_user (replicate 16 7) 4 (bytes_of_string ''admin'') (suite3 toy_session)))
      = toy_code"
    by (simp add: toy_code_def rakp3_data_def with_user_def suite3_def toy_session_def
        new_session_def)
  have user: "UserName (with_user rc p nm s) = nm" for rc p nm s
    by (simp add: with_user_def)
  show ?thesis
    unfolding toy_activated_def
    by (subst handle_rakp3 [where pw = "''admin''"])
      (simp_all add: toy_named_sessions admin_password len code user derive_keys_def Let_def,
       simp_all add: user admin_password code)
qed

lemma toy_reaches: "reaches toy_env toy_server toy_opened"
  unfolding toy_opened_def by (intro reaches.intros)

definition toy_datagrams :: "byte list list" where
  "toy_datagrams = [open_packet 0 9,
     rakp1_packet 1 0x01010101 (replicate 16 7) 4 (bytes_of_string ''admin''),
     rakp3_packet 2 0x01010101 toy_code]"

lemma toy_datagrams_length: "length toy_datagrams = 3"
  by (simp add: toy_datagrams_def)

lemma toy_received: "received toy_env toy_datagrams (NewServer sample_world) = toy_activated"
  by (simp add: received_def toy_datagrams_def toy_activated_def toy_named_def toy_opened_def
      toy_server_def)

section \<open>Properties\<close>

text \<open>
  C2: Sessions are authenticated by RAKP message 3 only. Whatever datagrams the server has received
  since its start, a session that is authenticated now owes it to one of them: a RAKP message 3 for
  this session which, when it arrived, carried the HMAC of the session's exchange under the password
  the BMC then had for the session's user name; and the session's integrity key and its two derived
  keys are the ones of that exchange and that password.
\<close>

theorem authenticated_only_by_rakp3:
  assumes "srv_sessions (received env ds (NewServer bw)) sid = Some s'" and "Authenticated s'"
  shows "\<exists>i < length ds. \<exists>srv p s pw sik. srv = received env (take i ds) (NewServer bw)
    \<and> plus_datagram (ds ! i) p \<and> p ! 1 AND 0x3F = PayloadTypeRAKPMessage3
    \<and> get_u32_le (drop 16 p) = sid \<and> srv_sessions srv sid = Some s
    \<and> rakp3_proof env (bw_state (srv_bmc srv)) s (drop 12 p)
    \<and> pw = bytes_of_string (rakp3_password (env_pass env) (Some (bw_state (srv_bmc srv)))
        (string_of_bytes (UserName s)))
    \<and> sik = hmac_sha1 (env_crypto env) pw (RemoteConsoleRandomNumber s
        @ ManagedSystemRandomNumber s @ [RequestedPrivilegeLevel s, UserNameLength s] @ UserName s)
    \<and> SessionIntegrityKey s' = sik
    \<and> IntegrityKey s' = hmac_sha1 (env_crypto env) sik (replicate 20 0x01)
    \<and> ConfidentialityKey s' = hmac_sha1 (env_crypto env) sik (replicate 20 0x02)"
proof -
  have "session_keys s' = Some (SessionIntegrityKey s', IntegrityKey s', ConfidentialityKey s')"
    using assms(2) by (simp add: session_keys_def)
  from received_auth [OF assms(1) this] show ?thesis
    by (fastforce simp: NewServer_def NewSessionManager_def session_keys_def derive_keys_def
        sik_data_def Let_def)
qed

lemma authenticated_only_by_rakp3_witness:
  "\<exists>i < 3. \<exists>p s. plus_datagram (toy_datagrams ! i) p \<and> p ! 1 AND 0x3F = PayloadTypeRAKPMessage3
    \<and> srv_sessions (received toy_env (take i toy_datagrams) (NewServer sample_world)) 0x01010101 = Some s
    \<and> rakp3_proof toy_env (bw_state (srv_bmc (received toy_env (take i toy_datagrams)
        (NewServer sample_world)))) s (drop 12 p)"
proof -
  obtain s where "srv_sessions (received toy_env toy_datagrams (NewServer sample_world)) 0x01010101 = Some s"
    "Authenticated s"
    using toy_activated_session toy_received by auto
  from authenticated_only_by_rakp3 [OF this] show ?thesis
    unfolding toy_datagrams_length by blast
qed

text \<open>
  C13: When the server panics. In every run, a datagram stops the server exactly when it is an
  encrypted IPMI payload of at least one block for a session that has not been authenticated: the
  session has no confidentiality key, and taking its first 16 bytes is out of range. No other
  datagram does.
\<close>

theorem panics_iff_crash_packet:
  assumes "reaches env (NewServer bw) srv" and "wf_State (bw_state bw)"
    and "crypto_ok (env_crypto env)"
  shows "fst (HandleMessage env d srv) = Inl GoPanic \<longleftrightarrow> crash_packet (srv_sessions srv) d"
  using assms by (intro HandleMessage_panic reaches_inv [OF assms(1)] NewServer_inv)

lemma panics_iff_crash_packet_witness:
  "fst (HandleMessage toy_env (plus_packet 0x80 0x01010101 0 (replicate 16 0)) toy_opened)
     = Inl GoPanic"
proof -
  have "plus_datagram (plus_packet 0x80 0x01010101 0 (replicate 16 0))
      (wrapRMCPPlusResponse 0x80 0x01010101 0 (replicate 16 0))"
    by (rule plus_packet_datagram)
  moreover have "get_u32_le (drop 2 (wrapRMCPPlusResponse 0x80 sid 0 pl)) = sid"
    "get_u16_le (drop 10 (wrapRMCPPlusResponse 0x80 sid 0 pl)) = word_of_nat (length pl)"
    "wrapRMCPPlusResponse 0x80 sid 0 pl ! 1 = 0x80" for sid pl
    using wrap_header(2) [of "0x80" sid 0 pl] by (simp_all add: read_header_def)
  moreover have "\<not> Authenticated (suite3 toy_session)"
    by (simp add: suite3_def toy_session_def new_session_def)
  ultimately have "crash_packet (srv_sessions toy_opened)
      (plus_packet 0x80 0x01010101 0 (replicate 16 0))"
    unfolding crash_packet_def
    by (intro exI [of _ "wrapRMCPPlusResponse 0x80 0x01010101 0 (replicate 16 0)"]
        exI [of _ "suite3 toy_session"])
      (simp add: toy_opened_sessions PayloadTypeIPMI_def)
  then show ?thesis
    using panics_iff_crash_packet [of toy_env sample_world toy_opened] toy_reaches
    by (simp add: toy_server_def)
qed

text \<open>
  Cipher suite negotiation: the server opens a session only for cipher suite 3. Every other
  proposal is answered with the status of the first algorithm it does not support, in the order
  authentication, integrity, confidentiality, and leaves the server as it was.
\<close>

theorem open_session_negotiation:
  "handleOpenSession env (open_request tag remote a i c) srv =
     (if a = 0x01 \<and> i = 0x01 \<and> c = 0x01
      then handleOpenSession env (open_request tag remote 0x01 0x01 0x01) srv
      else (Inr (wrapRMCPPlusResponse 0x11 0 0
              ([tag, if a \<noteq> 0x01 then 0x11 else if i \<noteq> 0x01 then 0x12 else 0x18, 0x00, 0x00]
                 @ put_u32_le remote)), srv))"
  by (simp add: handleOpenSession_def open_request_parse Let_def buildOpenSessionError_def
      const_defs)

text \<open>
  C37: The server executes an IPMI command without any authentication: in a pre-session RMCP+
  message, session id zero, every well-formed message, whatever its network function and command,
  is run on the machine and the BMC store, and its answer is returned.
\<close>

theorem pre_session_executes:
  assumes "length m < 65536" and "ParseIPMIMessageBytes m = Inr msg"
  shows "HandleMessage env (plus_packet 0x00 0 sn m) srv =
    (case handleIPMICommand (env_machine env) (env_rnd env) msg (srv_bmc srv) of
       (rep, bw) \<Rightarrow> (Inr (plus_packet 0x00 0 0 (response_message msg rep)),
                     srv\<lparr>srv_bmc := bw\<rparr>))"
proof -
  have "\<not> length m < 7"
    using assms(2) by (auto simp: ParseIPMIMessageBytes_def)
  moreover have "unat (word_of_nat (length m) :: u16) = length m"
    using assms(1) by (simp only: unat_of_nat) simp
  moreover have "slice 12 (12 + length m) (wrapRMCPPlusResponse 0 0 sn m) = m"
    by (simp add: slice_def)
  ultimately show ?thesis
    using assms(2)
    by (auto intro!: prod_eqI simp: handle_packet HandleRMCPPlus_wrap handlePreSessionIPMI_def
        Let_def run_command_def plus_packet_def [symmetric] case_prod_beta
        PayloadTypeIPMI_def PayloadTypeOpenSessionRequest_def PayloadTypeRAKPMessage1_def
        PayloadTypeRAKPMessage3_def)
qed

lemma pre_session_executes_witness:
  "bw_machine (srv_bmc (snd (HandleMessage toy_env
     (plus_packet 0x00 0 0 [0x20, 0x00, 0xE0, 0x81, 0x00, 0x02, 0x03, 0x7A]) toy_server))) = 1"
proof -
  let ?m = "[0x20, 0x00, 0xE0, 0x81, 0x00, 0x02, 0x03, 0x7A] :: byte list"
  let ?msg = "\<lparr>TargetAddress = 0x20, TargetLun = 0x00, msg_Checksum = 0xE0,
    SourceAddress = 0x81, SourceLun = 0x00, Command = 0x02, Data = [0x03]\<rparr>"
  have parse: "ParseIPMIMessageBytes ?m = Inr ?msg"
    by (simp add: ParseIPMIMessageBytes_def slice_def)
  have "bw_machine (snd (handleIPMICommand (env_machine toy_env) (env_rnd toy_env) ?msg
      (srv_bmc toy_server))) = 1"
    by (simp add: handleIPMICommand_def handleChassisCommand_def handleChassisControl_def
        GetNetFn_def const_defs counting_machine_def sample_world_def toy_env_def toy_server_def
        NewServer_def)
  then show ?thesis
    using pre_session_executes [OF _ parse, of toy_env 0 toy_server]
    by (simp add: case_prod_beta)
qed

lemma handleEncryptedIPMI_cong:
  assumes "length d = length d'"
    and "slice 12 (12 + unat (hdr_PayloadLength h)) d
      = slice 12 (12 + unat (hdr_PayloadLength h)) d'"
  shows "handleEncryptedIPMI env d h srv = handleEncryptedIPMI env d' h srv"
  unfolding handleEncryptedIPMI_def Let_def assms ..

text \<open>
  C38: The integrity code of a session packet is not verified: packets that differ only in a
  trailer of the same length are handled alike, so a packet with a forged code is executed like
  the original.
\<close>

theorem trailer_not_verified:
  assumes "length payload < 65536" and "sid \<noteq> 0" and "length trailer = length trailer'"
  shows "HandleMessage env (session_packet 0xC0 sid sn payload trailer) srv =
    HandleMessage env (session_packet 0xC0 sid sn payload trailer') srv"
proof -
  have "handleEncryptedIPMI env (wrapRMCPPlusResponse 0xC0 sid sn payload @ trailer)
        (read_header (wrapRMCPPlusResponse 0xC0 sid sn payload)) srv =
      handleEncryptedIPMI env (wrapRMCPPlusResponse 0xC0 sid sn payload @ trailer')
        (read_header (wrapRMCPPlusResponse 0xC0 sid sn payload)) srv"
    using assms(3)
    by (intro handleEncryptedIPMI_cong) (simp_all add: session_packet_parse [OF assms(1)])
  then show ?thesis
    using assms(1,2) by (intro prod_eqI) (simp_all add: handle_session_packet)
qed

lemma trailer_not_verified_witness:
  "HandleMessage toy_env (session_packet 0xC0 0x01010101 1 toy_payload (replicate 14 0xAA))
     toy_auth_server =
   HandleMessage toy_env (session_packet 0xC0 0x01010101 1 toy_payload (replicate 14 0))
     toy_auth_server"
  using trailer_not_verified [of toy_payload "0x01010101" "replicate 14 0xAA" "replicate 14 0"]
    toy_payload_ok(2) by simp

end
