(* ===== verification/Vm_Protocol.thy ===== *)
theory Vm_Protocol
  imports Rmcp
begin

text \<open>
  The OpenIPMI VM wire protocol of src/internal/ipmi/vm_protocol.go: byte stuffing, the
  checksummed request and response formats, and the control commands; and the frame reader of
  vm_server.go over the bytes a connection delivers.
\<close>

section \<open>Constants\<close>

definition VMMsgChar :: byte where [wire_defs]: "VMMsgChar = 0xA0"
definition VMCmdChar :: byte where [wire_defs]: "VMCmdChar = 0xA1"
definition VMEscapeChar :: byte where [wire_defs]: "VMEscapeChar = 0xAA"

definition VMCmdNoAttn :: byte where "VMCmdNoAttn = 0x00"
definition VMCmdCapabilities :: byte where "VMCmdCapabilities = 0x08"
definition VMCmdVersion :: byte where "VMCmdVersion = 0xFF"

record VMIPMIRequest =
  vm_Seq :: byte
  vm_NetFn :: byte
  vm_LUN :: byte
  vm_Cmd :: byte
  vm_Data :: "byte list"

section \<open>Byte stuffing\<close>

definition special :: "byte \<Rightarrow> bool" where
  "special b \<longleftrightarrow> b = VMMsgChar \<or> b = VMCmdChar \<or> b = VMEscapeChar"

fun vmEscapeBytes :: "byte list \<Rightarrow> byte list" where
  "vmEscapeBytes [] = []"
| "vmEscapeBytes (b # bs) =
     (if special b then VMEscapeChar # (b OR 0x10) # vmEscapeBytes bs
      else b # vmEscapeBytes bs)"

fun vmUnescapeBytes :: "byte list \<Rightarrow> ipmi_error + byte list" where
  "vmUnescapeBytes [] = Inr []"
| "vmUnescapeBytes (b # bs) =
     (if b = VMEscapeChar
      then (case bs of
              [] \<Rightarrow> Inl VMTrailingEscape
            | c # cs \<Rightarrow> map_sum id ((#) (c AND NOT 0x10)) (vmUnescapeBytes cs))
      else map_sum id ((#) b) (vmUnescapeBytes bs))"

section \<open>Messages\<close>

definition vmChecksum :: "byte list \<Rightarrow> byte" where
  "vmChecksum d = negate_sum (add_bytes 0 d)"

definition vmParseIPMIRequest :: "byte list \<Rightarrow> ipmi_error + VMIPMIRequest" where
  "vmParseIPMIRequest d =
     (if length d < 4 then Inl (VMRequestTooShort (length d))
      else
        let sum' = add_bytes 0 d
        in if (ucast (sum' AND 0xFF) :: byte) \<noteq> 0 then Inl VMChecksumMismatch
           else Inr \<lparr>vm_Seq = d ! 0, vm_NetFn = drop_bit 2 (d ! 1) AND 0x3F,
                  vm_LUN = d ! 1 AND 0x03, vm_Cmd = d ! 2,
                  vm_Data = (if length d > 4 then slice 3 (length d - 1) d else [])\<rparr>)"

definition vmBuildIPMIResponse ::
    "byte \<Rightarrow> byte \<Rightarrow> byte \<Rightarrow> byte \<Rightarrow> CompletionCode \<Rightarrow> byte list \<Rightarrow> byte list" where
  "vmBuildIPMIResponse sn netFn lun cmd cc d =
     (let result = [sn, push_bit 2 netFn OR (lun AND 0x03), cmd, cc] @ d
      in result @ [vmChecksum result])"

definition vmParseControlCommand :: "byte list \<Rightarrow> ipmi_error + (byte \<times> byte list)" where
  "vmParseControlCommand d =
     (if length d = 0 then Inl VMControlEmpty
      else Inr (d ! 0, if length d > 1 then drop 1 d else []))"

definition vmBuildControlCommand :: "byte \<Rightarrow> byte list \<Rightarrow> byte list" where
  "vmBuildControlCommand cmd d = [cmd] @ d"

section \<open>Lemmas\<close>

lemma special_flip: "special b \<Longrightarrow> (b OR 0x10) AND - 17 = b"
  by (auto simp: special_def wire_defs)

lemma special_escape [simp]: "special VMEscapeChar"
  by (simp add: special_def)

lemma special_or: "special b \<Longrightarrow> \<not> (b OR 0x10 = VMMsgChar) \<and> \<not> (b OR 0x10 = VMCmdChar)"
  by (auto simp: special_def wire_defs)

lemma vmUnescape_escape: "vmUnescapeBytes (vmEscapeBytes bs) = Inr bs"
  by (induction bs) (auto simp: special_flip)

lemma vmUnescape_escape_append: "vmUnescapeBytes (vmEscapeBytes bs @ cs) =
    map_sum id ((@) bs) (vmUnescapeBytes cs)"
proof (induction bs)
  case Nil
  then show ?case by (cases "vmUnescapeBytes cs") simp_all
next
  case (Cons b bs)
  then show ?case
    by (cases "vmUnescapeBytes cs") (auto simp: special_flip)
qed

lemma vmEscape_no_terminator:
  "VMMsgChar \<notin> set (vmEscapeBytes bs) \<and> VMCmdChar \<notin> set (vmEscapeBytes bs)"
proof (induction bs)
  case (Cons b bs)
  then show ?case
    using special_or [of b] by (auto simp: special_def wire_defs)
qed simp

lemma length_vmEscape: "length (vmEscapeBytes bs) = length bs + length (filter special bs)"
  by (induction bs) simp_all

lemma vm_sum_zero: "(ucast (s AND 0xFF :: u32) :: byte) = ucast s"
proof -
  have "s AND 0xFF = take_bit 8 s"
    using take_bit_eq_mask [of 8 s] by (simp add: mask_eq_exp_minus_1)
  then show ?thesis
    by (auto intro!: bit_word_eqI simp: bit_simps)
qed

lemma vm_build_closes: "sum_list (vmBuildIPMIResponse sn netFn lun cmd cc d) = 0"
  unfolding vmBuildIPMIResponse_def Let_def sum_list_append
  by (simp add: vmChecksum_def negate_sum_eq ucast_add_bytes)

lemma vmParse_checksum:
  "4 \<le> length d \<Longrightarrow> (\<exists>req. vmParseIPMIRequest d = Inr req) \<longleftrightarrow> sum_list d = 0"
  by (simp add: vmParseIPMIRequest_def Let_def vm_sum_zero ucast_add_bytes)

end
