(* ===== verification/Vm_Server.thy ===== *)
theory Vm_Server
  imports Vm_Protocol Ipmi_Command
begin

text \<open>
  The in-band IPMI server of src/internal/ipmi/vm_server.go: the frame reader, the handlers of
  control commands and IPMI messages, and the loop over one connection. A connection is the list
  of what its \<open>Read\<close> calls return; what the server writes to it is collected as a list of byte
  slices (a failed write is only logged). Accepting connections is not modelled.
\<close>

section \<open>Reading frames\<close>

datatype conn_event = Got byte | GotNothing | ConnEOF | ConnError go_error

datatype read_result =
    Message byte "byte list"
  | ReadEOF
  | ReadFailed go_error
  | ReadBadEscape
  | WouldBlock

text \<open>
  \<open>ReadMessage\<close>: the bytes so far in \<open>buf\<close>, the reads still to come. It returns at a terminator
  or an error, with the reads not consumed.
\<close>

fun read_from :: "byte list \<Rightarrow> conn_event list \<Rightarrow> read_result \<times> conn_event list" where
  "read_from buf [] = (WouldBlock, [])"
| "read_from buf (ConnEOF # evs) = (ReadEOF, evs)"
| "read_from buf (ConnError e # evs) = (ReadFailed e, evs)"
| "read_from buf (GotNothing # evs) = read_from buf evs"
| "read_from buf (Got b # evs) =
     (if b = VMMsgChar \<or> b = VMCmdChar
      then (case vmUnescapeBytes buf of
              Inl e \<Rightarrow> (ReadBadEscape, evs)
            | Inr unescaped \<Rightarrow> (Message b unescaped, evs))
      else read_from (buf @ [b]) evs)"

definition ReadMessage :: "conn_event list \<Rightarrow> read_result \<times> conn_event list" where
  "ReadMessage evs = read_from [] evs"

lemma read_from_consumes:
  "read_from buf evs = (Message t d, rest) \<Longrightarrow> length rest < length evs"
proof (induction buf evs rule: read_from.induct)
  case (5 buf b evs)
  then show ?case
    by (auto split: if_splits sum.splits)
qed auto

lemma ReadMessage_consumes:
  "(Message t d, rest) = ReadMessage evs \<Longrightarrow> length rest < length evs"
  using read_from_consumes [of "[]" evs t d rest] by (simp add: ReadMessage_def)

section \<open>Handlers\<close>

record ('w, 'r) vm_server =
  vs_bmc :: "('w, 'r) bmc_world"
  vmCaps :: byte

definition NewVMServer :: "('w, 'r) bmc_world \<Rightarrow> ('w, 'r) vm_server" where
  "NewVMServer bw = \<lparr>vs_bmc = bw, vmCaps = 0\<rparr>"

definition sendControlCommand :: "byte \<Rightarrow> byte list \<Rightarrow> byte list" where
  "sendControlCommand cmd d = vmEscapeBytes (vmBuildControlCommand cmd d) @ [VMCmdChar]"

definition handleControlCommand ::
    "byte list \<Rightarrow> ('w, 'r) vm_server \<Rightarrow> byte list list \<times> ('w, 'r) vm_server" where
  "handleControlCommand d vs =
     (case vmParseControlCommand d of
        Inl _ \<Rightarrow> ([], vs)
      | Inr (cmd, rest) \<Rightarrow>
          if cmd = VMCmdVersion then ([], vs)
          else if cmd = VMCmdCapabilities then
            (let caps = (if length rest > 0 then rest ! 0 else 0)
             in ([sendControlCommand VMCmdNoAttn []], vs\<lparr>vmCaps := caps\<rparr>))
          else ([], vs))"

definition vm_message :: "VMIPMIRequest \<Rightarrow> IPMIMessage" where
  "vm_message req = \<lparr>TargetAddress = 0,
     TargetLun = push_bit 2 (vm_NetFn req) OR (vm_LUN req AND 0x03), msg_Checksum = 0,
     SourceAddress = 0, SourceLun = 0, Command = vm_Cmd req, Data = vm_Data req\<rparr>"

definition handleIPMIMsg ::
    "'w MachineInterface \<Rightarrow> 'r random \<Rightarrow> byte list \<Rightarrow> ('w, 'r) vm_server
      \<Rightarrow> byte list list \<times> ('w, 'r) vm_server" where
  "handleIPMIMsg m rnd d vs =
     (case vmParseIPMIRequest d of
        Inl _ \<Rightarrow> ([], vs)
      | Inr req \<Rightarrow>
          (case handleIPMICommand m rnd (vm_message req) (vs_bmc vs) of
             ((code, respData), bw) \<Rightarrow>
               let respNetFn = vm_NetFn req OR 0x01;
                   response = vmBuildIPMIResponse (vm_Seq req) respNetFn (vm_LUN req) (vm_Cmd req)
                     code respData
               in ([vmEscapeBytes response @ [VMMsgChar]], vs\<lparr>vs_bmc := bw\<rparr>)))"

section \<open>The connection loop\<close>

datatype conn_end = ConnClosed | ConnFailed go_error | ConnBadEscape | ConnOpen

definition handle_frame ::
    "'w MachineInterface \<Rightarrow> 'r random \<Rightarrow> byte \<Rightarrow> byte list \<Rightarrow> ('w, 'r) vm_server
      \<Rightarrow> byte list list \<times> ('w, 'r) vm_server" where
  "handle_frame m rnd t d vs =
     (if t = VMCmdChar then handleControlCommand d vs
      else if t = VMMsgChar then handleIPMIMsg m rnd d vs
      else ([], vs))"

function HandleConnection ::
    "'w MachineInterface \<Rightarrow> 'r random \<Rightarrow> conn_event list \<Rightarrow> ('w, 'r) vm_server
      \<Rightarrow> byte list list \<times> conn_end \<times> ('w, 'r) vm_server" where
  "HandleConnection m rnd evs vs =
     (case ReadMessage evs of
        (WouldBlock, rest) \<Rightarrow> ([], ConnOpen, vs)
      | (ReadEOF, rest) \<Rightarrow> ([], ConnClosed, vs)
      | (ReadFailed e, rest) \<Rightarrow> ([], ConnFailed e, vs)
      | (ReadBadEscape, rest) \<Rightarrow> ([], ConnBadEscape, vs)
      | (Message t d, rest) \<Rightarrow>
          (case handle_frame m rnd t d vs of
             (out, vs') \<Rightarrow>
               (case HandleConnection m rnd rest vs' of
                  (out', fin, vs'') \<Rightarrow> (out @ out', fin, vs''))))"
  by pat_completeness auto
termination
  by (relation "measure (\<lambda>(m, rnd, evs, vs). length evs)") (auto dest: ReadMessage_consumes)

declare HandleConnection.simps [simp del]

section \<open>Lemmas\<close>

definition got :: "byte list \<Rightarrow> conn_event list" where
  "got bs = map Got bs"

lemma got_simps [simp]:
  "got [] = []" "got (b # bs) = Got b # got bs" "got (xs @ ys) = got xs @ got ys"
  by (simp_all add: got_def)

lemma read_from_plain:
  assumes "VMMsgChar \<notin> set bs" and "VMCmdChar \<notin> set bs"
  shows "read_from buf (got bs @ evs) = read_from (buf @ bs) evs"
  using assms by (induction bs arbitrary: buf) auto

text \<open>A frame as either side sends it: the stuffed message and a terminator.\<close>

definition frame :: "byte \<Rightarrow> byte list \<Rightarrow> byte list" where
  "frame t d = vmEscapeBytes d @ [t]"

lemma ReadMessage_frame:
  assumes "t = VMMsgChar \<or> t = VMCmdChar"
  shows "ReadMessage (got (frame t d) @ evs) = (Message t d, evs)"
  using assms vmEscape_no_terminator [of d]
  by (simp add: ReadMessage_def frame_def read_from_plain vmUnescape_escape)

text \<open>What the loop does on a stream of whole frames: each is handled once, in order.\<close>

fun handle_frames ::
    "'w MachineInterface \<Rightarrow> 'r random \<Rightarrow> (byte \<times> byte list) list \<Rightarrow> ('w, 'r) vm_server
      \<Rightarrow> byte list list \<times> ('w, 'r) vm_server" where
  "handle_frames m rnd [] vs = ([], vs)"
| "handle_frames m rnd ((t, d) # fs) vs =
     (case handle_frame m rnd t d vs of
        (out, vs') \<Rightarrow> (case handle_frames m rnd fs vs' of (out', vs'') \<Rightarrow> (out @ out', vs'')))"

lemma HandleConnection_frames:
  assumes "\<forall>(t, d) \<in> set fs. t = VMMsgChar \<or> t = VMCmdChar"
  shows "HandleConnection m rnd (got (concat (map (\<lambda>(t, d). frame t d) fs)) @ evs) vs =
    (case handle_frames m rnd fs vs of
       (out, vs') \<Rightarrow> (case HandleConnection m rnd evs vs' of
          (out', fin, vs'') \<Rightarrow> (out @ out', fin, vs'')))"
  using assms
proof (induction fs arbitrary: vs)
  case (Cons f fs)
  obtain t d where f: "f = (t, d)" by force
  with Cons.prems have "t = VMMsgChar \<or> t = VMCmdChar" by simp
  then show ?case
    using Cons by (subst HandleConnection.simps)
      (simp add: f ReadMessage_frame split: prod.split)
qed (simp split: prod.split)

lemma sum_list_update: "i < length d \<Longrightarrow> sum_list (d[i := x]) = sum_list d + x - (d ! i :: byte)"
  by (induction d arbitrary: i) (auto split: nat.split)

section \<open>Properties\<close>

text \<open>
  C40: Byte stuffing is lossless and keeps the frame markers out of the payload: what is escaped
  is unescaped to itself, even with more bytes behind it, the escaped bytes contain neither
  terminator, and they grow by exactly one byte per special byte.
\<close>

theorem escape_round_trip:
  "vmUnescapeBytes (vmEscapeBytes bs @ cs) = map_sum id ((@) bs) (vmUnescapeBytes cs)
   \<and> vmUnescapeBytes (vmEscapeBytes bs) = Inr bs
   \<and> VMMsgChar \<notin> set (vmEscapeBytes bs) \<and> VMCmdChar \<notin> set (vmEscapeBytes bs)
   \<and> length (vmEscapeBytes bs) = length bs + length (filter special bs)"
  using vmUnescape_escape_append vmUnescape_escape vmEscape_no_terminator length_vmEscape by blast

text \<open>
  C15: On a stream that is the concatenation of frames, closed by the peer, the connection loop
  hands each frame's message to its handler exactly once and in order, with the state the frames
  before it left, writes the answers in that order, and ends cleanly.
\<close>

theorem connection_handles_frames:
  assumes "\<forall>(t, d) \<in> set fs. t = VMMsgChar \<or> t = VMCmdChar"
  shows "HandleConnection m rnd (got (concat (map (\<lambda>(t, d). frame t d) fs)) @ [ConnEOF]) vs =
    (fst (handle_frames m rnd fs vs), ConnClosed, snd (handle_frames m rnd fs vs))"
proof -
  have "HandleConnection m rnd [ConnEOF] vs' = ([], ConnClosed, vs')" for vs'
    by (subst HandleConnection.simps) (simp add: ReadMessage_def)
  then show ?thesis
    by (simp add: HandleConnection_frames [OF assms] split: prod.split)
qed

lemma connection_handles_frames_witness:
  "HandleConnection counting_machine (\<lambda>n r. (None, r))
     (got (concat (map (\<lambda>(t, d). frame t d) [(VMCmdChar, [0x08, 0x3F]), (VMCmdChar, [0xFF, 1])]))
        @ [ConnEOF]) (NewVMServer sample_world) =
   ([[0x00, 0xA1]], ConnClosed, (NewVMServer sample_world)\<lparr>vmCaps := 0x3F\<rparr>)"
  using connection_handles_frames [of "[(VMCmdChar, [0x08, 0x3F]), (VMCmdChar, [0xFF, 1])]"
      counting_machine "\<lambda>n r. (None, r)" "NewVMServer sample_world"]
  by (simp add: handle_frame_def handleControlCommand_def vmParseControlCommand_def
      VMCmdVersion_def VMCmdCapabilities_def sendControlCommand_def vmBuildControlCommand_def
      VMCmdNoAttn_def special_def VMMsgChar_def VMCmdChar_def VMEscapeChar_def)

text \<open>
  C39: A response the server builds is accepted by the protocol's own parser, with its sequence
  number, its function and LUN bits and its command, and the completion code in front of the data;
  and if any single byte of it is changed on the way, the parser rejects it.
\<close>

theorem response_parses_and_detects_errors:
  "vmParseIPMIRequest (vmBuildIPMIResponse sn netFn lun cmd cc d) =
     Inr \<lparr>vm_Seq = sn, vm_NetFn = netFn AND 0x3F, vm_LUN = lun AND 0x03, vm_Cmd = cmd,
          vm_Data = cc # d\<rparr>
   \<and> (i < length (vmBuildIPMIResponse sn netFn lun cmd cc d)
      \<and> x \<noteq> vmBuildIPMIResponse sn netFn lun cmd cc d ! i \<longrightarrow>
      vmParseIPMIRequest ((vmBuildIPMIResponse sn netFn lun cmd cc d)[i := x])
        = Inl VMChecksumMismatch)"
proof -
  let ?m = "vmBuildIPMIResponse sn netFn lun cmd cc d"
  let ?body = "[sn, push_bit 2 netFn OR (lun AND 0x03), cmd, cc] @ d"
  have m: "?m = ?body @ [vmChecksum ?body]"
    by (simp add: vmBuildIPMIResponse_def Let_def)
  have bits: "drop_bit 2 (push_bit 2 netFn OR (lun AND 0x03)) AND 0x3F = netFn AND 0x3F"
    "(push_bit 2 netFn OR (lun AND 0x03)) AND 0x03 = lun AND 0x03"
    unfolding byte_bits_eq by (simp_all add: bit_simps)
  have "sum_list ?m = 0"
    by (rule vm_build_closes)
  then have "(ucast (add_bytes 0 ?m AND 0xFF) :: byte) = 0"
    by (simp add: vm_sum_zero ucast_add_bytes)
  then have ok: "vmParseIPMIRequest ?m =
      Inr \<lparr>vm_Seq = sn, vm_NetFn = netFn AND 0x3F, vm_LUN = lun AND 0x03, vm_Cmd = cmd,
          vm_Data = cc # d\<rparr>"
    unfolding vmParseIPMIRequest_def Let_def using bits by (simp add: m slice_def)
  have "vmParseIPMIRequest (?m[i := x]) = Inl VMChecksumMismatch"
    if "i < length ?m" "x \<noteq> ?m ! i"
  proof -
    have "sum_list (?m[i := x]) \<noteq> 0"
      using that \<open>sum_list ?m = 0\<close> by (simp add: sum_list_update)
    moreover have "4 \<le> length ?m"
      by (simp add: m)
    ultimately show ?thesis
      by (simp add: vmParseIPMIRequest_def Let_def vm_sum_zero ucast_add_bytes)
  qed
  with ok show ?thesis by blast
qed

lemma response_parses_and_detects_errors_witness:
  "vmParseIPMIRequest ((vmBuildIPMIResponse 7 0x07 0 0x01 0x00 [])[2 := 0x02])
     = Inl VMChecksumMismatch"
  using response_parses_and_detects_errors [of 7 "0x07" 0 "0x01" "0x00" "[]" 2 "0x02"]
  by (simp add: vmBuildIPMIResponse_def Let_def)

end
