(* ===== verification/Qemu_Args.thy ===== *)
theory Qemu_Args
  imports Go_Prelude
begin

text \<open>
  The QEMU command line of src/internal/qemu/args.go, and the virtual media argument of
  src/internal/qemu/process.go: validation of the user's arguments, defaults, the arguments the
  BMC injects, and the rewriting a boot override and inserted media cause at each start.
\<close>

section \<open>The strings package\<close>

text \<open>\<open>strings.Contains\<close> and \<open>strings.Cut\<close>.\<close>

fun contains_str :: "string \<Rightarrow> string \<Rightarrow> bool" where
  "contains_str [] sub = (sub = [])"
| "contains_str (c # cs) sub = (take (length sub) (c # cs) = sub \<or> contains_str cs sub)"

fun cut_char :: "char \<Rightarrow> string \<Rightarrow> string \<times> string \<times> bool" where
  "cut_char sep [] = ([], [], False)"
| "cut_char sep (c # cs) =
     (if c = sep then ([], cs, True)
      else (case cut_char sep cs of (before, after, found) \<Rightarrow> (c # before, after, found)))"

section \<open>Validation\<close>

datatype args_error =
    ManagedArg string
  | ManagedArgValue string string
  | InvalidSerialAddr string

definition forbiddenArgs :: "string list" where
  "forbiddenArgs = [''-qmp'', ''-daemonize'']"

definition forbiddenArgValues :: "string \<rightharpoonup> (string \<Rightarrow> bool)" where
  "forbiddenArgValues = [
     ''-serial'' \<mapsto> (\<lambda>_. True),
     ''-chardev'' \<mapsto> (\<lambda>val. contains_str val ''id=serial0''),
     ''-monitor'' \<mapsto> (\<lambda>val. val = ''stdio'')]"

text \<open>The loop over the arguments: \<open>args[i]\<close> is the head, \<open>args[i+1]\<close> the head of the rest.\<close>

fun ValidateArgs :: "string list \<Rightarrow> args_error option" where
  "ValidateArgs [] = None"
| "ValidateArgs (arg # rest) =
     (if arg \<in> set forbiddenArgs then Some (ManagedArg arg)
      else case forbiddenArgValues arg of
        None \<Rightarrow> ValidateArgs rest
      | Some checker \<Rightarrow>
          (case rest of
             [] \<Rightarrow> ValidateArgs rest
           | val # _ \<Rightarrow>
               if checker val then Some (ManagedArgValue arg val) else ValidateArgs rest))"

section \<open>Defaults and injected arguments\<close>

definition defaultArgs :: "(string \<times> string list) list" where
  "defaultArgs = [
     (''-machine'', [''-machine'', ''q35'']),
     (''-m'', [''-m'', ''2048'']),
     (''-smp'', [''-smp'', ''2'']),
     (''-vga'', [''-vga'', ''std''])]"

definition ApplyDefaults :: "string list \<Rightarrow> string list" where
  "ApplyDefaults args =
     foldl (\<lambda>result d. if fst d \<notin> set args then result @ snd d else result) args defaultArgs"

record BuildOptions =
  QMPSocketPath :: string
  SerialAddr :: string
  SerialLogFile :: string

definition BuildCommandLine :: "string list \<Rightarrow> BuildOptions \<Rightarrow> args_error + string list" where
  "BuildCommandLine userArgs opts =
     (case ValidateArgs userArgs of
        Some e \<Rightarrow> Inl e
      | None \<Rightarrow>
          let args = ApplyDefaults userArgs;
              args = args @ [''-qmp'', ''unix:'' @ QMPSocketPath opts @ '',server,nowait''];
              args = args @ [''-display'', ''none'']
          in if SerialAddr opts = [] then Inr args
             else (case cut_char (CHR '':'') (SerialAddr opts) of
                     (host, port, found) \<Rightarrow>
                       if \<not> found then Inl (InvalidSerialAddr (SerialAddr opts))
                       else
                         let chardev = ''socket,id=serial0,host='' @ host @ '',port='' @ port
                               @ '',server=on,wait=off'';
                             chardev = (if SerialLogFile opts \<noteq> []
                               then chardev @ '',logfile='' @ SerialLogFile opts @ '',logappend=on''
                               else chardev)
                         in Inr (args @ [''-chardev'', chardev, ''-serial'', ''chardev:serial0''])))"

section \<open>Boot override and media\<close>

definition bootTargetToQEMU :: "string \<rightharpoonup> string" where
  "bootTargetToQEMU = [''Pxe'' \<mapsto> ''n'', ''Hdd'' \<mapsto> ''c'', ''Cd'' \<mapsto> ''d'', ''BiosSetup'' \<mapsto> ''menu=on'']"

text \<open>The loop: the value after each \<open>-boot\<close> is skipped; the flag tells whether one was seen.\<close>

fun replace_boot :: "string \<Rightarrow> string list \<Rightarrow> string list \<times> bool" where
  "replace_boot v [] = ([], False)"
| "replace_boot v [a] = ([a], False)"
| "replace_boot v (a # b # rest) =
     (if a = ''-boot''
      then ([''-boot'', v] @ fst (replace_boot v rest), True)
      else (case replace_boot v (b # rest) of (r, replaced) \<Rightarrow> (a # r, replaced)))"

definition ApplyBootOverride :: "string list \<Rightarrow> string \<Rightarrow> string list" where
  "ApplyBootOverride args target =
     (case bootTargetToQEMU target of
        None \<Rightarrow> args
      | Some bootVal \<Rightarrow>
          (case replace_boot bootVal args of
             (result, replaced) \<Rightarrow>
               if replaced then result else result @ [''-boot'', bootVal]))"

fun attach_media :: "string \<Rightarrow> string list \<Rightarrow> string list" where
  "attach_media media [] = []"
| "attach_media media (a # rest) =
     (if contains_str a ''media=cdrom'' \<and> \<not> contains_str a ''file=''
      then (a @ '',file='' @ media) # rest
      else a # attach_media media rest)"

definition applyMedia :: "string list \<Rightarrow> string \<Rightarrow> string list" where
  "applyMedia args media = (if media = [] then args else attach_media media args)"

section \<open>Lemmas\<close>

lemma contains_str_iff: "contains_str s sub \<longleftrightarrow> (\<exists>pre post. s = pre @ sub @ post)"
proof (induction s)
  case (Cons c s)
  show ?case
  proof
    assume "contains_str (c # s) sub"
    then consider "take (length sub) (c # s) = sub" | "contains_str s sub"
      by auto
    then show "\<exists>pre post. c # s = pre @ sub @ post"
    proof cases
      case 1
      then show ?thesis by (metis append_Nil append_take_drop_id)
    next
      case 2
      then show ?thesis using Cons by (metis append_Cons)
    qed
  next
    assume "\<exists>pre post. c # s = pre @ sub @ post"
    then obtain pre post where e: "c # s = pre @ sub @ post" by blast
    show "contains_str (c # s) sub"
    proof (cases pre)
      case Nil
      with e have "take (length sub) (c # s) = sub" by simp
      then show ?thesis by simp
    next
      case (Cons d pre')
      with e have "s = pre' @ sub @ post" by simp
      then show ?thesis using Cons.IH by auto
    qed
  qed
qed auto

lemma contains_str_append: "contains_str s sub \<Longrightarrow> contains_str (s @ t) sub"
  unfolding contains_str_iff by (metis append_assoc)

lemma contains_str_self: "contains_str (s @ sub @ t) sub"
  by (auto simp: contains_str_iff)

text \<open>What ValidateArgs checks, position by position.\<close>

definition offending :: "string list \<Rightarrow> nat \<Rightarrow> bool" where
  "offending args i \<longleftrightarrow> i < length args \<and>
     (args ! i \<in> {''-qmp'', ''-daemonize''} \<or>
      i + 1 < length args \<and>
        (args ! i = ''-serial'' \<or>
         args ! i = ''-chardev'' \<and> contains_str (args ! (i + 1)) ''id=serial0'' \<or>
         args ! i = ''-monitor'' \<and> args ! (i + 1) = ''stdio''))"

lemma offending_Cons_0:
  "offending (a # rest) 0 \<longleftrightarrow> a \<in> {''-qmp'', ''-daemonize''} \<or>
     rest \<noteq> [] \<and> (a = ''-serial'' \<or> a = ''-chardev'' \<and> contains_str (hd rest) ''id=serial0'' \<or>
       a = ''-monitor'' \<and> hd rest = ''stdio'')"
  by (cases rest) (auto simp: offending_def)

lemma offending_Cons_Suc: "offending (a # rest) (Suc i) = offending rest i"
  by (auto simp: offending_def)

lemma ex_offending_Cons:
  "(\<exists>i. offending (a # rest) i) \<longleftrightarrow> offending (a # rest) 0 \<or> (\<exists>i. offending rest i)"
  by (metis offending_Cons_Suc not0_implies_Suc)

lemma ValidateArgs_Cons:
  "ValidateArgs (a # rest) = None \<longleftrightarrow> \<not> offending (a # rest) 0 \<and> ValidateArgs rest = None"
proof -
  consider "a = ''-serial''" | "a = ''-chardev''" | "a = ''-monitor''"
    | (other) "a \<noteq> ''-serial''" "a \<noteq> ''-chardev''" "a \<noteq> ''-monitor''"
    by blast
  then show ?thesis
    unfolding offending_Cons_0
  proof cases
    case other
    then have "forbiddenArgValues a = None"
      by (simp add: forbiddenArgValues_def)
    with other show "(ValidateArgs (a # rest) = None) = (\<not> (a \<in> {''-qmp'', ''-daemonize''} \<or>
       rest \<noteq> [] \<and> (a = ''-serial'' \<or> a = ''-chardev'' \<and> contains_str (hd rest) ''id=serial0'' \<or>
       a = ''-monitor'' \<and> hd rest = ''stdio'')) \<and> ValidateArgs rest = None)"
      by (simp add: forbiddenArgs_def)
  qed (cases rest; simp add: forbiddenArgs_def forbiddenArgValues_def)+
qed

lemma ValidateArgs_iff: "ValidateArgs args = None \<longleftrightarrow> \<not> (\<exists>i. offending args i)"
proof (induction args)
  case (Cons a rest)
  then show ?case
    unfolding ex_offending_Cons ValidateArgs_Cons by blast
qed (simp add: offending_def)

lemma ApplyDefaults_prefix: "\<exists>extra. ApplyDefaults args = args @ extra"
  by (simp add: ApplyDefaults_def defaultArgs_def)

lemma ApplyDefaults_present:
  "{''-machine'', ''-m'', ''-smp'', ''-vga''} \<subseteq> set (ApplyDefaults args)"
  by (simp add: ApplyDefaults_def defaultArgs_def)

section \<open>Reading a command line as QEMU does\<close>

text \<open>The values of the \<open>-boot\<close> options, the other arguments, and a final \<open>-boot\<close> without value.\<close>

fun boot_values :: "string list \<Rightarrow> string list" where
  "boot_values (a # b # rest) = (if a = ''-boot'' then b # boot_values rest else boot_values (b # rest))"
| "boot_values _ = []"

fun strip_boot :: "string list \<Rightarrow> string list" where
  "strip_boot (a # b # rest) = (if a = ''-boot'' then strip_boot rest else a # strip_boot (b # rest))"
| "strip_boot xs = xs"

fun dangling_boot :: "string list \<Rightarrow> bool" where
  "dangling_boot (a # b # rest) = (if a = ''-boot'' then dangling_boot rest else dangling_boot (b # rest))"
| "dangling_boot [a] = (a = ''-boot'')"
| "dangling_boot [] = False"

lemma not_boot_simps:
  assumes "a \<noteq> ''-boot''"
  shows "boot_values (a # r) = boot_values r" "strip_boot (a # r) = a # strip_boot r"
    "dangling_boot (a # r) = dangling_boot r"
    "replace_boot v (a # r) = (a # fst (replace_boot v r), snd (replace_boot v r))"
  using assms by (cases r; simp add: case_prod_beta)+

lemma replace_boot_spec:
  "snd (replace_boot v args) = (boot_values args \<noteq> []) \<and>
   boot_values (fst (replace_boot v args)) = replicate (length (boot_values args)) v \<and>
   strip_boot (fst (replace_boot v args)) = strip_boot args \<and>
   dangling_boot (fst (replace_boot v args)) = dangling_boot args \<and>
   replace_boot v (fst (replace_boot v args)) = replace_boot v args"
proof (induction v args rule: replace_boot.induct)
  case (2 v a)
  then show ?case by (cases "a = ''-boot''") simp_all
next
  case (3 v a b rest)
  show ?case
  proof (cases "a = ''-boot''")
    case True
    with 3 show ?thesis by simp
  next
    case False
    with 3 have "replace_boot v (a # b # rest) =
        (a # fst (replace_boot v (b # rest)), snd (replace_boot v (b # rest)))"
      by (intro not_boot_simps)
    with 3(2) [OF False] show ?thesis
      by (simp only: not_boot_simps [OF False] fst_conv snd_conv)
  qed
qed simp

lemma append_boot:
  assumes "\<not> dangling_boot args"
  shows "boot_values (args @ [''-boot'', v]) = boot_values args @ [v]"
    and "strip_boot (args @ [''-boot'', v]) = strip_boot args"
    and "replace_boot v (args @ [''-boot'', v]) =
      (fst (replace_boot v args) @ [''-boot'', v], True)"
  using assms
proof (induction v args rule: replace_boot.induct)
  case (2 v a)
  { case 1 then show ?case by simp next case 2 then show ?case by simp next
    case 3 then show ?case by simp }
next
  case (3 v a b rest)
  { case 1 then show ?case using "3.IH" by (cases "a = ''-boot''") simp_all next
    case 2 then show ?case using "3.IH" by (cases "a = ''-boot''") simp_all next
    case 3 then show ?case using "3.IH" by (cases "a = ''-boot''") (simp_all add: case_prod_beta) }
qed simp_all

lemma replace_boot_none: "boot_values args = [] \<Longrightarrow> fst (replace_boot v args) = args"
proof (induction v args rule: replace_boot.induct)
  case (3 v a b rest)
  then show ?case by (cases "a = ''-boot''") (simp_all add: case_prod_beta)
qed simp_all

text \<open>An empty CD drive, which virtual media is attached to.\<close>

definition empty_cd :: "string \<Rightarrow> bool" where
  "empty_cd a \<longleftrightarrow> contains_str a ''media=cdrom'' \<and> \<not> contains_str a ''file=''"

lemma attach_media_none: "\<forall>a \<in> set args. \<not> empty_cd a \<Longrightarrow> attach_media media args = args"
  by (induction args) (auto simp: empty_cd_def)

lemma attach_media_first:
  "\<forall>a \<in> set pre. \<not> empty_cd a \<Longrightarrow> empty_cd a \<Longrightarrow>
    attach_media media (pre @ a # post) = pre @ (a @ '',file='' @ media) # post"
  by (induction pre) (auto simp: empty_cd_def)

lemma attached_not_empty: "\<not> empty_cd (a @ '',file='' @ media)"
proof -
  have "a @ '',file='' @ media = (a @ '','') @ ''file='' @ media"
    by simp
  then show ?thesis
    unfolding empty_cd_def using contains_str_self by metis
qed

lemma cut_char_found: "snd (snd (cut_char sep s)) = (sep \<in> set s)"
  by (induction s) (auto simp: case_prod_beta)

lemma ValidateArgs_managed:
  "ValidateArgs args = None \<Longrightarrow> ''-qmp'' \<notin> set args \<and> ''-daemonize'' \<notin> set args"
  unfolding ValidateArgs_iff by (auto simp: in_set_conv_nth offending_def)

lemma set_ApplyDefaults:
  "set (ApplyDefaults args) \<subseteq> set args \<union>
     {''-machine'', ''q35'', ''-m'', ''2048'', ''-smp'', ''2'', ''-vga'', ''std''}"
  by (auto simp: ApplyDefaults_def defaultArgs_def)

definition qmp_socket :: "BuildOptions \<Rightarrow> string" where
  "qmp_socket opts = ''unix:'' @ QMPSocketPath opts @ '',server,nowait''"

lemma BuildCommandLine_Inl:
  "(\<exists>e. BuildCommandLine userArgs opts = Inl e) =
     (ValidateArgs userArgs \<noteq> None
      \<or> SerialAddr opts \<noteq> [] \<and> CHR '':'' \<notin> set (SerialAddr opts))"
  using cut_char_found [of "CHR '':''" "SerialAddr opts"]
  by (auto simp: BuildCommandLine_def Let_def case_prod_beta split: option.splits)

lemma BuildCommandLine_Inr:
  assumes "BuildCommandLine userArgs opts = Inr args"
  shows "ValidateArgs userArgs = None \<and> (\<exists>tail.
    args = ApplyDefaults userArgs @ [''-qmp'', qmp_socket opts, ''-display'', ''none''] @ tail
    \<and> ''-qmp'' \<notin> set tail \<and> ''-daemonize'' \<notin> set tail)"
  using assms
  by (auto simp: BuildCommandLine_def qmp_socket_def Let_def split: option.splits if_splits
      prod.splits)

section \<open>Properties\<close>

text \<open>
  C27: The command line for QEMU: it is refused exactly when the user's arguments set something
  the BMC manages, or the serial address has no port; otherwise it starts with the user's
  arguments in their order, sets machine, memory, processors and display adapter, and has one QMP
  socket and no daemonize option, so the BMC's control connection is the only one.
\<close>

theorem command_line_valid:
  "(\<exists>e. BuildCommandLine userArgs opts = Inl e) =
     ((\<exists>i. offending userArgs i)
      \<or> SerialAddr opts \<noteq> [] \<and> CHR '':'' \<notin> set (SerialAddr opts))
   \<and> (BuildCommandLine userArgs opts = Inr args \<longrightarrow>
      take (length userArgs) args = userArgs
      \<and> {''-machine'', ''-m'', ''-smp'', ''-vga'', ''-display''} \<subseteq> set args
      \<and> length (filter (\<lambda>a. a = ''-qmp'') args) = 1 \<and> ''-daemonize'' \<notin> set args)"
proof (intro conjI impI)
  show "(\<exists>e. BuildCommandLine userArgs opts = Inl e) =
     ((\<exists>i. offending userArgs i)
      \<or> SerialAddr opts \<noteq> [] \<and> CHR '':'' \<notin> set (SerialAddr opts))"
    by (simp add: BuildCommandLine_Inl ValidateArgs_iff)
  assume "BuildCommandLine userArgs opts = Inr args"
  then obtain tail where valid: "ValidateArgs userArgs = None"
    and args: "args = ApplyDefaults userArgs @ [''-qmp'', qmp_socket opts, ''-display'', ''none''] @ tail"
    and tail: "''-qmp'' \<notin> set tail" "''-daemonize'' \<notin> set tail"
    using BuildCommandLine_Inr by blast
  obtain extra where extra: "ApplyDefaults userArgs = userArgs @ extra"
    using ApplyDefaults_prefix by blast
  show "take (length userArgs) args = userArgs"
    by (simp add: args extra)
  show "{''-machine'', ''-m'', ''-smp'', ''-vga'', ''-display''} \<subseteq> set args"
    using ApplyDefaults_present [of userArgs] by (auto simp: args)
  have none: "''-qmp'' \<notin> set (ApplyDefaults userArgs)" "''-daemonize'' \<notin> set (ApplyDefaults userArgs)"
    using set_ApplyDefaults [of userArgs] ValidateArgs_managed [OF valid] by auto
  then have "filter (\<lambda>a. a = ''-qmp'') (ApplyDefaults userArgs) = []"
    "filter (\<lambda>a. a = ''-qmp'') tail = []"
    using tail by (auto simp: filter_empty_conv)
  then show "length (filter (\<lambda>a. a = ''-qmp'') args) = 1"
    by (simp add: args qmp_socket_def)
  show "''-daemonize'' \<notin> set args"
    using none tail by (simp add: args qmp_socket_def)
qed

lemma command_line_valid_witness:
  "\<exists>args. BuildCommandLine [''-m'', ''512'']
      \<lparr>QMPSocketPath = ''/q'', SerialAddr = ''h:1'', SerialLogFile = []\<rparr> = Inr args
    \<and> take 2 args = [''-m'', ''512'']"
proof -
  let ?o = "\<lparr>QMPSocketPath = ''/q'', SerialAddr = ''h:1'', SerialLogFile = []\<rparr>"
  have "ValidateArgs [''-m'', ''512''] = None"
    by (simp add: forbiddenArgs_def forbiddenArgValues_def)
  then have "\<nexists>e. BuildCommandLine [''-m'', ''512''] ?o = Inl e"
    by (simp add: BuildCommandLine_Inl)
  then obtain args where "BuildCommandLine [''-m'', ''512''] ?o = Inr args"
    by (cases "BuildCommandLine [''-m'', ''512''] ?o") auto
  with command_line_valid [of "[''-m'', ''512'']" ?o args] show ?thesis
    by (intro exI [of _ args]) (simp add: numeral_2_eq_2)
qed

text \<open>
  C28: A boot override for a target QEMU knows makes every \<open>-boot\<close> option, or a new one where
  there is none, name that device, leaves all other arguments and their order alone, and applying
  it again changes nothing, for arguments that do not end in a \<open>-boot\<close> without value.
\<close>

theorem boot_override_applied:
  assumes "bootTargetToQEMU target = Some v" and "\<not> dangling_boot args"
  shows "boot_values (ApplyBootOverride args target)
      = replicate (max 1 (length (boot_values args))) v
    \<and> strip_boot (ApplyBootOverride args target) = strip_boot args
    \<and> ApplyBootOverride (ApplyBootOverride args target) target = ApplyBootOverride args target"
proof (cases "boot_values args = []")
  case True
  then have "ApplyBootOverride args target = args @ [''-boot'', v]"
    using assms(1) replace_boot_spec [of v args] replace_boot_none [of args v]
    by (simp add: ApplyBootOverride_def case_prod_beta)
  then show ?thesis
    using True assms append_boot [OF assms(2)] replace_boot_none [of args v]
    by (simp add: ApplyBootOverride_def)
next
  case False
  then have "ApplyBootOverride args target = fst (replace_boot v args)"
    using assms(1) replace_boot_spec [of v args]
    by (simp add: ApplyBootOverride_def case_prod_beta)
  moreover have "max 1 (length (boot_values args)) = length (boot_values args)"
    using False by (cases "boot_values args") simp_all
  ultimately show ?thesis
    using False assms(1) replace_boot_spec [of v args]
    by (simp add: ApplyBootOverride_def case_prod_beta)
qed

lemma boot_override_applied_witness:
  "ApplyBootOverride [''-m'', ''64'', ''-boot'', ''c'', ''-hda'', ''d''] ''Pxe''
     = [''-m'', ''64'', ''-boot'', ''n'', ''-hda'', ''d'']
   \<and> boot_values (ApplyBootOverride [''-m'', ''64''] ''Pxe'') = [''n'']"
  using boot_override_applied [of "''Pxe''" "''n''" "[''-m'', ''64'']"]
  by (simp add: bootTargetToQEMU_def ApplyBootOverride_def)

text \<open>
  Inserted media is attached to the first empty CD drive of the command line and to nothing
  else; with no media, or no empty CD drive, the arguments stay as they are; and a drive that has
  been given media counts as occupied.
\<close>

theorem media_attached_to_first_cd:
  "(media = [] \<or> (\<forall>a \<in> set args. \<not> empty_cd a) \<longrightarrow> applyMedia args media = args)
   \<and> (media \<noteq> [] \<and> args = pre @ a # post \<and> (\<forall>b \<in> set pre. \<not> empty_cd b) \<and> empty_cd a \<longrightarrow>
      applyMedia args media = pre @ (a @ '',file='' @ media) # post
      \<and> \<not> empty_cd (a @ '',file='' @ media))"
  using attach_media_none attach_media_first attached_not_empty [of a media]
  by (simp add: applyMedia_def)

lemma media_attached_to_first_cd_witness:
  "applyMedia [''-drive'', ''if=ide,media=cdrom''] ''/iso/vmedia.iso''
     = [''-drive'', ''if=ide,media=cdrom,file=/iso/vmedia.iso'']"
  using media_attached_to_first_cd [of "''/iso/vmedia.iso''"
      "[''-drive'', ''if=ide,media=cdrom'']" "[''-drive'']" "''if=ide,media=cdrom''" "[]"]
  by (simp add: empty_cd_def)

end
