(* ===== verification/Machine.thy ===== *)
theory Machine
  imports Machine_Api
begin

text \<open>
  The VM controller of src/internal/machine/machine.go. The QMP client and the process manager
  are Go interfaces, so they are records of operations here, over a world \<open>'w\<close> that carries
  their state and the environment's; \<open>processManager = None\<close> is the legacy mode. The mutex guards
  only the boot override, each access of which is one step. Log lines are not modelled.
\<close>

section \<open>Interfaces\<close>

text \<open>A duration or a point in time, in nanoseconds.\<close>

type_synonym nanos = nat

definition Second :: nanos where "Second = 1000000000"
definition Millisecond :: nanos where "Millisecond = 1000000"

type_synonym 'w action = "'w \<Rightarrow> go_error option \<times> 'w"

text \<open>
  \<open>qmp.Client\<close>. Connecting also tells the time it took, which \<open>waitForQMP\<close> reads off the clock.
\<close>

record 'w QmpClient =
  q_Connect :: "'w \<Rightarrow> go_error option \<times> nanos \<times> 'w"
  q_QueryStatus :: "'w \<Rightarrow> (go_error + string) \<times> 'w"
  q_SystemPowerdown :: "'w action"
  q_SystemReset :: "'w action"
  q_Stop :: "'w action"
  q_Cont :: "'w action"
  q_Quit :: "'w action"
  q_BlockdevChangeMedium :: "string \<Rightarrow> string \<Rightarrow> 'w action"
  q_BlockdevRemoveMedium :: "string \<Rightarrow> 'w action"

definition StatusRunning :: string where "StatusRunning = ''running''"
definition StatusShutdown :: string where "StatusShutdown = ''shutdown''"
definition StatusPaused :: string where "StatusPaused = ''paused''"

record 'w ProcessManager =
  pm_Start :: "string \<Rightarrow> 'w action"
  pm_Stop :: "nanos \<Rightarrow> 'w action"
  pm_Kill :: "'w action"
  pm_IsRunning :: "'w \<Rightarrow> bool \<times> 'w"
  pm_WaitForExit :: "nanos \<Rightarrow> 'w action"
  pm_SetMedia :: "string \<Rightarrow> 'w \<Rightarrow> 'w"

text \<open>What \<open>fetchMedia\<close> and \<open>EjectMedia\<close> use of net/http, os and io.\<close>

record 'w Fetcher =
  f_Get :: "string \<Rightarrow> 'w \<Rightarrow> (go_error + nat \<times> byte list) \<times> 'w"
  f_Create :: "string \<Rightarrow> 'w action"
  f_Copy :: "string \<Rightarrow> byte list \<Rightarrow> 'w action"
  f_Remove :: "string \<Rightarrow> 'w \<Rightarrow> 'w"

record 'w machine_env =
  qmpClient :: "'w QmpClient"
  processManager :: "'w ProcessManager option"
  fetcher :: "'w Fetcher"

record 'w Machine =
  world :: 'w
  bootOverride :: BootOverride
  gracefulShutdownTimeout :: nanos

section \<open>Construction\<close>

definition defaultGracefulShutdownTimeout :: nanos where
  "defaultGracefulShutdownTimeout = 120 * Second"

text \<open>\<open>New\<close> and \<open>NewWithProcess\<close> differ in the environment they store only.\<close>

definition NewMachine :: "'w \<Rightarrow> 'w Machine" where
  "NewMachine w = \<lparr>world = w,
     bootOverride = \<lparr>bo_Enabled = ''Disabled'', bo_Target = ''None'', bo_Mode = ''UEFI''\<rparr>,
     gracefulShutdownTimeout = defaultGracefulShutdownTimeout\<rparr>"

definition SetGracefulShutdownTimeout :: "nanos \<Rightarrow> 'w Machine \<Rightarrow> 'w Machine" where
  "SetGracefulShutdownTimeout d m = m\<lparr>gracefulShutdownTimeout := d\<rparr>"

text \<open>Runs an operation of an interface on the world of the machine.\<close>

definition on_world :: "('w \<Rightarrow> 'a \<times> 'w) \<Rightarrow> 'w Machine \<Rightarrow> 'a \<times> 'w Machine" where
  "on_world f m = (case f (world m) of (a, w) \<Rightarrow> (a, m\<lparr>world := w\<rparr>))"

definition lift_qmp :: "'w action \<Rightarrow> 'w Machine \<Rightarrow> mach_error option \<times> 'w Machine" where
  "lift_qmp f m = (case on_world f m of (e, m') \<Rightarrow> (map_option QMPError e, m'))"

definition lift_proc :: "'w action \<Rightarrow> 'w Machine \<Rightarrow> mach_error option \<times> 'w Machine" where
  "lift_proc f m = (case on_world f m of (e, m') \<Rightarrow> (map_option ProcessError e, m'))"

section \<open>Boot override\<close>

definition GetBootOverride :: "'w Machine \<Rightarrow> BootOverride" where
  "GetBootOverride m = bootOverride m"

definition SetBootOverride ::
    "BootOverride \<Rightarrow> 'w Machine \<Rightarrow> mach_error option \<times> 'w Machine" where
  "SetBootOverride override m =
     (if bo_Target override \<notin> validTargets then (Some (InvalidBootTarget (bo_Target override)), m)
      else if bo_Enabled override \<notin> validEnabled then
        (Some (InvalidBootEnabled (bo_Enabled override)), m)
      else (None, m\<lparr>bootOverride := override\<rparr>))"

definition ConsumeBootOnce :: "'w Machine \<Rightarrow> 'w Machine" where
  "ConsumeBootOnce m =
     (if bo_Enabled (bootOverride m) = ''Once''
      then m\<lparr>bootOverride := (bootOverride m)\<lparr>bo_Enabled := ''Disabled'', bo_Target := ''None''\<rparr>\<rparr>
      else m)"

section \<open>Power state\<close>

definition getPowerStateLegacy ::
    "'w machine_env \<Rightarrow> 'w Machine \<Rightarrow> (mach_error + PowerState) \<times> 'w Machine" where
  "getPowerStateLegacy env m =
     (case on_world (q_QueryStatus (qmpClient env)) m of
        (Inl e, m') \<Rightarrow> (Inl (QMPError e), m')
      | (Inr status, m') \<Rightarrow> (Inr (if status = StatusRunning then PowerOn else PowerOff), m'))"

definition getPowerStateProcess ::
    "'w machine_env \<Rightarrow> 'w ProcessManager \<Rightarrow> 'w Machine
      \<Rightarrow> (mach_error + PowerState) \<times> 'w Machine" where
  "getPowerStateProcess env pm m =
     (case on_world (pm_IsRunning pm) m of
        (False, m1) \<Rightarrow> (Inr PowerOff, m1)
      | (True, m1) \<Rightarrow>
          (case on_world (q_QueryStatus (qmpClient env)) m1 of
             (Inl _, m2) \<Rightarrow> (Inr PowerOn, m2)
           | (Inr status, m2) \<Rightarrow>
               if status = StatusRunning \<or> status = StatusPaused then (Inr PowerOn, m2)
               else if status = StatusShutdown then
                 (case on_world (pm_Stop pm (30 * Second)) m2 of (_, m3) \<Rightarrow> (Inr PowerOff, m3))
               else (Inr PowerOn, m2)))"

definition GetPowerState ::
    "'w machine_env \<Rightarrow> 'w Machine \<Rightarrow> (mach_error + PowerState) \<times> 'w Machine" where
  "GetPowerState env m =
     (case processManager env of
        Some pm \<Rightarrow> getPowerStateProcess env pm m
      | None \<Rightarrow> getPowerStateLegacy env m)"

definition getQMPStatusProcess ::
    "'w machine_env \<Rightarrow> 'w ProcessManager \<Rightarrow> 'w Machine \<Rightarrow> (mach_error + string) \<times> 'w Machine" where
  "getQMPStatusProcess env pm m =
     (case on_world (pm_IsRunning pm) m of
        (False, m1) \<Rightarrow> (Inr StatusShutdown, m1)
      | (True, m1) \<Rightarrow>
          (case on_world (q_QueryStatus (qmpClient env)) m1 of
             (Inl _, m2) \<Rightarrow> (Inr StatusRunning, m2)
           | (Inr status, m2) \<Rightarrow> (Inr status, m2)))"

definition GetQMPStatus ::
    "'w machine_env \<Rightarrow> 'w Machine \<Rightarrow> (mach_error + string) \<times> 'w Machine" where
  "GetQMPStatus env m =
     (case processManager env of
        Some pm \<Rightarrow> getQMPStatusProcess env pm m
      | None \<Rightarrow>
          (case on_world (q_QueryStatus (qmpClient env)) m of
             (Inl e, m') \<Rightarrow> (Inl (QMPError e), m')
           | (Inr status, m') \<Rightarrow> (Inr status, m')))"

section \<open>Reset\<close>

definition resetLegacy ::
    "'w machine_env \<Rightarrow> string \<Rightarrow> 'w Machine \<Rightarrow> mach_error option \<times> 'w Machine" where
  "resetLegacy env resetType m =
     (let q = qmpClient env
      in if resetType = ''On'' \<or> resetType = ''ForceOn'' then
           (case GetPowerState env m of
              (Inl e, m') \<Rightarrow> (Some e, m')
            | (Inr state, m') \<Rightarrow>
                if state = PowerOn then (None, m') else lift_qmp (q_Cont q) m')
         else if resetType = ''ForceOff'' then lift_qmp (q_Stop q) m
         else if resetType = ''GracefulShutdown'' then
           (case on_world (q_SystemPowerdown q) m of (_, m') \<Rightarrow> lift_qmp (q_Stop q) m')
         else if resetType = ''ForceRestart'' then lift_qmp (q_SystemReset q) m
         else if resetType = ''GracefulRestart'' then lift_qmp (q_SystemReset q) m
         else if resetType = ''PowerCycle'' then
           (case lift_qmp (q_Stop q) m of
              (Some e, m') \<Rightarrow> (Some e, m')
            | (None, m') \<Rightarrow> lift_qmp (q_Cont q) m')
         else (Some (UnsupportedResetType resetType), m))"

text \<open>
  The polling loop of \<open>waitForQMP\<close>, from a time after the loop started: connect, give up once the
  deadline has passed, sleep 100 milliseconds, and again.
\<close>

function waitLoop ::
    "'w QmpClient \<Rightarrow> nanos \<Rightarrow> nanos \<Rightarrow> 'w \<Rightarrow> mach_error option \<times> 'w" where
  "waitLoop q timeout now w =
     (case q_Connect q w of
        (None, took, w') \<Rightarrow> (None, w')
      | (Some e, took, w') \<Rightarrow>
          if now + took > timeout then (Some (QMPConnectTimeout (int timeout)), w')
          else waitLoop q timeout (now + took + 100 * Millisecond) w')"
  by pat_completeness auto
termination
  by (relation "measure (\<lambda>(q, timeout, now, w). timeout + 1 - now)")
    (auto simp: Millisecond_def)

declare waitLoop.simps [simp del]

definition waitForQMP ::
    "'w machine_env \<Rightarrow> nanos \<Rightarrow> 'w Machine \<Rightarrow> mach_error option \<times> 'w Machine" where
  "waitForQMP env timeout m = on_world (waitLoop (qmpClient env) timeout 0) m"

definition forceOff ::
    "'w machine_env \<Rightarrow> 'w ProcessManager \<Rightarrow> 'w Machine \<Rightarrow> mach_error option \<times> 'w Machine" where
  "forceOff env pm m =
     (case on_world (q_Quit (qmpClient env)) m of
        (Some _, m') \<Rightarrow> lift_proc (pm_Stop pm (30 * Second)) m'
      | (None, m') \<Rightarrow> lift_proc (pm_WaitForExit pm (30 * Second)) m')"

text \<open>The case \<open>On\<close>, \<open>ForceOn\<close> of \<open>resetProcessMode\<close>, which other cases end in.\<close>

definition powerOn ::
    "'w machine_env \<Rightarrow> 'w ProcessManager \<Rightarrow> 'w Machine \<Rightarrow> mach_error option \<times> 'w Machine" where
  "powerOn env pm m =
     (case on_world (pm_IsRunning pm) m of
        (True, m1) \<Rightarrow> (None, m1)
      | (False, m1) \<Rightarrow>
          let target = bo_Target (bootOverride m1)
          in case on_world (pm_Start pm target) m1 of
               (Some e, m2) \<Rightarrow> (Some (StartError e), m2)
             | (None, m2) \<Rightarrow>
                 (case waitForQMP env (30 * Second) m2 of
                    (Some e, m3) \<Rightarrow> (Some e, m3)
                  | (None, m3) \<Rightarrow> (None, ConsumeBootOnce m3)))"

text \<open>\<open>Kill()\<close> followed by \<open>WaitForExit(5s)\<close>, both results dropped.\<close>

definition killAndWait :: "'w ProcessManager \<Rightarrow> 'w Machine \<Rightarrow> 'w Machine" where
  "killAndWait pm m =
     snd (on_world (pm_WaitForExit pm (5 * Second)) (snd (on_world (pm_Kill pm) m)))"

definition resetProcessMode ::
    "'w machine_env \<Rightarrow> 'w ProcessManager \<Rightarrow> string \<Rightarrow> 'w Machine
      \<Rightarrow> mach_error option \<times> 'w Machine" where
  "resetProcessMode env pm resetType m =
     (let q = qmpClient env
      in if resetType = ''On'' \<or> resetType = ''ForceOn'' then powerOn env pm m
         else if resetType = ''ForceOff'' then forceOff env pm m
         else if resetType = ''ForceRestart'' then lift_qmp (q_SystemReset q) m
         else if resetType = ''GracefulShutdown'' then
           (case lift_qmp (q_SystemPowerdown q) m of
              (Some e, m1) \<Rightarrow> (Some e, m1)
            | (None, m1) \<Rightarrow>
                (case on_world (pm_WaitForExit pm (gracefulShutdownTimeout m1)) m1 of
                   (_, m2) \<Rightarrow> (None, m2)))
         else if resetType = ''GracefulRestart'' then
           (case lift_qmp (q_SystemPowerdown q) m of
              (Some e, m1) \<Rightarrow> (Some e, m1)
            | (None, m1) \<Rightarrow>
                (case on_world (pm_WaitForExit pm (gracefulShutdownTimeout m1)) m1 of
                   (Some _, m2) \<Rightarrow> powerOn env pm (killAndWait pm m2)
                 | (None, m2) \<Rightarrow> powerOn env pm m2))
         else if resetType = ''PowerCycle'' then
           (case forceOff env pm m of
              (Some _, m1) \<Rightarrow> powerOn env pm (killAndWait pm m1)
            | (None, m1) \<Rightarrow> powerOn env pm m1)
         else (Some (UnsupportedResetType resetType), m))"

definition Reset ::
    "'w machine_env \<Rightarrow> string \<Rightarrow> 'w Machine \<Rightarrow> mach_error option \<times> 'w Machine" where
  "Reset env resetType m =
     (case processManager env of
        Some pm \<Rightarrow> resetProcessMode env pm resetType m
      | None \<Rightarrow> resetLegacy env resetType m)"

section \<open>Virtual media\<close>

definition vmediaLocalPath :: string where
  "vmediaLocalPath = ''/iso/vmedia.iso''"

definition has_prefix :: "string \<Rightarrow> string \<Rightarrow> bool" where
  "has_prefix p s \<longleftrightarrow> take (length p) s = p"

definition fetchMedia ::
    "'w Fetcher \<Rightarrow> string \<Rightarrow> string \<Rightarrow> 'w Machine \<Rightarrow> (mach_error + string) \<times> 'w Machine" where
  "fetchMedia f img dst m =
     (if \<not> has_prefix ''http://'' img \<and> \<not> has_prefix ''https://'' img then (Inr img, m)
      else case on_world (f_Get f img) m of
        (Inl e, m1) \<Rightarrow> (Inl (FetchError e), m1)
      | (Inr (status, body), m1) \<Rightarrow>
          if status \<noteq> 200 then (Inl (FetchError ''unexpected status''), m1)
          else (case on_world (f_Create f dst) m1 of
                  (Some e, m2) \<Rightarrow> (Inl (FetchError e), m2)
                | (None, m2) \<Rightarrow>
                    (case on_world (f_Copy f dst body) m2 of
                       (Some e, m3) \<Rightarrow> (Inl (FetchError e), m3)
                     | (None, m3) \<Rightarrow> (Inr dst, m3))))"

definition set_media :: "'w machine_env \<Rightarrow> string \<Rightarrow> 'w Machine \<Rightarrow> 'w Machine" where
  "set_media env img m =
     (case processManager env of
        None \<Rightarrow> m
      | Some pm \<Rightarrow> m\<lparr>world := pm_SetMedia pm img (world m)\<rparr>)"

definition InsertMedia ::
    "'w machine_env \<Rightarrow> string \<Rightarrow> 'w Machine \<Rightarrow> mach_error option \<times> 'w Machine" where
  "InsertMedia env img m =
     (case fetchMedia (fetcher env) img vmediaLocalPath m of
        (Inl e, m1) \<Rightarrow> (Some e, m1)
      | (Inr path, m1) \<Rightarrow>
          lift_qmp (q_BlockdevChangeMedium (qmpClient env) ''ide0-cd0'' path)
            (set_media env path m1))"

definition EjectMedia ::
    "'w machine_env \<Rightarrow> 'w Machine \<Rightarrow> mach_error option \<times> 'w Machine" where
  "EjectMedia env m =
     (let m1 = set_media env [] m;
          m2 = m1\<lparr>world := f_Remove (fetcher env) vmediaLocalPath (world m1)\<rparr>
      in lift_qmp (q_BlockdevRemoveMedium (qmpClient env) ''ide0-cd0'') m2)"

section \<open>As the interface of the front ends\<close>

definition machine_interface :: "'w machine_env \<Rightarrow> 'w Machine MachineInterface" where
  "machine_interface env = \<lparr>mi_GetPowerState = GetPowerState env, mi_Reset = Reset env,
     mi_GetBootOverride = GetBootOverride, mi_SetBootOverride = SetBootOverride\<rparr>"

interpretation overrides: boot_override_store GetBootOverride SetBootOverride
  by unfold_locales (auto simp: GetBootOverride_def SetBootOverride_def valid_override_def)

end
