(* ===== verification/Machine_Control.thy ===== *)
theory Machine_Control
  imports Machine
begin

text \<open>
  What the VM controller of src/internal/machine/machine.go guarantees: the boot override
  invariant, the polling loop of \<open>waitForQMP\<close>, the one-time boot override, and, over the contract
  a process manager promises, that restarting really stops and starts QEMU.
\<close>

section \<open>Worlds\<close>

lemma on_world_simps [simp]:
  "fst (on_world f m) = fst (f (world m))"
  "snd (on_world f m) = m\<lparr>world := snd (f (world m))\<rparr>"
  by (simp_all add: on_world_def case_prod_beta)

lemma lift_simps [simp]:
  "fst (lift_qmp f m) = map_option QMPError (fst (f (world m)))"
  "snd (lift_qmp f m) = m\<lparr>world := snd (f (world m))\<rparr>"
  "fst (lift_proc f m) = map_option ProcessError (fst (f (world m)))"
  "snd (lift_proc f m) = m\<lparr>world := snd (f (world m))\<rparr>"
  by (simp_all add: lift_qmp_def lift_proc_def case_prod_beta)

lemma on_world_eq: "on_world f m = (a, m') \<longleftrightarrow> f (world m) = (a, world m') \<and> m' = m\<lparr>world := world m'\<rparr>"
  by (cases "f (world m)") (auto simp: on_world_def)

lemma on_world_override: "on_world f m = (a, m') \<Longrightarrow> bootOverride m' = bootOverride m"
  by (auto simp: on_world_def split: prod.splits)

section \<open>The boot override\<close>

text \<open>Only \<open>SetBootOverride\<close> and a successful power on touch the override.\<close>

lemma ConsumeBootOnce_override:
  "bootOverride (ConsumeBootOnce m) =
    (if bo_Enabled (bootOverride m) = ''Once''
     then (bootOverride m)\<lparr>bo_Enabled := ''Disabled'', bo_Target := ''None''\<rparr>
     else bootOverride m)"
  by (simp add: ConsumeBootOnce_def)

lemma ConsumeBootOnce_valid:
  "valid_override (bootOverride m) \<Longrightarrow> valid_override (bootOverride (ConsumeBootOnce m))"
  by (auto simp: ConsumeBootOnce_def valid_override_def validTargets_def validEnabled_def)

lemma ConsumeBootOnce_idem: "ConsumeBootOnce (ConsumeBootOnce m) = ConsumeBootOnce m"
  by (simp add: ConsumeBootOnce_def)

lemma ConsumeBootOnce_world [simp]: "world (ConsumeBootOnce m) = world m"
  by (simp add: ConsumeBootOnce_def)

lemma GetPowerState_override [simp]: "bootOverride (snd (GetPowerState env m)) = bootOverride m"
  by (simp add: GetPowerState_def getPowerStateProcess_def getPowerStateLegacy_def case_prod_beta
      split: option.split sum.split bool.split)

lemma forceOff_override [simp]: "bootOverride (snd (forceOff env pm m)) = bootOverride m"
  by (simp add: forceOff_def case_prod_beta split: option.split)

lemma waitForQMP_override [simp]: "bootOverride (snd (waitForQMP env t m)) = bootOverride m"
  by (simp add: waitForQMP_def)

lemma killAndWait_override [simp]: "bootOverride (killAndWait pm m) = bootOverride m"
  by (simp add: killAndWait_def)

lemma powerOn_override:
  "bootOverride (snd (powerOn env pm m)) \<in> {bootOverride m, bootOverride (ConsumeBootOnce m)}"
  by (auto simp: powerOn_def case_prod_beta Let_def ConsumeBootOnce_def
      split: option.split bool.split)

lemma resetLegacy_override [simp]: "bootOverride (snd (resetLegacy env r m)) = bootOverride m"
  by (simp add: resetLegacy_def case_prod_beta Let_def split: option.split sum.split)

lemma resetProcessMode_override:
  "bootOverride (snd (resetProcessMode env pm r m))
    \<in> {bootOverride m, bootOverride (ConsumeBootOnce m)}"
proof -
  have on: "bootOverride (snd (powerOn env pm m')) \<in> {bootOverride m, bootOverride (ConsumeBootOnce m)}"
    if "bootOverride m' = bootOverride m" for m'
    using powerOn_override [of env pm m'] that by (auto simp: ConsumeBootOnce_override)
  show ?thesis
    using on [of m] on [of "snd (forceOff env pm m)"] on [of "killAndWait pm (snd (forceOff env pm m))"]
    unfolding resetProcessMode_def Let_def
    by (auto simp: case_prod_beta on simp del: insert_iff split: option.split)
qed

lemma Reset_valid:
  assumes "valid_override (bootOverride m)"
  shows "valid_override (bootOverride (snd (Reset env r m)))"
proof (cases "processManager env")
  case (Some pm)
  then show ?thesis
    using resetProcessMode_override [of env pm r m] ConsumeBootOnce_valid [OF assms] assms
    by (auto simp: Reset_def)
qed (use assms in \<open>simp add: Reset_def\<close>)

section \<open>Waiting for QMP\<close>

text \<open>The world after \<open>n\<close> connection attempts that all failed, if they do.\<close>

fun failed_attempts :: "'w QmpClient \<Rightarrow> nat \<Rightarrow> 'w \<Rightarrow> 'w option" where
  "failed_attempts q 0 w = Some w"
| "failed_attempts q (Suc n) w =
     (case q_Connect q w of
        (None, took, w') \<Rightarrow> None
      | (Some e, took, w') \<Rightarrow> failed_attempts q n w')"

definition attempts :: "nanos \<Rightarrow> nat" where
  "attempts timeout = timeout div (100 * Millisecond) + 1"

lemma waitLoop_spec:
  assumes "waitLoop q timeout start w = (r, w')" and "start \<le> timeout + 100 * Millisecond"
  shows "\<exists>n. n * (100 * Millisecond) + start \<le> timeout + 100 * Millisecond \<and>
    (case r of
       None \<Rightarrow> (\<exists>w1 took. failed_attempts q n w = Some w1 \<and> q_Connect q w1 = (None, took, w'))
     | Some e \<Rightarrow> failed_attempts q (Suc n) w = Some w' \<and> e = QMPConnectTimeout (int timeout))"
  using assms
proof (induction q timeout start w rule: waitLoop.induct)
  case (1 q timeout start w)
  obtain res took w1 where c: "q_Connect q w = (res, took, w1)"
    by (metis prod_cases3)
  show ?case
  proof (cases res)
    case None
    with 1 c show ?thesis
      by (intro exI [of _ 0]) (simp add: waitLoop.simps)
  next
    case (Some e)
    show ?thesis
    proof (cases "start + took > timeout")
      case True
      with 1 c Some have "r = Some (QMPConnectTimeout (int timeout))" "w1 = w'"
        by (simp_all add: waitLoop.simps)
      with 1 c Some show ?thesis
        by (intro exI [of _ 0]) simp
    next
      case False
      with 1 c Some obtain n where
        "n * (100 * Millisecond) + (start + took + 100 * Millisecond) \<le> timeout + 100 * Millisecond"
        "case r of
           None \<Rightarrow> (\<exists>w2 took. failed_attempts q n w1 = Some w2 \<and> q_Connect q w2 = (None, took, w'))
         | Some e \<Rightarrow> failed_attempts q (Suc n) w1 = Some w' \<and> e = QMPConnectTimeout (int timeout)"
        by (fastforce simp: waitLoop.simps)
      with c Some show ?thesis
        by (intro exI [of _ "Suc n"]) (auto split: option.splits)
    qed
  qed
qed

lemma waitLoop_error: "fst (waitLoop q t n w) = Some e \<Longrightarrow> e = QMPConnectTimeout (int t)"
proof (induction q t n w rule: waitLoop.induct)
  case (1 q t n w)
  then show ?case
    by (subst (asm) (2) waitLoop.simps) (auto split: prod.splits option.splits if_splits)
qed

lemma waitForQMP_spec:
  assumes "waitLoop q timeout 0 w = (r, w')"
  shows "\<exists>n \<le> attempts timeout.
    (case r of
       None \<Rightarrow> (\<exists>w1 took. failed_attempts q n w = Some w1 \<and> q_Connect q w1 = (None, took, w'))
     | Some e \<Rightarrow> failed_attempts q (Suc n) w = Some w' \<and> e = QMPConnectTimeout (int timeout))"
proof -
  obtain n where n: "n * (100 * Millisecond) + 0 \<le> timeout + 100 * Millisecond"
    and rest: "case r of
       None \<Rightarrow> (\<exists>w1 took. failed_attempts q n w = Some w1 \<and> q_Connect q w1 = (None, took, w'))
     | Some e \<Rightarrow> failed_attempts q (Suc n) w = Some w' \<and> e = QMPConnectTimeout (int timeout)"
    using waitLoop_spec [OF assms] by auto
  have "n \<le> (timeout + 100 * Millisecond) div (100 * Millisecond)"
    using n by (simp add: less_eq_div_iff_mult_less_eq Millisecond_def)
  then have "n \<le> attempts timeout"
    by (simp add: attempts_def Millisecond_def)
  with rest show ?thesis by blast
qed

section \<open>The process manager's contract\<close>

text \<open>
  What the controller may rely on. Stopping is deliberately absent: \<open>Stop\<close> without an error does
  not promise that the process is gone, because after its timeout it only sends SIGKILL.
  \<open>prompt\<close> stands for an operating system that carries out a SIGKILL within five seconds.
\<close>

locale process_control =
  fixes pm :: "'w ProcessManager"
    and running :: "'w \<Rightarrow> bool"
    and prompt :: bool
  assumes is_running: "pm_IsRunning pm w = (running w, w)"
    and start_running: "pm_Start pm t w = (None, w') \<Longrightarrow> running w'"
    and start_noop: "running w \<Longrightarrow> pm_Start pm t w = (None, w)"
    and start_failed: "pm_Start pm t w = (Some e, w') \<Longrightarrow> \<not> running w'"
    and stop_noop: "\<not> running w \<Longrightarrow> pm_Stop pm d w = (None, w)"
    and wait_exited: "pm_WaitForExit pm d w = (None, w') \<Longrightarrow> \<not> running w'"
    and kill_settles: "prompt \<Longrightarrow>
      \<not> running (snd (pm_WaitForExit pm (5 * Second) (snd (pm_Kill pm w))))"
begin

lemma powerOn_running: "running (world m) \<Longrightarrow> powerOn env pm m = (None, m)"
  by (simp add: powerOn_def on_world_def is_running)

lemma powerOn_stopped:
  assumes "\<not> running (world m)"
  shows "powerOn env pm m =
    (case on_world (pm_Start pm (bo_Target (bootOverride m))) m of
       (Some e, m2) \<Rightarrow> (Some (StartError e), m2)
     | (None, m2) \<Rightarrow>
         (case waitForQMP env (30 * Second) m2 of
            (Some e, m3) \<Rightarrow> (Some e, m3)
          | (None, m3) \<Rightarrow> (None, ConsumeBootOnce m3)))"
  using assms by (simp add: powerOn_def on_world_def [of "pm_IsRunning pm"] is_running Let_def)

text \<open>A cold start: QEMU is started from a stopped state and has answered on QMP.\<close>

definition cold_start :: "'w machine_env \<Rightarrow> 'w Machine \<Rightarrow> 'w Machine \<Rightarrow> bool" where
  "cold_start env m m' \<longleftrightarrow> (\<exists>w0 w1. \<not> running w0 \<and> running w1
     \<and> pm_Start pm (bo_Target (bootOverride m)) w0 = (None, w1)
     \<and> waitLoop (qmpClient env) (30 * Second) 0 w1 = (None, world m'))
     \<and> bootOverride m' = bootOverride (ConsumeBootOnce m)"

lemma powerOn_cold_start:
  assumes "powerOn env pm m = (None, m')" and "\<not> running (world m)"
  shows "cold_start env m m'"
proof -
  obtain m2 m3 where s: "on_world (pm_Start pm (bo_Target (bootOverride m))) m = (None, m2)"
    and q: "waitForQMP env (30 * Second) m2 = (None, m3)" and m': "m' = ConsumeBootOnce m3"
    using assms by (auto simp: powerOn_stopped split: prod.splits option.splits)
  have "bootOverride m3 = bootOverride m"
    using on_world_override [OF s] on_world_override [OF q [unfolded waitForQMP_def]] by simp
  moreover have "pm_Start pm (bo_Target (bootOverride m)) (world m) = (None, world m2)"
    and "waitLoop (qmpClient env) (30 * Second) 0 (world m2) = (None, world m3)"
    using s q by (simp_all add: on_world_eq waitForQMP_def)
  ultimately show ?thesis
    using assms(2) start_running unfolding cold_start_def m'
    by (auto simp: ConsumeBootOnce_override)
qed

lemma cold_start_cong:
  "bootOverride m1 = bootOverride m \<Longrightarrow> cold_start env m1 m' \<Longrightarrow> cold_start env m m'"
  by (simp add: cold_start_def ConsumeBootOnce_override)

lemma killAndWait_stops: "prompt \<Longrightarrow> \<not> running (world (killAndWait pm m))"
  using kill_settles [of "world m"] by (simp add: killAndWait_def)

lemma graceful_restart_cold_starts:
  assumes "prompt" and "resetProcessMode env pm ''GracefulRestart'' m = (None, m')"
  shows "cold_start env m m'"
proof -
  define m1 where "m1 = snd (lift_qmp (q_SystemPowerdown (qmpClient env)) m)"
  have same: "bootOverride m1 = bootOverride m"
    by (simp add: m1_def)
  define w where "w = on_world (pm_WaitForExit pm (gracefulShutdownTimeout m1)) m1"
  have r: "(case fst w of Some _ \<Rightarrow> powerOn env pm (killAndWait pm (snd w))
      | None \<Rightarrow> powerOn env pm (snd w)) = (None, m')"
    using assms(2) unfolding resetProcessMode_def Let_def
    by (simp add: w_def m1_def case_prod_beta split: option.splits)
  show ?thesis
  proof (cases "fst w")
    case None
    then have "pm_WaitForExit pm (gracefulShutdownTimeout m1) (world m1) = (None, world (snd w))"
      unfolding w_def by (intro prod_eqI) simp_all
    then have "\<not> running (world (snd w))"
      by (rule wait_exited)
    with r None show ?thesis
      by (intro cold_start_cong [OF _ powerOn_cold_start [of env "snd w"]]) (simp_all add: w_def same)
  next
    case (Some e)
    with r killAndWait_stops [OF assms(1), of "snd w"] show ?thesis
      by (intro cold_start_cong [OF _ powerOn_cold_start [of env "killAndWait pm (snd w)"]])
        (simp_all add: w_def same)
  qed
qed

lemma force_off_by_quit:
  assumes "fst (q_Quit (qmpClient env) (world m)) = None" and "forceOff env pm m = (None, m')"
  shows "\<not> running (world m')"
proof -
  let ?m1 = "snd (on_world (q_Quit (qmpClient env)) m)"
  have "lift_proc (pm_WaitForExit pm (30 * Second)) ?m1 = (None, m')"
    using assms by (simp add: forceOff_def case_prod_beta)
  then have "pm_WaitForExit pm (30 * Second) (world ?m1) = (None, world m')"
    by (intro prod_eqI) (auto simp: lift_proc_def case_prod_beta)
  then show ?thesis
    by (rule wait_exited)
qed

lemma power_cycle_cold_starts:
  assumes "prompt" and "fst (q_Quit (qmpClient env) (world m)) = None"
    and "resetProcessMode env pm ''PowerCycle'' m = (None, m')"
  shows "cold_start env m m'"
proof -
  have r: "(case fst (forceOff env pm m) of
      Some _ \<Rightarrow> powerOn env pm (killAndWait pm (snd (forceOff env pm m)))
    | None \<Rightarrow> powerOn env pm (snd (forceOff env pm m))) = (None, m')"
    using assms(3) unfolding resetProcessMode_def Let_def by (simp add: case_prod_beta)
  show ?thesis
  proof (cases "fst (forceOff env pm m)")
    case None
    then have "\<not> running (world (snd (forceOff env pm m)))"
      using force_off_by_quit [OF assms(2)] by (metis prod.collapse)
    with r None show ?thesis
      by (intro cold_start_cong [OF _ powerOn_cold_start [of env "snd (forceOff env pm m)"]]) simp_all
  next
    case (Some e)
    with r killAndWait_stops [OF assms(1)] show ?thesis
      by (intro cold_start_cong [OF _ powerOn_cold_start
            [of env "killAndWait pm (snd (forceOff env pm m))"]]) simp_all
  qed
qed

end

end
