(* ===== verification/Qemu_Process.thy ===== *)
theory Qemu_Process
  imports Qemu_Args Machine_Control
begin

text \<open>
  The process manager of src/internal/qemu/process.go. Its operations call the operating system
  and wait in real time, so its world is timed: a clock, and for the QEMU process last started
  the time at which it dies, if it is going to. The monitor goroutine notices the death one lag
  later, when it clears the running flag, and closes the exit channel another lag after that.
  What the code does not decide (whether the process can be started, how long QEMU takes to react
  to a signal) is an \<open>os_env\<close> the operations are defined over.
\<close>

section \<open>The operating system\<close>

text \<open>
  \<open>start_error\<close>: the error of \<open>cmd.Start\<close> for an argument list; \<open>life\<close>: how long a started
  process lives if nobody signals it (None for ever); \<open>term_delay\<close>: how long it takes to exit
  after SIGTERM (None if it ignores the signal); \<open>kill_delay\<close>: after SIGKILL; \<open>zombie_lag\<close>:
  how long a dead process remains a zombie, which can still be signalled, until \<open>cmd.Wait\<close> has
  collected it.
\<close>

record os_env =
  start_error :: "string list \<Rightarrow> go_error option"
  life :: "nanos option"
  term_delay :: "nanos option"
  kill_delay :: nanos
  zombie_lag :: nanos
  reap_lag :: nanos
  close_lag :: nanos

record process =
  proc_args :: "string list"
  dies_at :: "nanos option"

text \<open>
  The fields of \<open>processManager\<close>: \<open>cmd\<close> is the process last started; the flag \<open>running\<close> is
  computed from the clock; the exit channel is the process's, or, before the first start, one
  that is never closed.
\<close>

record proc_world =
  now :: nanos
  baseArgs :: "string list"
  media :: string
  cmd :: "process option"

definition NewProcessManager :: "string list \<Rightarrow> proc_world" where
  "NewProcessManager args = \<lparr>now = 0, baseArgs = args, media = [], cmd = None\<rparr>"

section \<open>The monitor goroutine\<close>

text \<open>
  \<open>monitor\<close>: \<open>cmd.Wait\<close> returns when the process has died; then the flag is cleared under the
  lock, and after that the channel is closed.
\<close>

definition running_at :: "os_env \<Rightarrow> proc_world \<Rightarrow> nanos \<Rightarrow> bool" where
  "running_at os w t =
     (case cmd w of
        None \<Rightarrow> False
      | Some p \<Rightarrow> (case dies_at p of None \<Rightarrow> True | Some d \<Rightarrow> t < d + reap_lag os))"

definition exit_closed_at :: "os_env \<Rightarrow> proc_world \<Rightarrow> nanos option" where
  "exit_closed_at os w =
     (case cmd w of
        None \<Rightarrow> None
      | Some p \<Rightarrow> map_option (\<lambda>d. d + reap_lag os + close_lag os) (dies_at p))"

section \<open>Operations\<close>

definition SetMedia :: "string \<Rightarrow> proc_world \<Rightarrow> proc_world" where
  "SetMedia img w = w\<lparr>media := img\<rparr>"

definition IsRunning :: "os_env \<Rightarrow> proc_world \<Rightarrow> bool" where
  "IsRunning os w = running_at os w (now w)"

definition start_args :: "proc_world \<Rightarrow> string \<Rightarrow> string list" where
  "start_args w bootTarget = applyMedia (ApplyBootOverride (baseArgs w) bootTarget) (media w)"

definition Start :: "os_env \<Rightarrow> string \<Rightarrow> proc_world action" where
  "Start os bootTarget w =
     (if IsRunning os w then (None, w)
      else
        let args = start_args w bootTarget
        in case start_error os args of
             Some e \<Rightarrow> (Some e, w)
           | None \<Rightarrow>
               (None, w\<lparr>cmd := Some \<lparr>proc_args = args,
                  dies_at = map_option (\<lambda>l. now w + 1 + l) (life os)\<rparr>\<rparr>))"

text \<open>
  \<open>Process.Signal\<close>: an error for a process that has been collected, no effect on one that is
  dead, otherwise the process dies after the delay at the latest.
\<close>

definition earlier :: "nanos option \<Rightarrow> nanos option \<Rightarrow> nanos option" where
  "earlier a b = (case a of None \<Rightarrow> b | Some x \<Rightarrow> (case b of None \<Rightarrow> a | Some y \<Rightarrow> Some (min x y)))"

definition Signal :: "os_env \<Rightarrow> nanos option \<Rightarrow> proc_world action" where
  "Signal os delay w =
     (case cmd w of
        None \<Rightarrow> (None, w)
      | Some p \<Rightarrow>
          if (case dies_at p of None \<Rightarrow> False | Some d \<Rightarrow> d + zombie_lag os \<le> now w)
          then (Some ''os: process already finished'', w)
          else (None, w\<lparr>cmd := Some (p\<lparr>dies_at :=
                  earlier (dies_at p) (map_option (\<lambda>d. now w + d) delay)\<rparr>)\<rparr>))"

definition WaitForExit :: "os_env \<Rightarrow> nanos \<Rightarrow> proc_world action" where
  "WaitForExit os timeout w =
     (case exit_closed_at os w of
        None \<Rightarrow> (Some ''timeout waiting for process exit'', w\<lparr>now := now w + timeout\<rparr>)
      | Some t \<Rightarrow>
          if t \<le> now w + timeout then (None, w\<lparr>now := max (now w) t\<rparr>)
          else (Some ''timeout waiting for process exit'', w\<lparr>now := now w + timeout\<rparr>))"

definition Kill :: "os_env \<Rightarrow> proc_world action" where
  "Kill os w =
     (if \<not> IsRunning os w then (None, w)
      else (case Signal os (Some (kill_delay os)) w of
              (Some e, w') \<Rightarrow> (Some (''sending SIGKILL: '' @ e), w')
            | (None, w') \<Rightarrow> (None, w')))"

definition Stop :: "os_env \<Rightarrow> nanos \<Rightarrow> proc_world action" where
  "Stop os timeout w =
     (if \<not> IsRunning os w then (None, w)
      else (case Signal os (term_delay os) w of
              (Some e, w1) \<Rightarrow> (Some (''sending SIGTERM: '' @ e), w1)
            | (None, w1) \<Rightarrow>
                (case WaitForExit os timeout w1 of
                   (Some _, w2) \<Rightarrow> Kill os w2
                 | (None, w2) \<Rightarrow> (None, w2))))"

definition process_manager :: "os_env \<Rightarrow> proc_world ProcessManager" where
  "process_manager os = \<lparr>pm_Start = Start os, pm_Stop = Stop os, pm_Kill = Kill os,
     pm_IsRunning = (\<lambda>w. (IsRunning os w, w)), pm_WaitForExit = WaitForExit os,
     pm_SetMedia = SetMedia\<rparr>"

section \<open>The contract of the VM controller\<close>

lemma running_antimono: "\<not> running_at os w t \<Longrightarrow> t \<le> t' \<Longrightarrow> \<not> running_at os w t'"
  by (auto simp: running_at_def split: option.splits)

lemma running_at_now [simp]: "running_at os (w\<lparr>now := t\<rparr>) t' = running_at os w t'"
  by (simp add: running_at_def)

lemma WaitForExit_exited:
  "WaitForExit os d w = (None, w') \<Longrightarrow> \<not> IsRunning os w'"
  by (auto simp: WaitForExit_def IsRunning_def running_at_def exit_closed_at_def
      split: option.splits if_splits)

lemma WaitForExit_stays:
  "\<not> IsRunning os w \<Longrightarrow> \<not> IsRunning os (snd (WaitForExit os d w))"
  unfolding WaitForExit_def IsRunning_def
  by (auto simp: running_antimono split: option.split)

text \<open>An operating system that has a killed process reaped within the five seconds waited for.\<close>

definition prompt_os :: "os_env \<Rightarrow> bool" where
  "prompt_os os \<longleftrightarrow> kill_delay os + reap_lag os + close_lag os \<le> 5 * Second"

lemma wait_within:
  assumes "cmd w = Some p" and "dies_at p = Some d" and "d + reap_lag os + close_lag os \<le> now w + t"
  shows "\<not> IsRunning os (snd (WaitForExit os t w))"
proof -
  have "fst (WaitForExit os t w) = None"
    using assms by (simp add: WaitForExit_def exit_closed_at_def)
  then show ?thesis
    by (metis WaitForExit_exited prod.collapse)
qed

lemma Kill_settles:
  assumes "prompt_os os"
  shows "\<not> IsRunning os (snd (WaitForExit os (5 * Second) (snd (Kill os w))))"
proof (cases "IsRunning os w")
  case False
  then show ?thesis
    by (simp add: Kill_def WaitForExit_stays)
next
  case True
  then obtain p where p: "cmd w = Some p"
    by (auto simp: IsRunning_def running_at_def split: option.splits)
  show ?thesis
  proof (cases "\<exists>d. dies_at p = Some d \<and> d + zombie_lag os \<le> now w")
    case dead: True
    then obtain d where d: "dies_at p = Some d" "d + zombie_lag os \<le> now w"
      by blast
    then have "snd (Kill os w) = w"
      using True p by (simp add: Kill_def Signal_def)
    then show ?thesis
      using wait_within [OF p d(1), of os "5 * Second"] d(2) assms by (simp add: prompt_os_def)
  next
    case False
    define k where "k = (case dies_at p of None \<Rightarrow> now w + kill_delay os
      | Some d \<Rightarrow> min d (now w + kill_delay os))"
    have kill: "snd (Kill os w) = w\<lparr>cmd := Some (p\<lparr>dies_at := Some k\<rparr>)\<rparr>"
      using True p False by (auto simp: Kill_def Signal_def earlier_def k_def split: option.split)
    have "k \<le> now w + kill_delay os"
      by (simp add: k_def split: option.split)
    then show ?thesis
      using assms unfolding kill prompt_os_def
      by (intro wait_within [of _ "p\<lparr>dies_at := Some k\<rparr>" k]) simp_all
  qed
qed

interpretation procs: process_control "process_manager os" "IsRunning os" "prompt_os os" for os
proof unfold_locales
  fix w w' :: proc_world and t :: string and d :: nanos and e :: go_error
  show "pm_IsRunning (process_manager os) w = (IsRunning os w, w)"
    by (simp add: process_manager_def)
  show "IsRunning os w'" if "pm_Start (process_manager os) t w = (None, w')"
    using that by (auto simp: process_manager_def Start_def Let_def IsRunning_def running_at_def
        split: if_splits option.splits)
  show "pm_Start (process_manager os) t w = (None, w)" if "IsRunning os w"
    using that by (simp add: process_manager_def Start_def)
  show "\<not> IsRunning os w'" if "pm_Start (process_manager os) t w = (Some e, w')"
    using that by (auto simp: process_manager_def Start_def Let_def split: if_splits option.splits)
  show "pm_Stop (process_manager os) d w = (None, w)" if "\<not> IsRunning os w"
    using that by (simp add: process_manager_def Stop_def)
  show "\<not> IsRunning os w'" if "pm_WaitForExit (process_manager os) d w = (None, w')"
    using that by (auto simp: process_manager_def dest: WaitForExit_exited)
  show "\<not> IsRunning os (snd (pm_WaitForExit (process_manager os) (5 * Second)
      (snd (pm_Kill (process_manager os) w))))" if "prompt_os os"
    using Kill_settles [OF that] by (simp add: process_manager_def)
qed

end
