(* ===== verification/Machine_Properties.thy ===== *)
theory Machine_Properties
  imports Qemu_Process
begin

text \<open>
  The properties of the VM controller (src/internal/machine/machine.go) and of the process manager
  it drives (src/internal/qemu/process.go), the latter through the interpretation of the
  controller's process contract.
\<close>

section \<open>Operations of a machine\<close>

datatype machine_op =
    OpReset string
  | OpSetBootOverride BootOverride
  | OpGetPowerState
  | OpInsertMedia string
  | OpEjectMedia

definition run_machine_op :: "'w machine_env \<Rightarrow> 'w Machine \<Rightarrow> machine_op \<Rightarrow> 'w Machine" where
  "run_machine_op env m op =
     (case op of
        OpReset r \<Rightarrow> snd (Reset env r m)
      | OpSetBootOverride bo \<Rightarrow> snd (SetBootOverride bo m)
      | OpGetPowerState \<Rightarrow> snd (GetPowerState env m)
      | OpInsertMedia img \<Rightarrow> snd (InsertMedia env img m)
      | OpEjectMedia \<Rightarrow> snd (EjectMedia env m))"

lemma fetchMedia_override [simp]: "bootOverride (snd (fetchMedia f img dst m)) = bootOverride m"
  by (simp add: fetchMedia_def case_prod_beta split: sum.split option.split)

lemma set_media_override [simp]: "bootOverride (set_media env img m) = bootOverride m"
  by (simp add: set_media_def split: option.split)

lemma run_machine_op_valid:
  "valid_override (bootOverride m) \<Longrightarrow> valid_override (bootOverride (run_machine_op env m op))"
  using overrides.valid_kept [of m] Reset_valid [of m env]
  by (cases op) (simp_all add: run_machine_op_def InsertMedia_def EjectMedia_def Let_def
      GetBootOverride_def case_prod_beta split: sum.split)

definition reset_types :: "string set" where
  "reset_types = {''On'', ''ForceOn'', ''ForceOff'', ''GracefulShutdown'', ''ForceRestart'',
     ''GracefulRestart'', ''PowerCycle''}"

section \<open>Properties\<close>

text \<open>
  Whatever operations run on a machine, in whatever order and with whatever outcome of the
  QMP client and the process manager, its boot override always names a known target and one of
  the three known modes of being enabled.
\<close>

theorem boot_override_always_valid:
  "valid_override (bootOverride (foldl (run_machine_op env) (NewMachine w) ops))"
proof -
  have "valid_override (bootOverride (foldl (run_machine_op env) m ops))"
    if "valid_override (bootOverride m)" for m
    using that by (induction ops arbitrary: m) (simp_all add: run_machine_op_valid)
  then show ?thesis
    by (simp add: NewMachine_def valid_override_def validTargets_def validEnabled_def)
qed

text \<open>
  C26: Waiting for QMP is bounded: it makes at most one connection attempt per 100 milliseconds of
  the timeout and two more; it succeeds exactly when its last attempt does, after only failed
  ones, and otherwise reports the timeout after attempts that all failed.
\<close>

theorem wait_for_qmp_bounded:
  "\<exists>n \<le> timeout div (100 * Millisecond) + 1.
     (case waitLoop q timeout 0 w of
        (None, w') \<Rightarrow>
          (\<exists>w1 took. failed_attempts q n w = Some w1 \<and> q_Connect q w1 = (None, took, w'))
      | (Some e, w') \<Rightarrow>
          failed_attempts q (n + 1) w = Some w' \<and> e = QMPConnectTimeout (int timeout))"
  using waitForQMP_spec [of q timeout w "fst (waitLoop q timeout 0 w)" "snd (waitLoop q timeout 0 w)"]
  by (auto simp: attempts_def case_prod_beta split: option.splits)

text \<open>
  Reset refuses an action it does not know, in both modes, and then touches nothing; it
  knows exactly the seven Redfish reset types, which it never refuses for that reason.
\<close>

theorem reset_types_known:
  "(fst (Reset env r m) = Some (UnsupportedResetType r')) = (r \<notin> reset_types \<and> r' = r)
   \<and> (r \<notin> reset_types \<longrightarrow> snd (Reset env r m) = m)"
proof -
  have legacy: "(fst (resetLegacy env r m) = Some (UnsupportedResetType r')) =
      (r \<notin> reset_types \<and> r' = r) \<and> (r \<notin> reset_types \<longrightarrow> snd (resetLegacy env r m) = m)"
    if "processManager env = None"
    using that by (auto simp: resetLegacy_def reset_types_def case_prod_beta Let_def
        GetPowerState_def getPowerStateLegacy_def split: option.splits sum.splits if_splits)
  have on: "fst (powerOn env pm m') \<noteq> Some (UnsupportedResetType r')" for pm m'
    by (auto simp: powerOn_def waitForQMP_def case_prod_beta Let_def dest: waitLoop_error
        split: option.splits bool.splits)
  have off: "fst (forceOff env pm m') \<noteq> Some (UnsupportedResetType r')" for pm m'
    by (auto simp: forceOff_def case_prod_beta split: option.splits)
  have process: "(fst (resetProcessMode env pm r m) = Some (UnsupportedResetType r')) =
      (r \<notin> reset_types \<and> r' = r) \<and> (r \<notin> reset_types \<longrightarrow> snd (resetProcessMode env pm r m) = m)"
    for pm
    using on off by (auto simp: resetProcessMode_def reset_types_def case_prod_beta Let_def
        split: option.splits if_splits)
  show ?thesis
    using legacy process by (simp add: Reset_def split: option.split)
qed

text \<open>A QMP client that always answers, and a machine on the process model, for the witnesses.\<close>

definition ready_qmp :: "go_error option \<Rightarrow> 'w QmpClient" where
  "ready_qmp quit = \<lparr>q_Connect = (\<lambda>w. (None, 0, w)), q_QueryStatus = (\<lambda>w. (Inr StatusRunning, w)),
     q_SystemPowerdown = (\<lambda>w. (None, w)), q_SystemReset = (\<lambda>w. (None, w)),
     q_Stop = (\<lambda>w. (None, w)), q_Cont = (\<lambda>w. (None, w)), q_Quit = (\<lambda>w. (quit, w)),
     q_BlockdevChangeMedium = (\<lambda>d f w. (None, w)), q_BlockdevRemoveMedium = (\<lambda>d w. (None, w))\<rparr>"

definition no_fetcher :: "'w Fetcher" where
  "no_fetcher = \<lparr>f_Get = (\<lambda>u w. (Inl ''no network'', w)), f_Create = (\<lambda>p w. (None, w)),
     f_Copy = (\<lambda>p b w. (None, w)), f_Remove = (\<lambda>p w. w)\<rparr>"

definition stubborn_os :: os_env where
  "stubborn_os = \<lparr>start_error = (\<lambda>a. None), life = None, term_delay = None, kill_delay = 1,
     zombie_lag = 0, reap_lag = 1, close_lag = 1\<rparr>"

definition sample_env :: "go_error option \<Rightarrow> os_env \<Rightarrow> proc_world machine_env" where
  "sample_env quit os = \<lparr>qmpClient = ready_qmp quit, processManager = Some (process_manager os),
     fetcher = no_fetcher\<rparr>"

lemma reset_types_known_witness:
  "Reset (sample_env None stubborn_os) ''Nap'' (NewMachine (NewProcessManager []))
     = (Some (UnsupportedResetType ''Nap''), NewMachine (NewProcessManager []))"
  using reset_types_known [of "sample_env None stubborn_os" "''Nap''"
      "NewMachine (NewProcessManager [])" "''Nap''"]
  by (intro prod_eqI) (simp_all add: reset_types_def)

text \<open>A process-managed machine over the model of the process manager.\<close>

lemma Reset_process:
  "processManager env = Some (process_manager os) \<Longrightarrow>
    Reset env r m = resetProcessMode env (process_manager os) r m"
  by (simp add: Reset_def)

lemma Start_started:
  assumes "Start os t w0 = (None, w1)" and "\<not> IsRunning os w0"
  shows "\<exists>p. cmd w1 = Some p \<and> proc_args p = start_args w0 t"
  using assms by (auto simp: Start_def Let_def split: if_splits option.splits)

lemma sample_simps [simp]:
  "processManager (sample_env quit os) = Some (process_manager os)"
  "qmpClient (sample_env quit os) = ready_qmp quit"
  "q_SystemPowerdown (ready_qmp quit) = (\<lambda>w. (None, w))"
  "q_Quit (ready_qmp quit) = (\<lambda>w. (quit, w))"
  "start_error stubborn_os = (\<lambda>a. None)" "term_delay stubborn_os = None"
  by (simp_all add: sample_env_def ready_qmp_def stubborn_os_def)

lemma process_manager_simps [simp]:
  "pm_Start (process_manager os) = Start os" "pm_Stop (process_manager os) = Stop os"
  "pm_Kill (process_manager os) = Kill os" "pm_WaitForExit (process_manager os) = WaitForExit os"
  by (simp_all add: process_manager_def)

lemma ready_waitLoop [simp]: "waitLoop (ready_qmp quit) t n w = (None, w)"
  by (simp add: waitLoop.simps ready_qmp_def)

lemma sample_power_on:
  assumes "\<not> IsRunning os (world m)" and "start_error os = (\<lambda>a. None)"
  shows "fst (powerOn (sample_env quit os) (process_manager os) m) = None"
proof -
  obtain w1 where "pm_Start (process_manager os) (bo_Target (bootOverride m)) (world m) = (None, w1)"
    using assms by (simp add: process_manager_def Start_def Let_def)
  then show ?thesis
    by (simp add: procs.powerOn_stopped [OF assms(1)] on_world_def waitForQMP_def sample_env_def)
qed

lemma power_on_boots:
  assumes "processManager env = Some (process_manager os)" and "\<not> IsRunning os (world m)"
  shows "(fst (Reset env ''On'' m) = None \<longrightarrow>
      (\<exists>w1 p. Start os (bo_Target (bootOverride m)) (world m) = (None, w1) \<and> cmd w1 = Some p
        \<and> proc_args p = applyMedia (ApplyBootOverride (baseArgs (world m))
             (bo_Target (bootOverride m))) (media (world m))
        \<and> waitLoop (qmpClient env) (30 * Second) 0 w1 = (None, world (snd (Reset env ''On'' m))))
      \<and> bootOverride (snd (Reset env ''On'' m)) =
          (if bo_Enabled (bootOverride m) = ''Once''
           then (bootOverride m)\<lparr>bo_Enabled := ''Disabled'', bo_Target := ''None''\<rparr>
           else bootOverride m))
    \<and> (fst (Reset env ''On'' m) \<noteq> None \<longrightarrow> bootOverride (snd (Reset env ''On'' m)) = bootOverride m)"
proof -
  have on: "Reset env ''On'' m = powerOn env (process_manager os) m"
    by (simp add: Reset_process [OF assms(1)] resetProcessMode_def Let_def)
  have start: "on_world (pm_Start (process_manager os) t) m =
      (fst (Start os t (world m)), m\<lparr>world := snd (Start os t (world m))\<rparr>)" for t
    by (simp add: on_world_def process_manager_def case_prod_beta)
  show ?thesis
    unfolding on procs.powerOn_stopped [OF assms(2)] start waitForQMP_def on_world_def
    using Start_started [OF _ assms(2)]
    by (cases "Start os (bo_Target (bootOverride m)) (world m)")
      (auto simp: ConsumeBootOnce_override start_args_def split: option.split prod.split)
qed

text \<open>
  C10: Powering on a stopped, process-managed machine: success means that a new QEMU process was
  started with the base arguments, the boot override's target and the inserted media worked in,
  and that it answered on QMP; then a one-time override has been used up and any other is kept.
  If QEMU does not start, or never answers, the override is kept for the next attempt.
\<close>

theorem power_on_boots_override:
  assumes "processManager env = Some (process_manager os)" and "\<not> IsRunning os (world m)"
  shows "(fst (Reset env ''On'' m) = None \<longrightarrow>
      (\<exists>w1 p. Start os (bo_Target (bootOverride m)) (world m) = (None, w1) \<and> cmd w1 = Some p
        \<and> proc_args p = applyMedia (ApplyBootOverride (baseArgs (world m))
             (bo_Target (bootOverride m))) (media (world m))
        \<and> waitLoop (qmpClient env) (30 * Second) 0 w1 = (None, world (snd (Reset env ''On'' m))))
      \<and> bootOverride (snd (Reset env ''On'' m)) =
          (if bo_Enabled (bootOverride m) = ''Once''
           then (bootOverride m)\<lparr>bo_Enabled := ''Disabled'', bo_Target := ''None''\<rparr>
           else bootOverride m))
    \<and> (fst (Reset env ''On'' m) \<noteq> None \<longrightarrow> bootOverride (snd (Reset env ''On'' m)) = bootOverride m)"
  by (rule power_on_boots [OF assms])

lemma power_on_boots_override_witness:
  "bootOverride (snd (Reset (sample_env None stubborn_os) ''On''
     ((NewMachine (NewProcessManager [''-m'', ''64'']))\<lparr>bootOverride :=
        \<lparr>bo_Enabled = ''Once'', bo_Target = ''Cd'', bo_Mode = ''UEFI''\<rparr>\<rparr>)))
   = \<lparr>bo_Enabled = ''Disabled'', bo_Target = ''None'', bo_Mode = ''UEFI''\<rparr>"
proof -
  let ?m = "(NewMachine (NewProcessManager [''-m'', ''64'']))\<lparr>bootOverride :=
        \<lparr>bo_Enabled = ''Once'', bo_Target = ''Cd'', bo_Mode = ''UEFI''\<rparr>\<rparr>"
  have stopped: "\<not> IsRunning stubborn_os (world ?m)"
    by (simp add: NewMachine_def NewProcessManager_def IsRunning_def running_at_def)
  have "fst (Reset (sample_env None stubborn_os) ''On'' ?m) = None"
    using sample_power_on [OF stopped]
    by (simp add: Reset_def resetProcessMode_def)
  then show ?thesis
    using power_on_boots_override [OF _ stopped, of "sample_env None stubborn_os"]
    by simp
qed

text \<open>
  C8: A graceful restart, and a power cycle whose QMP quit command got through, that report
  success really restarted QEMU, on an operating system that carries out SIGKILL within five
  seconds: a new process was started from a state in which none was running, for the override's
  target, and answered on QMP, even when the guest ignored the shutdown request.
\<close>

theorem restart_restarts:
  assumes "processManager env = Some (process_manager os)" and "prompt_os os"
    and "r = ''GracefulRestart'' \<or> r = ''PowerCycle'' \<and> fst (q_Quit (qmpClient env) (world m)) = None"
    and "fst (Reset env r m) = None"
  shows "\<exists>w0 w1. \<not> IsRunning os w0 \<and> IsRunning os w1
    \<and> Start os (bo_Target (bootOverride m)) w0 = (None, w1)
    \<and> waitLoop (qmpClient env) (30 * Second) 0 w1 = (None, world (snd (Reset env r m)))"
proof -
  have "resetProcessMode env (process_manager os) r m = (None, snd (Reset env r m))"
    using assms(4) by (simp add: Reset_process [OF assms(1)] prod_eq_iff)
  then have "procs.cold_start os env m (snd (Reset env r m))"
    using assms(2,3) procs.graceful_restart_cold_starts procs.power_cycle_cold_starts by metis
  then show ?thesis
    unfolding procs.cold_start_def by (auto simp: process_manager_def)
qed

text \<open>A machine whose guest runs and ignores SIGTERM and ACPI requests.\<close>

definition hung_machine :: "proc_world Machine" where
  "hung_machine = NewMachine ((NewProcessManager [])
     \<lparr>cmd := Some \<lparr>proc_args = [], dies_at = None\<rparr>\<rparr>)"

lemma restart_restarts_witness:
  "fst (Reset (sample_env None stubborn_os) ''GracefulRestart'' hung_machine) = None
   \<and> (\<exists>w0 w1. \<not> IsRunning stubborn_os w0 \<and> Start stubborn_os ''None'' w0 = (None, w1))"
proof -
  have prompt: "prompt_os stubborn_os"
    by (simp add: prompt_os_def stubborn_os_def Second_def)
  have never: "fst (WaitForExit stubborn_os d (world hung_machine))
      = Some ''timeout waiting for process exit''" for d
    by (simp add: WaitForExit_def exit_closed_at_def hung_machine_def NewMachine_def
        NewProcessManager_def)
  have "fst (Reset (sample_env None stubborn_os) ''GracefulRestart'' hung_machine) = None"
    using sample_power_on [OF procs.killAndWait_stops [OF prompt]] never
    by (auto simp: Reset_def resetProcessMode_def case_prod_beta Let_def split: option.split)
  then show ?thesis
    using restart_restarts [of "sample_env None stubborn_os" stubborn_os "''GracefulRestart''"
        hung_machine, OF _ prompt]
    by (auto simp: hung_machine_def NewMachine_def)
qed

text \<open>A process that nothing has told to die outlives every wait.\<close>

lemma WaitForExit_immortal:
  assumes "cmd w = Some p" and "dies_at p = None"
  shows "WaitForExit os d w = (Some ''timeout waiting for process exit'', w\<lparr>now := now w + d\<rparr>)"
  using assms by (simp add: WaitForExit_def exit_closed_at_def)

lemma immortal_running: "cmd w = Some p \<Longrightarrow> dies_at p = None \<Longrightarrow> IsRunning os w"
  by (simp add: IsRunning_def running_at_def)

lemma Stop_immortal:
  assumes "cmd w = Some p" and "dies_at p = None" and "term_delay os = None"
  shows "Stop os d w = (None, w\<lparr>now := now w + d,
    cmd := Some (p\<lparr>dies_at := Some (now w + d + kill_delay os)\<rparr>)\<rparr>)"
proof -
  have sig: "Signal os None w = (None, w)"
    using assms by (cases w; cases p) (simp add: Signal_def earlier_def)
  have kill: "Kill os (w\<lparr>now := now w + d\<rparr>) = (None, w\<lparr>now := now w + d,
      cmd := Some (p\<lparr>dies_at := Some (now w + d + kill_delay os)\<rparr>)\<rparr>)"
    using assms immortal_running [of "w\<lparr>now := now w + d\<rparr>" p os]
    by (simp add: Kill_def Signal_def earlier_def)
  show ?thesis
    using assms immortal_running [OF assms(1,2)] kill
    by (simp add: Stop_def sig WaitForExit_immortal [OF assms(1,2)])
qed

text \<open>
  C34: A forced power off can report success while QEMU is still running: when the QMP quit
  command fails and the process does not react to SIGTERM, the process manager's last step is a
  SIGKILL it does not wait for. A power cycle then sees the dying process, takes the machine for
  running and reports success without starting QEMU again.
\<close>

theorem force_off_does_not_wait_for_kill:
  assumes "processManager env = Some (process_manager os)"
    and "q_Quit (qmpClient env) (world m) = (Some e, w)" and "cmd w = Some p"
    and "dies_at p = None" and "term_delay os = None" and "0 < kill_delay os + reap_lag os"
  shows "fst (Reset env ''ForceOff'' m) = None
    \<and> IsRunning os (world (snd (Reset env ''ForceOff'' m)))
    \<and> Reset env ''PowerCycle'' m = Reset env ''ForceOff'' m
    \<and> (\<exists>d. cmd (world (snd (Reset env ''PowerCycle'' m))) = Some (p\<lparr>dies_at := Some d\<rparr>))"
proof -
  let ?w = "w\<lparr>now := now w + 30 * Second,
    cmd := Some (p\<lparr>dies_at := Some (now w + 30 * Second + kill_delay os)\<rparr>)\<rparr>"
  have off: "forceOff env (process_manager os) m = (None, m\<lparr>world := ?w\<rparr>)"
    using assms(2) Stop_immortal [OF assms(3-5)]
    by (simp add: forceOff_def on_world_def lift_proc_def)
  have up: "IsRunning os ?w"
    using assms(6) by (simp add: IsRunning_def running_at_def)
  then have "powerOn env (process_manager os) (m\<lparr>world := ?w\<rparr>) = (None, m\<lparr>world := ?w\<rparr>)"
    by (intro procs.powerOn_running) simp
  with off up show ?thesis
    by (auto simp: Reset_process [OF assms(1)] resetProcessMode_def Let_def)
qed

lemma force_off_does_not_wait_for_kill_witness:
  "fst (Reset (sample_env (Some ''not connected'') stubborn_os) ''PowerCycle'' hung_machine) = None
   \<and> IsRunning stubborn_os (world (snd (Reset (sample_env (Some ''not connected'') stubborn_os)
       ''ForceOff'' hung_machine)))"
proof -
  have "cmd (world hung_machine) = Some \<lparr>proc_args = [], dies_at = None\<rparr>"
    by (simp add: hung_machine_def NewMachine_def)
  then show ?thesis
    using force_off_does_not_wait_for_kill [of "sample_env (Some ''not connected'') stubborn_os"
        stubborn_os hung_machine "''not connected''" "world hung_machine"]
    by (simp add: stubborn_os_def [THEN arg_cong [where f = kill_delay]]
        stubborn_os_def [THEN arg_cong [where f = reap_lag]])
qed

text \<open>
  A graceful shutdown that times out does not fall back to killing the process: when the
  guest ignores the shutdown request, the reset still reports success and QEMU goes on running.
\<close>

theorem graceful_shutdown_timeout_leaves_running:
  assumes "processManager env = Some (process_manager os)"
    and "q_SystemPowerdown (qmpClient env) (world m) = (None, w)" and "cmd w = Some p"
    and "dies_at p = None"
  shows "Reset env ''GracefulShutdown'' m =
      (None, m\<lparr>world := w\<lparr>now := now w + gracefulShutdownTimeout m\<rparr>\<rparr>)
    \<and> IsRunning os (world (snd (Reset env ''GracefulShutdown'' m)))"
proof -
  have "Reset env ''GracefulShutdown'' m =
      (None, m\<lparr>world := w\<lparr>now := now w + gracefulShutdownTimeout m\<rparr>\<rparr>)"
    using assms(2) WaitForExit_immortal [OF assms(3,4)]
    by (simp add: Reset_process [OF assms(1)] resetProcessMode_def Let_def lift_qmp_def on_world_def)
  moreover have "IsRunning os (w\<lparr>now := t\<rparr>)" for t
    using assms(3,4) by (intro immortal_running [of _ p]) simp_all
  ultimately show ?thesis by simp
qed

lemma graceful_shutdown_timeout_leaves_running_witness:
  "IsRunning stubborn_os (world (snd (Reset (sample_env None stubborn_os) ''GracefulShutdown''
     hung_machine)))"
proof -
  have c: "cmd (world hung_machine) = Some \<lparr>proc_args = [], dies_at = None\<rparr>"
    by (simp add: hung_machine_def NewMachine_def)
  show ?thesis
    by (rule graceful_shutdown_timeout_leaves_running [OF _ _ c, THEN conjunct2]) simp_all
qed

end
