(* ===== verification/Json.thy ===== *)
theory Json
  imports Go_Prelude "HOL-Library.AList" "HOL-Library.List_Lexorder" "HOL-Library.Char_ord"
begin

text \<open>
  What the sources use of \<open>encoding/json\<close>: JSON values, the encoding of struct fields with
  \<open>omitempty\<close>, and decoding into structs with its rules for \<open>null\<close>, repeated and unknown members
  and the case of names. The lexical level (the text of a value, and the replacement of invalid
  UTF-8) is left out: a message is its value, and a text that is no JSON value is \<open>None\<close>.
\<close>

section \<open>Values\<close>

text \<open>
  Objects keep the order of their members and may repeat a name. \<open>JInt\<close> is a number without
  fraction and exponent, \<open>JFloat m e\<close> any other number, by the value \<open>m * 2^e\<close> of its float64.
\<close>

datatype json =
    JNull
  | JBool bool
  | JInt int
  | JFloat int int
  | JStr string
  | JArr "json list"
  | JObj "(string \<times> json) list"

text \<open>\<open>float64\<close> as \<open>m * 2^e\<close>, and \<open>map[string]any\<close> as an association list with distinct keys.\<close>

type_synonym float64 = "int \<times> int"
type_synonym any_map = "(string \<times> json) list"

section \<open>Encoding\<close>

definition enc_float :: "float64 \<Rightarrow> json" where
  "enc_float f = (case f of (m, e) \<Rightarrow>
     if 0 \<le> e then JInt (m * 2 ^ nat e)
     else if m mod 2 ^ nat (- e) = 0 then JInt (m div 2 ^ nat (- e))
     else JFloat m e)"

text \<open>Maps are written in the order of their keys.\<close>

definition enc_map :: "any_map \<Rightarrow> json" where
  "enc_map m = JObj (sort_key fst m)"

definition enc_list :: "('a \<Rightarrow> json) \<Rightarrow> 'a list \<Rightarrow> json" where
  "enc_list f xs = JArr (map f xs)"

definition enc_ptr :: "('a \<Rightarrow> json) \<Rightarrow> 'a option \<Rightarrow> json" where
  "enc_ptr f p = (case p of None \<Rightarrow> JNull | Some x \<Rightarrow> f x)"

definition fld :: "string \<Rightarrow> json \<Rightarrow> (string \<times> json) list" where
  "fld k j = [(k, j)]"

text \<open>Fields with \<open>omitempty\<close>.\<close>

definition fld_str :: "string \<Rightarrow> string \<Rightarrow> (string \<times> json) list" where
  "fld_str k s = (if s = [] then [] else [(k, JStr s)])"

definition fld_list :: "string \<Rightarrow> ('a \<Rightarrow> json) \<Rightarrow> 'a list \<Rightarrow> (string \<times> json) list" where
  "fld_list k f xs = (if xs = [] then [] else [(k, enc_list f xs)])"

definition fld_ptr :: "string \<Rightarrow> ('a \<Rightarrow> json) \<Rightarrow> 'a option \<Rightarrow> (string \<times> json) list" where
  "fld_ptr k f p = (case p of None \<Rightarrow> [] | Some x \<Rightarrow> [(k, f x)])"

named_theorems json_enc \<open>unfolds encoders\<close>

lemmas [json_enc] = enc_list_def enc_ptr_def fld_def fld_str_def fld_list_def fld_ptr_def

text \<open>The member of an object a client reads.\<close>

fun member :: "string \<Rightarrow> json \<Rightarrow> json option" where
  "member k (JObj ms) = map_of ms k"
| "member k _ = None"

section \<open>Decoding\<close>

text \<open>
  Names are compared exactly first and then folded: the folding identifies the ASCII letters
  with their capitals, and the long s and the Kelvin sign (in UTF-8) with S and K.
\<close>

definition fold_char :: "char \<Rightarrow> char" where
  "fold_char c =
     (let n = of_char c :: nat in if 97 \<le> n \<and> n \<le> 122 then char_of (n - 32) else c)"

fun fold_name :: "string \<Rightarrow> string" where
  "fold_name s =
     (if s = [] then []
      else if take 2 s = [CHR 0xC5, CHR 0xBF] then CHR ''S'' # fold_name (drop 2 s)
      else if take 3 s = [CHR 0xE2, CHR 0x84, CHR 0xAA] then CHR ''K'' # fold_name (drop 3 s)
      else fold_char (hd s) # fold_name (tl s))"

declare fold_name.simps [simp del]

lemma fold_name_Nil [simp]: "fold_name [] = []"
  by (subst fold_name.simps) simp

lemma fold_name_ASCII:
  "(of_char c :: nat) < 128 \<Longrightarrow> fold_name (c # s) = fold_char c # fold_name s"
  by (subst fold_name.simps) auto

text \<open>
  A decoder of a field takes the value and the struct decoded so far; \<open>None\<close> is an
  \<open>UnmarshalTypeError\<close>, after which no caller looks at the struct.
\<close>

type_synonym 'r field_decoder = "json \<Rightarrow> 'r \<Rightarrow> 'r option"

definition find_field :: "(string \<times> 'r field_decoder) list \<Rightarrow> string \<Rightarrow> 'r field_decoder option" where
  "find_field fs k =
     (case map_of fs k of
        Some f \<Rightarrow> Some f
      | None \<Rightarrow> map_option snd (find (\<lambda>(n, f). fold_name n = fold_name k) fs))"

fun dec_members :: "(string \<times> 'r field_decoder) list \<Rightarrow> (string \<times> json) list \<Rightarrow> 'r \<Rightarrow> 'r option" where
  "dec_members fs [] r = Some r"
| "dec_members fs ((k, v) # ms) r =
     (case find_field fs k of
        None \<Rightarrow> dec_members fs ms r
      | Some f \<Rightarrow> (case f v r of None \<Rightarrow> None | Some r' \<Rightarrow> dec_members fs ms r'))"

definition dec_struct :: "(string \<times> 'r field_decoder) list \<Rightarrow> 'r field_decoder" where
  "dec_struct fs j r =
     (case j of JNull \<Rightarrow> Some r | JObj ms \<Rightarrow> dec_members fs ms r | _ \<Rightarrow> None)"

definition dec_string :: "json \<Rightarrow> string option" where
  "dec_string j = (case j of JStr s \<Rightarrow> Some s | _ \<Rightarrow> None)"

definition dec_bool :: "json \<Rightarrow> bool option" where
  "dec_bool j = (case j of JBool b \<Rightarrow> Some b | _ \<Rightarrow> None)"

text \<open>An \<open>int\<close> is 64 bits wide; a number out of its range or with a fraction is an error.\<close>

definition dec_int :: "json \<Rightarrow> int option" where
  "dec_int j = (case j of JInt n \<Rightarrow> if - (2 ^ 63) \<le> n \<and> n < 2 ^ 63 then Some n else None | _ \<Rightarrow> None)"

text \<open>Fields: \<open>null\<close> leaves a value unchanged and sets a pointer, slice or map to nil.\<close>

definition set_val :: "(json \<Rightarrow> 'a option) \<Rightarrow> ('a \<Rightarrow> 'r \<Rightarrow> 'r) \<Rightarrow> 'r field_decoder" where
  "set_val d u j r = (if j = JNull then Some r else map_option (\<lambda>x. u x r) (d j))"

definition set_ptr :: "(json \<Rightarrow> 'a option) \<Rightarrow> ('a option \<Rightarrow> 'r \<Rightarrow> 'r) \<Rightarrow> 'r field_decoder" where
  "set_ptr d u j r = (if j = JNull then Some (u None r) else map_option (\<lambda>x. u (Some x) r) (d j))"

definition set_struct ::
    "'a field_decoder \<Rightarrow> ('r \<Rightarrow> 'a) \<Rightarrow> ('a \<Rightarrow> 'r \<Rightarrow> 'r) \<Rightarrow> 'r field_decoder" where
  "set_struct d g u j r = map_option (\<lambda>x. u x r) (d j (g r))"

definition set_struct_ptr ::
    "'a field_decoder \<Rightarrow> 'a \<Rightarrow> ('r \<Rightarrow> 'a option) \<Rightarrow> ('a option \<Rightarrow> 'r \<Rightarrow> 'r) \<Rightarrow> 'r field_decoder" where
  "set_struct_ptr d z g u j r =
     (if j = JNull then Some (u None r)
      else map_option (\<lambda>x. u (Some x) r) (d j (case g r of None \<Rightarrow> z | Some x \<Rightarrow> x)))"

text \<open>The elements of a slice, \<open>null\<close> being the zero value.\<close>

fun dec_elems :: "(json \<Rightarrow> 'a option) \<Rightarrow> 'a \<Rightarrow> json list \<Rightarrow> 'a list option" where
  "dec_elems d z [] = Some []"
| "dec_elems d z (j # js) =
     (case (if j = JNull then Some z else d j) of
        None \<Rightarrow> None
      | Some x \<Rightarrow> map_option ((#) x) (dec_elems d z js))"

definition set_nilable ::
    "(json \<Rightarrow> 'a option) \<Rightarrow> 'a \<Rightarrow> ('a list option \<Rightarrow> 'r \<Rightarrow> 'r) \<Rightarrow> 'r field_decoder" where
  "set_nilable d z u j r =
     (case j of
        JNull \<Rightarrow> Some (u None r)
      | JArr js \<Rightarrow> map_option (\<lambda>xs. u (Some xs) r) (dec_elems d z js)
      | _ \<Rightarrow> None)"

text \<open>For a slice whose code does not tell nil from empty.\<close>

definition set_list :: "(json \<Rightarrow> 'a option) \<Rightarrow> 'a \<Rightarrow> ('a list \<Rightarrow> 'r \<Rightarrow> 'r) \<Rightarrow> 'r field_decoder" where
  "set_list d z u = set_nilable d z (\<lambda>p. u (case p of None \<Rightarrow> [] | Some xs \<Rightarrow> xs))"

text \<open>\<open>maps.Copy(dst, src)\<close>, and a member of type \<open>map[string]any\<close>, whose entries are added.\<close>

definition maps_copy :: "(string \<times> 'v) list \<Rightarrow> (string \<times> 'v) list \<Rightarrow> (string \<times> 'v) list" where
  "maps_copy dst src = fold (\<lambda>(k, v). AList.update k v) src dst"

definition set_map :: "('r \<Rightarrow> any_map) \<Rightarrow> (any_map \<Rightarrow> 'r \<Rightarrow> 'r) \<Rightarrow> 'r field_decoder" where
  "set_map g u j r =
     (case j of
        JNull \<Rightarrow> Some (u [] r)
      | JObj ms \<Rightarrow> Some (u (maps_copy (g r) ms) r)
      | _ \<Rightarrow> None)"

text \<open>\<open>Decode(&v)\<close> of a message: of no JSON value it is an error.\<close>

definition decode :: "'r field_decoder \<Rightarrow> 'r \<Rightarrow> json option \<Rightarrow> 'r option" where
  "decode d z body = (case body of None \<Rightarrow> None | Some j \<Rightarrow> d j z)"

named_theorems json_dec \<open>unfolds decoders\<close>

lemmas [json_dec] = decode_def dec_struct_def find_field_def dec_string_def dec_bool_def dec_int_def
  set_val_def set_ptr_def set_struct_def set_struct_ptr_def set_nilable_def set_list_def set_map_def

text \<open>What every decoder of a field keeps, the decoder of the struct keeps.\<close>

lemma dec_members_keeps:
  assumes "\<And>k f j r r'. (k, f) \<in> set fs \<Longrightarrow> f j r = Some r' \<Longrightarrow> P r \<Longrightarrow> P r'"
    and "dec_members fs ms r = Some r'" and "P r"
  shows "P r'"
  using assms(2,3)
proof (induction ms arbitrary: r)
  case (Cons m ms)
  obtain k v where m: "m = (k, v)"
    by (cases m)
  show ?case
  proof (cases "find_field fs k")
    case (Some f)
    then obtain n where "(n, f) \<in> set fs"
      by (auto simp: find_field_def find_Some_iff split: option.splits dest!: map_of_SomeD)
        (metis nth_mem)
    with Some Cons m assms(1) show ?thesis
      by (auto split: option.splits)
  qed (use Cons m in simp)
qed simp

section \<open>Maps\<close>

lemma map_of_maps_copy:
  "distinct (map fst src) \<Longrightarrow>
    map_of (maps_copy dst src) k = (case map_of src k of None \<Rightarrow> map_of dst k | Some v \<Rightarrow> Some v)"
proof (induction src arbitrary: dst)
  case (Cons p src)
  obtain k' v where p: "p = (k', v)"
    by (cases p)
  with Cons.prems have "k' \<notin> fst ` set src" "distinct (map fst src)"
    by auto
  then have "map_of src k' = None"
    by (simp add: map_of_eq_None_iff)
  then show ?case
    using Cons.IH [of "AList.update k' v dst"] \<open>distinct (map fst src)\<close> p
    by (auto simp: maps_copy_def update_conv' split: option.split)
qed (simp add: maps_copy_def)

lemma distinct_maps_copy:
  "distinct (map fst dst) \<Longrightarrow> distinct (map fst (maps_copy dst src))"
proof (induction src arbitrary: dst)
  case (Cons p src)
  then show ?case
    by (cases p) (simp add: maps_copy_def distinct_update)
qed (simp add: maps_copy_def)

lemma maps_copy_Nil [simp]: "maps_copy dst [] = dst"
  by (simp add: maps_copy_def)

lemma update_fresh: "k \<notin> set (map fst m) \<Longrightarrow> AList.update k v m = m @ [(k, v)]"
  by (induction m) auto

end
