(* ===== verification/Qmp_Wire.thy ===== *)
theory Qmp_Wire
  imports Json Machine_Api
begin

text \<open>
  The QMP client of src/internal/qmp/client.go with the messages of types.go: connecting with
  greeting and capabilities negotiation, executing a command and reading its response past
  asynchronous events, and the commands of the interface. The socket is a parameter over a world
  \<open>'w\<close>; a line of it is a JSON value, or \<open>None\<close> when it is none. The loop that skips events ends
  only when the peer sends something else, so it is a partial function: \<open>None\<close> is waiting forever.
  Every method holds the client's lock for its whole body.
\<close>

section \<open>Messages\<close>

record qmpVersion =
  qv_Micro :: int
  qv_Minor :: int
  qv_Major :: int

definition dec_qmpVersion :: "qmpVersion field_decoder" where
  "dec_qmpVersion = dec_struct [(''micro'', set_val dec_int (\<lambda>x r. r\<lparr>qv_Micro := x\<rparr>)),
     (''minor'', set_val dec_int (\<lambda>x r. r\<lparr>qv_Minor := x\<rparr>)),
     (''major'', set_val dec_int (\<lambda>x r. r\<lparr>qv_Major := x\<rparr>))]"

text \<open>The greeting: its \<open>QMP\<close> member with the nested \<open>version\<close>, and \<open>capabilities\<close>.\<close>

record qmpGreeting =
  qg_QEMU :: qmpVersion
  qg_Capabilities :: "json list"

definition zero_qmpGreeting :: qmpGreeting where
  "zero_qmpGreeting = \<lparr>qg_QEMU = \<lparr>qv_Micro = 0, qv_Minor = 0, qv_Major = 0\<rparr>, qg_Capabilities = []\<rparr>"

definition dec_qmpGreeting :: "qmpGreeting field_decoder" where
  "dec_qmpGreeting = dec_struct [(''QMP'', dec_struct
     [(''version'', dec_struct [(''qemu'', set_struct dec_qmpVersion qg_QEMU (\<lambda>x r. r\<lparr>qg_QEMU := x\<rparr>))]),
      (''capabilities'', set_list Some JNull (\<lambda>x r. r\<lparr>qg_Capabilities := x\<rparr>))])]"

record qmpCommand =
  qc_Execute :: string
  qc_Arguments :: "json option"

definition enc_qmpCommand :: "qmpCommand \<Rightarrow> json" where
  "enc_qmpCommand r = JObj (concat [fld ''execute'' (JStr (qc_Execute r)),
     fld_ptr ''arguments'' id (qc_Arguments r)])"

record qmpError =
  qe_Class :: string
  qe_Desc :: string

definition zero_qmpError :: qmpError where
  "zero_qmpError = \<lparr>qe_Class = [], qe_Desc = []\<rparr>"

definition dec_qmpError :: "qmpError field_decoder" where
  "dec_qmpError = dec_struct [(''class'', set_val dec_string (\<lambda>x r. r\<lparr>qe_Class := x\<rparr>)),
     (''desc'', set_val dec_string (\<lambda>x r. r\<lparr>qe_Desc := x\<rparr>))]"

record qmpResponse =
  qr_Return :: json
  qr_Error :: "qmpError option"
  qr_Event :: string

definition zero_qmpResponse :: qmpResponse where
  "zero_qmpResponse = \<lparr>qr_Return = JNull, qr_Error = None, qr_Event = []\<rparr>"

definition dec_qmpResponse :: "qmpResponse field_decoder" where
  "dec_qmpResponse = dec_struct [(''return'', (\<lambda>j r. Some (r\<lparr>qr_Return := j\<rparr>))),
     (''error'', set_struct_ptr dec_qmpError zero_qmpError qr_Error (\<lambda>x r. r\<lparr>qr_Error := x\<rparr>)),
     (''event'', set_val dec_string (\<lambda>x r. r\<lparr>qr_Event := x\<rparr>))]"

record qmpStatusResponse =
  qs_Running :: bool
  qs_Status :: string

definition zero_qmpStatusResponse :: qmpStatusResponse where
  "zero_qmpStatusResponse = \<lparr>qs_Running = False, qs_Status = []\<rparr>"

definition dec_qmpStatusResponse :: "qmpStatusResponse field_decoder" where
  "dec_qmpStatusResponse = dec_struct [(''return'', dec_struct
     [(''running'', set_val dec_bool (\<lambda>x r. r\<lparr>qs_Running := x\<rparr>)),
      (''status'', set_val dec_string (\<lambda>x r. r\<lparr>qs_Status := x\<rparr>))])]"

record blockdevChangeMediumArgs =
  bcm_Device :: string
  bcm_Filename :: string

definition enc_blockdevChangeMediumArgs :: "blockdevChangeMediumArgs \<Rightarrow> json" where
  "enc_blockdevChangeMediumArgs r = JObj (concat [fld ''device'' (JStr (bcm_Device r)),
     fld ''filename'' (JStr (bcm_Filename r))])"

record blockdevRemoveMediumArgs =
  brm_Device :: string

definition enc_blockdevRemoveMediumArgs :: "blockdevRemoveMediumArgs \<Rightarrow> json" where
  "enc_blockdevRemoveMediumArgs r = JObj (concat [fld ''device'' (JStr (brm_Device r))])"

section \<open>The client\<close>

datatype qmp_error =
    ErrNotConnected
  | DialError go_error
  | GreetingClosed
  | ParsingGreeting
  | Negotiation qmp_error
  | WritingCommand go_error
  | ResponseClosed
  | ParsingResponse
  | ErrorResponse string string
  | ParsingStatus
  | CloseError go_error

text \<open>The socket: \<open>io_Scan\<close> gives the next line, or \<open>None\<close> at its end.\<close>

record 'w qmp_io =
  io_Dial :: "'w \<Rightarrow> go_error option \<times> 'w"
  io_Write :: "json \<Rightarrow> 'w \<Rightarrow> go_error option \<times> 'w"
  io_Scan :: "'w \<Rightarrow> json option option \<times> 'w"
  io_Close :: "'w \<Rightarrow> go_error option \<times> 'w"

text \<open>Whether \<open>conn\<close> (and with it \<open>scanner\<close>) is not nil, and the flag \<open>connected\<close>.\<close>

record 'w qmpClient =
  qcl_world :: 'w
  qcl_conn :: bool
  qcl_connected :: bool

definition NewDisconnectedClient :: "'w \<Rightarrow> 'w qmpClient" where
  "NewDisconnectedClient w = \<lparr>qcl_world = w, qcl_conn = False, qcl_connected = False\<rparr>"

text \<open>The loop over the lines of the socket up to the first that is no event.\<close>

partial_function (option) read_response ::
    "'w qmp_io \<Rightarrow> 'w \<Rightarrow> ((qmp_error + json \<times> qmpResponse) \<times> 'w) option" where
  "read_response io w =
     (case io_Scan io w of
        (None, w1) \<Rightarrow> Some (Inl ResponseClosed, w1)
      | (Some line, w1) \<Rightarrow>
          (case line of
             None \<Rightarrow> Some (Inl ParsingResponse, w1)
           | Some j \<Rightarrow>
               (case dec_qmpResponse j zero_qmpResponse of
                  None \<Rightarrow> Some (Inl ParsingResponse, w1)
                | Some resp \<Rightarrow>
                    if qr_Event resp \<noteq> [] then read_response io w1
                    else Some (Inr (j, resp), w1))))"

definition send_command ::
    "'w qmp_io \<Rightarrow> string \<Rightarrow> json option \<Rightarrow> 'w \<Rightarrow> ((qmp_error + json \<times> qmpResponse) \<times> 'w) option" where
  "send_command io command arguments w =
     (case io_Write io (enc_qmpCommand \<lparr>qc_Execute = command, qc_Arguments = arguments\<rparr>) w of
        (Some e, w1) \<Rightarrow> Some (Inl (WritingCommand e), w1)
      | (None, w1) \<Rightarrow> read_response io w1)"

definition executeLocked ::
    "'w qmp_io \<Rightarrow> string \<Rightarrow> json option \<Rightarrow> 'w \<Rightarrow> (qmp_error option \<times> 'w) option" where
  "executeLocked io command arguments w =
     map_option (\<lambda>(r, w1).
         (case r of
            Inl e \<Rightarrow> Some e
          | Inr (j, resp) \<Rightarrow>
              map_option (\<lambda>err. ErrorResponse (qe_Class err) (qe_Desc err)) (qr_Error resp), w1))
       (send_command io command arguments w)"

definition drop_conn :: "'w \<Rightarrow> 'w qmpClient \<Rightarrow> 'w qmpClient" where
  "drop_conn w c = c\<lparr>qcl_world := w, qcl_conn := False\<rparr>"

definition close_existing :: "'w qmp_io \<Rightarrow> 'w qmpClient \<Rightarrow> 'w qmpClient" where
  "close_existing io c =
     (if qcl_conn c
      then c\<lparr>qcl_world := snd (io_Close io (qcl_world c)), qcl_conn := False, qcl_connected := False\<rparr>
      else c)"

definition Connect :: "'w qmp_io \<Rightarrow> 'w qmpClient \<Rightarrow> (qmp_error option \<times> 'w qmpClient) option" where
  "Connect io c0 =
     (let c = close_existing io c0
      in case io_Dial io (qcl_world c) of
           (Some e, w1) \<Rightarrow> Some (Some (DialError e), c\<lparr>qcl_world := w1\<rparr>)
         | (None, w1) \<Rightarrow>
             (case io_Scan io w1 of
                (None, w2) \<Rightarrow> Some (Some GreetingClosed, drop_conn (snd (io_Close io w2)) c)
              | (Some line, w2) \<Rightarrow>
                  (case decode dec_qmpGreeting zero_qmpGreeting line of
                     None \<Rightarrow> Some (Some ParsingGreeting, drop_conn (snd (io_Close io w2)) c)
                   | Some _ \<Rightarrow>
                       map_option (\<lambda>(e, w3).
                           (case e of
                              Some err \<Rightarrow> (Some (Negotiation err), drop_conn (snd (io_Close io w3)) c)
                            | None \<Rightarrow> (None, c\<lparr>qcl_world := w3, qcl_conn := True, qcl_connected := True\<rparr>)))
                         (executeLocked io ''qmp_capabilities'' None w2))))"

text \<open>\<open>NewClient\<close>: the client, or the error with which no client is returned.\<close>

definition NewClient :: "'w qmp_io \<Rightarrow> 'w \<Rightarrow> (qmp_error option \<times> 'w qmpClient) option" where
  "NewClient io w = Connect io (NewDisconnectedClient w)"

definition checkConnected :: "'w qmpClient \<Rightarrow> qmp_error option" where
  "checkConnected c = (if \<not> qcl_connected c then Some ErrNotConnected else None)"

definition execute ::
    "'w qmp_io \<Rightarrow> string \<Rightarrow> json option \<Rightarrow> 'w qmpClient \<Rightarrow> (qmp_error option \<times> 'w qmpClient) option" where
  "execute io command arguments c =
     (case checkConnected c of
        Some e \<Rightarrow> Some (Some e, c)
      | None \<Rightarrow> map_option (\<lambda>(e, w). (e, c\<lparr>qcl_world := w\<rparr>))
          (executeLocked io command arguments (qcl_world c)))"

definition executeWithResponse ::
    "'w qmp_io \<Rightarrow> string \<Rightarrow> json option \<Rightarrow> 'w qmpClient \<Rightarrow> ((qmp_error + json) \<times> 'w qmpClient) option" where
  "executeWithResponse io command arguments c =
     (case checkConnected c of
        Some e \<Rightarrow> Some (Inl e, c)
      | None \<Rightarrow> map_option (\<lambda>(r, w). (map_sum id fst r, c\<lparr>qcl_world := w\<rparr>))
          (send_command io command arguments (qcl_world c)))"

section \<open>The commands\<close>

definition QueryStatus :: "'w qmp_io \<Rightarrow> 'w qmpClient \<Rightarrow> ((qmp_error + string) \<times> 'w qmpClient) option" where
  "QueryStatus io c =
     map_option (\<lambda>(r, c1).
         (case r of
            Inl e \<Rightarrow> Inl e
          | Inr raw \<Rightarrow>
              (case dec_qmpStatusResponse raw zero_qmpStatusResponse of
                 None \<Rightarrow> Inl ParsingStatus
               | Some resp \<Rightarrow> Inr (qs_Status resp)), c1))
       (executeWithResponse io ''query-status'' None c)"

type_synonym 'w qmp_method = "'w qmpClient \<Rightarrow> (qmp_error option \<times> 'w qmpClient) option"

definition SystemPowerdown :: "'w qmp_io \<Rightarrow> 'w qmp_method" where
  "SystemPowerdown io = execute io ''system_powerdown'' None"

definition SystemReset :: "'w qmp_io \<Rightarrow> 'w qmp_method" where
  "SystemReset io = execute io ''system_reset'' None"

definition QmpStop :: "'w qmp_io \<Rightarrow> 'w qmp_method" where
  "QmpStop io = execute io ''stop'' None"

definition Cont :: "'w qmp_io \<Rightarrow> 'w qmp_method" where
  "Cont io = execute io ''cont'' None"

definition Quit :: "'w qmp_io \<Rightarrow> 'w qmp_method" where
  "Quit io = execute io ''quit'' None"

definition BlockdevChangeMedium :: "'w qmp_io \<Rightarrow> string \<Rightarrow> string \<Rightarrow> 'w qmp_method" where
  "BlockdevChangeMedium io device filename = execute io ''blockdev-change-medium''
     (Some (enc_blockdevChangeMediumArgs \<lparr>bcm_Device = device, bcm_Filename = filename\<rparr>))"

definition BlockdevRemoveMedium :: "'w qmp_io \<Rightarrow> string \<Rightarrow> 'w qmp_method" where
  "BlockdevRemoveMedium io device = execute io ''blockdev-remove-medium''
     (Some (enc_blockdevRemoveMediumArgs \<lparr>brm_Device = device\<rparr>))"

definition Close :: "'w qmp_io \<Rightarrow> 'w qmpClient \<Rightarrow> qmp_error option \<times> 'w qmpClient" where
  "Close io c =
     (if qcl_conn c
      then case io_Close io (qcl_world c) of
        (e, w) \<Rightarrow> (map_option CloseError e, c\<lparr>qcl_world := w, qcl_connected := False\<rparr>)
      else (None, c\<lparr>qcl_connected := False\<rparr>))"

end
