(* ===== verification/Qmp_Properties.thy ===== *)
theory Qmp_Properties
  imports Qmp_Wire
begin

text \<open>
  What the QMP client of src/internal/qmp/client.go guarantees: when a command returns and with
  what, that a connected client has a connection, and how an error reply to a status query reads.
\<close>

section \<open>Skipping events\<close>

definition is_event :: "json option \<Rightarrow> bool" where
  "is_event line =
     (case line of
        None \<Rightarrow> False
      | Some j \<Rightarrow> (case dec_qmpResponse j zero_qmpResponse of
          None \<Rightarrow> False | Some resp \<Rightarrow> qr_Event resp \<noteq> []))"

text \<open>The world after the next \<open>n\<close> lines, if they all are events.\<close>

fun skip_events :: "'w qmp_io \<Rightarrow> nat \<Rightarrow> 'w \<Rightarrow> 'w option" where
  "skip_events io 0 w = Some w"
| "skip_events io (Suc n) w =
     (case io_Scan io w of
        (Some line, w1) \<Rightarrow> if is_event line then skip_events io n w1 else None
      | (None, _) \<Rightarrow> None)"

text \<open>What the next line says, if it is no event.\<close>

definition reply :: "'w qmp_io \<Rightarrow> 'w \<Rightarrow> ((qmp_error + json \<times> qmpResponse) \<times> 'w) option" where
  "reply io w =
     (case io_Scan io w of
        (None, w1) \<Rightarrow> Some (Inl ResponseClosed, w1)
      | (Some line, w1) \<Rightarrow>
          if is_event line then None
          else Some (case line of
              None \<Rightarrow> Inl ParsingResponse
            | Some j \<Rightarrow> (case dec_qmpResponse j zero_qmpResponse of
                None \<Rightarrow> Inl ParsingResponse | Some resp \<Rightarrow> Inr (j, resp)), w1))"

lemma read_response_step:
  "read_response io w =
     (case reply io w of Some res \<Rightarrow> Some res | None \<Rightarrow> read_response io (snd (io_Scan io w)))"
  by (subst read_response.simps)
    (auto simp: reply_def is_event_def split: prod.splits option.splits)

lemma reply_None: "reply io w = None \<longleftrightarrow> (\<exists>line w1. io_Scan io w = (Some line, w1) \<and> is_event line)"
  by (auto simp: reply_def split: prod.splits option.splits)

lemma read_response_after_events:
  "skip_events io n w = Some w' \<Longrightarrow> reply io w' = Some res \<Longrightarrow> read_response io w = Some res"
proof (induction n arbitrary: w)
  case (Suc n)
  then obtain line w1 where s: "io_Scan io w = (Some line, w1)" "is_event line"
    and rest: "skip_events io n w1 = Some w'"
    by (auto split: prod.splits option.splits if_splits)
  then have "reply io w = None"
    by (simp add: reply_None)
  with s Suc.IH [OF rest Suc.prems(2)] show ?case
    by (subst read_response_step) simp
qed (subst read_response_step, simp)

lemma read_response_Some:
  assumes "read_response io w = Some res"
  shows "\<exists>n w'. skip_events io n w = Some w' \<and> reply io w' = Some res"
proof (rule read_response.raw_induct
    [of "\<lambda>io w res. \<exists>n w'. skip_events io n w = Some w' \<and> reply io w' = Some res", OF _ assms])
  fix read and io :: "'a qmp_io" and w :: 'a and res
  assume IH: "\<And>io w res. read io w = Some res \<Longrightarrow>
      \<exists>n w'. skip_events io n w = Some w' \<and> reply io w' = Some res"
    and step: "(case io_Scan io w of
        (None, w1) \<Rightarrow> Some (Inl ResponseClosed, w1)
      | (Some line, w1) \<Rightarrow>
          (case line of
             None \<Rightarrow> Some (Inl ParsingResponse, w1)
           | Some j \<Rightarrow>
               (case dec_qmpResponse j zero_qmpResponse of
                  None \<Rightarrow> Some (Inl ParsingResponse, w1)
                | Some resp \<Rightarrow>
                    if qr_Event resp \<noteq> [] then read io w1 else Some (Inr (j, resp), w1)))) = Some res"
  show "\<exists>n w'. skip_events io n w = Some w' \<and> reply io w' = Some res"
  proof (cases "reply io w")
    case None
    then obtain line w1 where s: "io_Scan io w = (Some line, w1)" "is_event line"
      by (auto simp: reply_None)
    with step have "read io w1 = Some res"
      by (auto simp: is_event_def split: option.splits)
    with IH obtain n w' where "skip_events io n w1 = Some w'" "reply io w' = Some res"
      by blast
    with s show ?thesis
      by (intro exI [of _ "Suc n"] exI [of _ w']) simp
  next
    case (Some res')
    with step have "res' = res"
      by (auto simp: reply_def is_event_def split: prod.splits option.splits if_splits)
    with Some show ?thesis
      by (intro exI [of _ 0] exI [of _ w]) simp
  qed
qed

lemma read_response_iff:
  "read_response io w = Some res \<longleftrightarrow> (\<exists>n w'. skip_events io n w = Some w' \<and> reply io w' = Some res)"
  by (metis read_response_after_events read_response_Some)

text \<open>The error a command reports for a reply.\<close>

definition reply_error :: "qmp_error + json \<times> qmpResponse \<Rightarrow> qmp_error option" where
  "reply_error r =
     (case r of
        Inl e \<Rightarrow> Some e
      | Inr (j, resp) \<Rightarrow> map_option (\<lambda>err. ErrorResponse (qe_Class err) (qe_Desc err)) (qr_Error resp))"

lemma executeLocked_reply:
  "executeLocked io command args w = map_option (\<lambda>(r, w1). (reply_error r, w1)) (send_command io command args w)"
  by (simp add: executeLocked_def reply_error_def)

lemma send_command_written:
  "io_Write io (enc_qmpCommand \<lparr>qc_Execute = command, qc_Arguments = args\<rparr>) w = (None, w1) \<Longrightarrow>
    send_command io command args w = read_response io w1"
  by (simp add: send_command_def)

section \<open>The client's invariant\<close>

definition client_ok :: "'w qmpClient \<Rightarrow> bool" where
  "client_ok c \<longleftrightarrow> (qcl_connected c \<longrightarrow> qcl_conn c)"

lemma client_ok_Connect: "client_ok c \<Longrightarrow> Connect io c = Some (r, c') \<Longrightarrow>
    client_ok c' \<and> (r = None \<longleftrightarrow> qcl_connected c')"
  by (auto simp: Connect_def Let_def close_existing_def drop_conn_def client_ok_def decode_def
      split: prod.splits option.splits if_splits)

lemma client_ok_execute: "client_ok c \<Longrightarrow> execute io cmd args c = Some (r, c') \<Longrightarrow> client_ok c'"
  by (auto simp: execute_def client_ok_def split: option.splits)

section \<open>Properties\<close>

text \<open>
  C18: A command on a connected client that could be written returns exactly when the peer, after
  any number of asynchronous events, sends a line that is no event or closes the connection; it
  then reports what that line says: nothing for a success, the class and description of an error
  reply, a parse error for anything else. While only events arrive, it waits.
\<close>

theorem command_reports_first_reply:
  assumes "qcl_connected c"
    and "io_Write io (enc_qmpCommand \<lparr>qc_Execute = command, qc_Arguments = args\<rparr>) (qcl_world c)
      = (None, w1)"
  shows "execute io command args c = Some (r, c') \<longleftrightarrow>
    (\<exists>n w2 res w3. skip_events io n w1 = Some w2 \<and> reply io w2 = Some (res, w3)
       \<and> r = reply_error res \<and> c' = c\<lparr>qcl_world := w3\<rparr>)"
  using assms
  by (force simp: execute_def checkConnected_def executeLocked_reply send_command_written
      read_response_iff)

text \<open>A connection whose peer has sent the given lines and then closes.\<close>

definition script_io :: "json option list qmp_io" where
  "script_io = \<lparr>io_Dial = (\<lambda>w. (None, w)), io_Write = (\<lambda>j w. (None, w)),
     io_Scan = (\<lambda>w. case w of [] \<Rightarrow> (None, []) | l # ls \<Rightarrow> (Some l, ls)), io_Close = (\<lambda>w. (None, w))\<rparr>"

definition connected_client :: "json option list \<Rightarrow> json option list qmpClient" where
  "connected_client ls = \<lparr>qcl_world = ls, qcl_conn = True, qcl_connected = True\<rparr>"

lemma zero_qmpResponse_simps [simp]:
  "qr_Event zero_qmpResponse = []" "qr_Error zero_qmpResponse = None"
  by (simp_all add: zero_qmpResponse_def)

lemma decoded_replies:
  "dec_qmpResponse (JObj [(''event'', JStr ''STOP'')]) zero_qmpResponse
     = Some (zero_qmpResponse\<lparr>qr_Event := ''STOP''\<rparr>)"
  "dec_qmpResponse (JObj [(''error'', JObj [(''class'', JStr ''GenericError''), (''desc'', JStr ''x'')])])
     zero_qmpResponse = Some (zero_qmpResponse\<lparr>qr_Error := Some \<lparr>qe_Class = ''GenericError'', qe_Desc = ''x''\<rparr>\<rparr>)"
  by (simp_all add: dec_qmpResponse_def zero_qmpResponse_def dec_qmpError_def zero_qmpError_def json_dec)

lemma command_reports_first_reply_witness:
  "execute script_io ''stop'' None (connected_client
     [Some (JObj [(''event'', JStr ''STOP'')]),
      Some (JObj [(''error'', JObj [(''class'', JStr ''GenericError''), (''desc'', JStr ''x'')])])])
   = Some (Some (ErrorResponse ''GenericError'' ''x''), connected_client [])"
proof -
  let ?ls = "[Some (JObj [(''event'', JStr ''STOP'')]),
      Some (JObj [(''error'', JObj [(''class'', JStr ''GenericError''), (''desc'', JStr ''x'')])])]"
  let ?res = "Inr (JObj [(''error'', JObj [(''class'', JStr ''GenericError''), (''desc'', JStr ''x'')])],
    zero_qmpResponse\<lparr>qr_Error := Some \<lparr>qe_Class = ''GenericError'', qe_Desc = ''x''\<rparr>\<rparr>)
      :: qmp_error + json \<times> qmpResponse"
  have "skip_events script_io 1 ?ls = Some (tl ?ls)"
    by (simp add: script_io_def is_event_def decoded_replies)
  moreover have "reply script_io (tl ?ls) = Some (?res, [])"
    by (simp add: script_io_def reply_def is_event_def decoded_replies)
  ultimately have "\<exists>n w2 res w3. skip_events script_io n ?ls = Some w2 \<and> reply script_io w2 = Some (res, w3)
      \<and> Some (ErrorResponse ''GenericError'' ''x'') = reply_error res
      \<and> connected_client [] = (connected_client ?ls)\<lparr>qcl_world := w3\<rparr>"
    by (intro exI [of _ 1] exI [of _ "tl ?ls"] exI [of _ ?res] exI [of _ "[]"] conjI)
      (simp_all add: reply_error_def connected_client_def)
  moreover have "io_Write script_io j (qcl_world (connected_client ?ls)) = (None, ?ls)" for j
    by (simp add: script_io_def connected_client_def)
  ultimately show ?thesis
    using command_reports_first_reply [of "connected_client ?ls" script_io]
    by (simp add: connected_client_def)
qed

text \<open>
  C32: An error reply to \<open>query-status\<close> is no error of QueryStatus: the client then reports the empty
  status, whatever the class and description, which Redfish shows as power state Off.
\<close>

theorem query_status_swallows_error:
  assumes "qcl_connected c"
    and "io_Write io (enc_qmpCommand \<lparr>qc_Execute = ''query-status'', qc_Arguments = None\<rparr>) (qcl_world c)
      = (None, w1)"
    and "io_Scan io w1
      = (Some (Some (JObj [(''error'', JObj [(''class'', JStr cls), (''desc'', JStr desc)])])), w2)"
  shows "QueryStatus io c = Some (Inr [], c\<lparr>qcl_world := w2\<rparr>)
    \<and> execute io ''query-status'' None c = Some (Some (ErrorResponse cls desc), c\<lparr>qcl_world := w2\<rparr>)"
proof -
  let ?j = "JObj [(''error'', JObj [(''class'', JStr cls), (''desc'', JStr desc)])]"
  let ?resp = "zero_qmpResponse\<lparr>qr_Error := Some \<lparr>qe_Class = cls, qe_Desc = desc\<rparr>\<rparr>"
  have d: "dec_qmpResponse ?j zero_qmpResponse = Some ?resp"
    by (simp add: dec_qmpResponse_def zero_qmpResponse_def dec_qmpError_def zero_qmpError_def json_dec)
  then have "reply io w1 = Some (Inr (?j, ?resp), w2)"
    using assms(3) by (simp add: reply_def is_event_def zero_qmpResponse_def)
  then have r: "read_response io w1 = Some (Inr (?j, ?resp), w2)"
    by (simp add: read_response_after_events [of io 0])
  have "fold_name ''error'' \<noteq> fold_name ''return''"
    by (simp add: fold_name_ASCII fold_char_def)
  then have "dec_qmpStatusResponse ?j zero_qmpStatusResponse = Some zero_qmpStatusResponse"
    by (simp add: dec_qmpStatusResponse_def json_dec)
  then have "QueryStatus io c = Some (Inr [], c\<lparr>qcl_world := w2\<rparr>)"
    using assms(1,2) r
    by (simp add: QueryStatus_def executeWithResponse_def checkConnected_def send_command_written
        zero_qmpStatusResponse_def)
  moreover have "execute io ''query-status'' None c = Some (Some (ErrorResponse cls desc), c\<lparr>qcl_world := w2\<rparr>)"
    using assms(1,2) r
    by (simp add: execute_def checkConnected_def executeLocked_reply send_command_written reply_error_def)
  ultimately show ?thesis
    by blast
qed

lemma query_status_swallows_error_witness:
  "QueryStatus script_io (connected_client
     [Some (JObj [(''error'', JObj [(''class'', JStr ''GenericError''), (''desc'', JStr ''x'')])])])
   = Some (Inr [], connected_client [])"
  using query_status_swallows_error [of "connected_client
     [Some (JObj [(''error'', JObj [(''class'', JStr ''GenericError''), (''desc'', JStr ''x'')])])]"
     script_io _ "''GenericError''" "''x''" "[]"]
  by (simp add: connected_client_def script_io_def)

end
