(* ===== verification/Redfish_Types.thy ===== *)
theory Redfish_Types
  imports Json
begin

text \<open>
  The JSON structs of src/internal/redfish/types.go: a record per struct, an encoder per struct
  the server sends (\<open>encoding/json\<close> marshalling, with the field names and \<open>omitempty\<close> of the struct
  tags), a zero value and a decoder per struct it receives. A record field is the Go field with
  the struct's initials before it.
\<close>

section \<open>References\<close>

record ODataID =
  od_ODataID :: string

definition enc_ODataID :: "ODataID \<Rightarrow> json" where
  "enc_ODataID r = JObj (concat [fld ''@odata.id'' (JStr (od_ODataID r))])"

definition zero_ODataID :: ODataID where
  "zero_ODataID = \<lparr>od_ODataID = []\<rparr>"

definition dec_ODataID :: "json \<Rightarrow> ODataID \<Rightarrow> ODataID option" where
  "dec_ODataID = dec_struct [(''@odata.id'', set_val dec_string (\<lambda>x r. r\<lparr>od_ODataID := x\<rparr>))]"

section \<open>Service root\<close>

record ServiceRoot =
  sr_ODataType :: string
  sr_ODataID :: string
  sr_ODataContext :: string
  sr_ID :: string
  sr_Name :: string
  sr_RedfishVersion :: string
  sr_Systems :: ODataID
  sr_Managers :: ODataID
  sr_Chassis :: ODataID
  sr_Registries :: ODataID
  sr_AccountService :: ODataID
  sr_EventService :: ODataID
  sr_UpdateService :: ODataID
  sr_Tasks :: ODataID

definition enc_ServiceRoot :: "ServiceRoot \<Rightarrow> json" where
  "enc_ServiceRoot r = JObj (concat [fld ''@odata.type'' (JStr (sr_ODataType r)),
     fld ''@odata.id'' (JStr (sr_ODataID r)),
     fld_str ''@odata.context'' (sr_ODataContext r),
     fld ''Id'' (JStr (sr_ID r)),
     fld ''Name'' (JStr (sr_Name r)),
     fld ''RedfishVersion'' (JStr (sr_RedfishVersion r)),
     fld ''Systems'' (enc_ODataID (sr_Systems r)),
     fld ''Managers'' (enc_ODataID (sr_Managers r)),
     fld ''Chassis'' (enc_ODataID (sr_Chassis r)),
     fld ''Registries'' (enc_ODataID (sr_Registries r)),
     fld ''AccountService'' (enc_ODataID (sr_AccountService r)),
     fld ''EventService'' (enc_ODataID (sr_EventService r)),
     fld ''UpdateService'' (enc_ODataID (sr_UpdateService r)),
     fld ''Tasks'' (enc_ODataID (sr_Tasks r))])"

record SystemCollection =
  sysc_ODataType :: string
  sysc_ODataID :: string
  sysc_Name :: string
  sysc_MembersCount :: int
  sysc_Members :: "ODataID list"

definition enc_SystemCollection :: "SystemCollection \<Rightarrow> json" where
  "enc_SystemCollection r = JObj (concat [fld ''@odata.type'' (JStr (sysc_ODataType r)),
     fld ''@odata.id'' (JStr (sysc_ODataID r)),
     fld ''Name'' (JStr (sysc_Name r)),
     fld ''Members@odata.count'' (JInt (sysc_MembersCount r)),
     fld ''Members'' (enc_list enc_ODataID (sysc_Members r))])"

section \<open>Systems\<close>

record BootSource =
  bs_BootSourceOverrideEnabled :: string
  bs_BootSourceOverrideTarget :: string
  bs_BootSourceOverrideMode :: string
  bs_AllowableValues :: "string list"
  bs_BootOrder :: "string list"

definition enc_BootSource :: "BootSource \<Rightarrow> json" where
  "enc_BootSource r = JObj (concat [fld ''BootSourceOverrideEnabled'' (JStr (bs_BootSourceOverrideEnabled r)),
     fld ''BootSourceOverrideTarget'' (JStr (bs_BootSourceOverrideTarget r)),
     fld ''BootSourceOverrideMode'' (JStr (bs_BootSourceOverrideMode r)),
     fld ''BootSourceOverrideTarget@Redfish.AllowableValues'' (enc_list JStr (bs_AllowableValues r)),
     fld ''BootOrder'' (enc_list JStr (bs_BootOrder r))])"

record MemorySummary =
  ms_TotalSystemMemoryGiB :: float64

definition enc_MemorySummary :: "MemorySummary \<Rightarrow> json" where
  "enc_MemorySummary r = JObj (concat [fld ''TotalSystemMemoryGiB'' (enc_float (ms_TotalSystemMemoryGiB r))])"

record ResetAction =
  ra_Target :: string
  ra_AllowableValues :: "string list"

definition enc_ResetAction :: "ResetAction \<Rightarrow> json" where
  "enc_ResetAction r = JObj (concat [fld ''target'' (JStr (ra_Target r)),
     fld ''ResetType@Redfish.AllowableValues'' (enc_list JStr (ra_AllowableValues r))])"

record ComputerSystemActions =
  csa_Reset :: ResetAction

definition enc_ComputerSystemActions :: "ComputerSystemActions \<Rightarrow> json" where
  "enc_ComputerSystemActions r = JObj (concat [fld ''#ComputerSystem.Reset'' (enc_ResetAction (csa_Reset r))])"

record ComputerSystemLinks =
  csl_ManagedBy :: "ODataID list"

definition enc_ComputerSystemLinks :: "ComputerSystemLinks \<Rightarrow> json" where
  "enc_ComputerSystemLinks r = JObj (concat [fld ''ManagedBy'' (enc_list enc_ODataID (csl_ManagedBy r))])"

record ComputerSystem =
  cs_ODataType :: string
  cs_ODataID :: string
  cs_ODataContext :: string
  cs_ODataEtag :: string
  cs_ID :: string
  cs_Name :: string
  cs_UUID :: string
  cs_Manufacturer :: string
  cs_Model :: string
  cs_SKU :: string
  cs_SerialNumber :: string
  cs_BiosVersion :: string
  cs_IndicatorLED :: string
  cs_PowerState :: string
  cs_Boot :: BootSource
  cs_MemorySummary :: MemorySummary
  cs_Processors :: ODataID
  cs_Bios :: ODataID
  cs_BootOptions :: ODataID
  cs_Actions :: ComputerSystemActions
  cs_Links :: ComputerSystemLinks

definition enc_ComputerSystem :: "ComputerSystem \<Rightarrow> json" where
  "enc_ComputerSystem r = JObj (concat [fld ''@odata.type'' (JStr (cs_ODataType r)),
     fld ''@odata.id'' (JStr (cs_ODataID r)),
     fld_str ''@odata.context'' (cs_ODataContext r),
     fld_str ''@odata.etag'' (cs_ODataEtag r),
     fld ''Id'' (JStr (cs_ID r)),
     fld ''Name'' (JStr (cs_Name r)),
     fld_str ''UUID'' (cs_UUID r),
     fld_str ''Manufacturer'' (cs_Manufacturer r),
     fld_str ''Model'' (cs_Model r),
     fld_str ''SKU'' (cs_SKU r),
     fld_str ''SerialNumber'' (cs_SerialNumber r),
     fld_str ''BiosVersion'' (cs_BiosVersion r),
     fld_str ''IndicatorLED'' (cs_IndicatorLED r),
     fld ''PowerState'' (JStr (cs_PowerState r)),
     fld ''Boot'' (enc_BootSource (cs_Boot r)),
     fld ''MemorySummary'' (enc_MemorySummary (cs_MemorySummary r)),
     fld ''Processors'' (enc_ODataID (cs_Processors r)),
     fld ''Bios'' (enc_ODataID (cs_Bios r)),
     fld ''BootOptions'' (enc_ODataID (cs_BootOptions r)),
     fld ''Actions'' (enc_ComputerSystemActions (cs_Actions r)),
     fld ''Links'' (enc_ComputerSystemLinks (cs_Links r))])"

record BootOptionCollection =
  boc_ODataType :: string
  boc_ODataID :: string
  boc_Name :: string
  boc_MembersCount :: int
  boc_Members :: "ODataID list"

definition enc_BootOptionCollection :: "BootOptionCollection \<Rightarrow> json" where
  "enc_BootOptionCollection r = JObj (concat [fld ''@odata.type'' (JStr (boc_ODataType r)),
     fld ''@odata.id'' (JStr (boc_ODataID r)),
     fld ''Name'' (JStr (boc_Name r)),
     fld ''Members@odata.count'' (JInt (boc_MembersCount r)),
     fld ''Members'' (enc_list enc_ODataID (boc_Members r))])"

record BootOption =
  bopt_ODataType :: string
  bopt_ODataID :: string
  bopt_ID :: string
  bopt_Name :: string
  bopt_DisplayName :: string
  bopt_BootOptionReference :: string
  bopt_BootOptionEnabled :: bool

definition enc_BootOption :: "BootOption \<Rightarrow> json" where
  "enc_BootOption r = JObj (concat [fld ''@odata.type'' (JStr (bopt_ODataType r)),
     fld ''@odata.id'' (JStr (bopt_ODataID r)),
     fld ''Id'' (JStr (bopt_ID r)),
     fld ''Name'' (JStr (bopt_Name r)),
     fld ''DisplayName'' (JStr (bopt_DisplayName r)),
     fld ''BootOptionReference'' (JStr (bopt_BootOptionReference r)),
     fld ''BootOptionEnabled'' (JBool (bopt_BootOptionEnabled r))])"

record ResetRequest =
  rr_ResetType :: string

definition zero_ResetRequest :: ResetRequest where
  "zero_ResetRequest = \<lparr>rr_ResetType = []\<rparr>"

definition dec_ResetRequest :: "json \<Rightarrow> ResetRequest \<Rightarrow> ResetRequest option" where
  "dec_ResetRequest = dec_struct [(''ResetType'', set_val dec_string (\<lambda>x r. r\<lparr>rr_ResetType := x\<rparr>))]"

record PatchBootSource =
  pbs_BootSourceOverrideEnabled :: string
  pbs_BootSourceOverrideTarget :: string
  pbs_BootSourceOverrideMode :: string
  pbs_BootOrder :: "string list"

definition zero_PatchBootSource :: PatchBootSource where
  "zero_PatchBootSource = \<lparr>pbs_BootSourceOverrideEnabled = [],
     pbs_BootSourceOverrideTarget = [],
     pbs_BootSourceOverrideMode = [],
     pbs_BootOrder = []\<rparr>"

definition dec_PatchBootSource :: "json \<Rightarrow> PatchBootSource \<Rightarrow> PatchBootSource option" where
  "dec_PatchBootSource = dec_struct [(''BootSourceOverrideEnabled'', set_val dec_string (\<lambda>x r. r\<lparr>pbs_BootSourceOverrideEnabled := x\<rparr>)),
     (''BootSourceOverrideTarget'', set_val dec_string (\<lambda>x r. r\<lparr>pbs_BootSourceOverrideTarget := x\<rparr>)),
     (''BootSourceOverrideMode'', set_val dec_string (\<lambda>x r. r\<lparr>pbs_BootSourceOverrideMode := x\<rparr>)),
     (''BootOrder'', set_list dec_string [] (\<lambda>x r. r\<lparr>pbs_BootOrder := x\<rparr>))]"

record PatchSystemRequest =
  psr_Boot :: "PatchBootSource option"
  psr_IndicatorLED :: "string option"

definition zero_PatchSystemRequest :: PatchSystemRequest where
  "zero_PatchSystemRequest = \<lparr>psr_Boot = None,
     psr_IndicatorLED = None\<rparr>"

definition dec_PatchSystemRequest :: "json \<Rightarrow> PatchSystemRequest \<Rightarrow> PatchSystemRequest option" where
  "dec_PatchSystemRequest = dec_struct [(''Boot'', set_struct_ptr dec_PatchBootSource zero_PatchBootSource psr_Boot (\<lambda>x r. r\<lparr>psr_Boot := x\<rparr>)),
     (''IndicatorLED'', set_ptr dec_string (\<lambda>x r. r\<lparr>psr_IndicatorLED := x\<rparr>))]"

record RedfishErrorBody =
  reb_Code :: string
  reb_Message :: string

definition enc_RedfishErrorBody :: "RedfishErrorBody \<Rightarrow> json" where
  "enc_RedfishErrorBody r = JObj (concat [fld ''code'' (JStr (reb_Code r)),
     fld ''message'' (JStr (reb_Message r))])"

record RedfishError =
  re_Error :: RedfishErrorBody

definition enc_RedfishError :: "RedfishError \<Rightarrow> json" where
  "enc_RedfishError r = JObj (concat [fld ''error'' (enc_RedfishErrorBody (re_Error r))])"

section \<open>Managers\<close>

record ManagerCollection =
  mgc_ODataType :: string
  mgc_ODataID :: string
  mgc_Name :: string
  mgc_MembersCount :: int
  mgc_Members :: "ODataID list"

definition enc_ManagerCollection :: "ManagerCollection \<Rightarrow> json" where
  "enc_ManagerCollection r = JObj (concat [fld ''@odata.type'' (JStr (mgc_ODataType r)),
     fld ''@odata.id'' (JStr (mgc_ODataID r)),
     fld ''Name'' (JStr (mgc_Name r)),
     fld ''Members@odata.count'' (JInt (mgc_MembersCount r)),
     fld ''Members'' (enc_list enc_ODataID (mgc_Members r))])"

record ResourceStatus =
  rst_State :: string
  rst_Health :: string

definition enc_ResourceStatus :: "ResourceStatus \<Rightarrow> json" where
  "enc_ResourceStatus r = JObj (concat [fld_str ''State'' (rst_State r),
     fld_str ''Health'' (rst_Health r)])"

record ManagerActions =
  ma_Reset :: ResetAction

definition enc_ManagerActions :: "ManagerActions \<Rightarrow> json" where
  "enc_ManagerActions r = JObj (concat [fld ''#Manager.Reset'' (enc_ResetAction (ma_Reset r))])"

record ManagerLinksOemDell =
  mlod_DellAttributes :: "ODataID list"
  mlod_DellAttributesCount :: int

definition enc_ManagerLinksOemDell :: "ManagerLinksOemDell \<Rightarrow> json" where
  "enc_ManagerLinksOemDell r = JObj (concat [fld ''DellAttributes'' (enc_list enc_ODataID (mlod_DellAttributes r)),
     fld ''DellAttributes@odata.count'' (JInt (mlod_DellAttributesCount r))])"

record ManagerLinksOem =
  mlo_Dell :: ManagerLinksOemDell

definition enc_ManagerLinksOem :: "ManagerLinksOem \<Rightarrow> json" where
  "enc_ManagerLinksOem r = JObj (concat [fld ''Dell'' (enc_ManagerLinksOemDell (mlo_Dell r))])"

record ManagerLinks =
  ml_Oem :: ManagerLinksOem

definition enc_ManagerLinks :: "ManagerLinks \<Rightarrow> json" where
  "enc_ManagerLinks r = JObj (concat [fld ''Oem'' (enc_ManagerLinksOem (ml_Oem r))])"

record GraphicalConsole =
  gc_ServiceEnabled :: bool
  gc_MaxConcurrentSessions :: int
  gc_ConnectTypesSupported :: "string list"

definition enc_GraphicalConsole :: "GraphicalConsole \<Rightarrow> json" where
  "enc_GraphicalConsole r = JObj (concat [fld ''ServiceEnabled'' (JBool (gc_ServiceEnabled r)),
     fld ''MaxConcurrentSessions'' (JInt (gc_MaxConcurrentSessions r)),
     fld ''ConnectTypesSupported'' (enc_list JStr (gc_ConnectTypesSupported r))])"

record Manager =
  mgr_ODataType :: string
  mgr_ODataID :: string
  mgr_ODataContext :: string
  mgr_ID :: string
  mgr_Name :: string
  mgr_ManagerType :: string
  mgr_UUID :: string
  mgr_Manufacturer :: string
  mgr_Model :: string
  mgr_SerialNumber :: string
  mgr_PartNumber :: string
  mgr_FirmwareVersion :: string
  mgr_LastResetTime :: string
  mgr_PowerState :: string
  mgr_Status :: ResourceStatus
  mgr_VirtualMedia :: ODataID
  mgr_Actions :: ManagerActions
  mgr_Links :: "ManagerLinks option"
  mgr_GraphicalConsole :: "GraphicalConsole option"

definition enc_Manager :: "Manager \<Rightarrow> json" where
  "enc_Manager r = JObj (concat [fld ''@odata.type'' (JStr (mgr_ODataType r)),
     fld ''@odata.id'' (JStr (mgr_ODataID r)),
     fld_str ''@odata.context'' (mgr_ODataContext r),
     fld ''Id'' (JStr (mgr_ID r)),
     fld ''Name'' (JStr (mgr_Name r)),
     fld ''ManagerType'' (JStr (mgr_ManagerType r)),
     fld_str ''UUID'' (mgr_UUID r),
     fld_str ''Manufacturer'' (mgr_Manufacturer r),
     fld_str ''Model'' (mgr_Model r),
     fld_str ''SerialNumber'' (mgr_SerialNumber r),
     fld_str ''PartNumber'' (mgr_PartNumber r),
     fld_str ''FirmwareVersion'' (mgr_FirmwareVersion r),
     fld_str ''LastResetTime'' (mgr_LastResetTime r),
     fld_str ''PowerState'' (mgr_PowerState r),
     fld ''Status'' (enc_ResourceStatus (mgr_Status r)),
     fld ''VirtualMedia'' (enc_ODataID (mgr_VirtualMedia r)),
     fld ''Actions'' (enc_ManagerActions (mgr_Actions r)),
     fld_ptr ''Links'' enc_ManagerLinks (mgr_Links r),
     fld_ptr ''GraphicalConsole'' enc_GraphicalConsole (mgr_GraphicalConsole r)])"

record RedfishSettings =
  rset_ODataType :: string
  rset_SettingsObject :: ODataID

definition enc_RedfishSettings :: "RedfishSettings \<Rightarrow> json" where
  "enc_RedfishSettings r = JObj (concat [fld_str ''@odata.type'' (rset_ODataType r),
     fld ''SettingsObject'' (enc_ODataID (rset_SettingsObject r))])"

record DellManagerAttributes =
  dma_ODataType :: string
  dma_ODataID :: string
  dma_ID :: string
  dma_Name :: string
  dma_AttributeRegistry :: string
  dma_Attributes :: any_map
  dma_RedfishSettings :: "RedfishSettings option"

definition enc_DellManagerAttributes :: "DellManagerAttributes \<Rightarrow> json" where
  "enc_DellManagerAttributes r = JObj (concat [fld ''@odata.type'' (JStr (dma_ODataType r)),
     fld ''@odata.id'' (JStr (dma_ODataID r)),
     fld ''Id'' (JStr (dma_ID r)),
     fld ''Name'' (JStr (dma_Name r)),
     fld_str ''AttributeRegistry'' (dma_AttributeRegistry r),
     fld ''Attributes'' (enc_map (dma_Attributes r)),
     fld_ptr ''@Redfish.Settings'' enc_RedfishSettings (dma_RedfishSettings r)])"

record PatchManagerAttributesRequest =
  pmar_Attributes :: any_map

definition zero_PatchManagerAttributesRequest :: PatchManagerAttributesRequest where
  "zero_PatchManagerAttributesRequest = \<lparr>pmar_Attributes = []\<rparr>"

definition dec_PatchManagerAttributesRequest :: "json \<Rightarrow> PatchManagerAttributesRequest \<Rightarrow> PatchManagerAttributesRequest option" where
  "dec_PatchManagerAttributesRequest = dec_struct [(''Attributes'', set_map pmar_Attributes (\<lambda>x r. r\<lparr>pmar_Attributes := x\<rparr>))]"

section \<open>Virtual media\<close>

record VirtualMediaCollection =
  vmc_ODataType :: string
  vmc_ODataID :: string
  vmc_Name :: string
  vmc_MembersCount :: int
  vmc_Members :: "ODataID list"

definition enc_VirtualMediaCollection :: "VirtualMediaCollection \<Rightarrow> json" where
  "enc_VirtualMediaCollection r = JObj (concat [fld ''@odata.type'' (JStr (vmc_ODataType r)),
     fld ''@odata.id'' (JStr (vmc_ODataID r)),
     fld ''Name'' (JStr (vmc_Name r)),
     fld ''Members@odata.count'' (JInt (vmc_MembersCount r)),
     fld ''Members'' (enc_list enc_ODataID (vmc_Members r))])"

record VirtualMediaAction =
  vmact_Target :: string

definition enc_VirtualMediaAction :: "VirtualMediaAction \<Rightarrow> json" where
  "enc_VirtualMediaAction r = JObj (concat [fld ''target'' (JStr (vmact_Target r))])"

record VirtualMediaActions =
  vma_InsertMedia :: VirtualMediaAction
  vma_EjectMedia :: VirtualMediaAction

definition enc_VirtualMediaActions :: "VirtualMediaActions \<Rightarrow> json" where
  "enc_VirtualMediaActions r = JObj (concat [fld ''#VirtualMedia.InsertMedia'' (enc_VirtualMediaAction (vma_InsertMedia r)),
     fld ''#VirtualMedia.EjectMedia'' (enc_VirtualMediaAction (vma_EjectMedia r))])"

record VirtualMedia =
  vm_ODataType :: string
  vm_ODataID :: string
  vm_ODataContext :: string
  vm_ID :: string
  vm_Name :: string
  vm_MediaTypes :: "string list"
  vm_Image :: string
  vm_Inserted :: bool
  vm_ConnectedVia :: string
  vm_Actions :: VirtualMediaActions

definition enc_VirtualMedia :: "VirtualMedia \<Rightarrow> json" where
  "enc_VirtualMedia r = JObj (concat [fld ''@odata.type'' (JStr (vm_ODataType r)),
     fld ''@odata.id'' (JStr (vm_ODataID r)),
     fld_str ''@odata.context'' (vm_ODataContext r),
     fld ''Id'' (JStr (vm_ID r)),
     fld ''Name'' (JStr (vm_Name r)),
     fld ''MediaTypes'' (enc_list JStr (vm_MediaTypes r)),
     fld_str ''Image'' (vm_Image r),
     fld ''Inserted'' (JBool (vm_Inserted r)),
     fld_str ''ConnectedVia'' (vm_ConnectedVia r),
     fld ''Actions'' (enc_VirtualMediaActions (vm_Actions r))])"

record InsertMediaRequest =
  imr_Image :: string
  imr_Inserted :: bool

definition zero_InsertMediaRequest :: InsertMediaRequest where
  "zero_InsertMediaRequest = \<lparr>imr_Image = [],
     imr_Inserted = False\<rparr>"

definition dec_InsertMediaRequest :: "json \<Rightarrow> InsertMediaRequest \<Rightarrow> InsertMediaRequest option" where
  "dec_InsertMediaRequest = dec_struct [(''Image'', set_val dec_string (\<lambda>x r. r\<lparr>imr_Image := x\<rparr>)),
     (''Inserted'', set_val dec_bool (\<lambda>x r. r\<lparr>imr_Inserted := x\<rparr>))]"

section \<open>Chassis and processors\<close>

record ChassisCollection =
  chc_ODataType :: string
  chc_ODataID :: string
  chc_Name :: string
  chc_MembersCount :: int
  chc_Members :: "ODataID list"

definition enc_ChassisCollection :: "ChassisCollection \<Rightarrow> json" where
  "enc_ChassisCollection r = JObj (concat [fld ''@odata.type'' (JStr (chc_ODataType r)),
     fld ''@odata.id'' (JStr (chc_ODataID r)),
     fld ''Name'' (JStr (chc_Name r)),
     fld ''Members@odata.count'' (JInt (chc_MembersCount r)),
     fld ''Members'' (enc_list enc_ODataID (chc_Members r))])"

record Chassis =
  ch_ODataType :: string
  ch_ODataID :: string
  ch_ODataContext :: string
  ch_ID :: string
  ch_Name :: string
  ch_ChassisType :: string

definition enc_Chassis :: "Chassis \<Rightarrow> json" where
  "enc_Chassis r = JObj (concat [fld ''@odata.type'' (JStr (ch_ODataType r)),
     fld ''@odata.id'' (JStr (ch_ODataID r)),
     fld_str ''@odata.context'' (ch_ODataContext r),
     fld ''Id'' (JStr (ch_ID r)),
     fld ''Name'' (JStr (ch_Name r)),
     fld ''ChassisType'' (JStr (ch_ChassisType r))])"

record ProcessorCollection =
  prc_ODataType :: string
  prc_ODataID :: string
  prc_Name :: string
  prc_MembersCount :: int
  prc_Members :: "ODataID list"

definition enc_ProcessorCollection :: "ProcessorCollection \<Rightarrow> json" where
  "enc_ProcessorCollection r = JObj (concat [fld ''@odata.type'' (JStr (prc_ODataType r)),
     fld ''@odata.id'' (JStr (prc_ODataID r)),
     fld ''Name'' (JStr (prc_Name r)),
     fld ''Members@odata.count'' (JInt (prc_MembersCount r)),
     fld ''Members'' (enc_list enc_ODataID (prc_Members r))])"

record Processor =
  proc_ODataType :: string
  proc_ODataID :: string
  proc_ODataContext :: string
  proc_ID :: string
  proc_Name :: string
  proc_ProcessorType :: string
  proc_ProcessorArchitecture :: string
  proc_InstructionSet :: string
  proc_Manufacturer :: string
  proc_Model :: string
  proc_MaxSpeedMHz :: "int option"
  proc_TotalCores :: "int option"
  proc_TotalThreads :: "int option"

definition enc_Processor :: "Processor \<Rightarrow> json" where
  "enc_Processor r = JObj (concat [fld ''@odata.type'' (JStr (proc_ODataType r)),
     fld ''@odata.id'' (JStr (proc_ODataID r)),
     fld_str ''@odata.context'' (proc_ODataContext r),
     fld ''Id'' (JStr (proc_ID r)),
     fld ''Name'' (JStr (proc_Name r)),
     fld ''ProcessorType'' (JStr (proc_ProcessorType r)),
     fld ''ProcessorArchitecture'' (JStr (proc_ProcessorArchitecture r)),
     fld ''InstructionSet'' (JStr (proc_InstructionSet r)),
     fld ''Manufacturer'' (JStr (proc_Manufacturer r)),
     fld ''Model'' (JStr (proc_Model r)),
     fld_ptr ''MaxSpeedMHz'' JInt (proc_MaxSpeedMHz r),
     fld_ptr ''TotalCores'' JInt (proc_TotalCores r),
     fld_ptr ''TotalThreads'' JInt (proc_TotalThreads r)])"

section \<open>Registries\<close>

record RegistryFileCollection =
  rfc_ODataType :: string
  rfc_ODataID :: string
  rfc_Name :: string
  rfc_MembersCount :: int
  rfc_Members :: "ODataID list"

definition enc_RegistryFileCollection :: "RegistryFileCollection \<Rightarrow> json" where
  "enc_RegistryFileCollection r = JObj (concat [fld ''@odata.type'' (JStr (rfc_ODataType r)),
     fld ''@odata.id'' (JStr (rfc_ODataID r)),
     fld ''Name'' (JStr (rfc_Name r)),
     fld ''Members@odata.count'' (JInt (rfc_MembersCount r)),
     fld ''Members'' (enc_list enc_ODataID (rfc_Members r))])"

record RegistryLocation =
  rloc_Language :: string
  rloc_Uri :: string

definition enc_RegistryLocation :: "RegistryLocation \<Rightarrow> json" where
  "enc_RegistryLocation r = JObj (concat [fld ''Language'' (JStr (rloc_Language r)),
     fld ''Uri'' (JStr (rloc_Uri r))])"

record MessageRegistryFile =
  mrf_ODataType :: string
  mrf_ODataID :: string
  mrf_ID :: string
  mrf_Name :: string
  mrf_Languages :: "string list"
  mrf_Registry :: string
  mrf_Location :: "RegistryLocation list"

definition enc_MessageRegistryFile :: "MessageRegistryFile \<Rightarrow> json" where
  "enc_MessageRegistryFile r = JObj (concat [fld ''@odata.type'' (JStr (mrf_ODataType r)),
     fld ''@odata.id'' (JStr (mrf_ODataID r)),
     fld ''Id'' (JStr (mrf_ID r)),
     fld ''Name'' (JStr (mrf_Name r)),
     fld ''Languages'' (enc_list JStr (mrf_Languages r)),
     fld ''Registry'' (JStr (mrf_Registry r)),
     fld ''Location'' (enc_list enc_RegistryLocation (mrf_Location r))])"

record AttributeValue =
  aval_ValueName :: string
  aval_ValueDisplayName :: string

definition zero_AttributeValue :: AttributeValue where
  "zero_AttributeValue = \<lparr>aval_ValueName = [],
     aval_ValueDisplayName = []\<rparr>"

definition dec_AttributeValue :: "json \<Rightarrow> AttributeValue \<Rightarrow> AttributeValue option" where
  "dec_AttributeValue = dec_struct [(''ValueName'', set_val dec_string (\<lambda>x r. r\<lparr>aval_ValueName := x\<rparr>)),
     (''ValueDisplayName'', set_val dec_string (\<lambda>x r. r\<lparr>aval_ValueDisplayName := x\<rparr>))]"

record RegistryEntryAttribute =
  rea_AttributeName :: string
  rea_DisplayName :: string
  rea_Type :: string
  rea_ReadOnly :: bool
  rea_Immutable :: bool
  rea_Hidden :: bool
  rea_ResetRequired :: bool
  rea_Value :: "AttributeValue list"

definition zero_RegistryEntryAttribute :: RegistryEntryAttribute where
  "zero_RegistryEntryAttribute = \<lparr>rea_AttributeName = [],
     rea_DisplayName = [],
     rea_Type = [],
     rea_ReadOnly = False,
     rea_Immutable = False,
     rea_Hidden = False,
     rea_ResetRequired = False,
     rea_Value = []\<rparr>"

definition dec_RegistryEntryAttribute :: "json \<Rightarrow> RegistryEntryAttribute \<Rightarrow> RegistryEntryAttribute option" where
  "dec_RegistryEntryAttribute = dec_struct [(''AttributeName'', set_val dec_string (\<lambda>x r. r\<lparr>rea_AttributeName := x\<rparr>)),
     (''DisplayName'', set_val dec_string (\<lambda>x r. r\<lparr>rea_DisplayName := x\<rparr>)),
     (''Type'', set_val dec_string (\<lambda>x r. r\<lparr>rea_Type := x\<rparr>)),
     (''ReadOnly'', set_val dec_bool (\<lambda>x r. r\<lparr>rea_ReadOnly := x\<rparr>)),
     (''Immutable'', set_val dec_bool (\<lambda>x r. r\<lparr>rea_Immutable := x\<rparr>)),
     (''Hidden'', set_val dec_bool (\<lambda>x r. r\<lparr>rea_Hidden := x\<rparr>)),
     (''ResetRequired'', set_val dec_bool (\<lambda>x r. r\<lparr>rea_ResetRequired := x\<rparr>)),
     (''Value'', set_list (\<lambda>j. dec_AttributeValue j zero_AttributeValue) zero_AttributeValue (\<lambda>x r. r\<lparr>rea_Value := x\<rparr>))]"

record RegistryEntries =
  rent_Attributes :: "RegistryEntryAttribute list"

definition zero_RegistryEntries :: RegistryEntries where
  "zero_RegistryEntries = \<lparr>rent_Attributes = []\<rparr>"

definition dec_RegistryEntries :: "json \<Rightarrow> RegistryEntries \<Rightarrow> RegistryEntries option" where
  "dec_RegistryEntries = dec_struct [(''Attributes'', set_list (\<lambda>j. dec_RegistryEntryAttribute j zero_RegistryEntryAttribute) zero_RegistryEntryAttribute (\<lambda>x r. r\<lparr>rent_Attributes := x\<rparr>))]"

record AttributeRegistry =
  areg_ODataType :: string
  areg_ODataID :: string
  areg_ODataContext :: string
  areg_ID :: string
  areg_Name :: string
  areg_Description :: string
  areg_Language :: string
  areg_OwningEntity :: string
  areg_RegistryEntries :: RegistryEntries

definition zero_AttributeRegistry :: AttributeRegistry where
  "zero_AttributeRegistry = \<lparr>areg_ODataType = [],
     areg_ODataID = [],
     areg_ODataContext = [],
     areg_ID = [],
     areg_Name = [],
     areg_Description = [],
     areg_Language = [],
     areg_OwningEntity = [],
     areg_RegistryEntries = zero_RegistryEntries\<rparr>"

definition dec_AttributeRegistry :: "json \<Rightarrow> AttributeRegistry \<Rightarrow> AttributeRegistry option" where
  "dec_AttributeRegistry = dec_struct [(''@odata.type'', set_val dec_string (\<lambda>x r. r\<lparr>areg_ODataType := x\<rparr>)),
     (''@odata.id'', set_val dec_string (\<lambda>x r. r\<lparr>areg_ODataID := x\<rparr>)),
     (''@odata.context'', set_val dec_string (\<lambda>x r. r\<lparr>areg_ODataContext := x\<rparr>)),
     (''Id'', set_val dec_string (\<lambda>x r. r\<lparr>areg_ID := x\<rparr>)),
     (''Name'', set_val dec_string (\<lambda>x r. r\<lparr>areg_Name := x\<rparr>)),
     (''Description'', set_val dec_string (\<lambda>x r. r\<lparr>areg_Description := x\<rparr>)),
     (''Language'', set_val dec_string (\<lambda>x r. r\<lparr>areg_Language := x\<rparr>)),
     (''OwningEntity'', set_val dec_string (\<lambda>x r. r\<lparr>areg_OwningEntity := x\<rparr>)),
     (''RegistryEntries'', set_struct dec_RegistryEntries areg_RegistryEntries (\<lambda>x r. r\<lparr>areg_RegistryEntries := x\<rparr>))]"

section \<open>BIOS settings\<close>

record Bios =
  bios_ODataType :: string
  bios_ODataID :: string
  bios_ID :: string
  bios_Name :: string
  bios_AttributeRegistry :: string
  bios_Attributes :: any_map
  bios_RedfishSettings :: "RedfishSettings option"

definition enc_Bios :: "Bios \<Rightarrow> json" where
  "enc_Bios r = JObj (concat [fld ''@odata.type'' (JStr (bios_ODataType r)),
     fld ''@odata.id'' (JStr (bios_ODataID r)),
     fld ''Id'' (JStr (bios_ID r)),
     fld ''Name'' (JStr (bios_Name r)),
     fld_str ''AttributeRegistry'' (bios_AttributeRegistry r),
     fld ''Attributes'' (enc_map (bios_Attributes r)),
     fld_ptr ''@Redfish.Settings'' enc_RedfishSettings (bios_RedfishSettings r)])"

record PatchBiosSettingsRequest =
  pbsr_Attributes :: any_map

definition zero_PatchBiosSettingsRequest :: PatchBiosSettingsRequest where
  "zero_PatchBiosSettingsRequest = \<lparr>pbsr_Attributes = []\<rparr>"

definition dec_PatchBiosSettingsRequest :: "json \<Rightarrow> PatchBiosSettingsRequest \<Rightarrow> PatchBiosSettingsRequest option" where
  "dec_PatchBiosSettingsRequest = dec_struct [(''Attributes'', set_map pbsr_Attributes (\<lambda>x r. r\<lparr>pbsr_Attributes := x\<rparr>))]"

section \<open>Accounts\<close>

record AccountService =
  asv_ODataType :: string
  asv_ODataID :: string
  asv_ID :: string
  asv_Name :: string
  asv_ServiceEnabled :: bool
  asv_MinPasswordLength :: int
  asv_MaxPasswordLength :: int
  asv_Accounts :: ODataID

definition enc_AccountService :: "AccountService \<Rightarrow> json" where
  "enc_AccountService r = JObj (concat [fld ''@odata.type'' (JStr (asv_ODataType r)),
     fld ''@odata.id'' (JStr (asv_ODataID r)),
     fld ''Id'' (JStr (asv_ID r)),
     fld ''Name'' (JStr (asv_Name r)),
     fld ''ServiceEnabled'' (JBool (asv_ServiceEnabled r)),
     fld ''MinPasswordLength'' (JInt (asv_MinPasswordLength r)),
     fld ''MaxPasswordLength'' (JInt (asv_MaxPasswordLength r)),
     fld ''Accounts'' (enc_ODataID (asv_Accounts r))])"

record ManagerAccountCollection =
  mac_ODataType :: string
  mac_ODataID :: string
  mac_Name :: string
  mac_MembersCount :: int
  mac_Members :: "ODataID list"

definition enc_ManagerAccountCollection :: "ManagerAccountCollection \<Rightarrow> json" where
  "enc_ManagerAccountCollection r = JObj (concat [fld ''@odata.type'' (JStr (mac_ODataType r)),
     fld ''@odata.id'' (JStr (mac_ODataID r)),
     fld ''Name'' (JStr (mac_Name r)),
     fld ''Members@odata.count'' (JInt (mac_MembersCount r)),
     fld ''Members'' (enc_list enc_ODataID (mac_Members r))])"

record ManagerAccount =
  macc_ODataType :: string
  macc_ODataID :: string
  macc_ID :: string
  macc_Name :: string
  macc_UserName :: string
  macc_RoleID :: string
  macc_Enabled :: bool
  macc_Locked :: bool
  macc_Password :: "string option"
  macc_AccountTypes :: "string list"

definition enc_ManagerAccount :: "ManagerAccount \<Rightarrow> json" where
  "enc_ManagerAccount r = JObj (concat [fld ''@odata.type'' (JStr (macc_ODataType r)),
     fld ''@odata.id'' (JStr (macc_ODataID r)),
     fld ''Id'' (JStr (macc_ID r)),
     fld ''Name'' (JStr (macc_Name r)),
     fld ''UserName'' (JStr (macc_UserName r)),
     fld ''RoleId'' (JStr (macc_RoleID r)),
     fld ''Enabled'' (JBool (macc_Enabled r)),
     fld ''Locked'' (JBool (macc_Locked r)),
     fld ''Password'' (enc_ptr JStr (macc_Password r)),
     fld ''AccountTypes'' (enc_list JStr (macc_AccountTypes r))])"

record CreateAccountRequest =
  car_UserName :: string
  car_Password :: string
  car_RoleID :: string
  car_Enabled :: "bool option"

definition zero_CreateAccountRequest :: CreateAccountRequest where
  "zero_CreateAccountRequest = \<lparr>car_UserName = [],
     car_Password = [],
     car_RoleID = [],
     car_Enabled = None\<rparr>"

definition dec_CreateAccountRequest :: "json \<Rightarrow> CreateAccountRequest \<Rightarrow> CreateAccountRequest option" where
  "dec_CreateAccountRequest = dec_struct [(''UserName'', set_val dec_string (\<lambda>x r. r\<lparr>car_UserName := x\<rparr>)),
     (''Password'', set_val dec_string (\<lambda>x r. r\<lparr>car_Password := x\<rparr>)),
     (''RoleId'', set_val dec_string (\<lambda>x r. r\<lparr>car_RoleID := x\<rparr>)),
     (''Enabled'', set_ptr dec_bool (\<lambda>x r. r\<lparr>car_Enabled := x\<rparr>))]"

record PatchAccountRequest =
  par_UserName :: "string option"
  par_Password :: "string option"
  par_RoleID :: "string option"
  par_Enabled :: "bool option"

definition zero_PatchAccountRequest :: PatchAccountRequest where
  "zero_PatchAccountRequest = \<lparr>par_UserName = None,
     par_Password = None,
     par_RoleID = None,
     par_Enabled = None\<rparr>"

definition dec_PatchAccountRequest :: "json \<Rightarrow> PatchAccountRequest \<Rightarrow> PatchAccountRequest option" where
  "dec_PatchAccountRequest = dec_struct [(''UserName'', set_ptr dec_string (\<lambda>x r. r\<lparr>par_UserName := x\<rparr>)),
     (''Password'', set_ptr dec_string (\<lambda>x r. r\<lparr>par_Password := x\<rparr>)),
     (''RoleId'', set_ptr dec_string (\<lambda>x r. r\<lparr>par_RoleID := x\<rparr>)),
     (''Enabled'', set_ptr dec_bool (\<lambda>x r. r\<lparr>par_Enabled := x\<rparr>))]"

section \<open>Events\<close>

record ActionTarget =
  actt_Target :: string

definition enc_ActionTarget :: "ActionTarget \<Rightarrow> json" where
  "enc_ActionTarget r = JObj (concat [fld ''target'' (JStr (actt_Target r))])"

record EventServiceActions =
  esa_SubmitTestEvent :: ActionTarget

definition enc_EventServiceActions :: "EventServiceActions \<Rightarrow> json" where
  "enc_EventServiceActions r = JObj (concat [fld ''#EventService.SubmitTestEvent'' (enc_ActionTarget (esa_SubmitTestEvent r))])"

record EventService =
  esv_ODataType :: string
  esv_ODataID :: string
  esv_ID :: string
  esv_Name :: string
  esv_ServiceEnabled :: bool
  esv_DeliveryRetryAttempts :: int
  esv_DeliveryRetryIntervalSeconds :: int
  esv_EventFormatTypes :: "string list"
  esv_Subscriptions :: ODataID
  esv_Actions :: EventServiceActions

definition enc_EventService :: "EventService \<Rightarrow> json" where
  "enc_EventService r = JObj (concat [fld ''@odata.type'' (JStr (esv_ODataType r)),
     fld ''@odata.id'' (JStr (esv_ODataID r)),
     fld ''Id'' (JStr (esv_ID r)),
     fld ''Name'' (JStr (esv_Name r)),
     fld ''ServiceEnabled'' (JBool (esv_ServiceEnabled r)),
     fld ''DeliveryRetryAttempts'' (JInt (esv_DeliveryRetryAttempts r)),
     fld ''DeliveryRetryIntervalSeconds'' (JInt (esv_DeliveryRetryIntervalSeconds r)),
     fld ''EventFormatTypes'' (enc_list JStr (esv_EventFormatTypes r)),
     fld ''Subscriptions'' (enc_ODataID (esv_Subscriptions r)),
     fld ''Actions'' (enc_EventServiceActions (esv_Actions r))])"

record EventDestinationCollection =
  edc_ODataType :: string
  edc_ODataID :: string
  edc_Name :: string
  edc_MembersCount :: int
  edc_Members :: "ODataID list"

definition enc_EventDestinationCollection :: "EventDestinationCollection \<Rightarrow> json" where
  "enc_EventDestinationCollection r = JObj (concat [fld ''@odata.type'' (JStr (edc_ODataType r)),
     fld ''@odata.id'' (JStr (edc_ODataID r)),
     fld ''Name'' (JStr (edc_Name r)),
     fld ''Members@odata.count'' (JInt (edc_MembersCount r)),
     fld ''Members'' (enc_list enc_ODataID (edc_Members r))])"

record EventDestination =
  ed_ODataType :: string
  ed_ODataID :: string
  ed_ID :: string
  ed_Name :: string
  ed_Destination :: string
  ed_Context :: string
  ed_Protocol :: string
  ed_SubscriptionType :: string
  ed_EventFormatType :: string
  ed_DeliveryRetryPolicy :: string
  ed_EventTypes :: "string list"
  ed_RegistryPrefixes :: "string list"
  ed_ResourceTypes :: "string list"

definition enc_EventDestination :: "EventDestination \<Rightarrow> json" where
  "enc_EventDestination r = JObj (concat [fld ''@odata.type'' (JStr (ed_ODataType r)),
     fld ''@odata.id'' (JStr (ed_ODataID r)),
     fld ''Id'' (JStr (ed_ID r)),
     fld ''Name'' (JStr (ed_Name r)),
     fld ''Destination'' (JStr (ed_Destination r)),
     fld ''Context'' (JStr (ed_Context r)),
     fld ''Protocol'' (JStr (ed_Protocol r)),
     fld ''SubscriptionType'' (JStr (ed_SubscriptionType r)),
     fld ''EventFormatType'' (JStr (ed_EventFormatType r)),
     fld_str ''DeliveryRetryPolicy'' (ed_DeliveryRetryPolicy r),
     fld_list ''EventTypes'' JStr (ed_EventTypes r),
     fld_list ''RegistryPrefixes'' JStr (ed_RegistryPrefixes r),
     fld_list ''ResourceTypes'' JStr (ed_ResourceTypes r)])"

record CreateEventDestinationRequest =
  cedr_Destination :: string
  cedr_Context :: string
  cedr_Protocol :: string
  cedr_SubscriptionType :: string
  cedr_EventFormatType :: string
  cedr_DeliveryRetryPolicy :: string
  cedr_EventTypes :: "string list"
  cedr_RegistryPrefixes :: "string list"
  cedr_ResourceTypes :: "string list"

definition zero_CreateEventDestinationRequest :: CreateEventDestinationRequest where
  "zero_CreateEventDestinationRequest = \<lparr>cedr_Destination = [],
     cedr_Context = [],
     cedr_Protocol = [],
     cedr_SubscriptionType = [],
     cedr_EventFormatType = [],
     cedr_DeliveryRetryPolicy = [],
     cedr_EventTypes = [],
     cedr_RegistryPrefixes = [],
     cedr_ResourceTypes = []\<rparr>"

definition dec_CreateEventDestinationRequest :: "json \<Rightarrow> CreateEventDestinationRequest \<Rightarrow> CreateEventDestinationRequest option" where
  "dec_CreateEventDestinationRequest = dec_struct [(''Destination'', set_val dec_string (\<lambda>x r. r\<lparr>cedr_Destination := x\<rparr>)),
     (''Context'', set_val dec_string (\<lambda>x r. r\<lparr>cedr_Context := x\<rparr>)),
     (''Protocol'', set_val dec_string (\<lambda>x r. r\<lparr>cedr_Protocol := x\<rparr>)),
     (''SubscriptionType'', set_val dec_string (\<lambda>x r. r\<lparr>cedr_SubscriptionType := x\<rparr>)),
     (''EventFormatType'', set_val dec_string (\<lambda>x r. r\<lparr>cedr_EventFormatType := x\<rparr>)),
     (''DeliveryRetryPolicy'', set_val dec_string (\<lambda>x r. r\<lparr>cedr_DeliveryRetryPolicy := x\<rparr>)),
     (''EventTypes'', set_list dec_string [] (\<lambda>x r. r\<lparr>cedr_EventTypes := x\<rparr>)),
     (''RegistryPrefixes'', set_list dec_string [] (\<lambda>x r. r\<lparr>cedr_RegistryPrefixes := x\<rparr>)),
     (''ResourceTypes'', set_list dec_string [] (\<lambda>x r. r\<lparr>cedr_ResourceTypes := x\<rparr>))]"

record SubmitTestEventRequest =
  ster_EventID :: string
  ster_EventTimestamp :: string
  ster_Severity :: string
  ster_MessageSeverity :: string
  ster_Message :: string
  ster_MessageID :: string
  ster_MessageArgs :: "(string list) option"
  ster_OriginOfCondition :: "json option"

definition zero_SubmitTestEventRequest :: SubmitTestEventRequest where
  "zero_SubmitTestEventRequest = \<lparr>ster_EventID = [],
     ster_EventTimestamp = [],
     ster_Severity = [],
     ster_MessageSeverity = [],
     ster_Message = [],
     ster_MessageID = [],
     ster_MessageArgs = None,
     ster_OriginOfCondition = None\<rparr>"

definition dec_SubmitTestEventRequest :: "json \<Rightarrow> SubmitTestEventRequest \<Rightarrow> SubmitTestEventRequest option" where
  "dec_SubmitTestEventRequest = dec_struct [(''EventId'', set_val dec_string (\<lambda>x r. r\<lparr>ster_EventID := x\<rparr>)),
     (''EventTimestamp'', set_val dec_string (\<lambda>x r. r\<lparr>ster_EventTimestamp := x\<rparr>)),
     (''Severity'', set_val dec_string (\<lambda>x r. r\<lparr>ster_Severity := x\<rparr>)),
     (''MessageSeverity'', set_val dec_string (\<lambda>x r. r\<lparr>ster_MessageSeverity := x\<rparr>)),
     (''Message'', set_val dec_string (\<lambda>x r. r\<lparr>ster_Message := x\<rparr>)),
     (''MessageId'', set_val dec_string (\<lambda>x r. r\<lparr>ster_MessageID := x\<rparr>)),
     (''MessageArgs'', set_nilable dec_string [] (\<lambda>x r. r\<lparr>ster_MessageArgs := x\<rparr>)),
     (''OriginOfCondition'', (\<lambda>j r. Some (r\<lparr>ster_OriginOfCondition := Some j\<rparr>)))]"

section \<open>Updates\<close>

record SimpleUpdateAction =
  sua_Target :: string
  sua_TransferProtocolAllowable :: "string list"

definition enc_SimpleUpdateAction :: "SimpleUpdateAction \<Rightarrow> json" where
  "enc_SimpleUpdateAction r = JObj (concat [fld ''target'' (JStr (sua_Target r)),
     fld ''TransferProtocol@Redfish.AllowableValues'' (enc_list JStr (sua_TransferProtocolAllowable r))])"

record UpdateServiceActions =
  usa_SimpleUpdate :: SimpleUpdateAction

definition enc_UpdateServiceActions :: "UpdateServiceActions \<Rightarrow> json" where
  "enc_UpdateServiceActions r = JObj (concat [fld ''#UpdateService.SimpleUpdate'' (enc_SimpleUpdateAction (usa_SimpleUpdate r))])"

record UpdateService =
  usv_ODataType :: string
  usv_ODataID :: string
  usv_ID :: string
  usv_Name :: string
  usv_ServiceEnabled :: bool
  usv_FirmwareInventory :: ODataID
  usv_Actions :: UpdateServiceActions

definition enc_UpdateService :: "UpdateService \<Rightarrow> json" where
  "enc_UpdateService r = JObj (concat [fld ''@odata.type'' (JStr (usv_ODataType r)),
     fld ''@odata.id'' (JStr (usv_ODataID r)),
     fld ''Id'' (JStr (usv_ID r)),
     fld ''Name'' (JStr (usv_Name r)),
     fld ''ServiceEnabled'' (JBool (usv_ServiceEnabled r)),
     fld ''FirmwareInventory'' (enc_ODataID (usv_FirmwareInventory r)),
     fld ''Actions'' (enc_UpdateServiceActions (usv_Actions r))])"

record SimpleUpdateRequest =
  sur_ImageURI :: string
  sur_TransferProtocol :: string
  sur_Targets :: "string list"
  sur_Username :: string
  sur_Password :: string
  sur_ForceUpdate :: bool
  sur_OperationApplyTime :: string

definition zero_SimpleUpdateRequest :: SimpleUpdateRequest where
  "zero_SimpleUpdateRequest = \<lparr>sur_ImageURI = [],
     sur_TransferProtocol = [],
     sur_Targets = [],
     sur_Username = [],
     sur_Password = [],
     sur_ForceUpdate = False,
     sur_OperationApplyTime = []\<rparr>"

definition dec_SimpleUpdateRequest :: "json \<Rightarrow> SimpleUpdateRequest \<Rightarrow> SimpleUpdateRequest option" where
  "dec_SimpleUpdateRequest = dec_struct [(''ImageURI'', set_val dec_string (\<lambda>x r. r\<lparr>sur_ImageURI := x\<rparr>)),
     (''TransferProtocol'', set_val dec_string (\<lambda>x r. r\<lparr>sur_TransferProtocol := x\<rparr>)),
     (''Targets'', set_list dec_string [] (\<lambda>x r. r\<lparr>sur_Targets := x\<rparr>)),
     (''Username'', set_val dec_string (\<lambda>x r. r\<lparr>sur_Username := x\<rparr>)),
     (''Password'', set_val dec_string (\<lambda>x r. r\<lparr>sur_Password := x\<rparr>)),
     (''ForceUpdate'', set_val dec_bool (\<lambda>x r. r\<lparr>sur_ForceUpdate := x\<rparr>)),
     (''@Redfish.OperationApplyTime'', set_val dec_string (\<lambda>x r. r\<lparr>sur_OperationApplyTime := x\<rparr>))]"

record SoftwareInventoryCollection =
  sic_ODataType :: string
  sic_ODataID :: string
  sic_Name :: string
  sic_MembersCount :: int
  sic_Members :: "ODataID list"

definition enc_SoftwareInventoryCollection :: "SoftwareInventoryCollection \<Rightarrow> json" where
  "enc_SoftwareInventoryCollection r = JObj (concat [fld ''@odata.type'' (JStr (sic_ODataType r)),
     fld ''@odata.id'' (JStr (sic_ODataID r)),
     fld ''Name'' (JStr (sic_Name r)),
     fld ''Members@odata.count'' (JInt (sic_MembersCount r)),
     fld ''Members'' (enc_list enc_ODataID (sic_Members r))])"

record SoftwareInventory =
  si_ODataType :: string
  si_ODataID :: string
  si_ID :: string
  si_Name :: string
  si_Version :: string
  si_Updateable :: bool
  si_Staged :: bool
  si_RelatedItem :: "ODataID list"
  si_Status :: ResourceStatus

definition enc_SoftwareInventory :: "SoftwareInventory \<Rightarrow> json" where
  "enc_SoftwareInventory r = JObj (concat [fld ''@odata.type'' (JStr (si_ODataType r)),
     fld ''@odata.id'' (JStr (si_ODataID r)),
     fld ''Id'' (JStr (si_ID r)),
     fld ''Name'' (JStr (si_Name r)),
     fld ''Version'' (JStr (si_Version r)),
     fld ''Updateable'' (JBool (si_Updateable r)),
     fld ''Staged'' (JBool (si_Staged r)),
     fld ''RelatedItem'' (enc_list enc_ODataID (si_RelatedItem r)),
     fld ''Status'' (enc_ResourceStatus (si_Status r))])"

section \<open>Tasks\<close>

record TaskService =
  tsv_ODataType :: string
  tsv_ODataID :: string
  tsv_ID :: string
  tsv_Name :: string
  tsv_ServiceEnabled :: bool
  tsv_Tasks :: ODataID

definition enc_TaskService :: "TaskService \<Rightarrow> json" where
  "enc_TaskService r = JObj (concat [fld ''@odata.type'' (JStr (tsv_ODataType r)),
     fld ''@odata.id'' (JStr (tsv_ODataID r)),
     fld ''Id'' (JStr (tsv_ID r)),
     fld ''Name'' (JStr (tsv_Name r)),
     fld ''ServiceEnabled'' (JBool (tsv_ServiceEnabled r)),
     fld ''Tasks'' (enc_ODataID (tsv_Tasks r))])"

record TaskCollection =
  tc_ODataType :: string
  tc_ODataID :: string
  tc_Name :: string
  tc_MembersCount :: int
  tc_Members :: "ODataID list"

definition enc_TaskCollection :: "TaskCollection \<Rightarrow> json" where
  "enc_TaskCollection r = JObj (concat [fld ''@odata.type'' (JStr (tc_ODataType r)),
     fld ''@odata.id'' (JStr (tc_ODataID r)),
     fld ''Name'' (JStr (tc_Name r)),
     fld ''Members@odata.count'' (JInt (tc_MembersCount r)),
     fld ''Members'' (enc_list enc_ODataID (tc_Members r))])"

record Message =
  msg_MessageID :: string
  msg_Message :: string
  msg_Severity :: string
  msg_MessageSeverity :: string
  msg_MessageArgs :: "string list"

definition enc_Message :: "Message \<Rightarrow> json" where
  "enc_Message r = JObj (concat [fld ''MessageId'' (JStr (msg_MessageID r)),
     fld ''Message'' (JStr (msg_Message r)),
     fld ''Severity'' (JStr (msg_Severity r)),
     fld ''MessageSeverity'' (JStr (msg_MessageSeverity r)),
     fld_list ''MessageArgs'' JStr (msg_MessageArgs r)])"

record Task =
  task_ODataType :: string
  task_ODataID :: string
  task_ID :: string
  task_Name :: string
  task_TaskState :: string
  task_TaskStatus :: string
  task_PercentComplete :: int
  task_StartTime :: string
  task_EndTime :: string
  task_TaskMonitor :: string
  task_Messages :: "(Message list) option"

definition enc_Task :: "Task \<Rightarrow> json" where
  "enc_Task r = JObj (concat [fld ''@odata.type'' (JStr (task_ODataType r)),
     fld ''@odata.id'' (JStr (task_ODataID r)),
     fld ''Id'' (JStr (task_ID r)),
     fld ''Name'' (JStr (task_Name r)),
     fld ''TaskState'' (JStr (task_TaskState r)),
     fld ''TaskStatus'' (JStr (task_TaskStatus r)),
     fld ''PercentComplete'' (JInt (task_PercentComplete r)),
     fld ''StartTime'' (JStr (task_StartTime r)),
     fld_str ''EndTime'' (task_EndTime r),
     fld ''TaskMonitor'' (JStr (task_TaskMonitor r)),
     fld ''Messages'' (enc_ptr (enc_list enc_Message) (task_Messages r))])"

end
