(* ===== verification/Firmware.thy ===== *)
theory Firmware
  imports Json "HOL-Library.Signed_Division"
begin

text \<open>
  Firmware packages, src/internal/firmware/firmware.go: \<open>Parse\<close> validates a package, the updater's
  \<open>fetch\<close> downloads one within a size limit, and \<open>Run\<close> validates it against the targets and
  simulates flashing. The HTTP client is a parameter; \<open>Run\<close> returns, with its result, what it does
  on the way: the progress it reports and the time it sleeps, in order.
\<close>

section \<open>Packages\<close>

type_synonym Component = string

definition ComponentBIOS :: Component where "ComponentBIOS = ''BIOS''"
definition ComponentBMC :: Component where "ComponentBMC = ''BMC''"

text \<open>\<open>64 << 10\<close>.\<close>

definition maxPackageSize :: nat where
  "maxPackageSize = 65536"

record Package =
  pkg_Component :: Component
  pkg_Version :: string

datatype firmware_error =
    InvalidPackage
  | UnsupportedComponent Component
  | VersionRequired
  | DownloadFailed string
  | DownloadStatus nat
  | PackageTooLarge
  | NotForTargets Component "Component list"
  | ContextDone

definition dec_Package :: "Package field_decoder" where
  "dec_Package = dec_struct [(''Component'', set_val dec_string (\<lambda>x r. r\<lparr>pkg_Component := x\<rparr>)),
     (''Version'', set_val dec_string (\<lambda>x r. r\<lparr>pkg_Version := x\<rparr>))]"

text \<open>The text of the package is its JSON value here, \<open>None\<close> when it is none.\<close>

definition Parse :: "json option \<Rightarrow> firmware_error + Package" where
  "Parse data =
     (case decode dec_Package \<lparr>pkg_Component = [], pkg_Version = []\<rparr> data of
        None \<Rightarrow> Inl InvalidPackage
      | Some pkg \<Rightarrow>
          if pkg_Component pkg \<noteq> ComponentBIOS \<and> pkg_Component pkg \<noteq> ComponentBMC
          then Inl (UnsupportedComponent (pkg_Component pkg))
          else if pkg_Version pkg = [] then Inl VersionRequired
          else Inr pkg)"

section \<open>The updater\<close>

record Request =
  fr_ImageURI :: string
  fr_Username :: string
  fr_Password :: string
  fr_Targets :: "Component list"

text \<open>
  A download: what the request asks for, and what the client answers: an error (of building the
  request or of the connection), or a status and a body, which may break off with an error.
\<close>

record http_get =
  get_URL :: string
  get_BasicAuth :: "(string \<times> string) option"

type_synonym http_answer = "string + nat \<times> byte list \<times> string option"

text \<open>A duration in nanoseconds; \<open>sdiv\<close> is Go's division, which rounds towards zero.\<close>

record Updater =
  u_duration :: int

definition flashSteps :: nat where
  "flashSteps = 4"

text \<open>What \<open>io.ReadAll\<close> of a reader limited to \<open>n\<close> bytes returns.\<close>

definition read_limited :: "nat \<Rightarrow> byte list \<times> string option \<Rightarrow> string + byte list" where
  "read_limited n b =
     (case b of (bs, err) \<Rightarrow>
        if n \<le> length bs then Inr (take n bs)
        else case err of Some e \<Rightarrow> Inl e | None \<Rightarrow> Inr bs)"

definition fetch :: "(http_get \<Rightarrow> http_answer) \<Rightarrow> Request \<Rightarrow> firmware_error + byte list" where
  "fetch http_do req =
     (case http_do \<lparr>get_URL = fr_ImageURI req,
         get_BasicAuth = (if fr_Username req \<noteq> [] \<or> fr_Password req \<noteq> []
           then Some (fr_Username req, fr_Password req) else None)\<rparr> of
        Inl e \<Rightarrow> Inl (DownloadFailed e)
      | Inr (code, body) \<Rightarrow>
          if code \<noteq> 200 then Inl (DownloadStatus code)
          else case read_limited (maxPackageSize + 1) body of
            Inl e \<Rightarrow> Inl (DownloadFailed e)
          | Inr bs \<Rightarrow> if maxPackageSize < length bs then Inl PackageTooLarge else Inr bs)"

datatype run_event = Progress int | Sleep int

text \<open>
  The flash loop over the steps still to do; \<open>cancel\<close> is the step at whose \<open>select\<close> the context is
  done before the timer, if there is one (the server's context never is).
\<close>

fun flash :: "int \<Rightarrow> nat option \<Rightarrow> nat list \<Rightarrow> run_event list \<times> firmware_error option" where
  "flash step cancel [] = ([], None)"
| "flash step cancel (i # is) =
     (if cancel = Some i then ([], Some ContextDone)
      else case flash step cancel is of (evs, e) \<Rightarrow>
        (Sleep step # (if i < flashSteps then [Progress (10 + int i * 80 sdiv int flashSteps)] else [])
           @ evs, e))"

definition Run ::
    "(byte list \<Rightarrow> json option) \<Rightarrow> (http_get \<Rightarrow> http_answer) \<Rightarrow> nat option \<Rightarrow> Updater \<Rightarrow> Request
      \<Rightarrow> run_event list \<times> (firmware_error + Package)" where
  "Run json_text http_do cancel u req =
     (case fetch http_do req of
        Inl e \<Rightarrow> ([], Inl e)
      | Inr data \<Rightarrow>
          (case Parse (json_text data) of
             Inl e \<Rightarrow> ([], Inl e)
           | Inr pkg \<Rightarrow>
               if fr_Targets req \<noteq> [] \<and> pkg_Component pkg \<notin> set (fr_Targets req)
               then ([], Inl (NotForTargets (pkg_Component pkg) (fr_Targets req)))
               else (case flash (u_duration u sdiv int flashSteps) cancel [1..<flashSteps + 1] of
                   (evs, Some e) \<Rightarrow> (Progress 10 # evs, Inl e)
                 | (evs, None) \<Rightarrow> (Progress 10 # evs, Inr pkg))))"

section \<open>Facts\<close>

definition valid_package :: "Package \<Rightarrow> bool" where
  "valid_package pkg \<longleftrightarrow>
     pkg_Component pkg \<in> {ComponentBIOS, ComponentBMC} \<and> pkg_Version pkg \<noteq> []"

lemma Parse_valid: "Parse data = Inr pkg \<Longrightarrow> valid_package pkg"
  by (auto simp: Parse_def valid_package_def split: option.splits if_splits)

lemma fetch_size: "fetch http_do req = Inr bs \<Longrightarrow> length bs \<le> maxPackageSize"
  by (auto simp: fetch_def split: sum.splits prod.splits if_splits)

lemma flash_background:
  "flash step None [1..<flashSteps + 1] =
     ([Sleep step, Progress 30, Sleep step, Progress 50, Sleep step, Progress 70, Sleep step], None)"
  by (simp add: flashSteps_def upt_conv_Cons signed_divide_int_def)

text \<open>The result of a run with the background context, and everything it did.\<close>

definition accepted ::
    "(byte list \<Rightarrow> json option) \<Rightarrow> (http_get \<Rightarrow> http_answer) \<Rightarrow> Request \<Rightarrow> firmware_error + Package" where
  "accepted json_text http_do req =
     (case fetch http_do req of
        Inl e \<Rightarrow> Inl e
      | Inr data \<Rightarrow>
          (case Parse (json_text data) of
             Inl e \<Rightarrow> Inl e
           | Inr pkg \<Rightarrow>
               if fr_Targets req = [] \<or> pkg_Component pkg \<in> set (fr_Targets req) then Inr pkg
               else Inl (NotForTargets (pkg_Component pkg) (fr_Targets req))))"

lemma Run_background:
  "Run json_text http_do None u req =
     (let step = u_duration u sdiv 4
      in case accepted json_text http_do req of
           Inl e \<Rightarrow> ([], Inl e)
         | Inr pkg \<Rightarrow> ([Progress 10, Sleep step, Progress 30, Sleep step, Progress 50, Sleep step,
             Progress 70, Sleep step], Inr pkg))"
proof -
  have four: "int flashSteps = 4"
    by (simp add: flashSteps_def)
  show ?thesis
    unfolding Run_def accepted_def Let_def flash_background four
    by (auto split: sum.split)
qed

lemma accepted_valid: "accepted json_text http_do req = Inr pkg \<Longrightarrow> valid_package pkg"
  by (auto simp: accepted_def Parse_valid split: sum.splits if_splits)

lemma four_quarters: "0 \<le> d \<Longrightarrow> 0 \<le> d sdiv 4 \<and> 4 * (d sdiv 4) \<le> (d::int) \<and> d < 4 * (d sdiv 4) + 4"
  by (cases "d = 0") (auto simp: signed_divide_int_def)

end
