(* ===== verification/Event_Dispatcher.thy ===== *)
theory Event_Dispatcher
  imports Json
begin

text \<open>
  Delivery of Redfish events, src/internal/events/dispatcher.go: the payload structs with their
  JSON encoding, and \<open>Deliver\<close>, which posts a payload and retries a bounded number of times. The
  HTTP client is a parameter over a world \<open>'w\<close>; times are nanoseconds.
\<close>

section \<open>Payloads\<close>

record EventLink =
  el_ODataID :: string

record Event =
  ev_MemberID :: string
  ev_EventID :: string
  ev_EventTimestamp :: string
  ev_Severity :: string
  ev_MessageSeverity :: string
  ev_Message :: string
  ev_MessageID :: string
  ev_MessageArgs :: "string list"
  ev_OriginOfCondition :: "EventLink option"

record Payload =
  pl_ODataType :: string
  pl_ID :: string
  pl_Name :: string
  pl_Context :: string
  pl_Events :: "Event list"

definition enc_EventLink :: "EventLink \<Rightarrow> json" where
  "enc_EventLink r = JObj (concat [fld ''@odata.id'' (JStr (el_ODataID r))])"

definition enc_Event :: "Event \<Rightarrow> json" where
  "enc_Event r = JObj (concat [fld ''MemberId'' (JStr (ev_MemberID r)),
     fld ''EventId'' (JStr (ev_EventID r)),
     fld ''EventTimestamp'' (JStr (ev_EventTimestamp r)),
     fld_str ''Severity'' (ev_Severity r),
     fld_str ''MessageSeverity'' (ev_MessageSeverity r),
     fld_str ''Message'' (ev_Message r),
     fld ''MessageId'' (JStr (ev_MessageID r)),
     fld ''MessageArgs'' (enc_list JStr (ev_MessageArgs r)),
     fld_ptr ''OriginOfCondition'' enc_EventLink (ev_OriginOfCondition r)])"

definition enc_Payload :: "Payload \<Rightarrow> json" where
  "enc_Payload r = JObj (concat [fld ''@odata.type'' (JStr (pl_ODataType r)),
     fld ''Id'' (JStr (pl_ID r)),
     fld ''Name'' (JStr (pl_Name r)),
     fld_str ''Context'' (pl_Context r),
     fld ''Events'' (enc_list enc_Event (pl_Events r))])"

definition NewPayload :: "string \<Rightarrow> string \<Rightarrow> Event list \<Rightarrow> Payload" where
  "NewPayload id' context evs = \<lparr>pl_ODataType = ''#Event.v1_7_0.Event'', pl_ID = id',
     pl_Name = ''Event Array'', pl_Context = context, pl_Events = evs\<rparr>"

section \<open>The dispatcher\<close>

record Dispatcher =
  d_attempts :: int
  d_retryInterval :: int

definition NewDispatcher :: "int \<Rightarrow> int \<Rightarrow> Dispatcher" where
  "NewDispatcher attempts retryInterval =
     \<lparr>d_attempts = (if attempts < 1 then 1 else attempts), d_retryInterval = retryInterval\<rparr>"

datatype delivery_error =
    PostFailed string
  | UnexpectedStatus nat
  | ContextDone
  | AfterAttempts int delivery_error

text \<open>\<open>client.Do\<close> of a POST: an error, or the status of the response.\<close>

type_synonym 'w http_post = "string \<Rightarrow> json \<Rightarrow> 'w \<Rightarrow> (string + nat) \<times> 'w"

definition post ::
    "'w http_post \<Rightarrow> string \<Rightarrow> json \<Rightarrow> 'w \<Rightarrow> delivery_error option \<times> 'w" where
  "post client_do destination body w =
     (case client_do destination body w of
        (Inl e, w') \<Rightarrow> (Some (PostFailed e), w')
      | (Inr code, w') \<Rightarrow>
          if code < 200 \<or> code > 299 then (Some (UnexpectedStatus code), w') else (None, w'))"

text \<open>
  The loop of \<open>Deliver\<close> over the attempts still to make, after \<open>lastErr\<close>; \<open>wait\<close> is the sleep of
  the retry interval, and \<open>cancel\<close> the attempt before which the context is done, if there is one.
  The result also counts the posts.
\<close>

fun deliver_loop ::
    "'w http_post \<Rightarrow> ('w \<Rightarrow> 'w) \<Rightarrow> int option \<Rightarrow> int \<Rightarrow> string \<Rightarrow> json \<Rightarrow> int list \<Rightarrow> delivery_error
      \<Rightarrow> 'w \<Rightarrow> delivery_error option \<times> nat \<times> 'w" where
  "deliver_loop client_do wait cancel n dest body [] lastErr w = (Some (AfterAttempts n lastErr), 0, w)"
| "deliver_loop client_do wait cancel n dest body (attempt # rest) lastErr w =
     (if attempt > 1 \<and> cancel = Some attempt then (Some ContextDone, 0, w)
      else case post client_do dest body (if attempt > 1 then wait w else w) of
        (None, w') \<Rightarrow> (None, 1, w')
      | (Some e, w') \<Rightarrow>
          (case deliver_loop client_do wait cancel n dest body rest e w' of
             (r, k, w'') \<Rightarrow> (r, k + 1, w'')))"

text \<open>Marshalling a payload, which holds strings only, cannot fail.\<close>

definition Deliver ::
    "'w http_post \<Rightarrow> (int \<Rightarrow> 'w \<Rightarrow> 'w) \<Rightarrow> int option \<Rightarrow> Dispatcher \<Rightarrow> string \<Rightarrow> Payload
      \<Rightarrow> 'w \<Rightarrow> delivery_error option \<times> nat \<times> 'w" where
  "Deliver client_do sleep cancel d destination payload w =
     deliver_loop client_do (sleep (d_retryInterval d)) cancel (d_attempts d) destination
       (enc_Payload payload) [1..d_attempts d] ContextDone w"

section \<open>Facts\<close>

text \<open>The worlds a destination that keeps failing goes through, and its last error.\<close>

fun failing ::
    "'w http_post \<Rightarrow> ('w \<Rightarrow> 'w) \<Rightarrow> string \<Rightarrow> json \<Rightarrow> int list \<Rightarrow> delivery_error \<Rightarrow> 'w
      \<Rightarrow> (delivery_error \<times> 'w) option" where
  "failing client_do wait dest body [] e w = Some (e, w)"
| "failing client_do wait dest body (a # as) e w =
     (case post client_do dest body (if a > 1 then wait w else w) of
        (None, w') \<Rightarrow> None
      | (Some e', w') \<Rightarrow> failing client_do wait dest body as e' w')"

lemma deliver_loop_posts:
  "deliver_loop client_do wait cancel n dest body as e w = (r, k, w') \<Longrightarrow> k \<le> length as"
  by (induction as arbitrary: e w r k w') (auto split: if_splits prod.splits option.splits)

lemma deliver_loop_spec:
  assumes "deliver_loop client_do wait None n dest body as e w = (r, k, w')"
  shows "case r of
      Some err \<Rightarrow> k = length as \<and> (\<exists>e1. failing client_do wait dest body as e w = Some (e1, w')
        \<and> err = AfterAttempts n e1)
    | None \<Rightarrow> 1 \<le> k \<and> k \<le> length as \<and>
        (\<exists>e1 w1. failing client_do wait dest body (take (k - 1) as) e w = Some (e1, w1)
          \<and> post client_do dest body (if as ! (k - 1) > 1 then wait w1 else w1) = (None, w'))"
  using assms
proof (induction as arbitrary: e w k)
  case (Cons a as)
  obtain p w1 where p: "post client_do dest body (if a > 1 then wait w else w) = (p, w1)"
    by fastforce
  show ?case
  proof (cases p)
    case None
    with p Cons.prems show ?thesis
      by simp
  next
    case (Some e1)
    with p Cons.prems obtain k' where k: "k = Suc k'"
      and rec: "deliver_loop client_do wait None n dest body as e1 w1 = (r, k', w')"
      by (auto split: prod.splits)
    from Cons.IH [OF rec] show ?thesis
    proof (cases r)
      case None
      with Cons.IH [OF rec] obtain j where "k' = Suc j"
        by (cases k') auto
      with None Cons.IH [OF rec] p Some k show ?thesis
        by simp
    qed (use p Some k in auto)
  qed
qed auto

end
