(* ===== verification/Go_Strconv.thy ===== *)
theory Go_Strconv
  imports Go_Prelude "HOL-Library.List_Lexorder" "HOL-Library.Char_ord"
begin

text \<open>
  Decimal numerals as the sources use them: \<open>strconv.Itoa\<close> of a counter, \<open>%012d\<close> of \<open>fmt\<close>,
  \<open>strconv.ParseUint(s, 10, bits)\<close> and \<open>strconv.Atoi\<close>, with the round trips and the fact that
  zero-padded numerals are ordered as strings as they are as numbers.
\<close>

section \<open>Functions\<close>

definition digit_char :: "nat \<Rightarrow> char" where
  "digit_char d = char_of (48 + d)"

definition char_digit :: "char \<Rightarrow> nat" where
  "char_digit c = of_char c - 48"

definition is_digit :: "char \<Rightarrow> bool" where
  "is_digit c \<longleftrightarrow> 48 \<le> (of_char c :: nat) \<and> (of_char c :: nat) \<le> 57"

fun itoa :: "nat \<Rightarrow> string" where
  "itoa n = (if n < 10 then [digit_char n] else itoa (n div 10) @ [digit_char (n mod 10)])"

declare itoa.simps [simp del]

text \<open>\<open>%0wd\<close> of a number that is not negative.\<close>

definition pad_zero :: "nat \<Rightarrow> string \<Rightarrow> string" where
  "pad_zero w s = replicate (w - length s) (CHR ''0'') @ s"

definition digits_val :: "string \<Rightarrow> nat" where
  "digits_val s = foldl (\<lambda>a c. a * 10 + char_digit c) 0 s"

text \<open>\<open>None\<close> is an error: no digits, another character, or a number out of range.\<close>

definition ParseUint10 :: "nat \<Rightarrow> string \<Rightarrow> nat option" where
  "ParseUint10 bits s =
     (if s = [] \<or> \<not> list_all is_digit s then None
      else if digits_val s < 2 ^ bits then Some (digits_val s) else None)"

definition Atoi :: "string \<Rightarrow> int option" where
  "Atoi s =
     (let neg = (s \<noteq> [] \<and> hd s = CHR ''-'');
          ds = (if s \<noteq> [] \<and> (hd s = CHR ''-'' \<or> hd s = CHR ''+'') then tl s else s)
      in if ds = [] \<or> \<not> list_all is_digit ds then None
         else let n = (if neg then - int (digits_val ds) else int (digits_val ds))
              in if - (2 ^ 63) \<le> n \<and> n < 2 ^ 63 then Some n else None)"

section \<open>Round trips\<close>

lemma of_digit_char: "d < 10 \<Longrightarrow> (of_char (digit_char d) :: nat) = 48 + d"
  by (simp add: digit_char_def)

lemma char_digit_char [simp]: "d < 10 \<Longrightarrow> char_digit (digit_char d) = d"
  by (simp add: char_digit_def of_digit_char)

lemma is_digit_char [simp]: "d < 10 \<Longrightarrow> is_digit (digit_char d)"
  by (simp add: is_digit_def of_digit_char)

lemma char_digit_0 [simp]: "char_digit (CHR ''0'') = 0"
  by (simp add: char_digit_def)

lemma digits_val_snoc [simp]: "digits_val (s @ [c]) = digits_val s * 10 + char_digit c"
  by (simp add: digits_val_def)

lemma digits_val_Nil [simp]: "digits_val [] = 0"
  by (simp add: digits_val_def)

lemma digits_val_itoa [simp]: "digits_val (itoa n) = n"
proof (induction n rule: itoa.induct)
  case (1 n)
  show ?case
  proof (cases "n < 10")
    case True
    then show ?thesis
      by (subst itoa.simps) (simp add: digits_val_def)
  qed (use 1 in \<open>subst itoa.simps, simp\<close>)
qed

lemma itoa_digits [simp]: "list_all is_digit (itoa n)"
proof (induction n rule: itoa.induct)
  case (1 n)
  then show ?case
    by (subst itoa.simps) simp
qed

lemma itoa_not_Nil [simp]: "itoa n \<noteq> []"
  by (subst itoa.simps) simp

lemma itoa_inject [simp]: "itoa m = itoa n \<longleftrightarrow> m = n"
  by (metis digits_val_itoa)

lemma ParseUint10_itoa: "n < 2 ^ bits \<Longrightarrow> ParseUint10 bits (itoa n) = Some n"
  by (simp add: ParseUint10_def)

lemma ParseUint10_range: "ParseUint10 bits s = Some n \<Longrightarrow> n < 2 ^ bits"
  by (simp add: ParseUint10_def split: if_splits)

lemma itoa_hd: "is_digit (hd (itoa n))"
  using itoa_digits [of n] itoa_not_Nil [of n] by (cases "itoa n") simp_all

lemma Atoi_itoa:
  assumes "n < 2 ^ 63"
  shows "Atoi (itoa n) = Some (int n)"
proof -
  have "hd (itoa n) \<noteq> CHR ''-''" "hd (itoa n) \<noteq> CHR ''+''"
    using itoa_hd [of n] by (auto simp: is_digit_def)
  moreover have "int n < int (2 ^ 63)"
    using assms by (simp only: of_nat_less_iff)
  then have "int n < 2 ^ 63"
    by simp
  ultimately show ?thesis
    by (simp add: Atoi_def)
qed

section \<open>Order of padded numerals\<close>

lemma length_itoa: "n < 10 ^ w \<Longrightarrow> 0 < w \<Longrightarrow> length (itoa n) \<le> w"
proof (induction n arbitrary: w rule: itoa.induct)
  case (1 n)
  show ?case
  proof (cases "n < 10")
    case True
    with 1 show ?thesis
      by (subst itoa.simps) simp
  next
    case False
    obtain v where w: "w = Suc v"
      using \<open>0 < w\<close> by (cases w) simp_all
    have v: "0 < v"
      using "1.prems"(1) False w by (cases v) simp_all
    have "n < 10 ^ v * 10"
      using "1.prems"(1) by (simp only: w power_Suc mult.commute)
    then have "n div 10 < 10 ^ v"
      by (rule less_mult_imp_div_less)
    then have "length (itoa (n div 10)) \<le> v"
      using "1.IH" False v by blast
    with False w show ?thesis
      by (subst itoa.simps) simp
  qed
qed

lemma length_pad_zero [simp]: "length s \<le> w \<Longrightarrow> length (pad_zero w s) = w"
  by (simp add: pad_zero_def)

lemma foldl_digits: "foldl (\<lambda>a c. a * 10 + char_digit c) k s = k * 10 ^ length s + digits_val s"
  by (induction s rule: rev_induct) (simp_all add: algebra_simps)

lemma digits_val_Cons: "digits_val (c # s) = char_digit c * 10 ^ length s + digits_val s"
  using foldl_digits [of "char_digit c" s] by (simp add: digits_val_def)

lemma digits_val_pad_zero [simp]: "digits_val (pad_zero w s) = digits_val s"
proof -
  have "digits_val (replicate k (CHR ''0'') @ s) = digits_val s" for k
    by (induction k) (simp_all add: digits_val_Cons)
  then show ?thesis
    by (simp add: pad_zero_def)
qed

lemma pad_zero_digits: "list_all is_digit s \<Longrightarrow> list_all is_digit (pad_zero w s)"
  by (auto simp: pad_zero_def list_all_iff is_digit_def)

lemma digits_val_bound: "list_all is_digit s \<Longrightarrow> digits_val s < 10 ^ length s"
proof (induction s rule: rev_induct)
  case (snoc c s)
  then have "digits_val s + 1 \<le> 10 ^ length s" "char_digit c < 10"
    by (auto simp: is_digit_def char_digit_def)
  then have "(digits_val s + 1) * 10 \<le> 10 ^ length s * 10"
    by (intro mult_right_mono) simp_all
  with \<open>char_digit c < 10\<close> show ?case
    by simp
qed simp

lemma digits_less_iff:
  "list_all is_digit s \<Longrightarrow> list_all is_digit t \<Longrightarrow> length s = length t \<Longrightarrow>
    s < t \<longleftrightarrow> digits_val s < digits_val t"
proof (induction s t rule: list_induct2')
  case (4 c s d t)
  then have IH: "s < t \<longleftrightarrow> digits_val s < digits_val t" and len: "length s = length t"
    and bs: "digits_val s < 10 ^ length t" and bt: "digits_val t < 10 ^ length t"
    using digits_val_bound [of s] digits_val_bound [of t] by auto
  have dc: "48 \<le> (of_char c :: nat)" "48 \<le> (of_char d :: nat)"
    using 4 by (simp_all add: is_digit_def)
  then have "(of_char c :: nat) = of_char d \<longleftrightarrow> char_digit c = char_digit d"
    unfolding char_digit_def by linarith
  then have cd: "c < d \<longleftrightarrow> char_digit c < char_digit d" "c = d \<longleftrightarrow> char_digit c = char_digit d"
    using dc by (auto simp: char_digit_def less_char_def)
  show ?case
  proof (cases "char_digit c" "char_digit d" rule: linorder_cases)
    case less
    then have "(char_digit c + 1) * 10 ^ length t \<le> char_digit d * 10 ^ length t"
      by (intro mult_right_mono) simp_all
    with less cd bs len show ?thesis
      by (simp add: digits_val_Cons)
  next
    case equal
    with cd IH len show ?thesis
      by (simp add: digits_val_Cons)
  next
    case greater
    then have "(char_digit d + 1) * 10 ^ length t \<le> char_digit c * 10 ^ length t"
      by (intro mult_right_mono) simp_all
    with greater cd bt len show ?thesis
      by (simp add: digits_val_Cons)
  qed
qed simp_all

lemma pad_zero_less_iff:
  assumes "m < 10 ^ w" "n < 10 ^ w" "0 < w"
  shows "pad_zero w (itoa m) < pad_zero w (itoa n) \<longleftrightarrow> m < n"
  using digits_less_iff [of "pad_zero w (itoa m)" "pad_zero w (itoa n)"] length_itoa assms
  by (simp add: pad_zero_digits)

lemma pad_zero_inject: "pad_zero w (itoa m) = pad_zero w (itoa n) \<longleftrightarrow> m = n"
  by (metis digits_val_pad_zero digits_val_itoa)

end
