(* ===== verification/Redfish_Server.thy ===== *)
theory Redfish_Server
  imports Machine Bmc_State Redfish_Types Firmware Event_Dispatcher Go_Strconv
begin

text \<open>
  The Redfish server of src/internal/redfish/server.go: its state and the accessors of it, what
  its handlers read of a request and write to a response, and the environment they rely on. Every
  accessor takes the server's lock for its whole body, so it is one atomic function.
\<close>

section \<open>The machine and the environment\<close>

text \<open>The package's \<open>MachineInterface\<close>: the operations the IPMI front end uses too, and three more.\<close>

record 'w RedfishMachine = "'w MachineInterface" +
  mi_GetQMPStatus :: "'w \<Rightarrow> (mach_error + string) \<times> 'w"
  mi_InsertMedia :: "string \<Rightarrow> 'w \<Rightarrow> mach_error option \<times> 'w"
  mi_EjectMedia :: "'w \<Rightarrow> mach_error option \<times> 'w"

definition redfish_machine :: "'w machine_env \<Rightarrow> 'w Machine RedfishMachine" where
  "redfish_machine env = \<lparr>mi_GetPowerState = GetPowerState env, mi_Reset = Reset env,
     mi_GetBootOverride = GetBootOverride, mi_SetBootOverride = SetBootOverride,
     mi_GetQMPStatus = GetQMPStatus env, mi_InsertMedia = InsertMedia env,
     mi_EjectMedia = EjectMedia env\<rparr>"

text \<open>
  The machine, the texts of its errors, and the functions of the standard library the handlers
  call: SHA-256, \<open>strconv.Quote\<close>, and \<open>url.Parse\<close> with the scheme and host of a URL it accepts.
\<close>

record 'w redfish_env =
  re_machine :: "'w RedfishMachine"
  re_errText :: "mach_error \<Rightarrow> string"
  re_sha256 :: "byte list \<Rightarrow> byte list"
  re_quote :: "string \<Rightarrow> string"
  re_urlParse :: "string \<Rightarrow> (string \<times> string) option"

section \<open>Requests and responses\<close>

text \<open>
  What the handlers read of a request: the method and path, the credentials of a Basic
  authorization header, the If-Match header (empty when absent), and the body.
\<close>

record HttpRequest =
  rq_Method :: string
  rq_Path :: string
  rq_BasicAuth :: "(string \<times> string) option"
  rq_IfMatch :: string
  rq_Body :: "json option"

text \<open>\<open>FileBody\<close> is the text of an embedded JSON file.\<close>

datatype body = NoBody | TextBody string | JSONBody json | FileBody json

record Response =
  rsp_Status :: nat
  rsp_Header :: "(string \<times> string) list"
  rsp_Body :: body

text \<open>The path variables of the router, and \<open>mux.Vars(r)[k]\<close>.\<close>

type_synonym vars = "(string \<times> string) list"

definition var :: "vars \<Rightarrow> string \<Rightarrow> string" where
  "var vs k = (case map_of vs k of None \<Rightarrow> [] | Some v \<Rightarrow> v)"

definition jsonHeader :: "string \<times> string" where
  "jsonHeader = (''Content-Type'', ''application/json'')"

definition writeJSON :: "nat \<Rightarrow> (string \<times> string) list \<Rightarrow> json \<Rightarrow> Response" where
  "writeJSON code hdrs j =
     \<lparr>rsp_Status = code, rsp_Header = jsonHeader # hdrs, rsp_Body = JSONBody j\<rparr>"

definition noContent :: Response where
  "noContent = \<lparr>rsp_Status = 204, rsp_Header = [], rsp_Body = NoBody\<rparr>"

definition writeError :: "nat \<Rightarrow> string \<Rightarrow> string \<Rightarrow> Response" where
  "writeError code err message = writeJSON code []
     (enc_RedfishError \<lparr>re_Error = \<lparr>reb_Code = err, reb_Message = message\<rparr>\<rparr>)"

definition malformed :: Response where
  "malformed = writeError 400 ''MalformedJSON'' ''invalid request body''"

text \<open>The error code a client reads in a response.\<close>

definition error_code :: "Response \<Rightarrow> string option" where
  "error_code r =
     (case rsp_Body r of
        JSONBody j \<Rightarrow> (case member ''error'' j of
            Some e \<Rightarrow> (case member ''code'' e of Some (JStr s) \<Rightarrow> Some s | _ \<Rightarrow> None)
          | None \<Rightarrow> None)
      | _ \<Rightarrow> None)"

definition ref :: "string \<Rightarrow> ODataID" where
  "ref path = \<lparr>od_ODataID = path\<rparr>"

lemma writeJSON_simps [simp]:
  "rsp_Status (writeJSON c h j) = c" "rsp_Body (writeJSON c h j) = JSONBody j"
  "rsp_Header (writeJSON c h j) = jsonHeader # h"
  by (simp_all add: writeJSON_def)

lemma writeError_simps [simp]:
  "rsp_Status (writeError c e m) = c" "error_code (writeError c e m) = Some e"
  by (simp_all add: writeError_def error_code_def enc_RedfishError_def enc_RedfishErrorBody_def json_enc)

lemma noContent_simps [simp]: "rsp_Status noContent = 204" "rsp_Body noContent = NoBody"
  by (simp_all add: noContent_def)

lemma malformed_simps [simp]: "rsp_Status malformed = 400" "error_code malformed = Some ''MalformedJSON''"
  by (simp_all add: malformed_def)

section \<open>State\<close>

record Inventory =
  inv_SystemUUID :: string
  inv_SystemManufacturer :: string
  inv_SystemModel :: string
  inv_SystemSerial :: string
  inv_SystemSKU :: string
  inv_SystemBiosVersion :: string
  inv_ManagerModel :: string
  inv_ManagerFirmwareVersion :: string
  inv_ManagerManufacturer :: string
  inv_ManagerSerial :: string
  inv_ManagerPartNumber :: string
  inv_ManagerUUID :: string
  inv_CPUModel :: string
  inv_CPUCount :: int
  inv_MemoryMiB :: int

definition zero_Inventory :: Inventory where
  "zero_Inventory = \<lparr>inv_SystemUUID = [], inv_SystemManufacturer = [], inv_SystemModel = [],
     inv_SystemSerial = [], inv_SystemSKU = [], inv_SystemBiosVersion = [], inv_ManagerModel = [],
     inv_ManagerFirmwareVersion = [], inv_ManagerManufacturer = [], inv_ManagerSerial = [],
     inv_ManagerPartNumber = [], inv_ManagerUUID = [], inv_CPUModel = [], inv_CPUCount = 0,
     inv_MemoryMiB = 0\<rparr>"

text \<open>
  The mutable and configured fields of \<open>Server\<close>. The user table is shared with the IPMI servers;
  the times are formatted as the API shows them.
\<close>

record RedfishServer =
  s_user :: string
  s_pass :: string
  s_inventory :: Inventory
  s_dellBMCAttributes :: bool
  s_users :: State
  s_currentMedia :: string
  s_indicatorLED :: string
  s_lastResetTime :: "string option"
  s_biosAttrs :: any_map
  s_biosPendingAttrs :: any_map
  s_managerAttrs :: any_map
  s_bootOrder :: "string list"
  s_subscriptions :: "(string \<times> EventDestination) list"
  s_nextSubscriptionID :: nat
  s_nextEventID :: nat
  s_firmwareVersions :: "Component \<rightharpoonup> string"
  s_stagedFirmware :: "Component \<rightharpoonup> string"
  s_tasks :: "(string \<times> Task) list"
  s_nextTaskID :: nat
  s_eventDispatcher :: Dispatcher
  s_firmwareUpdater :: Updater

text \<open>Durations in nanoseconds.\<close>

definition seconds :: "int \<Rightarrow> int" where "seconds n = n * 1000000000"

definition deliveryRetryAttempts :: int where "deliveryRetryAttempts = 3"
definition deliveryRetryIntervalSeconds :: int where "deliveryRetryIntervalSeconds = 5"
definition defaultFirmwareUpdateDuration :: int where "defaultFirmwareUpdateDuration = seconds 20"

definition NewRedfishServer :: "string \<Rightarrow> string \<Rightarrow> RedfishServer" where
  "NewRedfishServer user pass =
     \<lparr>s_user = user, s_pass = pass, s_inventory = zero_Inventory, s_dellBMCAttributes = False,
      s_users = NewState user pass, s_currentMedia = [], s_indicatorLED = ''Off'',
      s_lastResetTime = None,
      s_biosAttrs = [(''AdminPhone'', JStr []), (''BootMode'', JStr ''Uefi'')],
      s_biosPendingAttrs = [],
      s_managerAttrs = [(''EmailAlert.1.Address'', JStr []), (''SysLog.1.SysLogServer1'', JStr []),
        (''NTPConfigGroup.1.NTP1'', JStr [])],
      s_bootOrder = [''Pxe'', ''Hdd'', ''Cd''], s_subscriptions = [], s_nextSubscriptionID = 0,
      s_nextEventID = 0, s_firmwareVersions = Map.empty, s_stagedFirmware = Map.empty,
      s_tasks = [], s_nextTaskID = 0,
      s_eventDispatcher =
        NewDispatcher deliveryRetryAttempts (seconds deliveryRetryIntervalSeconds),
      s_firmwareUpdater = \<lparr>u_duration = defaultFirmwareUpdateDuration\<rparr>\<rparr>"

definition SetInventory :: "Inventory \<Rightarrow> RedfishServer \<Rightarrow> RedfishServer" where
  "SetInventory iv s = s\<lparr>s_inventory := iv,
     s_firmwareVersions := (s_firmwareVersions s)(ComponentBIOS \<mapsto> inv_SystemBiosVersion iv,
       ComponentBMC \<mapsto> inv_ManagerFirmwareVersion iv)\<rparr>"

definition SetUserStore :: "State \<Rightarrow> RedfishServer \<Rightarrow> RedfishServer" where
  "SetUserStore st s = s\<lparr>s_users := st\<rparr>"

definition SetFirmwareUpdater :: "Updater \<Rightarrow> RedfishServer \<Rightarrow> RedfishServer" where
  "SetFirmwareUpdater u s = s\<lparr>s_firmwareUpdater := u\<rparr>"

definition SetDellBMCAttributes :: "bool \<Rightarrow> RedfishServer \<Rightarrow> RedfishServer" where
  "SetDellBMCAttributes enabled s = s\<lparr>s_dellBMCAttributes := enabled\<rparr>"

section \<open>Accessors\<close>

definition getCurrentMedia :: "RedfishServer \<Rightarrow> string" where
  "getCurrentMedia s = s_currentMedia s"

definition setCurrentMedia :: "string \<Rightarrow> RedfishServer \<Rightarrow> RedfishServer" where
  "setCurrentMedia img s = s\<lparr>s_currentMedia := img\<rparr>"

definition getIndicatorLED :: "RedfishServer \<Rightarrow> string" where
  "getIndicatorLED s = s_indicatorLED s"

definition setIndicatorLED :: "string \<Rightarrow> RedfishServer \<Rightarrow> RedfishServer" where
  "setIndicatorLED led s = s\<lparr>s_indicatorLED := led\<rparr>"

definition getLastResetTime :: "RedfishServer \<Rightarrow> string option" where
  "getLastResetTime s = s_lastResetTime s"

definition setLastResetTime :: "string \<Rightarrow> RedfishServer \<Rightarrow> RedfishServer" where
  "setLastResetTime t s = s\<lparr>s_lastResetTime := Some t\<rparr>"

text \<open>The copies the getters of maps and slices return are values here.\<close>

definition getBiosAttributes :: "RedfishServer \<Rightarrow> any_map" where
  "getBiosAttributes s = s_biosAttrs s"

definition setBiosAttribute :: "string \<Rightarrow> json \<Rightarrow> RedfishServer \<Rightarrow> RedfishServer" where
  "setBiosAttribute nm val s = s\<lparr>s_biosAttrs := AList.update nm val (s_biosAttrs s)\<rparr>"

definition getBiosPendingAttributes :: "RedfishServer \<Rightarrow> any_map" where
  "getBiosPendingAttributes s = s_biosPendingAttrs s"

definition mergeBiosPendingAttributes :: "any_map \<Rightarrow> RedfishServer \<Rightarrow> RedfishServer" where
  "mergeBiosPendingAttributes attrs s =
     s\<lparr>s_biosPendingAttrs := maps_copy (s_biosPendingAttrs s) attrs\<rparr>"

definition getManagerAttributes :: "RedfishServer \<Rightarrow> any_map" where
  "getManagerAttributes s = s_managerAttrs s"

definition setManagerAttribute :: "string \<Rightarrow> json \<Rightarrow> RedfishServer \<Rightarrow> RedfishServer" where
  "setManagerAttribute nm val s = s\<lparr>s_managerAttrs := AList.update nm val (s_managerAttrs s)\<rparr>"

definition getBootOrder :: "RedfishServer \<Rightarrow> string list" where
  "getBootOrder s = s_bootOrder s"

definition setBootOrder :: "string list \<Rightarrow> RedfishServer \<Rightarrow> RedfishServer" where
  "setBootOrder order s = s\<lparr>s_bootOrder := order\<rparr>"

definition applyPendingBiosSettings :: "RedfishServer \<Rightarrow> any_map \<times> RedfishServer" where
  "applyPendingBiosSettings s =
     (s_biosPendingAttrs s,
      s\<lparr>s_biosAttrs := maps_copy (s_biosAttrs s) (s_biosPendingAttrs s), s_biosPendingAttrs := []\<rparr>)"

text \<open>A Go map lookup gives the zero value for a missing key.\<close>

definition getFirmwareVersion :: "Component \<Rightarrow> RedfishServer \<Rightarrow> string" where
  "getFirmwareVersion c s = (case s_firmwareVersions s c of None \<Rightarrow> [] | Some v \<Rightarrow> v)"

definition getStagedFirmware :: "Component \<Rightarrow> RedfishServer \<Rightarrow> string option" where
  "getStagedFirmware c s = s_stagedFirmware s c"

definition stageFirmware :: "Component \<Rightarrow> string \<Rightarrow> RedfishServer \<Rightarrow> RedfishServer" where
  "stageFirmware c version s = s\<lparr>s_stagedFirmware := (s_stagedFirmware s)(c \<mapsto> version)\<rparr>"

definition activateStagedFirmware :: "Component \<Rightarrow> RedfishServer \<Rightarrow> string option \<times> RedfishServer" where
  "activateStagedFirmware c s =
     (case s_stagedFirmware s c of
        None \<Rightarrow> (None, s)
      | Some v \<Rightarrow> (Some v, s\<lparr>s_firmwareVersions := (s_firmwareVersions s)(c \<mapsto> v),
          s_stagedFirmware := (s_stagedFirmware s)(c := None)\<rparr>))"

section \<open>The world of the handlers\<close>

record 'w redfish =
  rf_server :: RedfishServer
  rf_machine :: 'w

definition on_server :: "(RedfishServer \<Rightarrow> 'a \<times> RedfishServer) \<Rightarrow> 'w redfish \<Rightarrow> 'a \<times> 'w redfish" where
  "on_server f rf = (case f (rf_server rf) of (a, s) \<Rightarrow> (a, rf\<lparr>rf_server := s\<rparr>))"

definition on_machine :: "('w \<Rightarrow> 'a \<times> 'w) \<Rightarrow> 'w redfish \<Rightarrow> 'a \<times> 'w redfish" where
  "on_machine f rf = (case f (rf_machine rf) of (a, w) \<Rightarrow> (a, rf\<lparr>rf_machine := w\<rparr>))"

lemma on_server_simps [simp]:
  "fst (on_server f rf) = fst (f (rf_server rf))"
  "snd (on_server f rf) = rf\<lparr>rf_server := snd (f (rf_server rf))\<rparr>"
  by (simp_all add: on_server_def case_prod_beta)

lemma on_machine_simps [simp]:
  "fst (on_machine f rf) = fst (f (rf_machine rf))"
  "snd (on_machine f rf) = rf\<lparr>rf_machine := snd (f (rf_machine rf))\<rparr>"
  by (simp_all add: on_machine_def case_prod_beta)

end
