(* ===== verification/Redfish_Accounts.thy ===== *)
theory Redfish_Accounts
  imports Redfish_Server
begin

text \<open>
  The AccountService, src/internal/redfish/handler_accounts.go: reading, creating, changing and
  deleting the accounts of the shared user table over HTTP, with the bounds of the IPMI fields.
  The handlers touch the user table only, so they are functions of it.
\<close>

section \<open>Values\<close>

definition accountServicePath :: string where
  "accountServicePath = ''/redfish/v1/AccountService''"

definition accountsPath :: string where
  "accountsPath = accountServicePath @ ''/Accounts''"

definition maxUserNameLength :: nat where "maxUserNameLength = 16"
definition minPasswordLength :: nat where "minPasswordLength = 1"
definition maxPasswordLength :: nat where "maxPasswordLength = 20"

definition rolePrivileges :: "string \<rightharpoonup> byte" where
  "rolePrivileges = [''Administrator'' \<mapsto> 4, ''Operator'' \<mapsto> 3, ''ReadOnly'' \<mapsto> 2]"

definition roleForPrivilege :: "byte \<Rightarrow> string" where
  "roleForPrivilege privilege =
     (if privilege \<ge> 4 then ''Administrator''
      else if privilege = 3 then ''Operator'' else ''ReadOnly'')"

definition accountPath :: "byte \<Rightarrow> string" where
  "accountPath id' = accountsPath @ ''/'' @ itoa (unat id')"

definition toManagerAccount :: "Account \<Rightarrow> ManagerAccount" where
  "toManagerAccount a =
     \<lparr>macc_ODataType = ''#ManagerAccount.v1_4_0.ManagerAccount'',
      macc_ODataID = accountPath (acc_ID a), macc_ID = itoa (unat (acc_ID a)),
      macc_Name = ''User Account'', macc_UserName = acc_Name a,
      macc_RoleID = roleForPrivilege (acc_Privilege a), macc_Enabled = acc_Enabled a,
      macc_Locked = False, macc_Password = None, macc_AccountTypes = [''Redfish'', ''IPMI'']\<rparr>"

text \<open>Validation; a result is the message of the error, or \<open>None\<close>.\<close>

definition validateUserName :: "string \<Rightarrow> string option" where
  "validateUserName nm =
     (if nm = [] \<or> length nm > maxUserNameLength
      then Some (''UserName must be 1-'' @ itoa maxUserNameLength @ '' bytes'') else None)"

definition validatePassword :: "string \<Rightarrow> string option" where
  "validatePassword pw =
     (if length pw < minPasswordLength \<or> length pw > maxPasswordLength
      then Some (''Password must be '' @ itoa minPasswordLength @ ''-'' @ itoa maxPasswordLength
        @ '' bytes'') else None)"

definition privilegeForRole :: "(string \<Rightarrow> string) \<Rightarrow> string \<Rightarrow> string + byte" where
  "privilegeForRole quote role =
     (case rolePrivileges role of
        None \<Rightarrow> Inl (''RoleId '' @ quote role @ '' is not one of Administrator, Operator, ReadOnly'')
      | Some p \<Rightarrow> Inr p)"

definition accountIDFromRequest :: "vars \<Rightarrow> byte option" where
  "accountIDFromRequest vs = map_option word_of_nat (ParseUint10 8 (var vs ''id''))"

definition writeAccount :: "nat \<Rightarrow> (string \<times> string) list \<Rightarrow> Account \<Rightarrow> Response" where
  "writeAccount code hdrs a = writeJSON code hdrs (enc_ManagerAccount (toManagerAccount a))"

text \<open>\<open>err.Error()\<close> of the errors of the user table.\<close>

definition bmcErrorText :: "bmc_error \<Rightarrow> string" where
  "bmcErrorText e =
     (case e of
        ErrUserExists \<Rightarrow> ''user name already exists''
      | ErrNoFreeSlot \<Rightarrow> ''no free user slot''
      | ErrNotFound \<Rightarrow> ''user not found''
      | ErrEmptyName \<Rightarrow> ''user name must not be empty''
      | ErrUserIDRange b \<Rightarrow> ''user ID '' @ itoa (unat b) @ '' out of range (1-'' @ itoa maxUsers @ '')'')"

definition accountNotFound :: Response where
  "accountNotFound = writeError 404 ''ResourceNotFound'' ''account not found''"

definition accountExists :: Response where
  "accountExists = writeError 409 ''ResourceAlreadyExists'' ''an account with this UserName already exists''"

text \<open>\<open>a, _ := s.users.Account(id)\<close>: the zero account if there is none.\<close>

definition zeroAccount :: Account where
  "zeroAccount = \<lparr>acc_ID = 0, acc_Name = [], acc_Privilege = 0, acc_Enabled = False\<rparr>"

definition account_or_zero :: "State \<Rightarrow> byte \<Rightarrow> Account" where
  "account_or_zero st id' = (case Account_of st id' of None \<Rightarrow> zeroAccount | Some a \<Rightarrow> a)"

section \<open>Handlers\<close>

definition handleGetAccountService :: Response where
  "handleGetAccountService = writeJSON 200 [] (enc_AccountService
     \<lparr>asv_ODataType = ''#AccountService.v1_5_0.AccountService'', asv_ODataID = accountServicePath,
      asv_ID = ''AccountService'', asv_Name = ''Account Service'', asv_ServiceEnabled = True,
      asv_MinPasswordLength = int minPasswordLength, asv_MaxPasswordLength = int maxPasswordLength,
      asv_Accounts = ref accountsPath\<rparr>)"

definition handleAccountCollection :: "State \<Rightarrow> Response" where
  "handleAccountCollection st =
     (let members = map (\<lambda>a. ref (accountPath (acc_ID a))) (Accounts st)
      in writeJSON 200 [] (enc_ManagerAccountCollection
        \<lparr>mac_ODataType = ''#ManagerAccountCollection.ManagerAccountCollection'',
         mac_ODataID = accountsPath, mac_Name = ''Accounts Collection'',
         mac_MembersCount = int (length members), mac_Members = members\<rparr>))"

definition handleCreateAccount ::
    "(string \<Rightarrow> string) \<Rightarrow> json option \<Rightarrow> State \<Rightarrow> Response \<times> State" where
  "handleCreateAccount quote body st =
     (case decode dec_CreateAccountRequest zero_CreateAccountRequest body of
        None \<Rightarrow> (malformed, st)
      | Some req \<Rightarrow>
     (case validateUserName (car_UserName req) of
        Some msg \<Rightarrow> (writeError 400 ''PropertyValueError'' msg, st)
      | None \<Rightarrow>
     (case validatePassword (car_Password req) of
        Some msg \<Rightarrow> (writeError 400 ''PropertyValueError'' msg, st)
      | None \<Rightarrow>
     (case privilegeForRole quote (car_RoleID req) of
        Inl msg \<Rightarrow> (writeError 400 ''PropertyValueNotInList'' msg, st)
      | Inr privilege \<Rightarrow>
          let enabled = (case car_Enabled req of None \<Rightarrow> True | Some b \<Rightarrow> b)
          in case CreateAccount st (car_UserName req) (car_Password req) privilege enabled of
            (st', Inl e) \<Rightarrow>
              (if e = ErrUserExists then accountExists
               else if e = ErrNoFreeSlot then
                 writeError 400 ''CreateLimitReachedForResource'' ''no free account slots''
               else writeError 500 ''InternalError'' (bmcErrorText e), st')
          | (st', Inr id') \<Rightarrow>
              (writeAccount 201 [(''Location'', accountPath id')] (account_or_zero st' id'), st')))))"

definition handleGetAccount :: "vars \<Rightarrow> State \<Rightarrow> Response" where
  "handleGetAccount vs st =
     (case accountIDFromRequest vs of
        None \<Rightarrow> accountNotFound
      | Some id' \<Rightarrow>
          (case Account_of st id' of None \<Rightarrow> accountNotFound | Some a \<Rightarrow> writeAccount 200 [] a))"

definition handlePatchAccount ::
    "(string \<Rightarrow> string) \<Rightarrow> vars \<Rightarrow> json option \<Rightarrow> State \<Rightarrow> Response \<times> State" where
  "handlePatchAccount quote vs body st =
     (case accountIDFromRequest vs of
        None \<Rightarrow> (accountNotFound, st)
      | Some id' \<Rightarrow>
     (case decode dec_PatchAccountRequest zero_PatchAccountRequest body of
        None \<Rightarrow> (malformed, st)
      | Some req \<Rightarrow>
     if par_UserName req = None \<and> par_Password req = None \<and> par_RoleID req = None
       \<and> par_Enabled req = None
     then (writeError 400 ''PropertyMissing'' ''no patchable properties provided'', st)
     else
     (case Option.bind (par_UserName req) validateUserName of
        Some msg \<Rightarrow> (writeError 400 ''PropertyValueError'' msg, st)
      | None \<Rightarrow>
     (case Option.bind (par_Password req) validatePassword of
        Some msg \<Rightarrow> (writeError 400 ''PropertyValueError'' msg, st)
      | None \<Rightarrow>
     (case (case par_RoleID req of
              None \<Rightarrow> Inr None
            | Some role \<Rightarrow> map_sum id Some (privilegeForRole quote role)) of
        Inl msg \<Rightarrow> (writeError 400 ''PropertyValueNotInList'' msg, st)
      | Inr privilege \<Rightarrow>
          (case UpdateAccount st id' \<lparr>upd_Name = par_UserName req, upd_Password = par_Password req,
              upd_Privilege = privilege, upd_Enabled = par_Enabled req\<rparr> of
             (st', Some e) \<Rightarrow>
               (if e = ErrNotFound then accountNotFound
                else if e = ErrUserExists then accountExists
                else writeError 500 ''InternalError'' (bmcErrorText e), st')
           | (st', None) \<Rightarrow> (writeAccount 200 [] (account_or_zero st' id'), st')))))))"

definition handleDeleteAccount :: "vars \<Rightarrow> State \<Rightarrow> Response \<times> State" where
  "handleDeleteAccount vs st =
     (case accountIDFromRequest vs of
        None \<Rightarrow> (accountNotFound, st)
      | Some id' \<Rightarrow>
          (case DeleteAccount st id' of
             (st', Some e) \<Rightarrow> (accountNotFound, st')
           | (st', None) \<Rightarrow> (noContent, st')))"

end
