(* ===== verification/Redfish_Registries.thy ===== *)
theory Redfish_Registries
  imports Redfish_Server
begin

text \<open>
  The attribute registries of src/internal/redfish/handler_registries.go and the table the package
  builds from the embedded BIOS registry when it starts (\<open>init\<close> in handler_bios.go). The two
  embedded files of src/internal/redfish/data are their JSON values.
\<close>

section \<open>Embedded registries\<close>

definition biosAttributeRegistryJSON :: json where
  "biosAttributeRegistryJSON = JObj [
      (''@odata.type'', JStr ''#AttributeRegistry.v1_3_6.AttributeRegistry''),
      (''@odata.id'', JStr ''/redfish/v1/Registries/BiosAttributeRegistry.v1_0_0.json''),
      (''@odata.context'', JStr ''/redfish/v1/$metadata#AttributeRegistry.AttributeRegistry''),
      (''Id'', JStr ''BiosAttributeRegistry.v1_0_0''),
      (''Name'', JStr ''BIOS Attribute Registry''),
      (''Description'', JStr ''This registry defines the BIOS attributes exposed by qemu-bmc.''),
      (''Language'', JStr ''en''),
      (''OwningEntity'', JStr ''qemu-bmc''),
      (''RegistryEntries'', JObj [
        (''Attributes'', JArr [
          JObj [
            (''AttributeName'', JStr ''AdminPhone''),
            (''DisplayName'', JStr ''Admin Phone''),
            (''Type'', JStr ''String''),
            (''ReadOnly'', JBool False),
            (''Immutable'', JBool False),
            (''Hidden'', JBool False),
            (''ResetRequired'', JBool False)],
          JObj [
            (''AttributeName'', JStr ''BootMode''),
            (''DisplayName'', JStr ''Boot Mode''),
            (''Type'', JStr ''Enumeration''),
            (''ReadOnly'', JBool False),
            (''Immutable'', JBool False),
            (''Hidden'', JBool False),
            (''ResetRequired'', JBool True),
            (''Value'', JArr [
              JObj [
                (''ValueName'', JStr ''Bios''),
                (''ValueDisplayName'', JStr ''BIOS'')],
              JObj [
                (''ValueName'', JStr ''Uefi''),
                (''ValueDisplayName'', JStr ''UEFI'')]])]])])]"

definition managerAttributeRegistryJSON :: json where
  "managerAttributeRegistryJSON = JObj [
      (''@odata.type'', JStr ''#AttributeRegistry.v1_3_6.AttributeRegistry''),
      (''@odata.id'', JStr ''/redfish/v1/Registries/ManagerAttributeRegistry.v1_0_0.json''),
      (''@odata.context'', JStr ''/redfish/v1/$metadata#AttributeRegistry.AttributeRegistry''),
      (''Id'', JStr ''ManagerAttributeRegistry.v1_0_0''),
      (''Name'', JStr ''Manager Attribute Registry''),
      (''Description'', JStr ''This registry defines the BMC (Manager) attributes exposed by qemu-bmc, modelled on the Dell iDRAC ManagerAttributeRegistry.''),
      (''Language'', JStr ''en''),
      (''OwningEntity'', JStr ''qemu-bmc''),
      (''RegistryEntries'', JObj [
        (''Attributes'', JArr [
          JObj [
            (''AttributeName'', JStr ''EmailAlert.1.Address''),
            (''DisplayName'', JStr ''Email Alert Destination Address''),
            (''Type'', JStr ''String''),
            (''ReadOnly'', JBool False),
            (''Readonly'', JBool False),
            (''Immutable'', JBool False),
            (''Hidden'', JBool False),
            (''ResetRequired'', JBool False),
            (''CurrentValue'', JNull)],
          JObj [
            (''AttributeName'', JStr ''SysLog.1.SysLogServer1''),
            (''DisplayName'', JStr ''Remote Syslog Server 1''),
            (''Type'', JStr ''String''),
            (''ReadOnly'', JBool False),
            (''Readonly'', JBool False),
            (''Immutable'', JBool False),
            (''Hidden'', JBool False),
            (''ResetRequired'', JBool False),
            (''CurrentValue'', JNull)],
          JObj [
            (''AttributeName'', JStr ''NTPConfigGroup.1.NTP1''),
            (''DisplayName'', JStr ''NTP Server 1''),
            (''Type'', JStr ''String''),
            (''ReadOnly'', JBool False),
            (''Readonly'', JBool False),
            (''Immutable'', JBool False),
            (''Hidden'', JBool False),
            (''ResetRequired'', JBool False),
            (''CurrentValue'', JNull)]])])]"

definition biosAttributeRegistryID :: string where
  "biosAttributeRegistryID = ''BiosAttributeRegistry.v1_0_0''"

definition managerAttributeRegistryID :: string where
  "managerAttributeRegistryID = ''ManagerAttributeRegistry.v1_0_0''"

text \<open>\<open>init\<close>: a later entry of the same name replaces an earlier one; \<open>None\<close> is its panic.\<close>

definition resetRequiredTable :: "json \<Rightarrow> (string \<rightharpoonup> bool) option" where
  "resetRequiredTable file =
     map_option (\<lambda>reg. fold (\<lambda>attr m. m(rea_AttributeName attr \<mapsto> rea_ResetRequired attr))
         (rent_Attributes (areg_RegistryEntries reg)) Map.empty)
       (dec_AttributeRegistry file zero_AttributeRegistry)"

definition biosAttributeResetRequired :: "string \<rightharpoonup> bool" where
  "biosAttributeResetRequired =
     (case resetRequiredTable biosAttributeRegistryJSON of None \<Rightarrow> Map.empty | Some m \<Rightarrow> m)"

text \<open>The embedded file is a registry, so the package starts; its table has two entries.\<close>

lemma resetRequiredTable_bios:
  "resetRequiredTable biosAttributeRegistryJSON =
     Some [''AdminPhone'' \<mapsto> False, ''BootMode'' \<mapsto> True]"
  by (simp add: resetRequiredTable_def biosAttributeRegistryJSON_def dec_AttributeRegistry_def
      zero_AttributeRegistry_def dec_RegistryEntries_def zero_RegistryEntries_def
      dec_RegistryEntryAttribute_def zero_RegistryEntryAttribute_def dec_AttributeValue_def
      zero_AttributeValue_def json_dec)

lemma biosAttributeResetRequired_eq:
  "biosAttributeResetRequired = [''AdminPhone'' \<mapsto> False, ''BootMode'' \<mapsto> True]"
  by (simp add: biosAttributeResetRequired_def resetRequiredTable_bios)

section \<open>Serving them\<close>

record registryFile =
  rf_id :: string
  rf_name :: string
  rf_registry :: string
  rf_content :: json

definition biosRegistryFile :: registryFile where
  "biosRegistryFile = \<lparr>rf_id = biosAttributeRegistryID, rf_name = ''BIOS Attribute Registry File'',
     rf_registry = ''BiosAttributeRegistry1.0'', rf_content = biosAttributeRegistryJSON\<rparr>"

definition managerRegistryFile :: registryFile where
  "managerRegistryFile = \<lparr>rf_id = managerAttributeRegistryID,
     rf_name = ''Manager Attribute Registry File'',
     rf_registry = ''ManagerAttributeRegistry1.0'', rf_content = managerAttributeRegistryJSON\<rparr>"

definition servedRegistries :: "RedfishServer \<Rightarrow> registryFile list" where
  "servedRegistries s =
     (if s_dellBMCAttributes s then [biosRegistryFile, managerRegistryFile] else [biosRegistryFile])"

definition lookupRegistry :: "string \<Rightarrow> RedfishServer \<Rightarrow> registryFile option" where
  "lookupRegistry id' s = find (\<lambda>reg. rf_id reg = id') (servedRegistries s)"

definition registryPath :: string where
  "registryPath = ''/redfish/v1/Registries''"

definition handleRegistryCollection :: "RedfishServer \<Rightarrow> Response" where
  "handleRegistryCollection s =
     (let members = map (\<lambda>reg. ref (''/redfish/v1/Registries/'' @ rf_id reg)) (servedRegistries s)
      in writeJSON 200 [] (enc_RegistryFileCollection
        \<lparr>rfc_ODataType = ''#MessageRegistryFileCollection.MessageRegistryFileCollection'',
         rfc_ODataID = registryPath, rfc_Name = ''Registry File Collection'',
         rfc_MembersCount = int (length members), rfc_Members = members\<rparr>))"

definition registryNotFound :: Response where
  "registryNotFound = writeError 404 ''ResourceNotFound'' ''registry not found''"

definition handleGetRegistryFile :: "vars \<Rightarrow> RedfishServer \<Rightarrow> Response" where
  "handleGetRegistryFile vs s =
     (case lookupRegistry (var vs ''id'') s of
        None \<Rightarrow> registryNotFound
      | Some reg \<Rightarrow> writeJSON 200 [] (enc_MessageRegistryFile
          \<lparr>mrf_ODataType = ''#MessageRegistryFile.v1_1_4.MessageRegistryFile'',
           mrf_ODataID = ''/redfish/v1/Registries/'' @ rf_id reg, mrf_ID = rf_id reg,
           mrf_Name = rf_name reg, mrf_Languages = [''en''], mrf_Registry = rf_registry reg,
           mrf_Location = [\<lparr>rloc_Language = ''en'',
             rloc_Uri = ''/redfish/v1/Registries/'' @ rf_id reg @ ''.json''\<rparr>]\<rparr>))"

definition handleGetRegistryContent :: "vars \<Rightarrow> RedfishServer \<Rightarrow> Response" where
  "handleGetRegistryContent vs s =
     (case lookupRegistry (var vs ''id'') s of
        None \<Rightarrow> registryNotFound
      | Some reg \<Rightarrow> \<lparr>rsp_Status = 200, rsp_Header = [jsonHeader], rsp_Body = FileBody (rf_content reg)\<rparr>)"

end
