(* ===== verification/Redfish_Systems.thy ===== *)
theory Redfish_Systems
  imports Redfish_Registries
begin

text \<open>
  The computer system over HTTP: reading and patching it (src/internal/redfish/handler_systems.go),
  the reset action (handler_actions.go), BIOS settings (handler_bios.go), boot options
  (handler_bootoptions.go), processors and chassis (handler_processors.go, handler_chassis.go).
\<close>

section \<open>The system resource\<close>

definition systemPath :: string where
  "systemPath = ''/redfish/v1/Systems/1''"

definition managerPath :: string where
  "managerPath = ''/redfish/v1/Managers/1''"

definition mapQMPStatusToRedfish :: "string \<Rightarrow> string" where
  "mapQMPStatusToRedfish st = (if st = StatusRunning then ''On'' else ''Off'')"

text \<open>\<open>strings.Join\<close>, and the \<open>%x\<close> of bytes.\<close>

fun strings_join :: "string list \<Rightarrow> string \<Rightarrow> string" where
  "strings_join [] sep = []"
| "strings_join [s] sep = s"
| "strings_join (s # t # ss) sep = s @ sep @ strings_join (t # ss) sep"

definition hex_digit :: "nat \<Rightarrow> char" where
  "hex_digit d = char_of (if d < 10 then 48 + d else 87 + d)"

definition hex_bytes :: "byte list \<Rightarrow> string" where
  "hex_bytes bs = concat (map (\<lambda>b. [hex_digit (unat b div 16), hex_digit (unat b mod 16)]) bs)"

definition etag_data :: "string \<Rightarrow> BootOverride \<Rightarrow> string list \<Rightarrow> string" where
  "etag_data powerState boot bootOrder =
     powerState @ ''-'' @ bo_Enabled boot @ ''-'' @ bo_Target boot @ ''-'' @ bo_Mode boot @ ''-''
       @ strings_join bootOrder '',''"

definition generateETag ::
    "(byte list \<Rightarrow> byte list) \<Rightarrow> string \<Rightarrow> BootOverride \<Rightarrow> string list \<Rightarrow> string" where
  "generateETag sha256 powerState boot bootOrder =
     (let hash = sha256 (bytes_of_string (etag_data powerState boot bootOrder))
      in CHR 0x22 # hex_bytes (take 8 hash) @ [CHR 0x22])"

definition handleSystemCollection :: Response where
  "handleSystemCollection = writeJSON 200 [] (enc_SystemCollection
     \<lparr>sysc_ODataType = ''#ComputerSystemCollection.ComputerSystemCollection'',
      sysc_ODataID = ''/redfish/v1/Systems'', sysc_Name = ''Computer System Collection'',
      sysc_MembersCount = 1, sysc_Members = [ref systemPath]\<rparr>)"

definition allowableResetTypes :: "string list" where
  "allowableResetTypes = [''On'', ''ForceOn'', ''ForceOff'', ''GracefulShutdown'', ''ForceRestart'',
     ''GracefulRestart'', ''PowerCycle'']"

definition systemResource ::
    "RedfishServer \<Rightarrow> string \<Rightarrow> BootOverride \<Rightarrow> string list \<Rightarrow> string \<Rightarrow> ComputerSystem" where
  "systemResource s powerState boot bootOrder etag =
     \<lparr>cs_ODataType = ''#ComputerSystem.v1_5_0.ComputerSystem'', cs_ODataID = systemPath,
      cs_ODataContext = [], cs_ODataEtag = etag, cs_ID = ''1'', cs_Name = ''QEMU Virtual Machine'',
      cs_UUID = inv_SystemUUID (s_inventory s),
      cs_Manufacturer = inv_SystemManufacturer (s_inventory s),
      cs_Model = inv_SystemModel (s_inventory s), cs_SKU = inv_SystemSKU (s_inventory s),
      cs_SerialNumber = inv_SystemSerial (s_inventory s),
      cs_BiosVersion = getFirmwareVersion ComponentBIOS s,
      cs_IndicatorLED = getIndicatorLED s, cs_PowerState = powerState,
      cs_Boot = \<lparr>bs_BootSourceOverrideEnabled = bo_Enabled boot,
        bs_BootSourceOverrideTarget = bo_Target boot, bs_BootSourceOverrideMode = bo_Mode boot,
        bs_AllowableValues = [''None'', ''Pxe'', ''Hdd'', ''Cd'', ''BiosSetup''],
        bs_BootOrder = bootOrder\<rparr>,
      cs_MemorySummary = \<lparr>ms_TotalSystemMemoryGiB = (inv_MemoryMiB (s_inventory s), - 10)\<rparr>,
      cs_Processors = ref (systemPath @ ''/Processors''), cs_Bios = ref (systemPath @ ''/Bios''),
      cs_BootOptions = ref (systemPath @ ''/BootOptions''),
      cs_Actions = \<lparr>csa_Reset =
        \<lparr>ra_Target = systemPath @ ''/Actions/ComputerSystem.Reset'',
         ra_AllowableValues = allowableResetTypes\<rparr>\<rparr>,
      cs_Links = \<lparr>csl_ManagedBy = [ref managerPath]\<rparr>\<rparr>"

definition statusFailed :: Response where
  "statusFailed = writeError 500 ''InternalError'' ''failed to get system status''"

definition handleGetSystem ::
    "'w redfish_env \<Rightarrow> 'w redfish \<Rightarrow> Response \<times> 'w redfish" where
  "handleGetSystem env rf =
     (case on_machine (mi_GetQMPStatus (re_machine env)) rf of
        (Inl e, rf1) \<Rightarrow> (statusFailed, rf1)
      | (Inr st, rf1) \<Rightarrow>
          let powerState = mapQMPStatusToRedfish st;
              boot = mi_GetBootOverride (re_machine env) (rf_machine rf1);
              bootOrder = getBootOrder (rf_server rf1);
              etag = generateETag (re_sha256 env) powerState boot bootOrder
          in (writeJSON 200 [(''ETag'', etag)]
                (enc_ComputerSystem (systemResource (rf_server rf1) powerState boot bootOrder etag)),
              rf1))"

section \<open>Patching the system\<close>

text \<open>The check of the If-Match header: the response that refuses the request, if it does.\<close>

definition checkIfMatch ::
    "'w redfish_env \<Rightarrow> string \<Rightarrow> 'w redfish \<Rightarrow> Response option \<times> 'w redfish" where
  "checkIfMatch env ifMatch rf =
     (if ifMatch = [] then (None, rf)
      else case on_machine (mi_GetQMPStatus (re_machine env)) rf of
        (Inl e, rf1) \<Rightarrow> (Some statusFailed, rf1)
      | (Inr st, rf1) \<Rightarrow>
          let currentETag = generateETag (re_sha256 env) (mapQMPStatusToRedfish st)
                (mi_GetBootOverride (re_machine env) (rf_machine rf1)) (getBootOrder (rf_server rf1))
          in (if ifMatch \<noteq> currentETag
              then Some (writeError 412 ''PreconditionFailed'' ''ETag mismatch'') else None, rf1))"

text \<open>The override with the members of the request that are not empty.\<close>

definition merge_override :: "PatchBootSource \<Rightarrow> BootOverride \<Rightarrow> BootOverride" where
  "merge_override b cur =
     (let c1 = (if pbs_BootSourceOverrideEnabled b \<noteq> []
                then cur\<lparr>bo_Enabled := pbs_BootSourceOverrideEnabled b\<rparr> else cur);
          c2 = (if pbs_BootSourceOverrideTarget b \<noteq> []
                then c1\<lparr>bo_Target := pbs_BootSourceOverrideTarget b\<rparr> else c1)
      in if pbs_BootSourceOverrideMode b \<noteq> []
         then c2\<lparr>bo_Mode := pbs_BootSourceOverrideMode b\<rparr> else c2)"

definition patchBoot ::
    "'w redfish_env \<Rightarrow> PatchBootSource \<Rightarrow> 'w redfish \<Rightarrow> Response option \<times> 'w redfish" where
  "patchBoot env b rf =
     (if pbs_BootOrder b \<noteq> []
      then (None, rf\<lparr>rf_server := setBootOrder (pbs_BootOrder b) (rf_server rf)\<rparr>)
      else case on_machine (mi_SetBootOverride (re_machine env)
             (merge_override b (mi_GetBootOverride (re_machine env) (rf_machine rf)))) rf of
        (Some e, rf1) \<Rightarrow> (Some (writeError 400 ''PropertyValueError'' (re_errText env e)), rf1)
      | (None, rf1) \<Rightarrow> (None, rf1))"

definition handlePatchSystem ::
    "'w redfish_env \<Rightarrow> HttpRequest \<Rightarrow> 'w redfish \<Rightarrow> Response \<times> 'w redfish" where
  "handlePatchSystem env rq rf =
     (case checkIfMatch env (rq_IfMatch rq) rf of
        (Some resp, rf1) \<Rightarrow> (resp, rf1)
      | (None, rf1) \<Rightarrow>
     (case decode dec_PatchSystemRequest zero_PatchSystemRequest (rq_Body rq) of
        None \<Rightarrow> (malformed, rf1)
      | Some req \<Rightarrow>
          if psr_Boot req = None \<and> psr_IndicatorLED req = None
          then (writeError 400 ''PropertyMissing'' ''no patchable properties provided'', rf1)
          else case (case psr_Boot req of None \<Rightarrow> (None, rf1) | Some b \<Rightarrow> patchBoot env b rf1) of
            (Some resp, rf2) \<Rightarrow> (resp, rf2)
          | (None, rf2) \<Rightarrow>
              handleGetSystem env
                (case psr_IndicatorLED req of
                   None \<Rightarrow> rf2
                 | Some led \<Rightarrow> rf2\<lparr>rf_server := setIndicatorLED led (rf_server rf2)\<rparr>)))"

section \<open>The reset action\<close>

definition validResetTypes :: "string \<Rightarrow> bool" where
  "validResetTypes t \<longleftrightarrow> t \<in> {''On'', ''ForceOn'', ''ForceOff'', ''GracefulShutdown'',
     ''ForceRestart'', ''GracefulRestart'', ''PowerCycle''}"

definition powerOnResetTypes :: "string \<Rightarrow> bool" where
  "powerOnResetTypes t \<longleftrightarrow>
     t \<in> {''On'', ''ForceOn'', ''ForceRestart'', ''GracefulRestart'', ''PowerCycle''}"

definition onSystemPowerOnReset :: "RedfishServer \<Rightarrow> RedfishServer" where
  "onSystemPowerOnReset s =
     snd (activateStagedFirmware ComponentBIOS (snd (applyPendingBiosSettings s)))"

definition handleResetAction ::
    "'w redfish_env \<Rightarrow> json option \<Rightarrow> 'w redfish \<Rightarrow> Response \<times> 'w redfish" where
  "handleResetAction env body rf =
     (case decode dec_ResetRequest zero_ResetRequest body of
        None \<Rightarrow> (malformed, rf)
      | Some req \<Rightarrow>
          if \<not> validResetTypes (rr_ResetType req)
          then (writeError 400 ''ActionParameterNotSupported''
                  (''invalid ResetType: '' @ rr_ResetType req), rf)
          else case on_machine (mi_Reset (re_machine env) (rr_ResetType req)) rf of
            (Some e, rf1) \<Rightarrow> (writeError 500 ''InternalError'' (re_errText env e), rf1)
          | (None, rf1) \<Rightarrow>
              (noContent,
               if powerOnResetTypes (rr_ResetType req)
               then rf1\<lparr>rf_server := onSystemPowerOnReset (rf_server rf1)\<rparr> else rf1))"

section \<open>BIOS settings\<close>

definition biosSettingsObjectPath :: "string \<Rightarrow> string" where
  "biosSettingsObjectPath systemID = ''/redfish/v1/Systems/'' @ systemID @ ''/Bios/Settings''"

definition handleGetBios :: "vars \<Rightarrow> RedfishServer \<Rightarrow> Response" where
  "handleGetBios vs s =
     (let id' = var vs ''id''
      in writeJSON 200 [] (enc_Bios
        \<lparr>bios_ODataType = ''#Bios.v1_2_2.Bios'',
         bios_ODataID = ''/redfish/v1/Systems/'' @ id' @ ''/Bios'', bios_ID = ''Bios'',
         bios_Name = ''BIOS Configuration Current Settings'',
         bios_AttributeRegistry = biosAttributeRegistryID, bios_Attributes = getBiosAttributes s,
         bios_RedfishSettings = Some \<lparr>rset_ODataType = ''#Settings.v1_3_5.Settings'',
           rset_SettingsObject = ref (biosSettingsObjectPath id')\<rparr>\<rparr>))"

definition handleGetBiosSettings :: "vars \<Rightarrow> RedfishServer \<Rightarrow> Response" where
  "handleGetBiosSettings vs s =
     (let id' = var vs ''id''
      in writeJSON 200 [] (enc_Bios
        \<lparr>bios_ODataType = ''#Bios.v1_2_2.Bios'', bios_ODataID = biosSettingsObjectPath id',
         bios_ID = ''Settings'', bios_Name = ''BIOS Configuration Pending Settings'',
         bios_AttributeRegistry = biosAttributeRegistryID,
         bios_Attributes = getBiosPendingAttributes s, bios_RedfishSettings = None\<rparr>))"

text \<open>
  The loop over the attributes of the request, which applies those that need no reset and
  collects the others. Go visits the members in any order; their names are distinct.
\<close>

fun patch_bios_loop :: "any_map \<Rightarrow> RedfishServer \<Rightarrow> any_map \<Rightarrow> RedfishServer \<times> any_map" where
  "patch_bios_loop [] s pending = (s, pending)"
| "patch_bios_loop ((nm, val) # attrs) s pending =
     (if biosAttributeResetRequired nm = Some False
      then patch_bios_loop attrs (setBiosAttribute nm val s) pending
      else patch_bios_loop attrs s (AList.update nm val pending))"

definition handlePatchBiosSettings :: "json option \<Rightarrow> RedfishServer \<Rightarrow> Response \<times> RedfishServer" where
  "handlePatchBiosSettings body s =
     (case decode dec_PatchBiosSettingsRequest zero_PatchBiosSettingsRequest body of
        None \<Rightarrow> (malformed, s)
      | Some req \<Rightarrow>
          if pbsr_Attributes req = []
          then (writeError 400 ''PropertyMissing'' ''no attributes provided'', s)
          else case patch_bios_loop (pbsr_Attributes req) s [] of
            (s1, pending) \<Rightarrow>
              (noContent, if pending \<noteq> [] then mergeBiosPendingAttributes pending s1 else s1))"

section \<open>Boot options\<close>

definition bootOptionCatalog :: "(string \<times> string) list" where
  "bootOptionCatalog =
     [(''Pxe'', ''PXE Network Boot''), (''Hdd'', ''Hard Disk''), (''Cd'', ''CD/DVD'')]"

definition handleBootOptionCollection :: Response where
  "handleBootOptionCollection =
     (let members = map (\<lambda>opt. ref (''/redfish/v1/Systems/1/BootOptions/'' @ fst opt)) bootOptionCatalog
      in writeJSON 200 [] (enc_BootOptionCollection
        \<lparr>boc_ODataType = ''#BootOptionCollection.BootOptionCollection'',
         boc_ODataID = ''/redfish/v1/Systems/1/BootOptions'', boc_Name = ''Boot Options Collection'',
         boc_MembersCount = int (length members), boc_Members = members\<rparr>))"

definition handleGetBootOption :: "vars \<Rightarrow> Response" where
  "handleGetBootOption vs =
     (case find (\<lambda>opt. var vs ''bootoptid'' = fst opt) bootOptionCatalog of
        None \<Rightarrow> writeError 404 ''ResourceNotFound'' ''boot option not found''
      | Some (reference, displayName) \<Rightarrow> writeJSON 200 [] (enc_BootOption
          \<lparr>bopt_ODataType = ''#BootOption.v1_0_0.BootOption'',
           bopt_ODataID = ''/redfish/v1/Systems/1/BootOptions/'' @ reference, bopt_ID = reference,
           bopt_Name = ''Boot Option'', bopt_DisplayName = displayName,
           bopt_BootOptionReference = reference, bopt_BootOptionEnabled = True\<rparr>))"

section \<open>Processors and chassis\<close>

definition handleProcessorCollection :: Response where
  "handleProcessorCollection = writeJSON 200 [] (enc_ProcessorCollection
     \<lparr>prc_ODataType = ''#ProcessorCollection.ProcessorCollection'',
      prc_ODataID = ''/redfish/v1/Systems/1/Processors'', prc_Name = ''Processor Collection'',
      prc_MembersCount = 1, prc_Members = [ref ''/redfish/v1/Systems/1/Processors/1'']\<rparr>)"

definition handleGetProcessor :: "vars \<Rightarrow> RedfishServer \<Rightarrow> Response" where
  "handleGetProcessor vs s =
     (if var vs ''procid'' \<noteq> ''1''
      then writeError 404 ''ResourceNotFound'' ''processor not found''
      else let cores = inv_CPUCount (s_inventory s)
        in writeJSON 200 [] (enc_Processor
          \<lparr>proc_ODataType = ''#Processor.v1_9_0.Processor'',
           proc_ODataID = ''/redfish/v1/Systems/1/Processors/1'',
           proc_ODataContext = ''/redfish/v1/$metadata#Processor.Processor'', proc_ID = ''1'',
           proc_Name = ''CPU'', proc_ProcessorType = ''CPU'', proc_ProcessorArchitecture = ''x86'',
           proc_InstructionSet = ''x86-64'', proc_Manufacturer = ''Intel'',
           proc_Model = inv_CPUModel (s_inventory s), proc_MaxSpeedMHz = None,
           proc_TotalCores = Some cores, proc_TotalThreads = Some cores\<rparr>))"

definition handleChassisCollection :: Response where
  "handleChassisCollection = writeJSON 200 [] (enc_ChassisCollection
     \<lparr>chc_ODataType = ''#ChassisCollection.ChassisCollection'',
      chc_ODataID = ''/redfish/v1/Chassis'', chc_Name = ''Chassis Collection'',
      chc_MembersCount = 1, chc_Members = [ref ''/redfish/v1/Chassis/1'']\<rparr>)"

definition handleGetChassis :: Response where
  "handleGetChassis = writeJSON 200 [] (enc_Chassis
     \<lparr>ch_ODataType = ''#Chassis.v1_0_0.Chassis'', ch_ODataID = ''/redfish/v1/Chassis/1'',
      ch_ODataContext = ''/redfish/v1/$metadata#Chassis.Chassis'', ch_ID = ''1'',
      ch_Name = ''QEMU Virtual Machine Chassis'', ch_ChassisType = ''RackMount''\<rparr>)"

end
