(* ===== verification/Redfish_Managers.thy ===== *)
theory Redfish_Managers
  imports Redfish_Systems
begin

text \<open>
  The manager over HTTP, src/internal/redfish/handler_managers.go: the manager resource and its
  reset, the Dell attribute surface, and virtual media.
\<close>

section \<open>The manager\<close>

definition managerAttributesPath :: "string \<Rightarrow> string" where
  "managerAttributesPath managerID = ''/redfish/v1/Managers/'' @ managerID @ ''/Attributes''"

definition managerAttributesSettingsObjectPath :: "string \<Rightarrow> string" where
  "managerAttributesSettingsObjectPath managerID =
     ''/redfish/v1/Managers/'' @ managerID @ ''/Attributes/Settings''"

definition handleManagerCollection :: Response where
  "handleManagerCollection = writeJSON 200 [] (enc_ManagerCollection
     \<lparr>mgc_ODataType = ''#ManagerCollection.ManagerCollection'',
      mgc_ODataID = ''/redfish/v1/Managers'', mgc_Name = ''Manager Collection'',
      mgc_MembersCount = 1, mgc_Members = [ref managerPath]\<rparr>)"

definition handleGetManager :: "RedfishServer \<Rightarrow> Response" where
  "handleGetManager s = writeJSON 200 [] (enc_Manager
     \<lparr>mgr_ODataType = ''#Manager.v1_3_0.Manager'', mgr_ODataID = managerPath,
      mgr_ODataContext = ''/redfish/v1/$metadata#Manager.Manager'', mgr_ID = ''1'',
      mgr_Name = ''QEMU BMC'', mgr_ManagerType = ''BMC'',
      mgr_UUID = inv_ManagerUUID (s_inventory s),
      mgr_Manufacturer = inv_ManagerManufacturer (s_inventory s),
      mgr_Model = inv_ManagerModel (s_inventory s),
      mgr_SerialNumber = inv_ManagerSerial (s_inventory s),
      mgr_PartNumber = inv_ManagerPartNumber (s_inventory s),
      mgr_FirmwareVersion = getFirmwareVersion ComponentBMC s,
      mgr_LastResetTime = (case getLastResetTime s of None \<Rightarrow> [] | Some t \<Rightarrow> t),
      mgr_PowerState = ''On'', mgr_Status = \<lparr>rst_State = ''Enabled'', rst_Health = ''OK''\<rparr>,
      mgr_VirtualMedia = ref ''/redfish/v1/Managers/1/VirtualMedia'',
      mgr_Actions = \<lparr>ma_Reset =
        \<lparr>ra_Target = ''/redfish/v1/Managers/1/Actions/Manager.Reset'',
         ra_AllowableValues = [''GracefulRestart'']\<rparr>\<rparr>,
      mgr_Links =
        (if s_dellBMCAttributes s
         then Some \<lparr>ml_Oem = \<lparr>mlo_Dell =
           \<lparr>mlod_DellAttributes = [ref (managerAttributesPath ''1'')],
            mlod_DellAttributesCount = 1\<rparr>\<rparr>\<rparr>
         else None),
      mgr_GraphicalConsole = Some
        \<lparr>gc_ServiceEnabled = True, gc_MaxConcurrentSessions = 1,
         gc_ConnectTypesSupported = [''KVMIP'']\<rparr>\<rparr>)"

text \<open>\<open>map[string]string{"status": "ok"}\<close>.\<close>

definition statusOK :: Response where
  "statusOK = writeJSON 200 [] (JObj [(''status'', JStr ''ok'')])"

text \<open>\<open>now\<close> is the current time as the API shows it.\<close>

definition handleManagerReset :: "string \<Rightarrow> json option \<Rightarrow> RedfishServer \<Rightarrow> Response \<times> RedfishServer" where
  "handleManagerReset now body s =
     (case decode dec_ResetRequest zero_ResetRequest body of
        None \<Rightarrow> (malformed, s)
      | Some req \<Rightarrow>
          if rr_ResetType req \<noteq> ''GracefulRestart''
          then (writeError 400 ''ActionParameterNotSupported'' ''unsupported ResetType'', s)
          else (statusOK, snd (activateStagedFirmware ComponentBMC (setLastResetTime now s))))"

section \<open>Dell attributes\<close>

text \<open>The response that refuses a request while the surface is disabled.\<close>

definition dellAttrsEnabled :: "RedfishServer \<Rightarrow> Response option" where
  "dellAttrsEnabled s =
     (if \<not> s_dellBMCAttributes s
      then Some (writeError 404 ''ResourceNotFound'' ''Dell BMC attributes are not enabled'')
      else None)"

definition handleGetManagerAttributes :: "vars \<Rightarrow> RedfishServer \<Rightarrow> Response" where
  "handleGetManagerAttributes vs s =
     (case dellAttrsEnabled s of
        Some resp \<Rightarrow> resp
      | None \<Rightarrow>
          let id' = var vs ''id''
          in writeJSON 200 [(''ETag'', [CHR 0x22] @ ''manager-attributes'' @ [CHR 0x22])]
            (enc_DellManagerAttributes
              \<lparr>dma_ODataType = ''#DellAttributes.v1_0_0.DellAttributes'',
               dma_ODataID = managerAttributesPath id', dma_ID = ''Attributes'',
               dma_Name = ''Manager Attributes'', dma_AttributeRegistry = managerAttributeRegistryID,
               dma_Attributes = getManagerAttributes s,
               dma_RedfishSettings = Some \<lparr>rset_ODataType = ''#Settings.v1_3_5.Settings'',
                 rset_SettingsObject = ref (managerAttributesSettingsObjectPath id')\<rparr>\<rparr>))"

definition handleGetManagerAttributesSettings :: "vars \<Rightarrow> RedfishServer \<Rightarrow> Response" where
  "handleGetManagerAttributesSettings vs s =
     (case dellAttrsEnabled s of
        Some resp \<Rightarrow> resp
      | None \<Rightarrow>
          let id' = var vs ''id''
          in writeJSON 200 [(''ETag'', [CHR 0x22] @ ''manager-attributes-settings'' @ [CHR 0x22])]
            (enc_DellManagerAttributes
              \<lparr>dma_ODataType = ''#DellAttributes.v1_0_0.DellAttributes'',
               dma_ODataID = managerAttributesSettingsObjectPath id', dma_ID = ''Settings'',
               dma_Name = ''Manager Pending Attributes'', dma_AttributeRegistry = [],
               dma_Attributes = [], dma_RedfishSettings = None\<rparr>))"

definition handlePatchManagerAttributesSettings ::
    "json option \<Rightarrow> RedfishServer \<Rightarrow> Response \<times> RedfishServer" where
  "handlePatchManagerAttributesSettings body s =
     (case dellAttrsEnabled s of
        Some resp \<Rightarrow> (resp, s)
      | None \<Rightarrow>
     (case decode dec_PatchManagerAttributesRequest zero_PatchManagerAttributesRequest body of
        None \<Rightarrow> (malformed, s)
      | Some req \<Rightarrow>
          if pmar_Attributes req = []
          then (writeError 400 ''PropertyMissing'' ''no attributes provided'', s)
          else (noContent,
            fold (\<lambda>(nm, val). setManagerAttribute nm val) (pmar_Attributes req) s)))"

section \<open>Virtual media\<close>

definition handleVirtualMediaCollection :: Response where
  "handleVirtualMediaCollection = writeJSON 200 [] (enc_VirtualMediaCollection
     \<lparr>vmc_ODataType = ''#VirtualMediaCollection.VirtualMediaCollection'',
      vmc_ODataID = ''/redfish/v1/Managers/1/VirtualMedia'', vmc_Name = ''Virtual Media Collection'',
      vmc_MembersCount = 1, vmc_Members = [ref ''/redfish/v1/Managers/1/VirtualMedia/CD1'']\<rparr>)"

definition virtualMediaResource :: "RedfishServer \<Rightarrow> VirtualMedia" where
  "virtualMediaResource s =
     (let cur = getCurrentMedia s
      in \<lparr>vm_ODataType = ''#VirtualMedia.v1_2_0.VirtualMedia'',
          vm_ODataID = ''/redfish/v1/Managers/1/VirtualMedia/CD1'',
          vm_ODataContext = ''/redfish/v1/$metadata#VirtualMedia.VirtualMedia'',
          vm_ID = ''CD1'', vm_Name = ''Virtual CD'', vm_MediaTypes = [''CD'', ''DVD''],
          vm_Image = cur, vm_Inserted = (cur \<noteq> []),
          vm_ConnectedVia = (if cur \<noteq> [] then ''URI'' else ''NotConnected''),
          vm_Actions =
            \<lparr>vma_InsertMedia = \<lparr>vmact_Target =
               ''/redfish/v1/Managers/1/VirtualMedia/CD1/Actions/VirtualMedia.InsertMedia''\<rparr>,
             vma_EjectMedia = \<lparr>vmact_Target =
               ''/redfish/v1/Managers/1/VirtualMedia/CD1/Actions/VirtualMedia.EjectMedia''\<rparr>\<rparr>\<rparr>)"

definition handleGetVirtualMedia :: "RedfishServer \<Rightarrow> Response" where
  "handleGetVirtualMedia s = writeJSON 200 [] (enc_VirtualMedia (virtualMediaResource s))"

text \<open>An error of the machine is logged only.\<close>

definition handleInsertMedia ::
    "'w redfish_env \<Rightarrow> json option \<Rightarrow> 'w redfish \<Rightarrow> Response \<times> 'w redfish" where
  "handleInsertMedia env body rf =
     (case decode dec_InsertMediaRequest zero_InsertMediaRequest body of
        None \<Rightarrow> (writeError 400 ''MalformedJSON'' ''Invalid request body'', rf)
      | Some req \<Rightarrow>
          if imr_Image req = []
          then (writeError 400 ''PropertyMissing'' ''Image URL is required'', rf)
          else case on_machine (mi_InsertMedia (re_machine env) (imr_Image req)) rf of
            (_, rf1) \<Rightarrow>
              (statusOK, rf1\<lparr>rf_server := setCurrentMedia (imr_Image req) (rf_server rf1)\<rparr>))"

definition handleEjectMedia :: "'w redfish_env \<Rightarrow> 'w redfish \<Rightarrow> Response \<times> 'w redfish" where
  "handleEjectMedia env rf =
     (case on_machine (mi_EjectMedia (re_machine env)) rf of
        (_, rf1) \<Rightarrow> (statusOK, rf1\<lparr>rf_server := setCurrentMedia [] (rf_server rf1)\<rparr>))"

end
