(* ===== verification/Redfish_Update.thy ===== *)
theory Redfish_Update
  imports Redfish_Server
begin

text \<open>
  The update service and its tasks, src/internal/redfish/handler_update.go. A SimpleUpdate request
  creates a task and starts a goroutine; \<open>runFirmwareUpdate\<close> is that goroutine, as the list of the
  critical sections it runs on the server's state, in order, given what the download answers.
\<close>

section \<open>Names and paths\<close>

definition updateServicePath :: string where
  "updateServicePath = ''/redfish/v1/UpdateService''"

definition firmwareInventoryPath :: string where
  "firmwareInventoryPath = updateServicePath @ ''/FirmwareInventory''"

definition simpleUpdatePath :: string where
  "simpleUpdatePath = updateServicePath @ ''/Actions/UpdateService.SimpleUpdate''"

definition taskServicePath :: string where
  "taskServicePath = ''/redfish/v1/TaskService''"

definition tasksPath :: string where
  "tasksPath = taskServicePath @ ''/Tasks''"

definition installedPrefix :: string where "installedPrefix = ''Installed-''"
definition stagedPrefix :: string where "stagedPrefix = ''Staged-''"

definition transferProtocols :: "string list" where
  "transferProtocols = [''HTTP'', ''HTTPS'']"

record firmwareComponent =
  fc_fqdd :: string
  fc_name :: string
  fc_relatedItem :: string
  fc_activation :: string

text \<open>A lookup of another component would give the zero struct.\<close>

definition firmwareComponents :: "Component \<Rightarrow> firmwareComponent" where
  "firmwareComponents c =
     (if c = ComponentBIOS then \<lparr>fc_fqdd = ''BIOS.Setup.1-1'', fc_name = ''BIOS'',
        fc_relatedItem = ''/redfish/v1/Systems/1'', fc_activation = ''system reset''\<rparr>
      else if c = ComponentBMC then \<lparr>fc_fqdd = ''iDRAC.Embedded.1-1'', fc_name = ''BMC Firmware'',
        fc_relatedItem = ''/redfish/v1/Managers/1'', fc_activation = ''BMC reset''\<rparr>
      else \<lparr>fc_fqdd = [], fc_name = [], fc_relatedItem = [], fc_activation = []\<rparr>)"

definition firmwareComponentOrder :: "Component list" where
  "firmwareComponentOrder = [ComponentBIOS, ComponentBMC]"

definition firmwareInventoryItemPath :: "string \<Rightarrow> string" where
  "firmwareInventoryItemPath id' = firmwareInventoryPath @ ''/'' @ id'"

definition taskPath :: "string \<Rightarrow> string" where
  "taskPath id' = tasksPath @ ''/'' @ id'"

section \<open>Tasks\<close>

text \<open>\<open>fmt.Sprintf("JID_%012d", n)\<close>.\<close>

definition taskID :: "nat \<Rightarrow> string" where
  "taskID n = ''JID_'' @ pad_zero 12 (itoa n)"

definition createTask :: "string \<Rightarrow> string \<Rightarrow> RedfishServer \<Rightarrow> Task \<times> RedfishServer" where
  "createTask now nm s =
     (let n = s_nextTaskID s + 1;
          id' = taskID n;
          t = \<lparr>task_ODataType = ''#Task.v1_4_3.Task'', task_ODataID = taskPath id', task_ID = id',
               task_Name = nm, task_TaskState = ''New'', task_TaskStatus = ''OK'',
               task_PercentComplete = 0, task_StartTime = now, task_EndTime = [],
               task_TaskMonitor = taskPath id', task_Messages = Some []\<rparr>
      in (t, s\<lparr>s_nextTaskID := n, s_tasks := AList.update id' t (s_tasks s)\<rparr>))"

text \<open>\<open>append([]Message(nil), ms...)\<close>: appending nothing to nil leaves nil.\<close>

definition copy_messages :: "Message list option \<Rightarrow> Message list option" where
  "copy_messages ms = (case ms of None \<Rightarrow> None | Some xs \<Rightarrow> if xs = [] then None else Some xs)"

definition updateTask :: "string \<Rightarrow> (Task \<Rightarrow> Task) \<Rightarrow> RedfishServer \<Rightarrow> RedfishServer" where
  "updateTask id' fn s =
     (case map_of (s_tasks s) id' of
        None \<Rightarrow> s
      | Some t \<Rightarrow>
          let t' = t\<lparr>task_Messages := copy_messages (task_Messages t)\<rparr>
          in s\<lparr>s_tasks := AList.update id' (fn t') (s_tasks s)\<rparr>)"

definition getTask :: "string \<Rightarrow> RedfishServer \<Rightarrow> Task option" where
  "getTask id' s = map_of (s_tasks s) id'"

definition listTaskIDs :: "RedfishServer \<Rightarrow> string list" where
  "listTaskIDs s = sort (map fst (s_tasks s))"

section \<open>The update goroutine\<close>

definition append_message :: "Message \<Rightarrow> Message list option \<Rightarrow> Message list option" where
  "append_message m ms = Some ((case ms of None \<Rightarrow> [] | Some xs \<Rightarrow> xs) @ [m])"

text \<open>The functions the goroutine passes to \<open>updateTask\<close>.\<close>

definition task_running :: "Task \<Rightarrow> Task" where
  "task_running t = t\<lparr>task_TaskState := ''Running''\<rparr>"

definition task_progress :: "int \<Rightarrow> Task \<Rightarrow> Task" where
  "task_progress percent t = t\<lparr>task_PercentComplete := percent\<rparr>"

definition task_failed :: "string \<Rightarrow> string \<Rightarrow> string \<Rightarrow> Task \<Rightarrow> Task" where
  "task_failed id' end msg t =
     t\<lparr>task_TaskState := ''Exception'', task_TaskStatus := ''Critical'', task_EndTime := end,
       task_Messages := append_message
         \<lparr>msg_MessageID = ''TaskEvent.1.0.TaskAborted'', msg_Message = msg, msg_Severity = ''Critical'',
          msg_MessageSeverity = ''Critical'', msg_MessageArgs = [id']\<rparr> (task_Messages t)\<rparr>"

definition task_completed :: "string \<Rightarrow> string \<Rightarrow> Package \<Rightarrow> Task \<Rightarrow> Task" where
  "task_completed end imageURI pkg t =
     (let comp = firmwareComponents (pkg_Component pkg)
      in t\<lparr>task_TaskState := ''Completed'', task_TaskStatus := ''OK'', task_PercentComplete := 100,
         task_EndTime := end,
         task_Messages := append_message
           \<lparr>msg_MessageID = ''Update.1.0.AwaitToActivate'',
            msg_Message = fc_name comp @ '' version '' @ pkg_Version pkg
              @ '' is staged and activates on the next '' @ fc_activation comp @ ''.'',
            msg_Severity = ''OK'', msg_MessageSeverity = ''OK'',
            msg_MessageArgs = [imageURI, fc_activation comp]\<rparr> (task_Messages t)\<rparr>)"

text \<open>The critical sections: an update of the task, or the staging of a package.\<close>

datatype task_step =
    TaskRunning
  | TaskProgress int
  | TaskFailed string firmware_error
  | StagePackage Package
  | TaskCompleted string string Package

definition do_task_step ::
    "(firmware_error \<Rightarrow> string) \<Rightarrow> string \<Rightarrow> task_step \<Rightarrow> RedfishServer \<Rightarrow> RedfishServer" where
  "do_task_step errText id' st s =
     (case st of
        TaskRunning \<Rightarrow> updateTask id' task_running s
      | TaskProgress percent \<Rightarrow> updateTask id' (task_progress percent) s
      | TaskFailed end e \<Rightarrow> updateTask id' (task_failed id' end (errText e)) s
      | StagePackage pkg \<Rightarrow> stageFirmware (pkg_Component pkg) (pkg_Version pkg) s
      | TaskCompleted end imageURI pkg \<Rightarrow> updateTask id' (task_completed end imageURI pkg) s)"

text \<open>The progress reports among what a run of the updater does.\<close>

definition progress_steps :: "run_event list \<Rightarrow> task_step list" where
  "progress_steps evs =
     concat (map (\<lambda>ev. case ev of Progress p \<Rightarrow> [TaskProgress p] | Sleep _ \<Rightarrow> []) evs)"

definition runFirmwareUpdate ::
    "(byte list \<Rightarrow> json option) \<Rightarrow> (http_get \<Rightarrow> http_answer) \<Rightarrow> string \<Rightarrow> Updater \<Rightarrow> Request
      \<Rightarrow> task_step list" where
  "runFirmwareUpdate json_text http_do end u req =
     (case Run json_text http_do None u req of
        (evs, Inl e) \<Rightarrow> TaskRunning # progress_steps evs @ [TaskFailed end e]
      | (evs, Inr pkg) \<Rightarrow> TaskRunning # progress_steps evs
          @ [StagePackage pkg, TaskCompleted end (fr_ImageURI req) pkg])"

section \<open>Checks of a SimpleUpdate request\<close>

text \<open>
  \<open>strings.ToUpper\<close>: ASCII letters, and the two other runes whose capital is one (the dotless i
  and the long s, in UTF-8); \<open>strings.ToLower\<close> of ASCII text, \<open>strings.Contains\<close>,
  \<open>strings.TrimSuffix\<close>.
\<close>

fun to_upper :: "string \<Rightarrow> string" where
  "to_upper s =
     (if s = [] then []
      else if take 2 s = [CHR 0xC4, CHR 0xB1] then CHR ''I'' # to_upper (drop 2 s)
      else if take 2 s = [CHR 0xC5, CHR 0xBF] then CHR ''S'' # to_upper (drop 2 s)
      else fold_char (hd s) # to_upper (tl s))"

declare to_upper.simps [simp del]

definition to_lower :: "string \<Rightarrow> string" where
  "to_lower s = map (\<lambda>c. let n = of_char c :: nat
     in if 65 \<le> n \<and> n \<le> 90 then char_of (n + 32) else c) s"

fun contains :: "string \<Rightarrow> string \<Rightarrow> bool" where
  "contains [] sub = (sub = [])"
| "contains (c # s) sub = (take (length sub) (c # s) = sub \<or> contains s sub)"

definition trim_suffix :: "string \<Rightarrow> string \<Rightarrow> string" where
  "trim_suffix s suf =
     (if length suf \<le> length s \<and> drop (length s - length suf) s = suf
      then take (length s - length suf) s else s)"

text \<open>The errors of \<open>resolveImageURI\<close>; their texts quote with \<open>%q\<close>.\<close>

datatype uri_error =
    UnsupportedProtocol string
  | NoScheme string
  | InvalidURI string
  | UnsupportedScheme string
  | ProtocolMismatch string string

definition uriErrorText :: "(string \<Rightarrow> string) \<Rightarrow> uri_error \<Rightarrow> string" where
  "uriErrorText quote e =
     (case e of
        UnsupportedProtocol p \<Rightarrow> ''unsupported TransferProtocol '' @ quote p @ '', supported: [HTTP HTTPS]''
      | NoScheme u \<Rightarrow> ''ImageURI '' @ quote u @ '' has no scheme and no TransferProtocol is given''
      | InvalidURI u \<Rightarrow> ''invalid ImageURI '' @ quote u
      | UnsupportedScheme c \<Rightarrow> ''unsupported ImageURI scheme '' @ quote c @ '', supported: [HTTP HTTPS]''
      | ProtocolMismatch p c \<Rightarrow>
          ''TransferProtocol '' @ quote p @ '' does not match ImageURI scheme '' @ quote c)"

definition resolveImageURI ::
    "(string \<Rightarrow> (string \<times> string) option) \<Rightarrow> string \<Rightarrow> string \<Rightarrow> uri_error + string" where
  "resolveImageURI urlParse imageURI0 protocol0 =
     (let protocol = to_upper protocol0
      in if protocol \<noteq> [] \<and> protocol \<notin> set transferProtocols then Inl (UnsupportedProtocol protocol)
         else if \<not> contains imageURI0 ''://'' \<and> protocol = [] then Inl (NoScheme imageURI0)
         else let imageURI = (if contains imageURI0 ''://'' then imageURI0
                              else to_lower protocol @ ''://'' @ imageURI0)
           in case urlParse imageURI of
                None \<Rightarrow> Inl (InvalidURI imageURI)
              | Some (uscheme, host) \<Rightarrow>
                  if host = [] then Inl (InvalidURI imageURI)
                  else let scheme = to_upper uscheme
                    in if scheme \<notin> set transferProtocols then Inl (UnsupportedScheme uscheme)
                       else if protocol \<noteq> [] \<and> protocol \<noteq> scheme
                       then Inl (ProtocolMismatch protocol uscheme)
                       else Inr imageURI)"

definition target_component :: "string \<Rightarrow> Component option" where
  "target_component target =
     find (\<lambda>c. let comp = firmwareComponents c
       in target = firmwareInventoryItemPath (installedPrefix @ fc_fqdd comp)
          \<or> target = fc_relatedItem comp) firmwareComponentOrder"

text \<open>An error carries the target that is not supported.\<close>

fun resolveTargets :: "string list \<Rightarrow> string + Component list" where
  "resolveTargets [] = Inr []"
| "resolveTargets (target # targets) =
     (let t = trim_suffix target ''/''
      in case target_component t of
           None \<Rightarrow> Inl t
         | Some c \<Rightarrow> map_sum id ((#) c) (resolveTargets targets))"

section \<open>Handlers\<close>

definition handleGetUpdateService :: Response where
  "handleGetUpdateService = writeJSON 200 [] (enc_UpdateService
     \<lparr>usv_ODataType = ''#UpdateService.v1_11_0.UpdateService'', usv_ODataID = updateServicePath,
      usv_ID = ''UpdateService'', usv_Name = ''Update Service'', usv_ServiceEnabled = True,
      usv_FirmwareInventory = ref firmwareInventoryPath,
      usv_Actions = \<lparr>usa_SimpleUpdate =
        \<lparr>sua_Target = simpleUpdatePath, sua_TransferProtocolAllowable = transferProtocols\<rparr>\<rparr>\<rparr>)"

definition inventoryMembers :: "RedfishServer \<Rightarrow> ODataID list" where
  "inventoryMembers s =
     concat (map (\<lambda>c.
         ref (firmwareInventoryItemPath (installedPrefix @ fc_fqdd (firmwareComponents c)))
         # (if getStagedFirmware c s \<noteq> None
            then [ref (firmwareInventoryItemPath (stagedPrefix @ fc_fqdd (firmwareComponents c)))]
            else []))
       firmwareComponentOrder)"

definition handleFirmwareInventoryCollection :: "RedfishServer \<Rightarrow> Response" where
  "handleFirmwareInventoryCollection s = writeJSON 200 [] (enc_SoftwareInventoryCollection
     \<lparr>sic_ODataType = ''#SoftwareInventoryCollection.SoftwareInventoryCollection'',
      sic_ODataID = firmwareInventoryPath, sic_Name = ''Firmware Inventory Collection'',
      sic_MembersCount = int (length (inventoryMembers s)), sic_Members = inventoryMembers s\<rparr>)"

text \<open>The loop of \<open>handleGetFirmwareInventory\<close>: the component, its version and whether it is staged.\<close>

fun find_inventory ::
    "string \<Rightarrow> RedfishServer \<Rightarrow> Component list \<Rightarrow> (Component \<times> string \<times> bool) option" where
  "find_inventory id' s [] = None"
| "find_inventory id' s (c # cs) =
     (if id' = installedPrefix @ fc_fqdd (firmwareComponents c)
      then Some (c, getFirmwareVersion c s, False)
      else if id' = stagedPrefix @ fc_fqdd (firmwareComponents c)
      then (case getStagedFirmware c s of
              None \<Rightarrow> find_inventory id' s cs
            | Some v \<Rightarrow> Some (c, v, True))
      else find_inventory id' s cs)"

definition handleGetFirmwareInventory :: "vars \<Rightarrow> RedfishServer \<Rightarrow> Response" where
  "handleGetFirmwareInventory vs s =
     (let id' = var vs ''id''
      in case find_inventory id' s firmwareComponentOrder of
           None \<Rightarrow> writeError 404 ''ResourceNotFound'' (''firmware inventory item not found: '' @ id')
         | Some (c, version, staged) \<Rightarrow> writeJSON 200 [] (enc_SoftwareInventory
             \<lparr>si_ODataType = ''#SoftwareInventory.v1_3_0.SoftwareInventory'',
              si_ODataID = firmwareInventoryItemPath id', si_ID = id',
              si_Name = fc_name (firmwareComponents c), si_Version = version, si_Updateable = True,
              si_Staged = staged, si_RelatedItem = [ref (fc_relatedItem (firmwareComponents c))],
              si_Status = \<lparr>rst_State = ''Enabled'', rst_Health = ''OK''\<rparr>\<rparr>))"

text \<open>With the response, the new task and the request its goroutine is started with.\<close>

definition handleSimpleUpdate ::
    "(string \<Rightarrow> (string \<times> string) option) \<Rightarrow> (string \<Rightarrow> string) \<Rightarrow> string \<Rightarrow> json option
      \<Rightarrow> RedfishServer \<Rightarrow> Response \<times> RedfishServer \<times> (string \<times> Request) option" where
  "handleSimpleUpdate urlParse quote now body s =
     (case decode dec_SimpleUpdateRequest zero_SimpleUpdateRequest body of
        None \<Rightarrow> (malformed, s, None)
      | Some req \<Rightarrow>
          if sur_ImageURI req = []
          then (writeError 400 ''PropertyMissing'' ''ImageURI is required'', s, None)
          else case resolveImageURI urlParse (sur_ImageURI req) (sur_TransferProtocol req) of
            Inl e \<Rightarrow> (writeError 400 ''ActionParameterNotSupported'' (uriErrorText quote e), s, None)
          | Inr imageURI \<Rightarrow>
              if sur_OperationApplyTime req \<notin> {[], ''Immediate'', ''OnReset''}
              then (writeError 400 ''ActionParameterNotSupported''
                 (''unsupported @Redfish.OperationApplyTime: '' @ sur_OperationApplyTime req), s, None)
              else case resolveTargets (sur_Targets req) of
                Inl t \<Rightarrow> (writeError 400 ''ActionParameterValueNotInList'' (''unsupported target '' @ quote t), s, None)
              | Inr targets \<Rightarrow>
                  (case createTask now (''Firmware Update: '' @ imageURI) s of
                     (t, s1) \<Rightarrow>
                       (writeJSON 202 [(''Location'', task_ODataID t)] (enc_Task t), s1,
                        Some (task_ID t, \<lparr>fr_ImageURI = imageURI, fr_Username = sur_Username req,
                          fr_Password = sur_Password req, fr_Targets = targets\<rparr>))))"

definition handleGetTaskService :: Response where
  "handleGetTaskService = writeJSON 200 [] (enc_TaskService
     \<lparr>tsv_ODataType = ''#TaskService.v1_2_0.TaskService'', tsv_ODataID = taskServicePath,
      tsv_ID = ''TaskService'', tsv_Name = ''Task Service'', tsv_ServiceEnabled = True,
      tsv_Tasks = ref tasksPath\<rparr>)"

definition handleTaskCollection :: "RedfishServer \<Rightarrow> Response" where
  "handleTaskCollection s =
     (let members = map (\<lambda>id'. ref (taskPath id')) (listTaskIDs s)
      in writeJSON 200 [] (enc_TaskCollection
        \<lparr>tc_ODataType = ''#TaskCollection.TaskCollection'', tc_ODataID = tasksPath,
         tc_Name = ''Task Collection'', tc_MembersCount = int (length members),
         tc_Members = members\<rparr>))"

definition handleGetTask :: "vars \<Rightarrow> RedfishServer \<Rightarrow> Response" where
  "handleGetTask vs s =
     (case getTask (var vs ''id'') s of
        None \<Rightarrow> writeError 404 ''ResourceNotFound'' (''task not found: '' @ var vs ''id'')
      | Some t \<Rightarrow> writeJSON 200 [] (enc_Task t))"

end
