(* ===== verification/Redfish_Events.thy ===== *)
theory Redfish_Events
  imports Redfish_Server
begin

text \<open>
  The event service, src/internal/redfish/handler_events.go: the table of subscriptions, and the
  submission of a test event, which hands one payload per matching subscription to the dispatcher.
\<close>

section \<open>Names and paths\<close>

definition eventServicePath :: string where
  "eventServicePath = ''/redfish/v1/EventService''"

definition subscriptionsPath :: string where
  "subscriptionsPath = eventServicePath @ ''/Subscriptions''"

definition submitTestEventPath :: string where
  "submitTestEventPath = eventServicePath @ ''/Actions/EventService.SubmitTestEvent''"

definition eventFormatEvent :: string where "eventFormatEvent = ''Event''"
definition eventFormatMetricReport :: string where "eventFormatMetricReport = ''MetricReport''"

definition eventFormatTypes :: "string list" where
  "eventFormatTypes = [eventFormatEvent, eventFormatMetricReport]"

definition deliveryRetryPolicies :: "string list" where
  "deliveryRetryPolicies =
     [''TerminateAfterRetries'', ''SuspendRetries'', ''RetryForever'', ''RetryForeverWithBackoff'']"

definition deprecatedEventTypes :: "string list" where
  "deprecatedEventTypes = [''StatusChange'', ''ResourceUpdated'', ''ResourceAdded'',
     ''ResourceRemoved'', ''Alert'', ''MetricReport'', ''Other'']"

definition subscriptionPath :: "string \<Rightarrow> string" where
  "subscriptionPath id' = subscriptionsPath @ ''/'' @ id'"

section \<open>Reading subscriptions\<close>

definition handleGetEventService :: Response where
  "handleGetEventService = writeJSON 200 [] (enc_EventService
     \<lparr>esv_ODataType = ''#EventService.v1_7_0.EventService'', esv_ODataID = eventServicePath,
      esv_ID = ''EventService'', esv_Name = ''Event Service'', esv_ServiceEnabled = True,
      esv_DeliveryRetryAttempts = deliveryRetryAttempts,
      esv_DeliveryRetryIntervalSeconds = deliveryRetryIntervalSeconds,
      esv_EventFormatTypes = eventFormatTypes, esv_Subscriptions = ref subscriptionsPath,
      esv_Actions = \<lparr>esa_SubmitTestEvent = \<lparr>actt_Target = submitTestEventPath\<rparr>\<rparr>\<rparr>)"

text \<open>\<open>a, _ := strconv.Atoi(id)\<close> of an id, which is the numeral of a counter.\<close>

definition sub_number :: "EventDestination \<Rightarrow> int" where
  "sub_number sub = (case Atoi (ed_ID sub) of None \<Rightarrow> 0 | Some n \<Rightarrow> n)"

definition listSubscriptions :: "RedfishServer \<Rightarrow> EventDestination list" where
  "listSubscriptions s = sort_key sub_number (map snd (s_subscriptions s))"

definition handleSubscriptionCollection :: "RedfishServer \<Rightarrow> Response" where
  "handleSubscriptionCollection s =
     (let members = map (\<lambda>sub. ref (ed_ODataID sub)) (listSubscriptions s)
      in writeJSON 200 [] (enc_EventDestinationCollection
        \<lparr>edc_ODataType = ''#EventDestinationCollection.EventDestinationCollection'',
         edc_ODataID = subscriptionsPath, edc_Name = ''Event Subscriptions Collection'',
         edc_MembersCount = int (length members), edc_Members = members\<rparr>))"

definition subscriptionNotFound :: Response where
  "subscriptionNotFound = writeError 404 ''ResourceNotFound'' ''subscription not found''"

definition handleGetSubscription :: "vars \<Rightarrow> RedfishServer \<Rightarrow> Response" where
  "handleGetSubscription vs s =
     (case map_of (s_subscriptions s) (var vs ''id'') of
        None \<Rightarrow> subscriptionNotFound
      | Some sub \<Rightarrow> writeJSON 200 [] (enc_EventDestination sub))"

section \<open>Creating and deleting subscriptions\<close>

definition or_default :: "string \<Rightarrow> string \<Rightarrow> string" where
  "or_default s d = (if s = [] then d else s)"

text \<open>The request with its defaults filled in, or the error code and message.\<close>

definition validateSubscription ::
    "(string \<Rightarrow> (string \<times> string) option) \<Rightarrow> (string \<Rightarrow> string) \<Rightarrow> CreateEventDestinationRequest
      \<Rightarrow> string \<times> string + CreateEventDestinationRequest" where
  "validateSubscription urlParse quote req =
     (if cedr_Destination req = [] then Inl (''PropertyMissing'', ''Destination is required'')
      else if (case urlParse (cedr_Destination req) of
           None \<Rightarrow> True
         | Some (scheme, host) \<Rightarrow> scheme \<noteq> ''http'' \<and> scheme \<noteq> ''https'' \<or> host = [])
      then Inl (''PropertyValueFormatError'', ''Destination must be an absolute http or https URI'')
      else
        let protocol = or_default (cedr_Protocol req) ''Redfish'';
            subType = or_default (cedr_SubscriptionType req) ''RedfishEvent'';
            format = or_default (cedr_EventFormatType req) eventFormatEvent
        in if protocol \<noteq> ''Redfish'' then Inl (''PropertyValueNotInList'', ''Protocol must be Redfish'')
           else if subType \<noteq> ''RedfishEvent''
           then Inl (''PropertyValueNotInList'', ''SubscriptionType must be RedfishEvent'')
           else if format \<notin> set eventFormatTypes
           then Inl (''PropertyValueNotInList'', ''EventFormatType must be one of Event, MetricReport'')
           else if cedr_DeliveryRetryPolicy req \<noteq> []
             \<and> cedr_DeliveryRetryPolicy req \<notin> set deliveryRetryPolicies
           then Inl (''PropertyValueNotInList'', ''DeliveryRetryPolicy must be one of ''
             @ ''TerminateAfterRetries, SuspendRetries, RetryForever, RetryForeverWithBackoff'')
           else case find (\<lambda>t. t \<notin> set deprecatedEventTypes) (cedr_EventTypes req) of
             Some t \<Rightarrow> Inl (''PropertyValueNotInList'',
               ''EventTypes contains unsupported value '' @ quote t)
           | None \<Rightarrow> Inr (req\<lparr>cedr_Protocol := protocol, cedr_SubscriptionType := subType,
               cedr_EventFormatType := format\<rparr>))"

definition new_subscription :: "string \<Rightarrow> CreateEventDestinationRequest \<Rightarrow> EventDestination" where
  "new_subscription id' req =
     \<lparr>ed_ODataType = ''#EventDestination.v1_9_0.EventDestination'', ed_ODataID = subscriptionPath id',
      ed_ID = id', ed_Name = ''Event Subscription '' @ id', ed_Destination = cedr_Destination req,
      ed_Context = cedr_Context req, ed_Protocol = cedr_Protocol req,
      ed_SubscriptionType = cedr_SubscriptionType req, ed_EventFormatType = cedr_EventFormatType req,
      ed_DeliveryRetryPolicy = cedr_DeliveryRetryPolicy req, ed_EventTypes = cedr_EventTypes req,
      ed_RegistryPrefixes = cedr_RegistryPrefixes req, ed_ResourceTypes = cedr_ResourceTypes req\<rparr>"

definition handleCreateSubscription ::
    "(string \<Rightarrow> (string \<times> string) option) \<Rightarrow> (string \<Rightarrow> string) \<Rightarrow> json option \<Rightarrow> RedfishServer
      \<Rightarrow> Response \<times> RedfishServer" where
  "handleCreateSubscription urlParse quote body s =
     (case decode dec_CreateEventDestinationRequest zero_CreateEventDestinationRequest body of
        None \<Rightarrow> (malformed, s)
      | Some req0 \<Rightarrow>
     (case validateSubscription urlParse quote req0 of
        Inl (code, msg) \<Rightarrow> (writeError 400 code msg, s)
      | Inr req \<Rightarrow>
          if \<exists>sub \<in> set (map snd (s_subscriptions s)).
            ed_Destination sub = cedr_Destination req \<and> ed_EventFormatType sub = cedr_EventFormatType req
          then (writeError 409 ''ResourceAlreadyExists'' (''a subscription for '' @ cedr_Destination req
            @ '' with EventFormatType '' @ cedr_EventFormatType req @ '' already exists''), s)
          else
            let n = s_nextSubscriptionID s + 1;
                id' = itoa n;
                sub = new_subscription id' req
            in (writeJSON 201 [(''Location'', ed_ODataID sub)] (enc_EventDestination sub),
                s\<lparr>s_nextSubscriptionID := n,
                  s_subscriptions := AList.update id' sub (s_subscriptions s)\<rparr>)))"

definition handleDeleteSubscription :: "vars \<Rightarrow> RedfishServer \<Rightarrow> Response \<times> RedfishServer" where
  "handleDeleteSubscription vs s =
     (let id' = var vs ''id'';
          s' = s\<lparr>s_subscriptions := AList.delete id' (s_subscriptions s)\<rparr>
      in case map_of (s_subscriptions s) id' of
           None \<Rightarrow> (subscriptionNotFound, s')
         | Some _ \<Rightarrow> (noContent, s'))"

section \<open>Submitting a test event\<close>

text \<open>
  The raw member is absent (\<open>None\<close>) or a JSON value; a JSON null decoded into a string or a link
  never arises here, as it is handled before.
\<close>

definition parseOriginOfCondition :: "json option \<Rightarrow> string option" where
  "parseOriginOfCondition raw =
     (case raw of
        None \<Rightarrow> Some []
      | Some j \<Rightarrow>
          if j = JNull then Some []
          else case dec_string j of
            Some uri \<Rightarrow> Some uri
          | None \<Rightarrow> map_option od_ODataID (dec_ODataID j zero_ODataID))"

definition test_event :: "string \<Rightarrow> string \<Rightarrow> string \<Rightarrow> SubmitTestEventRequest \<Rightarrow> Event" where
  "test_event now payloadID origin req =
     \<lparr>ev_MemberID = ''0'', ev_EventID = or_default (ster_EventID req) payloadID,
      ev_EventTimestamp = or_default (ster_EventTimestamp req) now, ev_Severity = ster_Severity req,
      ev_MessageSeverity = ster_MessageSeverity req, ev_Message = ster_Message req,
      ev_MessageID = ster_MessageID req,
      ev_MessageArgs = (case ster_MessageArgs req of None \<Rightarrow> [] | Some xs \<Rightarrow> xs),
      ev_OriginOfCondition = (if origin \<noteq> [] then Some \<lparr>el_ODataID = origin\<rparr> else None)\<rparr>"

text \<open>The deliveries \<open>Send\<close> starts, one goroutine each, in the order it starts them.\<close>

definition handleSubmitTestEvent ::
    "string \<Rightarrow> json option \<Rightarrow> RedfishServer \<Rightarrow> Response \<times> RedfishServer \<times> (string \<times> Payload) list" where
  "handleSubmitTestEvent now body s =
     (case decode dec_SubmitTestEventRequest zero_SubmitTestEventRequest body of
        None \<Rightarrow> (malformed, s, [])
      | Some req \<Rightarrow>
          if ster_MessageID req = []
          then (writeError 400 ''ActionParameterMissing'' ''MessageId is required'', s, [])
          else case parseOriginOfCondition (ster_OriginOfCondition req) of
            None \<Rightarrow> (writeError 400 ''ActionParameterValueTypeError''
              ''OriginOfCondition must be a URI string or an @odata.id link'', s, [])
          | Some origin \<Rightarrow>
              let n = s_nextEventID s + 1;
                  payloadID = itoa n;
                  s1 = s\<lparr>s_nextEventID := n\<rparr>;
                  ev = test_event now payloadID origin req
              in (noContent, s1,
                  map (\<lambda>sub. (ed_Destination sub, NewPayload payloadID (ed_Context sub) [ev]))
                    (filter (\<lambda>sub. ed_EventFormatType sub = eventFormatEvent) (listSubscriptions s1))))"

end
