(* ===== verification/Redfish_Router.thy ===== *)
theory Redfish_Router
  imports Redfish_Accounts Redfish_Managers Redfish_Update Redfish_Events
begin

text \<open>
  Routing and middleware of the Redfish server: \<open>setupRoutes\<close> and \<open>ServeHTTP\<close> of
  src/internal/redfish/server.go, middleware.go, and the service root (handler_service_root.go).
  The router gorilla/mux is a parameter, which chooses a route or answers itself; the noVNC file
  server and WebSocket proxy are one too.
\<close>

section \<open>The service root\<close>

definition handleServiceRoot :: Response where
  "handleServiceRoot = writeJSON 200 [] (enc_ServiceRoot
     \<lparr>sr_ODataType = ''#ServiceRoot.v1_5_0.ServiceRoot'', sr_ODataID = ''/redfish/v1'',
      sr_ODataContext = [], sr_ID = ''RootService'', sr_Name = ''Root Service'',
      sr_RedfishVersion = ''1.0.0'', sr_Systems = ref ''/redfish/v1/Systems'',
      sr_Managers = ref ''/redfish/v1/Managers'', sr_Chassis = ref ''/redfish/v1/Chassis'',
      sr_Registries = ref ''/redfish/v1/Registries'', sr_AccountService = ref accountServicePath,
      sr_EventService = ref eventServicePath, sr_UpdateService = ref updateServicePath,
      sr_Tasks = ref taskServicePath\<rparr>)"

section \<open>Routes\<close>

text \<open>The handlers, by the name of their Go method, and the three of noVNC.\<close>

datatype handler =
    H_ServiceRoot
  | H_SystemCollection
  | H_GetSystem
  | H_PatchSystem
  | H_ResetAction
  | H_ProcessorCollection
  | H_GetProcessor
  | H_BootOptionCollection
  | H_GetBootOption
  | H_GetBios
  | H_GetBiosSettings
  | H_PatchBiosSettings
  | H_RegistryCollection
  | H_GetRegistryContent
  | H_GetRegistryFile
  | H_ManagerCollection
  | H_GetManager
  | H_ManagerReset
  | H_GetManagerAttributes
  | H_GetManagerAttributesSettings
  | H_PatchManagerAttributesSettings
  | H_VirtualMediaCollection
  | H_GetVirtualMedia
  | H_InsertMedia
  | H_EjectMedia
  | H_GetAccountService
  | H_AccountCollection
  | H_CreateAccount
  | H_GetAccount
  | H_PatchAccount
  | H_DeleteAccount
  | H_GetEventService
  | H_SubscriptionCollection
  | H_CreateSubscription
  | H_GetSubscription
  | H_DeleteSubscription
  | H_SubmitTestEvent
  | H_GetUpdateService
  | H_FirmwareInventoryCollection
  | H_GetFirmwareInventory
  | H_SimpleUpdate
  | H_GetTaskService
  | H_TaskCollection
  | H_GetTask
  | H_ChassisCollection
  | H_GetChassis
  | H_NovncRedirect
  | H_NovncFiles
  | H_WebSocket

text \<open>A route: its template, whether it is a prefix, its methods (any if empty), its handler.\<close>

record route =
  rt_path :: string
  rt_prefix :: bool
  rt_methods :: "string list"
  rt_handler :: handler

text \<open>\<open>HandleFunc(p, h).Methods(m)\<close>, for a path and the path with a slash after it.\<close>

definition both :: "string \<Rightarrow> handler \<Rightarrow> string \<Rightarrow> route list" where
  "both p h m =
     [\<lparr>rt_path = p, rt_prefix = False, rt_methods = [m], rt_handler = h\<rparr>,
      \<lparr>rt_path = p @ ''/'', rt_prefix = False, rt_methods = [m], rt_handler = h\<rparr>]"

definition setupRoutes :: "route list" where
  "setupRoutes = concat
      [
       both ''/redfish/v1'' H_ServiceRoot ''GET'',
       both ''/redfish/v1/Systems'' H_SystemCollection ''GET'',
       both ''/redfish/v1/Systems/{id}'' H_GetSystem ''GET'',
       both ''/redfish/v1/Systems/{id}'' H_PatchSystem ''PATCH'',
       both ''/redfish/v1/Systems/{id}/Actions/ComputerSystem.Reset'' H_ResetAction ''POST'',
       both ''/redfish/v1/Systems/{id}/Processors'' H_ProcessorCollection ''GET'',
       both ''/redfish/v1/Systems/{id}/Processors/{procid}'' H_GetProcessor ''GET'',
       both ''/redfish/v1/Systems/{id}/BootOptions'' H_BootOptionCollection ''GET'',
       both ''/redfish/v1/Systems/{id}/BootOptions/{bootoptid}'' H_GetBootOption ''GET'',
       both ''/redfish/v1/Systems/{id}/Bios'' H_GetBios ''GET'',
       both ''/redfish/v1/Systems/{id}/Bios/Settings'' H_GetBiosSettings ''GET'',
       both ''/redfish/v1/Systems/{id}/Bios/Settings'' H_PatchBiosSettings ''PATCH'',
       both ''/redfish/v1/Registries'' H_RegistryCollection ''GET'',
       both ''/redfish/v1/Registries/{id}.json'' H_GetRegistryContent ''GET'',
       both ''/redfish/v1/Registries/{id}'' H_GetRegistryFile ''GET'',
       both ''/redfish/v1/Managers'' H_ManagerCollection ''GET'',
       both ''/redfish/v1/Managers/{id}'' H_GetManager ''GET'',
       both ''/redfish/v1/Managers/{id}/Actions/Manager.Reset'' H_ManagerReset ''POST'',
       both ''/redfish/v1/Managers/{id}/Attributes'' H_GetManagerAttributes ''GET'',
       both ''/redfish/v1/Managers/{id}/Attributes/Settings'' H_GetManagerAttributesSettings ''GET'',
       both ''/redfish/v1/Managers/{id}/Attributes/Settings'' H_PatchManagerAttributesSettings ''PATCH'',
       both ''/redfish/v1/Managers/{id}/VirtualMedia'' H_VirtualMediaCollection ''GET'',
       both ''/redfish/v1/Managers/{id}/VirtualMedia/{vmid}'' H_GetVirtualMedia ''GET'',
       both ''/redfish/v1/Managers/{id}/VirtualMedia/{vmid}/Actions/VirtualMedia.InsertMedia'' H_InsertMedia ''POST'',
       both ''/redfish/v1/Managers/{id}/VirtualMedia/{vmid}/Actions/VirtualMedia.EjectMedia'' H_EjectMedia ''POST'',
       both ''/redfish/v1/AccountService'' H_GetAccountService ''GET'',
       both ''/redfish/v1/AccountService/Accounts'' H_AccountCollection ''GET'',
       both ''/redfish/v1/AccountService/Accounts'' H_CreateAccount ''POST'',
       both ''/redfish/v1/AccountService/Accounts/{id}'' H_GetAccount ''GET'',
       both ''/redfish/v1/AccountService/Accounts/{id}'' H_PatchAccount ''PATCH'',
       both ''/redfish/v1/AccountService/Accounts/{id}'' H_DeleteAccount ''DELETE'',
       both ''/redfish/v1/EventService'' H_GetEventService ''GET'',
       both ''/redfish/v1/EventService/Subscriptions'' H_SubscriptionCollection ''GET'',
       both ''/redfish/v1/EventService/Subscriptions'' H_CreateSubscription ''POST'',
       both ''/redfish/v1/EventService/Subscriptions/{id}'' H_GetSubscription ''GET'',
       both ''/redfish/v1/EventService/Subscriptions/{id}'' H_DeleteSubscription ''DELETE'',
       both ''/redfish/v1/EventService/Actions/EventService.SubmitTestEvent'' H_SubmitTestEvent ''POST'',
       both ''/redfish/v1/UpdateService'' H_GetUpdateService ''GET'',
       both ''/redfish/v1/UpdateService/FirmwareInventory'' H_FirmwareInventoryCollection ''GET'',
       both ''/redfish/v1/UpdateService/FirmwareInventory/{id}'' H_GetFirmwareInventory ''GET'',
       both ''/redfish/v1/UpdateService/Actions/UpdateService.SimpleUpdate'' H_SimpleUpdate ''POST'',
       both ''/redfish/v1/TaskService'' H_GetTaskService ''GET'',
       both ''/redfish/v1/TaskService/Tasks'' H_TaskCollection ''GET'',
       both ''/redfish/v1/TaskService/Tasks/{id}'' H_GetTask ''GET'',
       both ''/redfish/v1/Chassis'' H_ChassisCollection ''GET'',
       both ''/redfish/v1/Chassis/{id}'' H_GetChassis ''GET'']
     @ [\<lparr>rt_path = ''/novnc/'', rt_prefix = False, rt_methods = [''GET''], rt_handler = H_NovncRedirect\<rparr>,
        \<lparr>rt_path = ''/novnc/'', rt_prefix = True, rt_methods = [], rt_handler = H_NovncFiles\<rparr>,
        \<lparr>rt_path = ''/websockify'', rt_prefix = False, rt_methods = [], rt_handler = H_WebSocket\<rparr>]"

section \<open>Handlers as one type\<close>

text \<open>The goroutines a handler starts.\<close>

datatype goroutine =
    FirmwareUpdate string Request
  | Delivery string Payload

type_synonym 'w http_handler = "HttpRequest \<Rightarrow> 'w redfish \<Rightarrow> Response \<times> 'w redfish \<times> goroutine list"

definition reads :: "(RedfishServer \<Rightarrow> Response) \<Rightarrow> 'w redfish \<Rightarrow> Response \<times> 'w redfish \<times> goroutine list" where
  "reads f rf = (f (rf_server rf), rf, [])"

definition on_users ::
    "(State \<Rightarrow> Response \<times> State) \<Rightarrow> 'w redfish \<Rightarrow> Response \<times> 'w redfish \<times> goroutine list" where
  "on_users f rf =
     (case f (s_users (rf_server rf)) of
        (resp, st) \<Rightarrow> (resp, rf\<lparr>rf_server := (rf_server rf)\<lparr>s_users := st\<rparr>\<rparr>, []))"

definition writes ::
    "(RedfishServer \<Rightarrow> Response \<times> RedfishServer) \<Rightarrow> 'w redfish \<Rightarrow> Response \<times> 'w redfish \<times> goroutine list" where
  "writes f rf = (case f (rf_server rf) of (resp, s) \<Rightarrow> (resp, rf\<lparr>rf_server := s\<rparr>, []))"

definition acts ::
    "('w redfish \<Rightarrow> Response \<times> 'w redfish) \<Rightarrow> 'w redfish \<Rightarrow> Response \<times> 'w redfish \<times> goroutine list" where
  "acts f rf = (case f rf of (resp, rf') \<Rightarrow> (resp, rf', []))"

definition novncRedirect :: Response where
  "novncRedirect = \<lparr>rsp_Status = 302,
     rsp_Header = [(''Location'', ''/novnc/vnc.html''), (''Content-Type'', ''text/html; charset=utf-8'')],
     rsp_Body = TextBody (''<a href=\"/novnc/vnc.html\">Found</a>.'' @ [CHR 0x0A, CHR 0x0A])\<rparr>"

text \<open>The method of each handler; \<open>novnc\<close> answers for the noVNC handler, \<open>now\<close> is the time.\<close>

fun run_handler ::
    "'w redfish_env \<Rightarrow> (HttpRequest \<Rightarrow> Response) \<Rightarrow> string \<Rightarrow> handler \<Rightarrow> vars \<Rightarrow> 'w http_handler" where
  "run_handler env novnc now H_ServiceRoot vs rq rf =
     reads (\<lambda>_. handleServiceRoot) rf"
| "run_handler env novnc now H_SystemCollection vs rq rf =
     reads (\<lambda>_. handleSystemCollection) rf"
| "run_handler env novnc now H_GetSystem vs rq rf =
     acts (handleGetSystem env) rf"
| "run_handler env novnc now H_PatchSystem vs rq rf =
     acts (handlePatchSystem env rq) rf"
| "run_handler env novnc now H_ResetAction vs rq rf =
     acts (handleResetAction env (rq_Body rq)) rf"
| "run_handler env novnc now H_ProcessorCollection vs rq rf =
     reads (\<lambda>_. handleProcessorCollection) rf"
| "run_handler env novnc now H_GetProcessor vs rq rf =
     reads (handleGetProcessor vs) rf"
| "run_handler env novnc now H_BootOptionCollection vs rq rf =
     reads (\<lambda>_. handleBootOptionCollection) rf"
| "run_handler env novnc now H_GetBootOption vs rq rf =
     reads (\<lambda>_. handleGetBootOption vs) rf"
| "run_handler env novnc now H_GetBios vs rq rf =
     reads (handleGetBios vs) rf"
| "run_handler env novnc now H_GetBiosSettings vs rq rf =
     reads (handleGetBiosSettings vs) rf"
| "run_handler env novnc now H_PatchBiosSettings vs rq rf =
     writes (handlePatchBiosSettings (rq_Body rq)) rf"
| "run_handler env novnc now H_RegistryCollection vs rq rf =
     reads handleRegistryCollection rf"
| "run_handler env novnc now H_GetRegistryContent vs rq rf =
     reads (handleGetRegistryContent vs) rf"
| "run_handler env novnc now H_GetRegistryFile vs rq rf =
     reads (handleGetRegistryFile vs) rf"
| "run_handler env novnc now H_ManagerCollection vs rq rf =
     reads (\<lambda>_. handleManagerCollection) rf"
| "run_handler env novnc now H_GetManager vs rq rf =
     reads handleGetManager rf"
| "run_handler env novnc now H_ManagerReset vs rq rf =
     writes (handleManagerReset now (rq_Body rq)) rf"
| "run_handler env novnc now H_GetManagerAttributes vs rq rf =
     reads (handleGetManagerAttributes vs) rf"
| "run_handler env novnc now H_GetManagerAttributesSettings vs rq rf =
     reads (handleGetManagerAttributesSettings vs) rf"
| "run_handler env novnc now H_PatchManagerAttributesSettings vs rq rf =
     writes (handlePatchManagerAttributesSettings (rq_Body rq)) rf"
| "run_handler env novnc now H_VirtualMediaCollection vs rq rf =
     reads (\<lambda>_. handleVirtualMediaCollection) rf"
| "run_handler env novnc now H_GetVirtualMedia vs rq rf =
     reads handleGetVirtualMedia rf"
| "run_handler env novnc now H_InsertMedia vs rq rf =
     acts (handleInsertMedia env (rq_Body rq)) rf"
| "run_handler env novnc now H_EjectMedia vs rq rf =
     acts (handleEjectMedia env) rf"
| "run_handler env novnc now H_GetAccountService vs rq rf =
     reads (\<lambda>_. handleGetAccountService) rf"
| "run_handler env novnc now H_AccountCollection vs rq rf =
     reads (\<lambda>s. handleAccountCollection (s_users s)) rf"
| "run_handler env novnc now H_CreateAccount vs rq rf =
     on_users (handleCreateAccount (re_quote env) (rq_Body rq)) rf"
| "run_handler env novnc now H_GetAccount vs rq rf =
     reads (\<lambda>s. handleGetAccount vs (s_users s)) rf"
| "run_handler env novnc now H_PatchAccount vs rq rf =
     on_users (handlePatchAccount (re_quote env) vs (rq_Body rq)) rf"
| "run_handler env novnc now H_DeleteAccount vs rq rf =
     on_users (handleDeleteAccount vs) rf"
| "run_handler env novnc now H_GetEventService vs rq rf =
     reads (\<lambda>_. handleGetEventService) rf"
| "run_handler env novnc now H_SubscriptionCollection vs rq rf =
     reads handleSubscriptionCollection rf"
| "run_handler env novnc now H_CreateSubscription vs rq rf =
     writes (handleCreateSubscription (re_urlParse env) (re_quote env) (rq_Body rq)) rf"
| "run_handler env novnc now H_GetSubscription vs rq rf =
     reads (handleGetSubscription vs) rf"
| "run_handler env novnc now H_DeleteSubscription vs rq rf =
     writes (handleDeleteSubscription vs) rf"
| "run_handler env novnc now H_SubmitTestEvent vs rq rf =
     (case handleSubmitTestEvent now (rq_Body rq) (rf_server rf) of
        (resp, s, ds) \<Rightarrow> (resp, rf\<lparr>rf_server := s\<rparr>, map (\<lambda>(d, p). Delivery d p) ds))"
| "run_handler env novnc now H_GetUpdateService vs rq rf =
     reads (\<lambda>_. handleGetUpdateService) rf"
| "run_handler env novnc now H_FirmwareInventoryCollection vs rq rf =
     reads handleFirmwareInventoryCollection rf"
| "run_handler env novnc now H_GetFirmwareInventory vs rq rf =
     reads (handleGetFirmwareInventory vs) rf"
| "run_handler env novnc now H_SimpleUpdate vs rq rf =
     (case handleSimpleUpdate (re_urlParse env) (re_quote env) now (rq_Body rq) (rf_server rf) of
        (resp, s, g) \<Rightarrow> (resp, rf\<lparr>rf_server := s\<rparr>,
          (case g of None \<Rightarrow> [] | Some (id', req) \<Rightarrow> [FirmwareUpdate id' req])))"
| "run_handler env novnc now H_GetTaskService vs rq rf =
     reads (\<lambda>_. handleGetTaskService) rf"
| "run_handler env novnc now H_TaskCollection vs rq rf =
     reads handleTaskCollection rf"
| "run_handler env novnc now H_GetTask vs rq rf =
     reads (handleGetTask vs) rf"
| "run_handler env novnc now H_ChassisCollection vs rq rf =
     reads (\<lambda>_. handleChassisCollection) rf"
| "run_handler env novnc now H_GetChassis vs rq rf =
     reads (\<lambda>_. handleGetChassis) rf"
| "run_handler env novnc now H_NovncRedirect vs rq rf = (novncRedirect, rf, [])"
| "run_handler env novnc now H_NovncFiles vs rq rf = (novnc rq, rf, [])"
| "run_handler env novnc now H_WebSocket vs rq rf = (novnc rq, rf, [])"

section \<open>Middleware\<close>

definition redfishPublicPaths :: "string list" where
  "redfishPublicPaths =
     [''/redfish'', ''/redfish/v1'', ''/redfish/v1/odata'', ''/redfish/v1/$metadata'']"

definition unauthorized :: Response where
  "unauthorized = \<lparr>rsp_Status = 401,
     rsp_Header = [(''WWW-Authenticate'', ''Basic realm='' @ [CHR 0x22] @ ''Redfish'' @ [CHR 0x22]),
       (''Content-Type'', ''text/plain; charset=utf-8''), (''X-Content-Type-Options'', ''nosniff'')],
     rsp_Body = TextBody (''Unauthorized'' @ [CHR 0x0A])\<rparr>"

definition authorized :: "HttpRequest \<Rightarrow> State \<Rightarrow> bool" where
  "authorized rq st =
     (case rq_BasicAuth rq of None \<Rightarrow> False | Some (user, pass) \<Rightarrow> Authenticate st user pass)"

definition basicAuthMiddleware :: "'w http_handler \<Rightarrow> 'w http_handler" where
  "basicAuthMiddleware handler rq rf =
     (if rq_Path rq \<in> set redfishPublicPaths then handler rq rf
      else if \<not> authorized rq (s_users (rf_server rf)) then (unauthorized, rf, [])
      else handler rq rf)"

definition trim_slash :: "string \<Rightarrow> string" where
  "trim_slash p = (if p \<noteq> ''/'' \<and> p \<noteq> [] \<and> last p = CHR ''/'' then butlast p else p)"

definition trailingSlashMiddleware :: "'w http_handler \<Rightarrow> 'w http_handler" where
  "trailingSlashMiddleware handler rq rf = handler (rq\<lparr>rq_Path := trim_slash (rq_Path rq)\<rparr>) rf"

text \<open>
  What the router does with a request: run a route's handler, with path variables, inside the
  middleware, or answer itself (not found, method not allowed, redirect to a clean path), outside
  of it.
\<close>

datatype mux_result = Matched handler vars | Answered Response

definition ServeHTTP ::
    "'w redfish_env \<Rightarrow> (route list \<Rightarrow> HttpRequest \<Rightarrow> mux_result) \<Rightarrow> (HttpRequest \<Rightarrow> Response) \<Rightarrow> string
      \<Rightarrow> 'w http_handler" where
  "ServeHTTP env mux novnc now rq rf =
     (case mux setupRoutes rq of
        Answered resp \<Rightarrow> (resp, rf, [])
      | Matched h vs \<Rightarrow>
          let handler = run_handler env novnc now h vs;
              inner = (if s_user (rf_server rf) \<noteq> [] \<and> s_pass (rf_server rf) \<noteq> []
                       then basicAuthMiddleware handler else handler)
          in trailingSlashMiddleware inner rq rf)"

end
