(* ===== verification/Redfish_Access.thy ===== *)
theory Redfish_Access
  imports Redfish_Router Account_Directory
begin

text \<open>
  Who may do what over Redfish: the middleware in front of the handlers of
  src/internal/redfish/server.go, and the AccountService (handler_accounts.go) as a client of the
  user table's directory and of the interface \<open>account_store\<close>.
\<close>

section \<open>Routing\<close>

text \<open>
  What gorilla/mux documents of a match: the route is one of the router's, its methods admit the
  request, and the text of its template up to the first variable starts the path; a template
  without variables that is no prefix is the whole path.
\<close>

definition literal_part :: "string \<Rightarrow> string" where
  "literal_part t = takeWhile (\<lambda>c. c \<noteq> CHR ''{'') t"

definition route_admits :: "route \<Rightarrow> string \<Rightarrow> bool" where
  "route_admits r path \<longleftrightarrow>
     (if rt_prefix r \<or> CHR ''{'' \<in> set (rt_path r)
      then take (length (literal_part (rt_path r))) path = literal_part (rt_path r)
      else path = rt_path r)"

definition mux_ok :: "(route list \<Rightarrow> HttpRequest \<Rightarrow> mux_result) \<Rightarrow> bool" where
  "mux_ok mux \<longleftrightarrow> (\<forall>rs rq h vs. mux rs rq = Matched h vs \<longrightarrow>
     (\<exists>r \<in> set rs. rt_handler r = h \<and> route_admits r (rq_Path rq)
        \<and> (rt_methods r = [] \<or> rq_Method rq \<in> set (rt_methods r))))"

text \<open>A router that satisfies it: the first route that admits the request.\<close>

definition first_match :: "route list \<Rightarrow> HttpRequest \<Rightarrow> mux_result" where
  "first_match rs rq =
     (case find (\<lambda>r. route_admits r (rq_Path rq)
          \<and> (rt_methods r = [] \<or> rq_Method rq \<in> set (rt_methods r))) rs of
        Some r \<Rightarrow> Matched (rt_handler r) []
      | None \<Rightarrow> Answered (writeError 404 [] []))"

lemma first_match_ok: "mux_ok first_match"
  unfolding mux_ok_def first_match_def
  by (auto split: option.splits simp: find_Some_iff intro!: bexI nth_mem)

lemma trim_slash_cases: "trim_slash p = p \<or> p = trim_slash p @ ''/''"
  by (auto simp: trim_slash_def) (metis append_butlast_last_id)

text \<open>The only route that leads to a public path, with or without a slash, is the service root.\<close>

definition reach_public :: "route \<Rightarrow> bool" where
  "reach_public r \<longleftrightarrow>
     list_ex (\<lambda>p. route_admits r p \<or> route_admits r (p @ ''/'')) redfishPublicPaths"

lemma public_routes: "list_all (\<lambda>r. reach_public r \<longrightarrow> rt_handler r = H_ServiceRoot) setupRoutes"
  by code_simp

lemma public_route:
  assumes "r \<in> set setupRoutes" and "route_admits r p" and "trim_slash p \<in> set redfishPublicPaths"
  shows "rt_handler r = H_ServiceRoot"
proof -
  have "reach_public r"
    using assms(2,3) trim_slash_cases [of p] unfolding reach_public_def list_ex_iff by metis
  then show ?thesis
    using assms(1) public_routes by (simp add: list_all_iff)
qed

section \<open>The middleware\<close>

definition credentials_set :: "RedfishServer \<Rightarrow> bool" where
  "credentials_set s \<longleftrightarrow> s_user s \<noteq> [] \<and> s_pass s \<noteq> []"

lemma authorized_path [simp]: "authorized (rq\<lparr>rq_Path := p\<rparr>) st = authorized rq st"
  by (simp add: authorized_def)

lemma ServeHTTP_cases:
  "ServeHTTP env mux novnc now rq rf =
     (case mux setupRoutes rq of
        Answered resp \<Rightarrow> (resp, rf, [])
      | Matched h vs \<Rightarrow>
          if \<not> credentials_set (rf_server rf) \<or> trim_slash (rq_Path rq) \<in> set redfishPublicPaths
            \<or> authorized rq (s_users (rf_server rf))
          then run_handler env novnc now h vs (rq\<lparr>rq_Path := trim_slash (rq_Path rq)\<rparr>) rf
          else (unauthorized, rf, []))"
  by (auto simp: ServeHTTP_def Let_def trailingSlashMiddleware_def basicAuthMiddleware_def
      credentials_set_def split: mux_result.split)

section \<open>Frame: which requests touch the user table\<close>

lemma reads_simps [simp]: "fst (snd (reads f rf)) = rf" "snd (snd (reads f rf)) = []"
  by (simp_all add: reads_def)

lemma writes_users:
  "(\<And>s. s_users (snd (f s)) = s_users s) \<Longrightarrow>
    s_users (rf_server (fst (snd (writes f rf)))) = s_users (rf_server rf)"
  by (simp add: writes_def case_prod_beta)

lemma acts_simps [simp]: "fst (snd (acts f rf)) = snd (f rf)"
  by (simp add: acts_def case_prod_beta)

lemma setters_users [simp]:
  "s_users (setBiosAttribute nm val s) = s_users s"
  "s_users (mergeBiosPendingAttributes attrs s) = s_users s"
  "s_users (setManagerAttribute nm val s) = s_users s"
  "s_users (setLastResetTime t s) = s_users s"
  "s_users (setBootOrder order s) = s_users s"
  "s_users (setIndicatorLED led s) = s_users s"
  "s_users (setCurrentMedia img s) = s_users s"
  "s_users (snd (applyPendingBiosSettings s)) = s_users s"
  "s_users (snd (activateStagedFirmware c s)) = s_users s"
  by (simp_all add: setBiosAttribute_def mergeBiosPendingAttributes_def setManagerAttribute_def
      setLastResetTime_def setBootOrder_def setIndicatorLED_def setCurrentMedia_def
      applyPendingBiosSettings_def activateStagedFirmware_def split: option.split)

lemma patch_bios_loop_users [simp]:
  "s_users (fst (patch_bios_loop attrs s pending)) = s_users s"
  by (induction attrs s pending rule: patch_bios_loop.induct) simp_all

lemma fold_attributes_users [simp]:
  "s_users (fold (\<lambda>(nm, val). setManagerAttribute nm val) attrs s) = s_users s"
  by (induction attrs arbitrary: s) auto

lemma handlers_users:
  "s_users (snd (handlePatchBiosSettings body s)) = s_users s"
  "s_users (snd (handleManagerReset now body s)) = s_users s"
  "s_users (snd (handlePatchManagerAttributesSettings body s)) = s_users s"
  "s_users (snd (handleCreateSubscription up q body s)) = s_users s"
  "s_users (snd (handleDeleteSubscription vs s)) = s_users s"
  "s_users (fst (snd (handleSubmitTestEvent now body s))) = s_users s"
  "s_users (fst (snd (handleSimpleUpdate up q now body s))) = s_users s"
  by (simp_all add: handlePatchBiosSettings_def handleManagerReset_def
      handlePatchManagerAttributesSettings_def handleCreateSubscription_def
      handleDeleteSubscription_def handleSubmitTestEvent_def handleSimpleUpdate_def createTask_def
      Let_def case_prod_beta split: option.split sum.split)

lemma checkIfMatch_server [simp]: "rf_server (snd (checkIfMatch env m rf)) = rf_server rf"
  by (simp add: checkIfMatch_def Let_def case_prod_beta split: sum.split)

lemma handleGetSystem_server [simp]: "rf_server (snd (handleGetSystem env rf)) = rf_server rf"
  by (simp add: handleGetSystem_def Let_def case_prod_beta split: sum.split)

lemma patchBoot_users [simp]: "s_users (rf_server (snd (patchBoot env b rf))) = s_users (rf_server rf)"
  by (simp add: patchBoot_def case_prod_beta split: option.split)

lemma machine_handlers_users:
  "s_users (rf_server (snd (handlePatchSystem env rq rf))) = s_users (rf_server rf)"
  "s_users (rf_server (snd (handleResetAction env body rf))) = s_users (rf_server rf)"
  "s_users (rf_server (snd (handleInsertMedia env body rf))) = s_users (rf_server rf)"
  "s_users (rf_server (snd (handleEjectMedia env rf))) = s_users (rf_server rf)"
  by (simp_all add: handlePatchSystem_def handleResetAction_def handleInsertMedia_def
      handleEjectMedia_def onSystemPowerOnReset_def case_prod_beta split: option.split)

text \<open>The user table after a request, by the AccountService's handlers.\<close>

definition account_effect ::
    "'w redfish_env \<Rightarrow> handler \<Rightarrow> vars \<Rightarrow> HttpRequest \<Rightarrow> State \<Rightarrow> State" where
  "account_effect env h vs rq st =
     (if h = H_CreateAccount then snd (handleCreateAccount (re_quote env) (rq_Body rq) st)
      else if h = H_PatchAccount then snd (handlePatchAccount (re_quote env) vs (rq_Body rq) st)
      else if h = H_DeleteAccount then snd (handleDeleteAccount vs st)
      else st)"

lemma on_users_users: "s_users (rf_server (fst (snd (on_users f rf)))) = snd (f (s_users (rf_server rf)))"
  by (simp add: on_users_def case_prod_beta)

lemma run_handler_users:
  "s_users (rf_server (fst (snd (run_handler env novnc now h vs rq rf))))
    = account_effect env h vs rq (s_users (rf_server rf))"
  by (cases h) (simp_all add: account_effect_def writes_users handlers_users machine_handlers_users
      on_users_users case_prod_beta)

lemma ServeHTTP_users:
  "s_users (rf_server (fst (snd (ServeHTTP env mux novnc now rq rf)))) = s_users (rf_server rf)
   \<or> (\<exists>h vs. s_users (rf_server (fst (snd (ServeHTTP env mux novnc now rq rf))))
       = account_effect env h vs rq (s_users (rf_server rf)))"
  by (auto simp: ServeHTTP_cases run_handler_users account_effect_def split: mux_result.split)

section \<open>Account requests as operations on the directory\<close>

datatype account_request =
    CreateRequest "json option"
  | PatchRequest vars "json option"
  | DeleteRequest vars

definition handle_account ::
    "(string \<Rightarrow> string) \<Rightarrow> account_request \<Rightarrow> State \<Rightarrow> Response \<times> State" where
  "handle_account quote rq st =
     (case rq of
        CreateRequest body \<Rightarrow> handleCreateAccount quote body st
      | PatchRequest vs body \<Rightarrow> handlePatchAccount quote vs body st
      | DeleteRequest vs \<Rightarrow> handleDeleteAccount vs st)"

text \<open>The names and passwords the AccountService accepts.\<close>

definition name_ok :: "string \<Rightarrow> bool" where
  "name_ok nm \<longleftrightarrow> 1 \<le> length nm \<and> length nm \<le> 16"

definition password_ok :: "string \<Rightarrow> bool" where
  "password_ok pw \<longleftrightarrow> 1 \<le> length pw \<and> length pw \<le> 20"

text \<open>The operation a request asks for; \<open>None\<close> if the request itself is refused.\<close>

definition account_op_of :: "account_request \<Rightarrow> account_op option" where
  "account_op_of rq =
     (case rq of
        CreateRequest body \<Rightarrow>
          (case decode dec_CreateAccountRequest zero_CreateAccountRequest body of
             None \<Rightarrow> None
           | Some req \<Rightarrow>
               if name_ok (car_UserName req) \<and> password_ok (car_Password req)
               then map_option (\<lambda>p. OpCreate (car_UserName req) (car_Password req) p
                   (car_Enabled req \<noteq> Some False)) (rolePrivileges (car_RoleID req))
               else None)
      | PatchRequest vs body \<Rightarrow>
          (case (accountIDFromRequest vs, decode dec_PatchAccountRequest zero_PatchAccountRequest body) of
             (Some b, Some req) \<Rightarrow>
               if (par_UserName req \<noteq> None \<or> par_Password req \<noteq> None \<or> par_RoleID req \<noteq> None
                   \<or> par_Enabled req \<noteq> None)
                 \<and> pred_option name_ok (par_UserName req) \<and> pred_option password_ok (par_Password req)
                 \<and> pred_option (\<lambda>r. rolePrivileges r \<noteq> None) (par_RoleID req)
               then Some (OpUpdate b \<lparr>upd_Name = par_UserName req, upd_Password = par_Password req,
                   upd_Privilege = Option.bind (par_RoleID req) rolePrivileges,
                   upd_Enabled = par_Enabled req\<rparr>)
               else None
           | _ \<Rightarrow> None)
      | DeleteRequest vs \<Rightarrow> map_option OpDelete (accountIDFromRequest vs))"

definition account_status :: "account_op \<Rightarrow> bmc_error + byte \<Rightarrow> nat" where
  "account_status op r =
     (case r of
        Inr _ \<Rightarrow> (case op of OpCreate _ _ _ _ \<Rightarrow> 201 | OpUpdate _ _ \<Rightarrow> 200 | OpDelete _ \<Rightarrow> 204)
      | Inl ErrUserExists \<Rightarrow> 409
      | Inl ErrNoFreeSlot \<Rightarrow> 400
      | Inl ErrNotFound \<Rightarrow> 404
      | Inl _ \<Rightarrow> 500)"

lemma validateUserName_None [simp]: "validateUserName nm = None \<longleftrightarrow> name_ok nm"
  by (cases nm) (auto simp: validateUserName_def name_ok_def maxUserNameLength_def)

lemma validatePassword_None [simp]: "validatePassword pw = None \<longleftrightarrow> password_ok pw"
  by (cases pw) (auto simp: validatePassword_def password_ok_def minPasswordLength_def maxPasswordLength_def)

lemma validate_Some:
  "validateUserName nm = Some m \<Longrightarrow> \<not> name_ok nm" "validatePassword pw = Some m \<Longrightarrow> \<not> password_ok pw"
  by (metis option.distinct(1) validateUserName_None, metis option.distinct(1) validatePassword_None)

lemma validate_ok_simps [simp]:
  "name_ok nm \<Longrightarrow> validateUserName nm = None" "password_ok pw \<Longrightarrow> validatePassword pw = None"
  by simp_all

lemma bind_validate_None [simp]:
  "Option.bind x validateUserName = None \<longleftrightarrow> pred_option name_ok x"
  "Option.bind x validatePassword = None \<longleftrightarrow> pred_option password_ok x"
  by (cases x; simp)+

lemma bind_validate_ok_simps [simp]:
  "pred_option name_ok x \<Longrightarrow> Option.bind x validateUserName = None"
  "pred_option password_ok y \<Longrightarrow> Option.bind y validatePassword = None"
  by simp_all

lemma account_simps [simp]:
  "rsp_Status accountNotFound = 404" "rsp_Status accountExists = 409"
  "rsp_Status (writeAccount c h a) = c"
  by (simp_all add: accountNotFound_def accountExists_def writeAccount_def)

lemma CreateAccount_error: "CreateAccount st nm pw p e = (st', Inl err) \<Longrightarrow>
    st' = st \<and> (nm \<noteq> [] \<longrightarrow> err \<in> {ErrUserExists, ErrNoFreeSlot})"
  by (auto simp: CreateAccount_def split: if_splits option.splits)

lemma UpdateAccount_error: "UpdateAccount st b u = (st', Some err) \<Longrightarrow>
    st' = st \<and> (upd_Name u \<noteq> Some [] \<longrightarrow> err \<in> {ErrUserExists, ErrNotFound})"
  by (auto simp: UpdateAccount_def Let_def split: if_splits option.splits)

lemma DeleteAccount_error: "DeleteAccount st b = (st', Some err) \<Longrightarrow> st' = st \<and> err = ErrNotFound"
  by (auto simp: DeleteAccount_def split: if_splits)

text \<open>A request that asks for no operation is refused; one that does is answered by its outcome.\<close>

lemma create_refused:
  "account_op_of (CreateRequest body) = None \<Longrightarrow> handleCreateAccount quote body st = (resp, st') \<Longrightarrow>
    st' = st \<and> rsp_Status resp = 400"
  by (auto simp: account_op_of_def handleCreateAccount_def privilegeForRole_def Let_def
      split: option.splits if_splits)

lemma create_answered:
  assumes "account_op_of (CreateRequest body) = Some op"
    and "handleCreateAccount quote body st = (resp, st')"
  shows "st' = fst (run_account_op st op) \<and> rsp_Status resp = account_status op (snd (run_account_op st op))
    \<and> rsp_Status resp \<noteq> 500"
proof -
  obtain req p where req: "decode dec_CreateAccountRequest zero_CreateAccountRequest body = Some req"
    "name_ok (car_UserName req)" "password_ok (car_Password req)" "rolePrivileges (car_RoleID req) = Some p"
    and op: "op = OpCreate (car_UserName req) (car_Password req) p (car_Enabled req \<noteq> Some False)"
    using assms(1) by (auto simp: account_op_of_def split: option.splits if_splits)
  have en: "(case car_Enabled req of None \<Rightarrow> True | Some b \<Rightarrow> b) = (car_Enabled req \<noteq> Some False)"
    by (cases "car_Enabled req") auto
  obtain s1 r where c: "CreateAccount st (car_UserName req) (car_Password req) p
      (car_Enabled req \<noteq> Some False) = (s1, r)"
    by fastforce
  show ?thesis
  proof (cases r)
    case (Inl e)
    with c CreateAccount_error [of st] req(2) have "s1 = st" "e = ErrUserExists \<or> e = ErrNoFreeSlot"
      by (fastforce simp: name_ok_def)+
    then show ?thesis
      using assms(2) req c Inl
      by (auto simp: handleCreateAccount_def privilegeForRole_def en op run_account_op_def
          account_status_def)
  next
    case (Inr i)
    then show ?thesis
      using assms(2) req c
      by (auto simp: handleCreateAccount_def privilegeForRole_def en op run_account_op_def
          account_status_def)
  qed
qed

lemma patch_refused:
  "account_op_of (PatchRequest vs body) = None \<Longrightarrow> handlePatchAccount quote vs body st = (resp, st') \<Longrightarrow>
    st' = st \<and> rsp_Status resp \<in> {400, 404}"
  by (auto simp: account_op_of_def handlePatchAccount_def privilegeForRole_def
      split: option.splits if_splits sum.splits)

lemma patch_answered:
  assumes "account_op_of (PatchRequest vs body) = Some op"
    and "handlePatchAccount quote vs body st = (resp, st')"
  shows "st' = fst (run_account_op st op) \<and> rsp_Status resp = account_status op (snd (run_account_op st op))
    \<and> rsp_Status resp \<noteq> 500"
proof -
  obtain b req where req: "accountIDFromRequest vs = Some b"
    "decode dec_PatchAccountRequest zero_PatchAccountRequest body = Some req"
    "\<not> (par_UserName req = None \<and> par_Password req = None \<and> par_RoleID req = None
       \<and> par_Enabled req = None)"
    "pred_option name_ok (par_UserName req)" "pred_option password_ok (par_Password req)"
    "pred_option (\<lambda>r. rolePrivileges r \<noteq> None) (par_RoleID req)"
    and op: "op = OpUpdate b \<lparr>upd_Name = par_UserName req, upd_Password = par_Password req,
      upd_Privilege = Option.bind (par_RoleID req) rolePrivileges, upd_Enabled = par_Enabled req\<rparr>"
    (is "op = OpUpdate b ?u")
    using assms(1) by (auto simp: account_op_of_def split: option.splits if_splits)
  have role: "(case par_RoleID req of None \<Rightarrow> Inr None
      | Some role \<Rightarrow> map_sum id Some (privilegeForRole quote role)) = Inr (upd_Privilege ?u)"
    using req(6) by (auto simp: privilegeForRole_def split: option.split)
  have name: "upd_Name ?u \<noteq> Some []"
    using req(4) by (auto simp: name_ok_def)
  obtain s1 r where c: "UpdateAccount st b ?u = (s1, r)"
    by fastforce
  have step: "(resp, st') = (case r of
        Some e \<Rightarrow> (if e = ErrNotFound then accountNotFound else if e = ErrUserExists then accountExists
          else writeError 500 ''InternalError'' (bmcErrorText e), s1)
      | None \<Rightarrow> (writeAccount 200 [] (account_or_zero s1 b), s1))"
    unfolding assms(2) [symmetric] handlePatchAccount_def
    by (simp add: req(1,2,4,5) if_not_P [OF req(3)] role c)
  show ?thesis
  proof (cases r)
    case (Some e)
    with c UpdateAccount_error [of st b ?u s1 e] name
    have "s1 = st" "e = ErrUserExists \<or> e = ErrNotFound"
      by auto
    then show ?thesis
      using step c Some by (auto simp: op run_account_op_def account_status_def)
  qed (use step c in \<open>simp add: op run_account_op_def account_status_def\<close>)
qed

lemma delete_refused:
  "account_op_of (DeleteRequest vs) = None \<Longrightarrow> handleDeleteAccount vs st = (resp, st') \<Longrightarrow>
    st' = st \<and> rsp_Status resp = 404"
  by (auto simp: account_op_of_def handleDeleteAccount_def split: option.splits)

lemma delete_answered:
  assumes "account_op_of (DeleteRequest vs) = Some op"
    and "handleDeleteAccount vs st = (resp, st')"
  shows "st' = fst (run_account_op st op) \<and> rsp_Status resp = account_status op (snd (run_account_op st op))
    \<and> rsp_Status resp \<noteq> 500"
proof -
  obtain b where b: "accountIDFromRequest vs = Some b" and op: "op = OpDelete b"
    using assms(1) by (auto simp: account_op_of_def)
  obtain s1 r where d: "DeleteAccount st b = (s1, r)"
    by fastforce
  then show ?thesis
    using assms(2) b DeleteAccount_error [of st b s1]
    by (cases r) (auto simp: handleDeleteAccount_def op run_account_op_def account_status_def)
qed

lemma account_refused:
  assumes op: "account_op_of rq = None" and run: "handle_account quote rq st = (resp, st')"
  shows "st' = st \<and> rsp_Status resp \<in> {400, 404}"
proof (cases rq)
  case (CreateRequest body)
  show ?thesis
    using create_refused [of body quote st resp st'] op run by (simp add: CreateRequest handle_account_def)
next
  case (PatchRequest vs body)
  show ?thesis
    using patch_refused [of vs body quote st resp st'] op run by (simp add: PatchRequest handle_account_def)
next
  case (DeleteRequest vs)
  show ?thesis
    using delete_refused [of vs st resp st'] op run by (simp add: DeleteRequest handle_account_def)
qed

lemma account_answered:
  assumes op: "account_op_of rq = Some op" and run: "handle_account quote rq st = (resp, st')"
  shows "st' = fst (run_account_op st op) \<and> rsp_Status resp = account_status op (snd (run_account_op st op))
    \<and> rsp_Status resp \<noteq> 500"
proof (cases rq)
  case (CreateRequest body)
  show ?thesis
    by (rule create_answered) (use op run in \<open>simp_all add: CreateRequest handle_account_def\<close>)
next
  case (PatchRequest vs body)
  show ?thesis
    by (rule patch_answered) (use op run in \<open>simp_all add: PatchRequest handle_account_def\<close>)
next
  case (DeleteRequest vs)
  show ?thesis
    by (rule delete_answered) (use op run in \<open>simp_all add: DeleteRequest handle_account_def\<close>)
qed

section \<open>The bounds of the IPMI fields\<close>

definition fields_fit :: "State \<Rightarrow> bool" where
  "fields_fit st \<longleftrightarrow> (\<forall>i sl. dir_of st i = Some sl \<longrightarrow>
     length (slot_name sl) \<le> 16 \<and> length (slot_password sl) \<le> 20)"

definition op_fits :: "account_op \<Rightarrow> bool" where
  "op_fits op =
     (case op of
        OpCreate nm pw _ _ \<Rightarrow> length nm \<le> 16 \<and> length pw \<le> 20
      | OpUpdate _ u \<Rightarrow> pred_option (\<lambda>nm. length nm \<le> 16) (upd_Name u)
          \<and> pred_option (\<lambda>pw. length pw \<le> 20) (upd_Password u)
      | OpDelete _ \<Rightarrow> True)"

lemma account_op_of_fits: "account_op_of rq = Some op \<Longrightarrow> op_fits op"
  by (cases rq) (auto simp: account_op_of_def op_fits_def name_ok_def password_ok_def pred_option_def
      split: option.splits if_splits)

lemma slot_password_updated_slot:
  "slot_password (updated_slot u sl) = (case upd_Password u of None \<Rightarrow> slot_password sl | Some pw \<Rightarrow> pw)"
  by (simp add: updated_slot_def)

lemma dir_step_fits:
  "dir_step d op r d' \<Longrightarrow> op_fits op \<Longrightarrow>
    (\<forall>i sl. d i = Some sl \<longrightarrow> length (slot_name sl) \<le> 16 \<and> length (slot_password sl) \<le> 20) \<Longrightarrow>
    (\<forall>i sl. d' i = Some sl \<longrightarrow> length (slot_name sl) \<le> 16 \<and> length (slot_password sl) \<le> 20)"
  by (induction rule: dir_step.induct)
    (auto simp: op_fits_def new_slot_def slot_name_updated_slot slot_password_updated_slot
      split: option.splits)

lemma run_account_op_fits:
  "wf_State st \<Longrightarrow> op_fits op \<Longrightarrow> fields_fit st \<Longrightarrow> fields_fit (fst (run_account_op st op))"
  using dir_step_fits [OF account_op_refines] unfolding fields_fit_def by blast

definition table_ok :: "State \<Rightarrow> bool" where
  "table_ok st \<longleftrightarrow> store_inv st \<and> fields_fit st"

lemma handle_account_table_ok:
  assumes "table_ok st" and "handle_account quote rq st = (resp, st')"
  shows "table_ok st'"
proof (cases "account_op_of rq")
  case None
  with account_refused [OF None assms(2)] assms(1) show ?thesis
    by simp
next
  case (Some op)
  with account_answered [OF Some assms(2)] account_op_of_fits [OF Some] assms(1) show ?thesis
    using store_inv_op [of st op] run_account_op_fits [of st op]
    by (simp add: table_ok_def) (simp add: store_inv_def)
qed

lemma account_effect_handle:
  "account_effect env h vs rq st = st
   \<or> (\<exists>r. account_effect env h vs rq st = snd (handle_account (re_quote env) r st))"
proof -
  have "snd (handle_account (re_quote env) (CreateRequest b) st) = snd (handleCreateAccount (re_quote env) b st)"
    "snd (handle_account (re_quote env) (PatchRequest v b) st) = snd (handlePatchAccount (re_quote env) v b st)"
    "snd (handle_account (re_quote env) (DeleteRequest v) st) = snd (handleDeleteAccount v st)" for b v
    by (simp_all add: handle_account_def)
  then show ?thesis
    unfolding account_effect_def by metis
qed

lemma account_effect_table_ok: "table_ok st \<Longrightarrow> table_ok (account_effect env h vs rq st)"
  using account_effect_handle [of env h vs rq st] handle_account_table_ok [of st "re_quote env"]
  by (metis prod.collapse)

text \<open>The server after a list of requests, each with the time at which it is handled.\<close>

fun serve_all ::
    "'w redfish_env \<Rightarrow> (route list \<Rightarrow> HttpRequest \<Rightarrow> mux_result) \<Rightarrow> (HttpRequest \<Rightarrow> Response)
      \<Rightarrow> (string \<times> HttpRequest) list \<Rightarrow> 'w redfish \<Rightarrow> 'w redfish" where
  "serve_all env mux novnc [] rf = rf"
| "serve_all env mux novnc ((now, rq) # rqs) rf =
     serve_all env mux novnc rqs (fst (snd (ServeHTTP env mux novnc now rq rf)))"

lemma serve_all_table_ok:
  "table_ok (s_users (rf_server rf)) \<Longrightarrow> table_ok (s_users (rf_server (serve_all env mux novnc rqs rf)))"
proof (induction rqs arbitrary: rf)
  case (Cons x rqs)
  obtain now rq where x: "x = (now, rq)"
    by (cases x)
  have "table_ok (s_users (rf_server (fst (snd (ServeHTTP env mux novnc now rq rf)))))"
    using ServeHTTP_users [of env mux novnc now rq rf] account_effect_table_ok Cons.prems by metis
  then show ?case
    using Cons.IH by (simp add: x)
qed simp

end
