(* ===== verification/Redfish_Accounts_Properties.thy ===== *)
theory Redfish_Accounts_Properties
  imports Redfish_Access
begin

text \<open>
  The properties of access control and of the AccountService over Redfish
  (src/internal/redfish/middleware.go, server.go and handler_accounts.go).
\<close>

section \<open>A sample server\<close>

text \<open>A machine that only holds its boot override, and an environment without a real hash.\<close>

definition stub_machine :: "BootOverride RedfishMachine" where
  "stub_machine = \<lparr>mi_GetPowerState = (\<lambda>w. (Inr PowerOff, w)), mi_Reset = (\<lambda>t w. (None, w)),
     mi_GetBootOverride = (\<lambda>w. w),
     mi_SetBootOverride = (\<lambda>bo w. if valid_override bo then (None, bo) else (Some (InvalidBootTarget []), w)),
     mi_GetQMPStatus = (\<lambda>w. (Inr ''running'', w)), mi_InsertMedia = (\<lambda>img w. (None, w)),
     mi_EjectMedia = (\<lambda>w. (None, w))\<rparr>"

definition stub_env :: "BootOverride redfish_env" where
  "stub_env = \<lparr>re_machine = stub_machine, re_errText = (\<lambda>e. []), re_sha256 = (\<lambda>bs. bs),
     re_quote = (\<lambda>s. s), re_urlParse = (\<lambda>u. Some (''http'', ''host''))\<rparr>"

definition stub_redfish :: "BootOverride redfish" where
  "stub_redfish = \<lparr>rf_server = NewRedfishServer ''admin'' ''secret'',
     rf_machine = \<lparr>bo_Enabled = ''Disabled'', bo_Target = ''None'', bo_Mode = ''UEFI''\<rparr>\<rparr>"

definition request :: "string \<Rightarrow> string \<Rightarrow> (string \<times> string) option \<Rightarrow> json option \<Rightarrow> HttpRequest" where
  "request meth path auth body = \<lparr>rq_Method = meth, rq_Path = path, rq_BasicAuth = auth,
     rq_IfMatch = [], rq_Body = body\<rparr>"

lemma stub_users [simp]: "s_users (rf_server stub_redfish) = NewState ''admin'' ''secret''"
  by (simp add: stub_redfish_def NewRedfishServer_def)

lemma stub_credentials [simp]: "credentials_set (rf_server stub_redfish)"
  by (simp add: stub_redfish_def NewRedfishServer_def credentials_set_def)

lemma admin_slot:
  "lookupUserByNameLocked (NewState ''admin'' ''secret'') ''admin'' = Some 2"
  by (simp add: lookupUserByNameLocked_def maxUsers_def upt_conv_Cons NewState_user_at zeroUserSlot_def)

lemma admin_only:
  "dir_of (NewState ''admin'' ''secret'') i = (if i = 2 then Some (user_at (NewState ''admin'' ''secret'') 2) else None)"
  by (auto simp: dir_of_def NewState_user_at zeroUserSlot_def maxUsers_def split: if_splits)

lemma created_201:
  assumes "handleCreateAccount quote body st = (resp, st')" and "rsp_Status resp = 201"
  obtains req p id' where "decode dec_CreateAccountRequest zero_CreateAccountRequest body = Some req"
    and "password_ok (car_Password req)" and "rolePrivileges (car_RoleID req) = Some p"
    and "CreateAccount st (car_UserName req) (car_Password req) p (car_Enabled req \<noteq> Some False)
      = (st', Inr id')"
    and "resp = writeAccount 201 [(''Location'', accountPath id')] (account_or_zero st' id')"
proof -
  have "account_op_of (CreateRequest body) \<noteq> None"
    using create_refused [of body quote st resp st'] assms by auto
  then obtain req p where req: "decode dec_CreateAccountRequest zero_CreateAccountRequest body = Some req"
    "name_ok (car_UserName req)" "password_ok (car_Password req)" "rolePrivileges (car_RoleID req) = Some p"
    by (auto simp: account_op_of_def split: option.splits if_splits)
  have en: "(case car_Enabled req of None \<Rightarrow> True | Some b \<Rightarrow> b) = (car_Enabled req \<noteq> Some False)"
    by (cases "car_Enabled req") auto
  obtain s1 r where c: "CreateAccount st (car_UserName req) (car_Password req) p
      (car_Enabled req \<noteq> Some False) = (s1, r)"
    by fastforce
  obtain id' where "r = Inr id'"
    using assms req c
    by (cases r) (auto simp: handleCreateAccount_def privilegeForRole_def en split: if_splits)
  with c have create: "CreateAccount st (car_UserName req) (car_Password req) p
      (car_Enabled req \<noteq> Some False) = (s1, Inr id')"
    by simp
  then have "resp = writeAccount 201 [(''Location'', accountPath id')] (account_or_zero s1 id') \<and> st' = s1"
    using assms(1) req by (auto simp: handleCreateAccount_def privilegeForRole_def en)
  with create req show ?thesis
    by (intro that) simp_all
qed

section \<open>Properties\<close>

text \<open>
  C3: With credentials configured, a request without the name and password of an enabled account
  has no effect: the server, the machine and the user table stay as they are, no goroutine starts,
  and the answer is 401, the service root, or the router's own; whatever route it matches,
  including noVNC.
\<close>

theorem redfish_requires_credentials:
  assumes "mux_ok mux" and "credentials_set (rf_server rf)"
    and "ServeHTTP env mux novnc now rq rf = (resp, rf', gs)"
    and "\<not> authorized rq (s_users (rf_server rf))"
  shows "rf' = rf \<and> gs = [] \<and>
    (resp = unauthorized \<or> resp = handleServiceRoot \<or> mux setupRoutes rq = Answered resp)"
proof (cases "mux setupRoutes rq")
  case (Matched h vs)
  with assms(1) obtain r where r: "r \<in> set setupRoutes" "rt_handler r = h" "route_admits r (rq_Path rq)"
    unfolding mux_ok_def by blast
  show ?thesis
  proof (cases "trim_slash (rq_Path rq) \<in> set redfishPublicPaths")
    case True
    then have "h = H_ServiceRoot"
      using public_route [OF r(1,3)] r(2) by simp
    with assms Matched True show ?thesis
      by (simp add: ServeHTTP_cases reads_def)
  qed (use assms Matched in \<open>simp add: ServeHTTP_cases\<close>)
qed (use assms in \<open>simp add: ServeHTTP_cases\<close>)

lemma redfish_requires_credentials_witness:
  "ServeHTTP stub_env first_match (\<lambda>_. noContent) [] (request ''GET'' ''/websockify'' None None) stub_redfish
     = (unauthorized, stub_redfish, [])"
proof -
  have m: "first_match setupRoutes (request ''GET'' ''/websockify'' None None) = Matched H_WebSocket []"
    by code_simp
  have na: "\<not> authorized (request ''GET'' ''/websockify'' None None) (s_users (rf_server stub_redfish))"
    by (simp add: authorized_def request_def)
  have root: "ServeHTTP stub_env first_match (\<lambda>_. noContent) [] (request ''GET'' ''/websockify'' None None)
      stub_redfish \<noteq> (handleServiceRoot, stub_redfish, [])"
    using m by (simp add: ServeHTTP_cases handleServiceRoot_def unauthorized_def writeJSON_def authorized_def
        request_def trim_slash_def redfishPublicPaths_def)
  show ?thesis
    using redfish_requires_credentials [OF first_match_ok stub_credentials _ na, of stub_env
        "\<lambda>_. noContent" "[]"] m root
    by (metis mux_result.distinct(1) prod.collapse)
qed

text \<open>
  C4: The AccountService implements the abstract directory: a request it refuses changes nothing
  and is answered with 400 or 404; any other performs exactly the directory operation its body and
  path ask for, as the directory prescribes, and is answered with the status of the outcome, never
  with an internal error.
\<close>

theorem account_requests_refine_directory:
  assumes "wf_State st" and "handle_account quote rq st = (resp, st')"
  shows "(account_op_of rq = None \<longrightarrow> st' = st \<and> rsp_Status resp \<in> {400, 404})
    \<and> (\<forall>op. account_op_of rq = Some op \<longrightarrow>
        (\<exists>r. dir_step (dir_of st) op r (dir_of st') \<and> rsp_Status resp = account_status op r
           \<and> rsp_Status resp \<noteq> 500))"
proof (intro conjI impI allI)
  fix op
  assume "account_op_of rq = Some op"
  from account_answered [OF this assms(2)] account_op_refines [OF assms(1), of op]
  show "\<exists>r. dir_step (dir_of st) op r (dir_of st') \<and> rsp_Status resp = account_status op r
      \<and> rsp_Status resp \<noteq> 500"
    by metis
qed (use account_refused [OF _ assms(2)] in blast)+

lemma admin_delete:
  "accountIDFromRequest [(''id'', ''2'')] = Some 2"
  "DeleteAccount (NewState ''admin'' ''secret'') 2 = (set_user_at (NewState ''admin'' ''secret'') 2 zeroUserSlot, None)"
  by (simp_all add: accountIDFromRequest_def var_def ParseUint10_def is_digit_def digits_val_def
      char_digit_def DeleteAccount_def NewState_user_at maxUsers_def)

lemma account_requests_refine_directory_witness:
  "\<exists>r. dir_step (dir_of (NewState ''admin'' ''secret'')) (OpDelete 2) r
      (dir_of (snd (handle_account (\<lambda>s. s) (DeleteRequest [(''id'', ''2'')]) (NewState ''admin'' ''secret''))))
    \<and> account_status (OpDelete 2) r = 204"
proof -
  have "rsp_Status (fst (handle_account (\<lambda>s. s) (DeleteRequest [(''id'', ''2'')]) (NewState ''admin'' ''secret''))) = 204"
    by (simp add: handle_account_def handleDeleteAccount_def admin_delete)
  then show ?thesis
    using account_requests_refine_directory [OF NewState_wf [of "''admin''" "''secret''"]
        prod.collapse [symmetric, of "handle_account (\<lambda>s. s) (DeleteRequest [(''id'', ''2'')])
          (NewState ''admin'' ''secret'')"]]
    by (auto simp: account_op_of_def admin_delete(1))
qed

text \<open>
  C23: No sequence of HTTP requests breaks the user table: from a table in order, whatever requests
  the server handles, names stay unique, the table stays within its sixteen slots, and every name
  and password fits the 16 and 20 bytes of the IPMI fields.
\<close>

theorem redfish_requests_keep_user_table:
  assumes "table_ok (s_users (rf_server rf))"
  shows "store_inv (s_users (rf_server (serve_all env mux novnc rqs rf)))
    \<and> (\<forall>i. 1 \<le> i \<and> i \<le> 15 \<longrightarrow>
        length (slot_name (user_at (s_users (rf_server (serve_all env mux novnc rqs rf))) i)) \<le> 16
      \<and> (slot_name (user_at (s_users (rf_server (serve_all env mux novnc rqs rf))) i) \<noteq> [] \<longrightarrow>
          length (slot_password (user_at (s_users (rf_server (serve_all env mux novnc rqs rf))) i)) \<le> 20))"
proof -
  let ?st = "s_users (rf_server (serve_all env mux novnc rqs rf))"
  have ok: "table_ok ?st"
    by (rule serve_all_table_ok) (rule assms)
  have "length (slot_name (user_at ?st i)) \<le> 16 \<and> length (slot_password (user_at ?st i)) \<le> 20"
    if "1 \<le> i" "i \<le> 15" "slot_name (user_at ?st i) \<noteq> []" for i
  proof -
    have "dir_of ?st i = Some (user_at ?st i)"
      using that by (simp add: dir_of_def maxUsers_def)
    with ok show ?thesis
      unfolding table_ok_def fields_fit_def by blast
  qed
  with ok show ?thesis
    unfolding table_ok_def by force
qed

lemma stub_table_ok: "table_ok (NewState ''admin'' ''secret'')"
  by (auto simp: table_ok_def NewState_store_inv fields_fit_def admin_only NewState_user_at maxUsers_def
      split: if_splits)

lemma redfish_requests_keep_user_table_witness:
  "store_inv (s_users (rf_server (serve_all stub_env first_match (\<lambda>_. noContent)
     [([], request ''DELETE'' ''/redfish/v1/AccountService/Accounts/2'' (Some (''admin'', ''secret'')) None)]
     stub_redfish)))"
  using redfish_requests_keep_user_table [of stub_redfish stub_env first_match "\<lambda>_. noContent"
      "[([], request ''DELETE'' ''/redfish/v1/AccountService/Accounts/2'' (Some (''admin'', ''secret'')) None)]"]
  unfolding stub_users by (blast intro: stub_table_ok)

text \<open>
  C22: An account created over Redfish is in force at once: after a POST that is answered with 201,
  basic authentication accepts the new name with the new password only (unless the account was
  created disabled), all other credentials are as before, and a GET of the Location returns the
  same resource, with the requested name and role and without the password.
\<close>

theorem created_account_in_force:
  assumes "store_inv st" and "handleCreateAccount quote body st = (resp, st')" and "rsp_Status resp = 201"
  shows "\<exists>req id' j. decode dec_CreateAccountRequest zero_CreateAccountRequest body = Some req
    \<and> map_of (rsp_Header resp) ''Location'' = Some (accountPath id')
    \<and> rsp_Body resp = JSONBody j \<and> rsp_Body (handleGetAccount [(''id'', itoa (unat id'))] st') = JSONBody j
    \<and> member ''UserName'' j = Some (JStr (car_UserName req))
    \<and> member ''RoleId'' j = Some (JStr (car_RoleID req)) \<and> member ''Password'' j = Some JNull
    \<and> (\<forall>n q. Authenticate st' n q =
        (if n = car_UserName req then car_Enabled req \<noteq> Some False \<and> q = car_Password req
         else Authenticate st n q))"
proof -
  obtain req p id' where req: "decode dec_CreateAccountRequest zero_CreateAccountRequest body = Some req"
    "password_ok (car_Password req)" "rolePrivileges (car_RoleID req) = Some p"
    and create: "CreateAccount st (car_UserName req) (car_Password req) p (car_Enabled req \<noteq> Some False)
      = (st', Inr id')"
    and resp: "resp = writeAccount 201 [(''Location'', accountPath id')] (account_or_zero st' id')"
    by (rule created_201 [OF assms(2,3)])
  let ?a = "\<lparr>acc_ID = id', acc_Name = car_UserName req, acc_Privilege = p,
    acc_Enabled = (car_Enabled req \<noteq> Some False)\<rparr>"
  have a: "Account_of st' id' = Some ?a"
    using accounts.create_account [OF assms(1) create] by simp
  have get: "handleGetAccount [(''id'', itoa (unat id'))] st' = writeAccount 200 [] ?a"
    using unsigned_less [of id', where ?'a = nat]
    by (simp add: handleGetAccount_def accountIDFromRequest_def var_def ParseUint10_itoa a)
  have role: "roleForPrivilege p = car_RoleID req"
    using req(3) by (auto simp: rolePrivileges_def roleForPrivilege_def split: if_splits)
  have auth: "Authenticate st' n q = (if n = car_UserName req
      then car_Enabled req \<noteq> Some False \<and> q = car_Password req else Authenticate st n q)" for n q
    using accounts.create_auth [OF assms(1) create, of n q] req(2)
    by (auto simp: password_ok_def)
  show ?thesis
    by (intro exI [of _ req] exI [of _ id'] exI [of _ "enc_ManagerAccount (toManagerAccount ?a)"])
      (simp add: req(1) resp get account_or_zero_def a writeAccount_def auth jsonHeader_def
        enc_ManagerAccount_def toManagerAccount_def role json_enc)
qed

definition bob_request :: json where
  "bob_request = JObj [(''UserName'', JStr ''bob''), (''Password'', JStr ''pw''), (''RoleId'', JStr ''Operator'')]"

lemma bob_created:
  "rsp_Status (fst (handleCreateAccount (\<lambda>s. s) (Some bob_request) (NewState ''admin'' ''secret''))) = 201"
  by code_simp

lemma created_account_in_force_witness:
  "\<exists>req. decode dec_CreateAccountRequest zero_CreateAccountRequest (Some bob_request) = Some req
    \<and> (\<forall>n q. Authenticate (snd (handleCreateAccount (\<lambda>s. s) (Some bob_request) (NewState ''admin'' ''secret''))) n q =
        (if n = car_UserName req then car_Enabled req \<noteq> Some False \<and> q = car_Password req
         else Authenticate (NewState ''admin'' ''secret'') n q))"
  using created_account_in_force [OF NewState_store_inv prod.collapse [symmetric] bob_created] by blast

text \<open>
  C30: A DELETE of an account answers 204, and from then on its name is refused whatever the
  password, while all other credentials stay as they were. Nothing protects the last account: if
  no other can authenticate, every later request that needs credentials is refused.
\<close>

theorem deleted_account_locked_out:
  assumes "store_inv st" and "accountIDFromRequest vs = Some b" and "Account_of st b = Some a"
  shows "\<exists>st'. handleDeleteAccount vs st = (noContent, st') \<and> Account_of st' b = None
    \<and> (\<forall>n q. Authenticate st' n q \<longleftrightarrow> n \<noteq> acc_Name a \<and> Authenticate st n q)
    \<and> ((\<forall>n q. n \<noteq> acc_Name a \<longrightarrow> \<not> Authenticate st n q) \<longrightarrow> (\<forall>rq. \<not> authorized rq st'))"
proof -
  obtain st' where d: "DeleteAccount st b = (st', None)"
    using accounts.delete_ok [OF assms(1,3)] by blast
  have auth: "Authenticate st' n q \<longleftrightarrow> n \<noteq> acc_Name a \<and> Authenticate st n q" for n q
    by (rule accounts.delete_auth [OF assms(1) d assms(3)])
  have "handleDeleteAccount vs st = (noContent, st')"
    by (simp add: handleDeleteAccount_def assms(2) d)
  then show ?thesis
    by (auto simp: auth authorized_def accounts.delete_account [OF assms(1) d] split: option.split)
qed

lemma deleted_account_locked_out_witness:
  "\<forall>rq. \<not> authorized rq (snd (handleDeleteAccount [(''id'', ''2'')] (NewState ''admin'' ''secret'')))"
proof -
  have acc: "Account_of (NewState ''admin'' ''secret'') 2 = Some \<lparr>acc_ID = 2, acc_Name = ''admin'',
      acc_Privilege = 4, acc_Enabled = True\<rparr>"
    by code_simp
  have "slot_name (user_at (NewState ''admin'' ''secret'') 2) = ''admin''"
    by code_simp
  then have "\<not> Authenticate (NewState ''admin'' ''secret'') n q" if "n \<noteq> ''admin''" for n q
    using that by (auto simp: Authenticate_dir NewState_store_inv dir_auth_def admin_only split: if_splits)
  then show ?thesis
    using deleted_account_locked_out [OF NewState_store_inv admin_delete(1) acc] by force
qed

end
