(* ===== verification/Redfish_Systems_Properties.thy ===== *)
theory Redfish_Systems_Properties
  imports Redfish_Accounts_Properties Machine_Properties
begin

text \<open>
  The computer system over Redfish: the system resource as a client of the boot override contract,
  interpreted on the VM controller, entity tags, and the settings a reset applies.
\<close>

section \<open>Responses and accessors\<close>

lemma statusFailed_status [simp]: "rsp_Status statusFailed = 500"
  by (simp add: statusFailed_def)

text \<open>The answer to a GET of the system, given the state of the virtual CPUs.\<close>

definition system_answer :: "'w redfish_env \<Rightarrow> string \<Rightarrow> 'w redfish \<Rightarrow> Response" where
  "system_answer env st rf =
     (let powerState = mapQMPStatusToRedfish st;
          boot = mi_GetBootOverride (re_machine env) (rf_machine rf);
          etag = generateETag (re_sha256 env) powerState boot (getBootOrder (rf_server rf))
      in writeJSON 200 [(''ETag'', etag)]
           (enc_ComputerSystem (systemResource (rf_server rf) powerState boot
             (getBootOrder (rf_server rf)) etag)))"

lemma handleGetSystem_cases:
  "handleGetSystem env rf =
     (case mi_GetQMPStatus (re_machine env) (rf_machine rf) of
        (Inl e, w) \<Rightarrow> (statusFailed, rf\<lparr>rf_machine := w\<rparr>)
      | (Inr st, w) \<Rightarrow> (system_answer env st (rf\<lparr>rf_machine := w\<rparr>), rf\<lparr>rf_machine := w\<rparr>))"
  by (simp add: handleGetSystem_def on_machine_def system_answer_def Let_def case_prod_beta split: sum.split)

section \<open>Entity tags\<close>

lemma hex_digit_inject: "d < 16 \<Longrightarrow> d' < 16 \<Longrightarrow> hex_digit d = hex_digit d' \<longleftrightarrow> d = d'"
  unfolding hex_digit_def by (rule iffI) (auto dest!: arg_cong [where f = "of_char :: char \<Rightarrow> nat"]
    simp: split: if_splits)

lemma hex_byte_inject:
  "hex_digit (unat b div 16) = hex_digit (unat b' div 16) \<Longrightarrow>
   hex_digit (unat b mod 16) = hex_digit (unat b' mod 16) \<Longrightarrow> b = (b' :: byte)"
proof -
  assume d: "hex_digit (unat b div 16) = hex_digit (unat b' div 16)"
    and m: "hex_digit (unat b mod 16) = hex_digit (unat b' mod 16)"
  have "unat b < 256" "unat b' < 256"
    using unsigned_less [of b, where ?'a = nat] unsigned_less [of b', where ?'a = nat] by simp_all
  then have "unat b div 16 < 16" "unat b' div 16 < 16"
    by auto
  with d m have "unat b div 16 = unat b' div 16" "unat b mod 16 = unat b' mod 16"
    by (simp_all add: hex_digit_inject)
  then have "unat b = unat b'"
    by (metis div_mult_mod_eq)
  then show "b = b'"
    by (simp add: word_unat_eq_iff)
qed

lemma hex_bytes_inject: "hex_bytes bs = hex_bytes bs' \<Longrightarrow> bs = bs'"
  by (induction bs arbitrary: bs') (case_tac [!] bs', auto simp: hex_bytes_def dest: hex_byte_inject)

text \<open>
  The state a tag stands for, as a text: the power state shown for a status, the three parts of the
  boot override, and the boot order with commas between its entries; and the bytes of its hash that
  the tag shows.
\<close>

definition state_text :: "string \<Rightarrow> BootOverride \<Rightarrow> string list \<Rightarrow> string" where
  "state_text st boot order =
     (if st = ''running'' then ''On'' else ''Off'') @ ''-'' @ bo_Enabled boot @ ''-'' @ bo_Target boot
       @ ''-'' @ bo_Mode boot @ ''-''
       @ (case order of [] \<Rightarrow> [] | first # rest \<Rightarrow> first @ concat (map (\<lambda>s. CHR '','' # s) rest))"

definition tag_bytes :: "(byte list \<Rightarrow> byte list) \<Rightarrow> string \<Rightarrow> BootOverride \<Rightarrow> string list \<Rightarrow> byte list" where
  "tag_bytes sha256 st boot order = take 8 (sha256 (bytes_of_string (state_text st boot order)))"

lemma strings_join_commas: "strings_join (s # ss) '','' = s @ concat (map ((#) (CHR '','')) ss)"
  by (induction ss arbitrary: s) simp_all

lemma etag_data_state: "etag_data (mapQMPStatusToRedfish st) boot order = state_text st boot order"
  by (cases order) (simp_all add: etag_data_def state_text_def mapQMPStatusToRedfish_def
      StatusRunning_def strings_join_commas)

lemma generateETag_eq:
  "generateETag sha256 (mapQMPStatusToRedfish st) b os = generateETag sha256 (mapQMPStatusToRedfish st') b' os' \<longleftrightarrow>
    tag_bytes sha256 st b os = tag_bytes sha256 st' b' os'"
  by (auto simp: generateETag_def Let_def tag_bytes_def etag_data_state dest: hex_bytes_inject)

lemma generateETag_not_empty [simp]: "generateETag sha256 p b os \<noteq> []"
  by (simp add: generateETag_def Let_def)

section \<open>The system resource over a boot override store\<close>

locale system_client = boot_override_store get set_override
  for get :: "'w \<Rightarrow> BootOverride"
    and set_override :: "BootOverride \<Rightarrow> 'w \<Rightarrow> mach_error option \<times> 'w" +
  fixes env :: "'w redfish_env"
  assumes set_op: "mi_SetBootOverride (re_machine env) = set_override"
    and get_op: "mi_GetBootOverride (re_machine env) = get"
    and status_frame: "get (snd (mi_GetQMPStatus (re_machine env) w)) = get w"
begin

lemma get_system_frame:
  "handleGetSystem env rf = (resp, rf1) \<Longrightarrow>
    rf_server rf1 = rf_server rf \<and> get (rf_machine rf1) = get (rf_machine rf)
    \<and> (resp = statusFailed \<or> (\<exists>st. resp = system_answer env st rf1))"
  using status_frame [of "rf_machine rf"]
  by (auto simp: handleGetSystem_cases split: prod.splits sum.splits)

lemma check_frame:
  "checkIfMatch env m rf = (r, rf1) \<Longrightarrow>
    rf_server rf1 = rf_server rf \<and> get (rf_machine rf1) = get (rf_machine rf)
    \<and> (\<forall>resp. r = Some resp \<longrightarrow> rsp_Status resp \<in> {412, 500})"
  using status_frame [of "rf_machine rf"]
  by (auto simp: checkIfMatch_def on_machine_def Let_def split: prod.splits sum.splits if_splits)

lemma patch_boot_refused:
  "patchBoot env b rf = (Some resp, rf1) \<Longrightarrow> rf1 = rf \<and> rsp_Status resp = 400"
  using set_invalid_id [of "merge_override b (get (rf_machine rf))" "rf_machine rf"]
    set_valid [of "merge_override b (get (rf_machine rf))" "rf_machine rf"]
  by (cases "valid_override (merge_override b (get (rf_machine rf)))")
    (auto simp: patchBoot_def on_machine_def set_op get_op split: prod.splits if_splits option.splits)

lemma patch_boot_done:
  "patchBoot env b rf = (None, rf1) \<Longrightarrow>
    rf_server rf1 = (if pbs_BootOrder b \<noteq> [] then setBootOrder (pbs_BootOrder b) (rf_server rf)
      else rf_server rf)
    \<and> get (rf_machine rf1) = (if pbs_BootOrder b = [] then merge_override b (get (rf_machine rf))
      else get (rf_machine rf))"
  using set_invalid [of "merge_override b (get (rf_machine rf))" "rf_machine rf"]
    get_set [of "merge_override b (get (rf_machine rf))" "rf_machine rf"]
  by (cases "valid_override (merge_override b (get (rf_machine rf)))")
    (auto simp: patchBoot_def on_machine_def set_op get_op split: prod.splits if_splits option.splits)

end

text \<open>
  The server and the override a PATCH asks for: a boot order that is not empty, else the parts of
  the override that are not empty, and the indicator.
\<close>

definition patched_server :: "PatchSystemRequest \<Rightarrow> RedfishServer \<Rightarrow> RedfishServer" where
  "patched_server req s = s\<lparr>
     s_bootOrder := (case psr_Boot req of
         Some b \<Rightarrow> if pbs_BootOrder b = [] then s_bootOrder s else pbs_BootOrder b
       | None \<Rightarrow> s_bootOrder s),
     s_indicatorLED := (case psr_IndicatorLED req of Some led \<Rightarrow> led | None \<Rightarrow> s_indicatorLED s)\<rparr>"

definition patched_override :: "PatchSystemRequest \<Rightarrow> BootOverride \<Rightarrow> BootOverride" where
  "patched_override req bo =
     (case psr_Boot req of
        None \<Rightarrow> bo
      | Some b \<Rightarrow>
          if pbs_BootOrder b \<noteq> [] then bo
          else \<lparr>bo_Enabled = (if pbs_BootSourceOverrideEnabled b = [] then bo_Enabled bo
                  else pbs_BootSourceOverrideEnabled b),
                bo_Target = (if pbs_BootSourceOverrideTarget b = [] then bo_Target bo
                  else pbs_BootSourceOverrideTarget b),
                bo_Mode = (if pbs_BootSourceOverrideMode b = [] then bo_Mode bo
                  else pbs_BootSourceOverrideMode b)\<rparr>)"

lemma patched_server_code:
  "patched_server req s =
     (let s1 = (case psr_Boot req of
            Some b \<Rightarrow> if pbs_BootOrder b \<noteq> [] then setBootOrder (pbs_BootOrder b) s else s
          | None \<Rightarrow> s)
      in case psr_IndicatorLED req of None \<Rightarrow> s1 | Some led \<Rightarrow> setIndicatorLED led s1)"
  by (simp add: patched_server_def setBootOrder_def setIndicatorLED_def Let_def split: option.split)

lemma patched_override_code:
  "patched_override req bo =
     (case psr_Boot req of
        Some b \<Rightarrow> if pbs_BootOrder b = [] then merge_override b bo else bo
      | None \<Rightarrow> bo)"
  by (cases bo) (simp add: patched_override_def merge_override_def Let_def split: option.split)

context system_client begin

lemma patch_passes:
  assumes "checkIfMatch env (rq_IfMatch rq) rf = (None, rf1)"
  shows "rsp_Status (fst (handlePatchSystem env rq rf)) \<noteq> 412"
proof -
  have "rsp_Status (fst (handleGetSystem env rf2)) \<noteq> 412" for rf2
    by (simp add: handleGetSystem_cases system_answer_def Let_def case_prod_beta split: sum.split)
  moreover have "patchBoot env b rf1 = (Some resp, rf2) \<Longrightarrow> rsp_Status resp \<noteq> 412" for b resp rf2
    using patch_boot_refused by fastforce
  ultimately show ?thesis
    using assms by (auto simp: handlePatchSystem_def split: option.split prod.split)
qed

lemma patch_system_outcome:
  assumes "handlePatchSystem env rq rf = (resp, rf')"
  shows "rf_server rf' = rf_server rf \<and> get (rf_machine rf') = get (rf_machine rf)
      \<and> rsp_Status resp \<in> {400, 412, 500}
    \<or> (\<exists>req. decode dec_PatchSystemRequest zero_PatchSystemRequest (rq_Body rq) = Some req
      \<and> rf_server rf' = patched_server req (rf_server rf)
      \<and> get (rf_machine rf') = patched_override req (get (rf_machine rf))
      \<and> (resp = statusFailed \<or> (\<exists>st. resp = system_answer env st rf')))"
proof -
  obtain c rf1 where c: "checkIfMatch env (rq_IfMatch rq) rf = (c, rf1)"
    by fastforce
  note cf = check_frame [OF c]
  show ?thesis
  proof (cases c)
    case None
    show ?thesis
    proof (cases "decode dec_PatchSystemRequest zero_PatchSystemRequest (rq_Body rq)")
      case (Some req)
      note step = assms [unfolded handlePatchSystem_def c None prod.case option.case Some]
      show ?thesis
      proof (cases "psr_Boot req = None \<and> psr_IndicatorLED req = None")
        case False
        obtain p rf2 where p: "(case psr_Boot req of None \<Rightarrow> (None, rf1)
            | Some b \<Rightarrow> patchBoot env b rf1) = (p, rf2)"
          by fastforce
        show ?thesis
        proof (cases p)
          case (Some r)
          with p obtain b where "patchBoot env b rf1 = (Some r, rf2)"
            by (auto split: option.splits)
          from patch_boot_refused [OF this] show ?thesis
            using step False p Some cf by simp
        next
          case None
          let ?rf3 = "case psr_IndicatorLED req of None \<Rightarrow> rf2
            | Some led \<Rightarrow> rf2\<lparr>rf_server := setIndicatorLED led (rf_server rf2)\<rparr>"
          have g: "handleGetSystem env ?rf3 = (resp, rf')"
            using step p None unfolding if_not_P [OF False] by simp
          have "rf_server ?rf3 = patched_server req (rf_server rf1)
              \<and> get (rf_machine ?rf3) = patched_override req (get (rf_machine rf1))"
            using p None by (cases "psr_Boot req"; cases "psr_IndicatorLED req")
              (auto simp: patched_server_code patched_override_code dest!: patch_boot_done)
          with get_system_frame [OF g] cf Some show ?thesis
            by auto
        qed
      qed (use step cf in auto)
    qed (use assms cf c None in \<open>auto simp: handlePatchSystem_def\<close>)
  qed (use assms cf c in \<open>auto simp: handlePatchSystem_def\<close>)
qed

end

section \<open>The VM controller as the store\<close>

text \<open>The environment of a server whose machine is the VM controller.\<close>

definition with_machine :: "'w machine_env \<Rightarrow> 'w Machine redfish_env \<Rightarrow> 'w Machine redfish_env" where
  "with_machine menv env = env\<lparr>re_machine := redfish_machine menv\<rparr>"

lemma with_machine_simps [simp]:
  "re_machine (with_machine menv env) = redfish_machine menv"
  "re_sha256 (with_machine menv env) = re_sha256 env"
  by (simp_all add: with_machine_def)

lemma redfish_machine_simps [simp]:
  "mi_GetQMPStatus (redfish_machine menv) = GetQMPStatus menv"
  "mi_GetBootOverride (redfish_machine menv) = GetBootOverride"
  "mi_SetBootOverride (redfish_machine menv) = SetBootOverride"
  "mi_Reset (redfish_machine menv) = Reset menv"
  "mi_InsertMedia (redfish_machine menv) = InsertMedia menv"
  "mi_EjectMedia (redfish_machine menv) = EjectMedia menv"
  by (simp_all add: redfish_machine_def)

lemma GetQMPStatus_override [simp]: "bootOverride (snd (GetQMPStatus env m)) = bootOverride m"
  by (auto simp: GetQMPStatus_def getQMPStatusProcess_def on_world_def case_prod_beta Let_def
      split: option.splits sum.splits bool.splits)

interpretation systems: system_client GetBootOverride SetBootOverride "with_machine menv env"
  by unfold_locales (simp_all add: GetBootOverride_def)

section \<open>Settings and resets\<close>

lemma patch_bios_loop_spec:
  assumes "patch_bios_loop attrs s pending = (s', pending')" and "distinct (map fst attrs)"
  shows "map_of (s_biosAttrs s') nm = (case map_of attrs nm of
        Some v \<Rightarrow> if biosAttributeResetRequired nm = Some False then Some v else map_of (s_biosAttrs s) nm
      | None \<Rightarrow> map_of (s_biosAttrs s) nm)
    \<and> map_of pending' nm = (case map_of attrs nm of
        Some v \<Rightarrow> if biosAttributeResetRequired nm = Some False then map_of pending nm else Some v
      | None \<Rightarrow> map_of pending nm)
    \<and> s_biosPendingAttrs s' = s_biosPendingAttrs s
    \<and> (distinct (map fst pending) \<longrightarrow> distinct (map fst pending'))"
  using assms
proof (induction attrs s pending rule: patch_bios_loop.induct)
  case (2 a val attrs s pending)
  then have "map_of attrs a = None" "distinct (map fst attrs)"
    by (simp_all add: map_of_eq_None_iff)
  then show ?case
    using "2.prems"(1) "2.IH" by (cases "biosAttributeResetRequired a = Some False")
      (auto simp: setBiosAttribute_def update_conv' distinct_update split: option.splits)
qed simp

lemma PatchBiosSettings_distinct:
  assumes "decode dec_PatchBiosSettingsRequest zero_PatchBiosSettingsRequest body = Some req"
  shows "distinct (map fst (pbsr_Attributes req))"
proof -
  have keeps: "distinct (map fst (pbsr_Attributes r'))"
    if "dec_members [(''Attributes'', set_map pbsr_Attributes (\<lambda>x r. r\<lparr>pbsr_Attributes := x\<rparr>))] ms r
        = Some r'" "distinct (map fst (pbsr_Attributes r))" for ms r r'
    by (rule dec_members_keeps [where P = "\<lambda>r. distinct (map fst (pbsr_Attributes r))", OF _ that]) (auto simp: set_map_def distinct_maps_copy split: json.splits)
  show ?thesis
    using assms by (auto simp: decode_def dec_PatchBiosSettingsRequest_def dec_struct_def
        zero_PatchBiosSettingsRequest_def dest: keeps split: option.splits json.splits)
qed

lemma onSystemPowerOnReset_eq:
  "onSystemPowerOnReset s = s\<lparr>s_biosAttrs := maps_copy (s_biosAttrs s) (s_biosPendingAttrs s),
     s_biosPendingAttrs := [],
     s_firmwareVersions := (case s_stagedFirmware s ComponentBIOS of
        None \<Rightarrow> s_firmwareVersions s | Some v \<Rightarrow> (s_firmwareVersions s)(ComponentBIOS \<mapsto> v)),
     s_stagedFirmware := (s_stagedFirmware s)(ComponentBIOS := None)\<rparr>"
  by (rule RedfishServer.equality) (auto simp: onSystemPowerOnReset_def applyPendingBiosSettings_def
      activateStagedFirmware_def fun_upd_idem split: option.split)

section \<open>Properties\<close>

text \<open>
  C20: A PATCH of the system is all or nothing up to its answer: refused with 400 (malformed,
  nothing to patch, an override the machine rejects) or 412 it changes neither the server nor the
  boot override; answered with 200 it has changed exactly the boot order or the override and the
  indicator it names, the answer shows the new state, and no other status but 500 occurs.
\<close>

theorem patch_system_all_or_nothing:
  assumes "handlePatchSystem (with_machine menv env) rq rf = (resp, rf')"
  shows "(rsp_Status resp \<in> {400, 412} \<longrightarrow> rf_server rf' = rf_server rf
        \<and> GetBootOverride (rf_machine rf') = GetBootOverride (rf_machine rf))
    \<and> (rsp_Status resp = 200 \<longrightarrow>
        (\<exists>req st. decode dec_PatchSystemRequest zero_PatchSystemRequest (rq_Body rq) = Some req
          \<and> rf_server rf' = patched_server req (rf_server rf)
          \<and> GetBootOverride (rf_machine rf') = patched_override req (GetBootOverride (rf_machine rf))
          \<and> resp = system_answer (with_machine menv env) st rf'))
    \<and> rsp_Status resp \<in> {200, 400, 412, 500}"
  using systems.patch_system_outcome [OF assms] by (auto simp: system_answer_def Let_def)

text \<open>
  C21: Entity tags guard the power state, the boot override and the boot order: a PATCH with the
  tag of an earlier GET is refused with 412 exactly if the eight bytes of the hash the tag shows
  differ from those of the current state: of the text of the power state, the parts of the override
  and the entries of the boot order.
\<close>

theorem etag_guards_patch:
  assumes "handleGetSystem (with_machine menv env) rf = (resp, rf1)"
    and "map_of (rsp_Header resp) ''ETag'' = Some (rq_IfMatch rq)"
    and "fst (GetQMPStatus menv (rf_machine rf)) = Inr st"
    and "fst (GetQMPStatus menv (rf_machine rf2)) = Inr st2"
  shows "rsp_Status (fst (handlePatchSystem (with_machine menv env) rq rf2)) = 412 \<longleftrightarrow>
    tag_bytes (re_sha256 env) st (GetBootOverride (rf_machine rf)) (s_bootOrder (rf_server rf))
      \<noteq> tag_bytes (re_sha256 env) st2 (GetBootOverride (rf_machine rf2)) (s_bootOrder (rf_server rf2))"
proof -
  let ?tag = "\<lambda>st rf. generateETag (re_sha256 env) (mapQMPStatusToRedfish st)
    (GetBootOverride (rf_machine rf)) (getBootOrder (rf_server rf))"
  obtain w0 where q0: "GetQMPStatus menv (rf_machine rf) = (Inr st, w0)"
    using assms(3) by (metis prod.collapse)
  have "GetBootOverride w0 = GetBootOverride (rf_machine rf)"
    using systems.status_frame [where menv = menv and w = "rf_machine rf"] by (simp add: q0)
  then have tag: "rq_IfMatch rq = ?tag st rf"
    using assms(1,2) q0 by (auto simp: handleGetSystem_cases system_answer_def Let_def jsonHeader_def)
  obtain w where q: "GetQMPStatus menv (rf_machine rf2) = (Inr st2, w)"
    using assms(4) by (metis prod.collapse)
  have w: "GetBootOverride w = GetBootOverride (rf_machine rf2)"
    using systems.status_frame [where menv = menv and w = "rf_machine rf2"] by (simp add: q)
  have check: "checkIfMatch (with_machine menv env) (rq_IfMatch rq) rf2 =
      (if ?tag st rf \<noteq> ?tag st2 rf2 then Some (writeError 412 ''PreconditionFailed'' ''ETag mismatch'')
       else None, rf2\<lparr>rf_machine := w\<rparr>)"
    by (simp add: checkIfMatch_def on_machine_def q w Let_def tag)
  show ?thesis
    unfolding generateETag_eq [symmetric] getBootOrder_def [symmetric] using check systems.patch_passes [where menv = menv and env = env and rq = rq and rf = rf2]
    by (cases "?tag st rf = ?tag st2 rf2") (auto simp: handlePatchSystem_def)
qed

text \<open>
  The reset action accepts exactly the types the machine knows. Refused with 400 it changes
  nothing; an error of the machine is answered with 500 and leaves the server as it was; otherwise
  the answer is 204 and, after a reset that powers the system on, the pending BIOS settings are
  current, none is pending, and a staged BIOS version is the installed one.
\<close>

theorem reset_action_outcome:
  assumes "handleResetAction (with_machine menv env) body rf = (resp, rf')"
  shows "(rsp_Status resp = 400 \<longrightarrow> rf' = rf)
    \<and> (rsp_Status resp \<noteq> 400 \<longrightarrow>
        (\<exists>req e. decode dec_ResetRequest zero_ResetRequest body = Some req
          \<and> rr_ResetType req \<in> reset_types
          \<and> Reset menv (rr_ResetType req) (rf_machine rf) = (e, rf_machine rf')
          \<and> rsp_Status resp = (if e = None then 204 else 500)
          \<and> rf_server rf' =
              (if e = None \<and> rr_ResetType req \<notin> {''ForceOff'', ''GracefulShutdown''}
               then (rf_server rf)\<lparr>
                 s_biosAttrs := maps_copy (s_biosAttrs (rf_server rf)) (s_biosPendingAttrs (rf_server rf)),
                 s_biosPendingAttrs := [],
                 s_firmwareVersions := (case s_stagedFirmware (rf_server rf) ComponentBIOS of
                    None \<Rightarrow> s_firmwareVersions (rf_server rf)
                  | Some v \<Rightarrow> (s_firmwareVersions (rf_server rf))(ComponentBIOS \<mapsto> v)),
                 s_stagedFirmware := (s_stagedFirmware (rf_server rf))(ComponentBIOS := None)\<rparr>
               else rf_server rf)))"
proof (cases "decode dec_ResetRequest zero_ResetRequest body")
  case (Some req)
  show ?thesis
  proof (cases "rr_ResetType req \<in> reset_types")
    case True
    obtain e w where r: "Reset menv (rr_ResetType req) (rf_machine rf) = (e, w)"
      by fastforce
    have v: "validResetTypes (rr_ResetType req)"
      "powerOnResetTypes (rr_ResetType req) \<longleftrightarrow> rr_ResetType req \<notin> {''ForceOff'', ''GracefulShutdown''}"
      using True by (auto simp: validResetTypes_def powerOnResetTypes_def reset_types_def)
    show ?thesis
      using assms True
      by (cases e) (auto simp: handleResetAction_def on_machine_def Some v r onSystemPowerOnReset_eq)
  qed (use assms Some in \<open>auto simp: handleResetAction_def validResetTypes_def reset_types_def\<close>)
qed (use assms in \<open>simp add: handleResetAction_def\<close>)

text \<open>
  C19: BIOS attributes that need no reset take effect at once, all others wait: they are pending
  after the PATCH, with the current value as before, and are current after the next reset that
  powers the system on, which leaves nothing pending.
\<close>

theorem bios_settings_take_effect:
  assumes "handlePatchBiosSettings body (rf_server rf) = (resp, s1)" and "rsp_Status resp = 204"
    and "decode dec_PatchBiosSettingsRequest zero_PatchBiosSettingsRequest body = Some req"
    and "map_of (pbsr_Attributes req) nm = Some val"
    and "handleResetAction (with_machine menv env) rbody (rf\<lparr>rf_server := s1\<rparr>) = (rresp, rf')"
    and "rsp_Status rresp = 204"
    and "decode dec_ResetRequest zero_ResetRequest rbody = Some rreq"
    and "distinct (map fst (getBiosPendingAttributes (rf_server rf)))" and "powerOnResetTypes (rr_ResetType rreq)"
  shows "if biosAttributeResetRequired nm = Some False
    then map_of (getBiosAttributes s1) nm = Some val
    else map_of (getBiosAttributes s1) nm = map_of (getBiosAttributes (rf_server rf)) nm
      \<and> map_of (getBiosPendingAttributes s1) nm = Some val
      \<and> map_of (getBiosAttributes (rf_server rf')) nm = Some val
      \<and> getBiosPendingAttributes (rf_server rf') = []"
proof -
  have dist: "distinct (map fst (pbsr_Attributes req))"
    by (rule PatchBiosSettings_distinct [OF assms(3)])
  obtain s' pending where loop: "patch_bios_loop (pbsr_Attributes req) (rf_server rf) [] = (s', pending)"
    by fastforce
  note spec = patch_bios_loop_spec [OF loop dist, of nm]
  have s1: "s1 = (if pending \<noteq> [] then mergeBiosPendingAttributes pending s' else s')"
    using assms(1-3) loop by (auto simp: handlePatchBiosSettings_def split: if_splits)
  have s1_attrs: "s_biosAttrs s1 = s_biosAttrs s'"
    by (simp add: s1 mergeBiosPendingAttributes_def)
  show ?thesis
  proof (cases "biosAttributeResetRequired nm = Some False")
    case False
    then have "map_of pending nm = Some val"
      using spec assms(4) by simp
    then have p: "map_of (s_biosPendingAttrs s1) nm = Some val"
      using spec by (auto simp: s1 mergeBiosPendingAttributes_def map_of_maps_copy)
    have d: "distinct (map fst (s_biosPendingAttrs s1))"
      using assms(8) spec by (auto simp: s1 mergeBiosPendingAttributes_def getBiosPendingAttributes_def
          distinct_maps_copy)
    have "rf_server rf' = onSystemPowerOnReset s1"
      using assms(5-7,9) by (auto simp: handleResetAction_def on_machine_def
          split: prod.splits option.splits if_splits)
    then show ?thesis
      using False spec assms(4) p d
      by (simp add: getBiosAttributes_def getBiosPendingAttributes_def s1_attrs onSystemPowerOnReset_eq
          map_of_maps_copy)
  qed (use spec assms(4) s1_attrs in \<open>simp add: getBiosAttributes_def\<close>)
qed

text \<open>
  Virtual media are best effort: any InsertMedia with an image is answered with 200, and the
  resource shows that image as inserted until it is ejected. The image the machine attaches is the
  downloaded copy; if the download fails the machine keeps what the download left and no later
  reset attaches anything, though the resource shows the image.
\<close>

theorem virtual_media_best_effort:
  assumes "decode dec_InsertMediaRequest zero_InsertMediaRequest body = Some req" and "imr_Image req \<noteq> []"
    and "handleInsertMedia (with_machine menv env) body rf = (resp, rf1)"
    and "handleEjectMedia (with_machine menv env) rf2 = (resp2, rf3)"
  shows "resp = statusOK \<and> resp2 = statusOK
    \<and> vm_Image (virtualMediaResource (rf_server rf1)) = imr_Image req
    \<and> vm_Inserted (virtualMediaResource (rf_server rf1)) \<and> \<not> vm_Inserted (virtualMediaResource (rf_server rf3))
    \<and> rf_machine rf3 = snd (EjectMedia menv (rf_machine rf2))
    \<and> rf_machine rf1 =
        (case fetchMedia (fetcher menv) (imr_Image req) vmediaLocalPath (rf_machine rf) of
           (Inl e, m) \<Rightarrow> m
         | (Inr path, m) \<Rightarrow> snd (lift_qmp (q_BlockdevChangeMedium (qmpClient menv) ''ide0-cd0'' path)
             (set_media menv path m)))"
  using assms
  by (auto simp: handleInsertMedia_def handleEjectMedia_def on_machine_def virtualMediaResource_def
      getCurrentMedia_def setCurrentMedia_def InsertMedia_def simp del: lift_simps
      split: prod.splits sum.splits)

section \<open>Witnesses\<close>

text \<open>A server on the VM controller, with a process that hangs and a hash that is the identity.\<close>

definition plain_env :: "proc_world Machine redfish_env" where
  "plain_env = \<lparr>re_machine = redfish_machine (sample_env None stubborn_os), re_errText = (\<lambda>e. []),
      re_sha256 = (\<lambda>bs. bs), re_quote = (\<lambda>s. s), re_urlParse = (\<lambda>u. Some (''http'', ''host''))\<rparr>"

abbreviation "vm_env \<equiv> with_machine (sample_env None stubborn_os) plain_env"

definition vm_redfish :: "proc_world Machine redfish" where
  "vm_redfish = \<lparr>rf_server = NewRedfishServer ''admin'' ''secret'', rf_machine = hung_machine\<rparr>"

lemma vm_redfish_simps [simp]:
  "rf_machine vm_redfish = hung_machine" "rf_server vm_redfish = NewRedfishServer ''admin'' ''secret''"
  by (simp_all add: vm_redfish_def)

lemma hung_status [simp]:
  "GetQMPStatus (sample_env None stubborn_os) (hung_machine\<lparr>bootOverride := bo\<rparr>)
     = (Inr StatusRunning, hung_machine\<lparr>bootOverride := bo\<rparr>)"
  "GetQMPStatus (sample_env None stubborn_os) hung_machine = (Inr StatusRunning, hung_machine)"
  by (simp_all add: GetQMPStatus_def getQMPStatusProcess_def sample_env_def on_world_def ready_qmp_def
      process_manager_def hung_machine_def NewMachine_def IsRunning_def running_at_def)

lemma hung_on: "Reset (sample_env None stubborn_os) ''On'' hung_machine = (None, hung_machine)"
  using procs.powerOn_running [of stubborn_os hung_machine]
  by (simp add: Reset_def resetProcessMode_def hung_machine_def NewMachine_def IsRunning_def running_at_def)

definition led_patch :: json where
  "led_patch = JObj [(''IndicatorLED'', JStr ''Lit'')]"

lemma led_patch_decoded:
  "decode dec_PatchSystemRequest zero_PatchSystemRequest (Some led_patch) =
     Some \<lparr>psr_Boot = None, psr_IndicatorLED = Some ''Lit''\<rparr>"
  by code_simp

lemma patch_system_all_or_nothing_witness:
  "s_indicatorLED (rf_server (snd (handlePatchSystem vm_env
     (request ''PATCH'' ''/redfish/v1/Systems/1'' None (Some led_patch)) vm_redfish))) = ''Lit''"
proof -
  let ?p = "handlePatchSystem vm_env
    (request ''PATCH'' ''/redfish/v1/Systems/1'' None (Some led_patch)) vm_redfish"
  have "rsp_Status (fst ?p) = 200"
    by (simp add: handlePatchSystem_def checkIfMatch_def request_def led_patch_decoded
        handleGetSystem_cases system_answer_def Let_def)
  then show ?thesis
    using patch_system_all_or_nothing [OF prod.collapse [symmetric], of "sample_env None stubborn_os"
        plain_env "request ''PATCH'' ''/redfish/v1/Systems/1'' None (Some led_patch)" vm_redfish]
    by (auto simp: led_patch_decoded request_def patched_server_def)
qed

lemma etag_guards_patch_witness:
  "rsp_Status (fst (handlePatchSystem vm_env ((request ''PATCH'' [] None (Some led_patch))
       \<lparr>rq_IfMatch := generateETag (\<lambda>bs. bs) ''On'' (bootOverride hung_machine) [''Pxe'', ''Hdd'', ''Cd'']\<rparr>)
     (vm_redfish\<lparr>rf_machine := hung_machine\<lparr>bootOverride :=
         \<lparr>bo_Enabled = ''Once'', bo_Target = ''Pxe'', bo_Mode = ''UEFI''\<rparr>\<rparr>\<rparr>))) = 412"
  (is "rsp_Status (fst (handlePatchSystem _ ?rq ?rf2)) = _")
proof -
  have order: "getBootOrder (rf_server vm_redfish) = [''Pxe'', ''Hdd'', ''Cd'']"
    by (simp add: getBootOrder_def NewRedfishServer_def)
  have on: "mapQMPStatusToRedfish StatusRunning = ''On''"
    by (simp add: mapQMPStatusToRedfish_def)
  have sha: "re_sha256 plain_env = (\<lambda>bs. bs)"
    by (simp add: plain_env_def)
  have get: "handleGetSystem vm_env vm_redfish = (system_answer vm_env StatusRunning vm_redfish, vm_redfish)"
    by (simp add: handleGetSystem_cases vm_redfish_def)
  have tag: "map_of (rsp_Header (system_answer vm_env StatusRunning vm_redfish)) ''ETag'' = Some (rq_IfMatch ?rq)"
    unfolding system_answer_def Let_def order on writeJSON_simps jsonHeader_def
    by (simp add: sha GetBootOverride_def)
  have "tag_bytes (\<lambda>bs. bs) StatusRunning \<lparr>bo_Enabled = ''Disabled'', bo_Target = ''None'', bo_Mode = ''UEFI''\<rparr>
          [''Pxe'', ''Hdd'', ''Cd''] \<noteq> tag_bytes (\<lambda>bs. bs) StatusRunning \<lparr>bo_Enabled = ''Once'', bo_Target = ''Pxe'', bo_Mode = ''UEFI''\<rparr>
          [''Pxe'', ''Hdd'', ''Cd'']"
    by code_simp
  moreover have "bootOverride hung_machine = \<lparr>bo_Enabled = ''Disabled'', bo_Target = ''None'', bo_Mode = ''UEFI''\<rparr>"
    by (simp add: hung_machine_def NewMachine_def)
  moreover have "s_bootOrder (rf_server ?rf2) = [''Pxe'', ''Hdd'', ''Cd'']"
    using order by (simp add: getBootOrder_def)
  moreover have "fst (GetQMPStatus (sample_env None stubborn_os) (rf_machine ?rf2)) = Inr StatusRunning"
    "fst (GetQMPStatus (sample_env None stubborn_os) (rf_machine vm_redfish)) = Inr StatusRunning"
    by simp_all
  ultimately show ?thesis
    using etag_guards_patch [OF get tag, of StatusRunning ?rf2 StatusRunning]
    unfolding order [unfolded getBootOrder_def] sha by (simp add: GetBootOverride_def)
qed

lemma reset_action_outcome_witness:
  "rsp_Status (fst (handleResetAction vm_env (Some (JObj [(''ResetType'', JStr ''On'')])) vm_redfish)) = 204
   \<and> s_biosPendingAttrs (rf_server (snd (handleResetAction vm_env
        (Some (JObj [(''ResetType'', JStr ''On'')])) vm_redfish))) = []"
proof -
  have d: "decode dec_ResetRequest zero_ResetRequest (Some (JObj [(''ResetType'', JStr ''On'')]))
      = Some \<lparr>rr_ResetType = ''On''\<rparr>"
    by code_simp
  have "rsp_Status (fst (handleResetAction vm_env (Some (JObj [(''ResetType'', JStr ''On'')])) vm_redfish)) = 204"
    by (simp add: handleResetAction_def on_machine_def d validResetTypes_def hung_on)
  then show ?thesis
    using reset_action_outcome [OF prod.collapse [symmetric], of "sample_env None stubborn_os" plain_env
        "Some (JObj [(''ResetType'', JStr ''On'')])" vm_redfish]
    by (auto simp: d hung_on)
qed

lemma bios_settings_take_effect_witness:
  "\<exists>s1 rf'. handlePatchBiosSettings (Some (JObj [(''Attributes'', JObj [(''BootMode'', JStr ''Bios'')])]))
      (rf_server vm_redfish) = (noContent, s1)
    \<and> handleResetAction vm_env (Some (JObj [(''ResetType'', JStr ''On'')])) (vm_redfish\<lparr>rf_server := s1\<rparr>)
        = (noContent, rf')
    \<and> map_of (getBiosAttributes s1) ''BootMode'' = Some (JStr ''Uefi'')
    \<and> map_of (getBiosAttributes (rf_server rf')) ''BootMode'' = Some (JStr ''Bios'')"
proof -
  have d: "decode dec_ResetRequest zero_ResetRequest (Some (JObj [(''ResetType'', JStr ''On'')]))
      = Some \<lparr>rr_ResetType = ''On''\<rparr>"
    by code_simp
  have b: "decode dec_PatchBiosSettingsRequest zero_PatchBiosSettingsRequest
      (Some (JObj [(''Attributes'', JObj [(''BootMode'', JStr ''Bios'')])])) =
      Some \<lparr>pbsr_Attributes = [(''BootMode'', JStr ''Bios'')]\<rparr>"
    by code_simp
  obtain s1 where p: "handlePatchBiosSettings
      (Some (JObj [(''Attributes'', JObj [(''BootMode'', JStr ''Bios'')])])) (rf_server vm_redfish) = (noContent, s1)"
    by (simp add: handlePatchBiosSettings_def b biosAttributeResetRequired_eq)
  obtain rf' where r: "handleResetAction vm_env (Some (JObj [(''ResetType'', JStr ''On'')]))
      (vm_redfish\<lparr>rf_server := s1\<rparr>) = (noContent, rf')"
    by (simp add: handleResetAction_def on_machine_def d validResetTypes_def hung_on)
  show ?thesis
    using bios_settings_take_effect [OF p _ b, of "''BootMode''" "JStr ''Bios''", OF _ _ r _ d] p r
    by (simp add: biosAttributeResetRequired_eq powerOnResetTypes_def getBiosAttributes_def
        getBiosPendingAttributes_def NewRedfishServer_def)
qed

lemma virtual_media_best_effort_witness:
  "vm_Image (virtualMediaResource (rf_server (snd (handleInsertMedia vm_env
      (Some (JObj [(''Image'', JStr ''http://host/a.iso'')])) vm_redfish)))) = ''http://host/a.iso''
   \<and> rf_machine (snd (handleInsertMedia vm_env (Some (JObj [(''Image'', JStr ''http://host/a.iso'')])) vm_redfish))
       = hung_machine"
proof -
  have d: "decode dec_InsertMediaRequest zero_InsertMediaRequest
      (Some (JObj [(''Image'', JStr ''http://host/a.iso'')])) = Some \<lparr>imr_Image = ''http://host/a.iso'', imr_Inserted = False\<rparr>"
    by code_simp
  have f: "fetchMedia (fetcher (sample_env None stubborn_os)) ''http://host/a.iso'' vmediaLocalPath hung_machine
      = (Inl (FetchError ''no network''), hung_machine)"
    by (simp add: fetchMedia_def has_prefix_def on_world_def sample_env_def no_fetcher_def hung_machine_def NewMachine_def)
  show ?thesis
    using virtual_media_best_effort [OF d _ prod.collapse [symmetric] prod.collapse [symmetric],
        of "sample_env None stubborn_os" plain_env vm_redfish vm_redfish]
    by (simp add: f)
qed

end
