(* ===== verification/Redfish_Runs.thy ===== *)
theory Redfish_Runs
  imports Redfish_Systems_Properties
begin

text \<open>
  Runs of the Redfish server with the goroutines of its firmware updates: requests and the critical
  sections of the updates interleave freely. The state is the server's world and, for each update
  started, the request, what its download turned out to be, and how far it is.
\<close>

section \<open>The plan of an update\<close>

text \<open>The critical sections of \<open>runFirmwareUpdate\<close>, by the outcome of the download.\<close>

definition update_plan :: "string \<Rightarrow> string \<Rightarrow> firmware_error + Package \<Rightarrow> task_step list" where
  "update_plan end uri r =
     (case r of
        Inl e \<Rightarrow> [TaskRunning, TaskFailed end e]
      | Inr pkg \<Rightarrow> [TaskRunning, TaskProgress 10, TaskProgress 30, TaskProgress 50, TaskProgress 70,
          StagePackage pkg, TaskCompleted end uri pkg])"

lemma runFirmwareUpdate_plan:
  "runFirmwareUpdate json_text http_do end u req =
     update_plan end (fr_ImageURI req) (accepted json_text http_do req)"
  by (simp add: runFirmwareUpdate_def Run_background update_plan_def progress_steps_def Let_def
      split: sum.split)

definition task_effect :: "(firmware_error \<Rightarrow> string) \<Rightarrow> string \<Rightarrow> task_step \<Rightarrow> Task \<Rightarrow> Task" where
  "task_effect errText id' st t =
     (let c = t\<lparr>task_Messages := copy_messages (task_Messages t)\<rparr>
      in case st of
        TaskRunning \<Rightarrow> task_running c
      | TaskProgress percent \<Rightarrow> task_progress percent c
      | TaskFailed end e \<Rightarrow> task_failed id' end (errText e) c
      | StagePackage pkg \<Rightarrow> t
      | TaskCompleted end imageURI pkg \<Rightarrow> task_completed end imageURI pkg c)"

lemma task_step_get:
  "getTask id'' (do_task_step errText id' st s) =
     (if id'' = id' then map_option (task_effect errText id' st) (getTask id' s) else getTask id'' s)"
  by (cases st; cases "map_of (s_tasks s) id'") (auto simp: do_task_step_def updateTask_def getTask_def task_effect_def Let_def
      stageFirmware_def update_conv' split: option.split)

lemma task_step_keys [simp]:
  "map fst (s_tasks (do_task_step errText id' st s)) = map fst (s_tasks s)"
proof -
  have "map_of m k = Some v \<Longrightarrow> map fst (AList.update k w m) = map fst m" for m k v and w :: Task
    by (induction m) auto
  then show ?thesis
    by (cases st) (auto simp: do_task_step_def updateTask_def Let_def stageFirmware_def split: option.split)
qed

lemma task_step_frame [simp]:
  "s_nextTaskID (do_task_step errText id' st s) = s_nextTaskID s"
  "s_firmwareVersions (do_task_step errText id' st s) = s_firmwareVersions s"
  "s_stagedFirmware (do_task_step errText id' st s) = (case st of
     StagePackage pkg \<Rightarrow> (s_stagedFirmware s)(pkg_Component pkg \<mapsto> pkg_Version pkg)
   | _ \<Rightarrow> s_stagedFirmware s)"
  by (cases st; simp add: do_task_step_def updateTask_def Let_def stageFirmware_def split: option.split)+

text \<open>A task as it is created.\<close>

definition new_task :: "string \<Rightarrow> string \<Rightarrow> string \<Rightarrow> Task" where
  "new_task id' tm nm =
     \<lparr>task_ODataType = ''#Task.v1_4_3.Task'', task_ODataID = taskPath id', task_ID = id',
      task_Name = nm, task_TaskState = ''New'', task_TaskStatus = ''OK'',
      task_PercentComplete = 0, task_StartTime = tm, task_EndTime = [],
      task_TaskMonitor = taskPath id', task_Messages = Some []\<rparr>"

lemma createTask_eq:
  "createTask tm nm s =
     (new_task (taskID (Suc (s_nextTaskID s))) tm nm,
      s\<lparr>s_nextTaskID := Suc (s_nextTaskID s),
        s_tasks := AList.update (taskID (Suc (s_nextTaskID s)))
          (new_task (taskID (Suc (s_nextTaskID s))) tm nm) (s_tasks s)\<rparr>)"
  by (simp add: createTask_def new_task_def Let_def)

lemma taskID_inject [simp]: "taskID m = taskID n \<longleftrightarrow> m = n"
  by (simp add: taskID_def pad_zero_inject)

lemma taskID_less: "m < 10 ^ 12 \<Longrightarrow> n < 10 ^ 12 \<Longrightarrow> taskID m < taskID n \<longleftrightarrow> m < n"
  unfolding taskID_def by (simp add: pad_zero_less_iff)

section \<open>Jobs\<close>

record update_job =
  uj_id :: string
  uj_start :: string
  uj_request :: Request
  uj_result :: "firmware_error + Package"
  uj_end :: string
  uj_done :: "task_step list"
  uj_rest :: "task_step list"

text \<open>The job of a goroutine, given when it starts and ends and what the network answers.\<close>

fun start_job ::
    "(byte list \<Rightarrow> json option) \<Rightarrow> (http_get \<Rightarrow> http_answer) \<Rightarrow> string \<Rightarrow> string \<Rightarrow> Updater
      \<Rightarrow> goroutine \<Rightarrow> update_job list" where
  "start_job json_text http_do tm end u (FirmwareUpdate id' req) =
     [\<lparr>uj_id = id', uj_start = tm, uj_request = req, uj_result = accepted json_text http_do req,
       uj_end = end, uj_done = [], uj_rest = runFirmwareUpdate json_text http_do end u req\<rparr>]"
| "start_job json_text http_do tm end u (Delivery d p) = []"

definition job_task :: "(firmware_error \<Rightarrow> string) \<Rightarrow> update_job \<Rightarrow> Task" where
  "job_task errText j = fold (task_effect errText (uj_id j)) (uj_done j)
     (new_task (uj_id j) (uj_start j) (''Firmware Update: '' @ fr_ImageURI (uj_request j)))"

definition job_ok :: "update_job \<Rightarrow> bool" where
  "job_ok j \<longleftrightarrow> uj_done j @ uj_rest j = update_plan (uj_end j) (fr_ImageURI (uj_request j)) (uj_result j)
     \<and> (\<forall>pkg. uj_result j = Inr pkg \<longrightarrow> valid_package pkg
          \<and> (fr_Targets (uj_request j) = [] \<or> pkg_Component pkg \<in> set (fr_Targets (uj_request j))))"

text \<open>What a client sees of a job's task.\<close>

definition task_phase :: "update_job \<Rightarrow> Task \<Rightarrow> bool" where
  "task_phase j t \<longleftrightarrow> task_ID t = uj_id j \<and> task_StartTime t = uj_start j \<and>
     (if uj_done j = [] then task_TaskState t = ''New'' \<and> task_PercentComplete t = 0 \<and> task_EndTime t = []
      else if uj_rest j \<noteq> []
      then task_TaskState t = ''Running'' \<and> task_PercentComplete t \<in> {0, 10, 30, 50, 70} \<and> task_EndTime t = []
      else task_EndTime t = uj_end j \<and>
        (case uj_result j of
           Inr pkg \<Rightarrow> task_TaskState t = ''Completed'' \<and> task_TaskStatus t = ''OK'' \<and> task_PercentComplete t = 100
         | Inl e \<Rightarrow> task_TaskState t = ''Exception'' \<and> task_TaskStatus t = ''Critical''
             \<and> task_PercentComplete t = 0))"

lemma task_effect_ID [simp]:
  "task_ID (task_effect errText id' st t) = task_ID t"
  "task_StartTime (task_effect errText id' st t) = task_StartTime t"
  by (cases st; simp add: task_effect_def task_running_def task_progress_def task_failed_def
      task_completed_def Let_def)+

lemma fold_task_effect_ID [simp]:
  "task_ID (fold (task_effect errText id') sts t) = task_ID t"
  "task_StartTime (fold (task_effect errText id') sts t) = task_StartTime t"
  by (induction sts arbitrary: t) simp_all

lemma job_task_phase:
  assumes "job_ok j"
  shows "task_phase j (job_task errText j)"
proof -
  note defs = task_phase_def job_task_def task_effect_def task_running_def task_progress_def
    task_failed_def task_completed_def new_task_def
  show ?thesis
  proof (cases "uj_result j")
    case (Inl e)
    then have "uj_done j @ uj_rest j = [TaskRunning, TaskFailed (uj_end j) e]"
      using assms by (simp add: job_ok_def update_plan_def)
    then show ?thesis
      by (auto simp: append_eq_Cons_conv defs Inl Let_def)
  next
    case (Inr pkg)
    then have "uj_done j @ uj_rest j = [TaskRunning, TaskProgress 10, TaskProgress 30, TaskProgress 50,
        TaskProgress 70, StagePackage pkg, TaskCompleted (uj_end j) (fr_ImageURI (uj_request j)) pkg]"
      using assms by (simp add: job_ok_def update_plan_def)
    then show ?thesis
      by (auto simp: append_eq_Cons_conv defs Inr Let_def)
  qed
qed

lemma StagePackage_plan:
  assumes "job_ok j" and "StagePackage pkg \<in> set (uj_done j)"
  shows "uj_result j = Inr pkg"
proof -
  have "StagePackage pkg \<in> set (update_plan (uj_end j) (fr_ImageURI (uj_request j)) (uj_result j))"
    using assms unfolding job_ok_def by (metis UnCI set_append)
  then show ?thesis
    by (auto simp: update_plan_def split: sum.splits)
qed

section \<open>Steps\<close>

text \<open>
  One request handled, whatever it is, or one critical section of a goroutine. Handlers are
  atomic here; each takes the server's lock for every access of the tasks and the versions.
\<close>

inductive update_step ::
    "'w redfish_env \<Rightarrow> (HttpRequest \<Rightarrow> Response) \<Rightarrow> (firmware_error \<Rightarrow> string)
      \<Rightarrow> (byte list \<Rightarrow> json option) \<Rightarrow> 'w redfish \<times> update_job list
      \<Rightarrow> 'w redfish \<times> update_job list \<Rightarrow> bool"
  for env novnc errText json_text where
  handle: "run_handler env novnc tm h vs rq rf = (resp, rf', gs) \<Longrightarrow>
     update_step env novnc errText json_text (rf, js)
       (rf', js @ concat (map (start_job json_text http_do tm end (s_firmwareUpdater (rf_server rf))) gs))"
| goroutine: "uj_rest j = st # rest \<Longrightarrow>
     update_step env novnc errText json_text (rf, js1 @ j # js2)
       (rf\<lparr>rf_server := do_task_step errText (uj_id j) st (rf_server rf)\<rparr>,
        js1 @ j\<lparr>uj_done := uj_done j @ [st], uj_rest := rest\<rparr> # js2)"

text \<open>What the step relation is about: tasks and firmware versions.\<close>

definition update_view ::
    "RedfishServer \<Rightarrow> (string \<times> Task) list \<times> nat \<times> (Component \<rightharpoonup> string) \<times> (Component \<rightharpoonup> string)" where
  "update_view s = (s_tasks s, s_nextTaskID s, s_firmwareVersions s, s_stagedFirmware s)"

lemma setters_update_view [simp]:
  "update_view (setBiosAttribute nm val s) = update_view s"
  "update_view (mergeBiosPendingAttributes attrs s) = update_view s"
  "update_view (setManagerAttribute nm val s) = update_view s"
  "update_view (setLastResetTime t s) = update_view s"
  "update_view (setBootOrder order s) = update_view s"
  "update_view (setIndicatorLED led s) = update_view s"
  "update_view (setCurrentMedia img s) = update_view s"
  "update_view (s\<lparr>s_users := st\<rparr>) = update_view s"
  "update_view (s\<lparr>s_subscriptions := subs\<rparr>) = update_view s"
  "update_view (s\<lparr>s_nextSubscriptionID := n, s_subscriptions := subs\<rparr>) = update_view s"
  "update_view (s\<lparr>s_nextSubscriptionID := n\<rparr>) = update_view s"
  "update_view (s\<lparr>s_nextEventID := n\<rparr>) = update_view s"
  by (simp_all add: update_view_def setBiosAttribute_def mergeBiosPendingAttributes_def
      setManagerAttribute_def setLastResetTime_def setBootOrder_def setIndicatorLED_def setCurrentMedia_def)

lemma patch_bios_loop_view [simp]: "update_view (fst (patch_bios_loop attrs s pending)) = update_view s"
  by (induction attrs s pending rule: patch_bios_loop.induct) simp_all

lemma fold_attributes_view [simp]:
  "update_view (fold (\<lambda>(nm, val). setManagerAttribute nm val) attrs s) = update_view s"
  by (induction attrs arbitrary: s) auto

lemma handlers_view:
  "update_view (snd (handlePatchBiosSettings body s)) = update_view s"
  "update_view (snd (handlePatchManagerAttributesSettings body s)) = update_view s"
  "update_view (snd (handleCreateSubscription up q body s)) = update_view s"
  "update_view (snd (handleDeleteSubscription vs s)) = update_view s"
  "update_view (fst (snd (handleSubmitTestEvent tm body s))) = update_view s"
  by (simp_all add: handlePatchBiosSettings_def handlePatchManagerAttributesSettings_def
      handleCreateSubscription_def handleDeleteSubscription_def handleSubmitTestEvent_def
      Let_def case_prod_beta
      split: option.split sum.split)


lemma machine_handlers_view:
  "update_view (rf_server (snd (handlePatchSystem env rq rf))) = update_view (rf_server rf)"
  "update_view (rf_server (snd (handleInsertMedia env body rf))) = update_view (rf_server rf)"
  "update_view (rf_server (snd (handleEjectMedia env rf))) = update_view (rf_server rf)"
  by (simp_all add: handlePatchSystem_def patchBoot_def handleInsertMedia_def handleEjectMedia_def
      case_prod_beta split: option.split)

lemma on_users_view: "update_view (rf_server (fst (snd (on_users f rf)))) = update_view (rf_server rf)"
  by (simp add: on_users_def case_prod_beta)

lemma writes_view:
  "(\<And>s. update_view (snd (f s)) = update_view s) \<Longrightarrow>
    update_view (rf_server (fst (snd (writes f rf)))) = update_view (rf_server rf)"
  by (simp add: writes_def case_prod_beta)

lemma no_goroutines [simp]:
  "snd (snd (reads f rf)) = []" "snd (snd (writes g rf)) = []" "snd (snd (acts k rf)) = []"
  "snd (snd (on_users l rf)) = []"
  by (simp_all add: reads_def writes_def acts_def on_users_def case_prod_beta)

text \<open>Three handlers change tasks or versions.\<close>

lemma run_handler_view:
  assumes "h \<notin> {H_SimpleUpdate, H_ResetAction, H_ManagerReset}"
  shows "update_view (rf_server (fst (snd (run_handler env novnc tm h vs rq rf)))) = update_view (rf_server rf)
    \<and> concat (map (start_job json_text http_do tm end u) (snd (snd (run_handler env novnc tm h vs rq rf)))) = []"
  using assms
  by (cases h) (simp_all add: writes_view handlers_view machine_handlers_view on_users_view
      case_prod_beta comp_def)

section \<open>The invariant\<close>

definition staged_by :: "update_job list \<Rightarrow> Component \<Rightarrow> string \<Rightarrow> bool" where
  "staged_by js c v \<longleftrightarrow>
     (\<exists>j \<in> set js. StagePackage \<lparr>pkg_Component = c, pkg_Version = v\<rparr> \<in> set (uj_done j))"

definition update_inv ::
    "(firmware_error \<Rightarrow> string) \<Rightarrow> (Component \<rightharpoonup> string) \<Rightarrow> 'w redfish \<times> update_job list \<Rightarrow> bool" where
  "update_inv errText versions0 = (\<lambda>(rf, js).
     map uj_id js = map taskID [1..<Suc (s_nextTaskID (rf_server rf))]
     \<and> map fst (s_tasks (rf_server rf)) = map uj_id js
     \<and> (\<forall>j \<in> set js. job_ok j \<and> map_of (s_tasks (rf_server rf)) (uj_id j) = Some (job_task errText j))
     \<and> (\<forall>c v. s_stagedFirmware (rf_server rf) c = Some v \<longrightarrow> staged_by js c v)
     \<and> (\<forall>c v. s_firmwareVersions (rf_server rf) c = Some v \<longrightarrow> versions0 c = Some v \<or> staged_by js c v))"

lemma update_invI:
  assumes "map uj_id js = map taskID [1..<Suc (s_nextTaskID (rf_server rf))]"
    and "map fst (s_tasks (rf_server rf)) = map uj_id js"
    and "\<And>j. j \<in> set js \<Longrightarrow> job_ok j \<and> map_of (s_tasks (rf_server rf)) (uj_id j) = Some (job_task errText j)"
    and "\<And>c v. s_stagedFirmware (rf_server rf) c = Some v \<Longrightarrow> staged_by js c v"
    and "\<And>c v. s_firmwareVersions (rf_server rf) c = Some v \<Longrightarrow> v0 c = Some v \<or> staged_by js c v"
  shows "update_inv errText v0 (rf, js)"
  using assms unfolding update_inv_def by blast

lemma update_invD:
  assumes "update_inv errText v0 (rf, js)"
  shows "map uj_id js = map taskID [1..<Suc (s_nextTaskID (rf_server rf))]"
    and "map fst (s_tasks (rf_server rf)) = map uj_id js"
    and "j \<in> set js \<Longrightarrow> job_ok j \<and> map_of (s_tasks (rf_server rf)) (uj_id j) = Some (job_task errText j)"
    and "s_stagedFirmware (rf_server rf) c = Some v \<Longrightarrow> staged_by js c v"
    and "s_firmwareVersions (rf_server rf) c = Some v \<Longrightarrow> v0 c = Some v \<or> staged_by js c v"
  using assms unfolding update_inv_def by blast+

lemma update_inv_view:
  "update_view (rf_server rf') = update_view (rf_server rf) \<Longrightarrow>
    update_inv errText v0 (rf', js) = update_inv errText v0 (rf, js)"
  by (simp add: update_inv_def update_view_def)

lemma handleSimpleUpdate_cases:
  assumes "handleSimpleUpdate up q tm body s = (resp, s', g)"
  shows "s' = s \<and> g = None \<and> rsp_Status resp = 400
    \<or> (\<exists>req. (let id' = taskID (Suc (s_nextTaskID s));
             t = new_task id' tm (''Firmware Update: '' @ fr_ImageURI req)
         in s' = s\<lparr>s_nextTaskID := Suc (s_nextTaskID s), s_tasks := AList.update id' t (s_tasks s)\<rparr>
           \<and> g = Some (id', req) \<and> resp = writeJSON 202 [(''Location'', taskPath id')] (enc_Task t)))"
  using assms
  by (auto simp: handleSimpleUpdate_def createTask_eq Let_def new_task_def
      split: option.splits sum.splits if_splits)

lemma handleSimpleUpdate_Some:
  assumes "handleSimpleUpdate up q tm body s = (resp, s', Some (id', req))"
  shows "s' = s\<lparr>s_nextTaskID := Suc (s_nextTaskID s), s_tasks := AList.update id'
        (new_task id' tm (''Firmware Update: '' @ fr_ImageURI req)) (s_tasks s)\<rparr>"
    and "id' = taskID (Suc (s_nextTaskID s))" and "rsp_Status resp = 202"
  using handleSimpleUpdate_cases [OF assms] by (elim disjE exE; simp add: Let_def)+

lemma start_job_ok: "j \<in> set (start_job json_text http_do tm end u g) \<Longrightarrow> job_ok j"
  by (cases g) (auto simp: job_ok_def runFirmwareUpdate_plan accepted_valid
      accepted_def split: sum.splits if_splits)

lemma staged_by_append: "staged_by js c v \<Longrightarrow> staged_by (js @ js') c v"
  by (auto simp: staged_by_def)

lemma ids_distinct: "map uj_id js = map taskID [1..<Suc n] \<Longrightarrow> distinct (map uj_id js)"
  by (simp add: distinct_map inj_on_def)

text \<open>A request that starts an update.\<close>

lemma update_inv_start:
  assumes inv: "update_inv errText v0 (rf, js)"
    and s': "rf_server rf' = (rf_server rf)\<lparr>s_nextTaskID := Suc (s_nextTaskID (rf_server rf)),
      s_tasks := AList.update (taskID (Suc (s_nextTaskID (rf_server rf))))
        (new_task (taskID (Suc (s_nextTaskID (rf_server rf)))) tm (''Firmware Update: '' @ fr_ImageURI req))
        (s_tasks (rf_server rf))\<rparr>"
  shows "update_inv errText v0 (rf', js @ start_job json_text http_do tm end u
    (FirmwareUpdate (taskID (Suc (s_nextTaskID (rf_server rf)))) req))"
proof -
  let ?s = "rf_server rf"
  let ?id = "taskID (Suc (s_nextTaskID ?s))"
  let ?t = "new_task ?id tm (''Firmware Update: '' @ fr_ImageURI req)"
  have ids: "map uj_id js = map taskID [1..<Suc (s_nextTaskID ?s)]"
    and keys: "map fst (s_tasks ?s) = map uj_id js"
    using inv by (simp_all add: update_inv_def)
  have new: "?id \<notin> set (map fst (s_tasks ?s))"
    unfolding keys ids by auto
  have tasks: "s_tasks (rf_server rf') = s_tasks ?s @ [(?id, ?t)]"
    by (simp only: s' update_fresh [OF new]) simp
  have old: "uj_id j \<noteq> ?id" if "j \<in> set js" for j
    using new that unfolding keys by force
  have none: "map_of (s_tasks ?s) ?id = None"
    using new by (simp add: map_of_eq_None_iff)
  obtain j where j: "start_job json_text http_do tm end u (FirmwareUpdate ?id req) = [j]"
    and ok: "job_ok j" "uj_id j = ?id" "uj_done j = []" "job_task errText j = ?t"
    using start_job_ok [of _ json_text http_do tm "end" u "FirmwareUpdate ?id req"]
    by (simp add: job_task_def)
  have frame: "s_nextTaskID (rf_server rf') = Suc (s_nextTaskID ?s)"
    "s_stagedFirmware (rf_server rf') = s_stagedFirmware ?s"
    "s_firmwareVersions (rf_server rf') = s_firmwareVersions ?s"
    by (simp_all add: s')
  have ids': "map uj_id (js @ [j]) = map taskID [1..<Suc (Suc (s_nextTaskID ?s))]"
    using ids ok(2) by simp
  have task: "map_of (s_tasks (rf_server rf')) (uj_id i) = Some (job_task errText i)" if "i \<in> set (js @ [j])" for i
    using that inv ok none by (auto simp: tasks update_inv_def map_add_def)
  have keep: "s_firmwareVersions ?s c = Some v \<Longrightarrow> v0 c = Some v \<or> staged_by (js @ [j]) c v"
    "s_stagedFirmware ?s c = Some v \<Longrightarrow> staged_by (js @ [j]) c v" for c v
    using update_invD(4,5) [OF inv] staged_by_append by blast+
  show ?thesis
    unfolding j
  proof (rule update_invI)
    show "map fst (s_tasks (rf_server rf')) = map uj_id (js @ [j])"
      using keys ok(2) by (simp add: tasks)
    show "job_ok i \<and> map_of (s_tasks (rf_server rf')) (uj_id i) = Some (job_task errText i)"
      if "i \<in> set (js @ [j])" for i
      using that task ok(1) update_invD(3) [OF inv] by auto
  qed (use ids' keep in \<open>simp_all add: frame\<close>)
qed

text \<open>A critical section of a goroutine.\<close>

lemma update_inv_goroutine:
  assumes inv: "update_inv errText v0 (rf, js1 @ j # js2)" and rest: "uj_rest j = st # rest"
  shows "update_inv errText v0
    (rf\<lparr>rf_server := do_task_step errText (uj_id j) st (rf_server rf)\<rparr>,
     js1 @ j\<lparr>uj_done := uj_done j @ [st], uj_rest := rest\<rparr> # js2)"
proof -
  let ?j = "j\<lparr>uj_done := uj_done j @ [st], uj_rest := rest\<rparr>"
  have ids: "map uj_id (js1 @ j # js2) = map taskID [1..<Suc (s_nextTaskID (rf_server rf))]"
    using inv by (simp add: update_inv_def)
  have other: "uj_id i \<noteq> uj_id j" if "i \<in> set js1 \<union> set js2" for i
  proof -
    have "uj_id j \<notin> uj_id ` (set js1 \<union> set js2)"
      using ids_distinct [OF ids] by auto
    with that show ?thesis
      by (metis image_eqI)
  qed
  have ok: "job_ok ?j"
    using inv rest by (auto simp: update_inv_def job_ok_def)
  have task: "job_task errText ?j = task_effect errText (uj_id j) st (job_task errText j)"
    by (simp add: job_task_def)
  have tasks: "map_of (s_tasks (do_task_step errText (uj_id j) st (rf_server rf))) i =
      (if i = uj_id j then Some (job_task errText ?j) else map_of (s_tasks (rf_server rf)) i)" for i
    using task_step_get [of i errText "uj_id j" st "rf_server rf"] inv
    by (simp add: getTask_def task update_inv_def)
  have staged: "staged_by (js1 @ j # js2) c v \<Longrightarrow> staged_by (js1 @ ?j # js2) c v" for c v
    by (auto simp: staged_by_def)
  have new: "s_stagedFirmware (do_task_step errText (uj_id j) st (rf_server rf)) c = Some v \<Longrightarrow>
      staged_by (js1 @ ?j # js2) c v" for c v
    using inv staged [of c v]
    by (cases st) (auto simp: update_inv_def staged_by_def split: if_splits)
  show ?thesis
  proof (rule update_invI)
    fix i
    assume "i \<in> set (js1 @ ?j # js2)"
    then consider "i = ?j" | "i \<in> set js1 \<union> set js2"
      by auto
    then show "job_ok i \<and> map_of (s_tasks (rf_server (rf\<lparr>rf_server :=
        do_task_step errText (uj_id j) st (rf_server rf)\<rparr>))) (uj_id i) = Some (job_task errText i)"
      using ok other update_invD(3) [OF inv, of i] by cases (auto simp: tasks)
  qed (use ids update_invD(2,5) [OF inv] staged new in auto)
qed

text \<open>A reset, which may turn staged versions into installed ones.\<close>

lemma update_inv_activate:
  assumes inv: "update_inv errText v0 (rf, js)"
    and "s_tasks (rf_server rf') = s_tasks (rf_server rf)"
    and "s_nextTaskID (rf_server rf') = s_nextTaskID (rf_server rf)"
    and "\<And>c v. s_stagedFirmware (rf_server rf') c = Some v \<Longrightarrow> s_stagedFirmware (rf_server rf) c = Some v"
    and "\<And>c v. s_firmwareVersions (rf_server rf') c = Some v \<Longrightarrow>
      s_firmwareVersions (rf_server rf) c = Some v \<or> s_stagedFirmware (rf_server rf) c = Some v"
  shows "update_inv errText v0 (rf', js)"
proof (rule update_invI)
  show "s_stagedFirmware (rf_server rf') c = Some v \<Longrightarrow> staged_by js c v" for c v
    using assms(4) update_invD(4) [OF inv] by blast
  show "s_firmwareVersions (rf_server rf') c = Some v \<Longrightarrow> v0 c = Some v \<or> staged_by js c v" for c v
    using assms(5) update_invD(4,5) [OF inv] by blast
qed (use assms(2,3) update_invD(1-3) [OF inv] in simp_all)

lemma activateStagedFirmware_frame:
  "s_tasks (snd (activateStagedFirmware c s)) = s_tasks s"
  "s_nextTaskID (snd (activateStagedFirmware c s)) = s_nextTaskID s"
  "s_stagedFirmware (snd (activateStagedFirmware c s)) d = Some v \<Longrightarrow> s_stagedFirmware s d = Some v"
  "s_firmwareVersions (snd (activateStagedFirmware c s)) d = Some v \<Longrightarrow>
    s_firmwareVersions s d = Some v \<or> s_stagedFirmware s d = Some v"
  by (auto simp: activateStagedFirmware_def split: option.splits if_splits)

lemma update_inv_system_reset:
  assumes inv: "update_inv errText v0 (rf, js)" and "handleResetAction env body rf = (resp, rf')"
  shows "update_inv errText v0 (rf', js)"
proof -
  have "rf_server rf' = rf_server rf \<or> rf_server rf' = onSystemPowerOnReset (rf_server rf)"
    using assms(2) by (auto simp: handleResetAction_def on_machine_def
        split: option.splits prod.splits if_splits)
  then show ?thesis
  proof
    assume "rf_server rf' = onSystemPowerOnReset (rf_server rf)"
    then show ?thesis
      by (intro update_inv_activate [OF inv]) (auto simp: onSystemPowerOnReset_eq split: option.splits if_splits)
  qed (use inv in \<open>simp add: update_inv_view [of rf' rf]\<close>)
qed

lemma update_inv_manager_reset:
  assumes inv: "update_inv errText v0 (rf, js)" and "handleManagerReset tm body (rf_server rf) = (resp, s)"
  shows "update_inv errText v0 (rf\<lparr>rf_server := s\<rparr>, js)"
proof -
  have "s = rf_server rf \<or> s = snd (activateStagedFirmware ComponentBMC (setLastResetTime tm (rf_server rf)))"
    using assms(2) by (auto simp: handleManagerReset_def split: option.splits if_splits)
  then show ?thesis
  proof
    assume s: "s = snd (activateStagedFirmware ComponentBMC (setLastResetTime tm (rf_server rf)))"
    have "s_stagedFirmware s c = Some v \<Longrightarrow> s_stagedFirmware (rf_server rf) c = Some v"
      "s_firmwareVersions s c = Some v \<Longrightarrow>
        s_firmwareVersions (rf_server rf) c = Some v \<or> s_stagedFirmware (rf_server rf) c = Some v" for c v
      unfolding s by (drule activateStagedFirmware_frame, simp add: setLastResetTime_def)+
    moreover have "s_tasks s = s_tasks (rf_server rf)" "s_nextTaskID s = s_nextTaskID (rf_server rf)"
      by (simp_all add: s activateStagedFirmware_frame setLastResetTime_def)
    ultimately show ?thesis
      by (intro update_inv_activate [OF inv]) simp_all
  qed (use inv in simp)
qed

lemma update_inv_handle:
  assumes inv: "update_inv errText v0 (rf, js)" and run: "run_handler env novnc tm h vs rq rf = (resp, rf', gs)"
  shows "update_inv errText v0 (rf', js @ concat (map (start_job json_text http_do tm end u) gs))"
proof (cases "h \<in> {H_SimpleUpdate, H_ResetAction, H_ManagerReset}")
  case False
  have c: "concat (map (start_job json_text http_do tm end u) gs) = []"
    and v: "update_view (rf_server rf') = update_view (rf_server rf)"
    using run_handler_view [OF False, of env novnc tm vs rq rf json_text http_do "end" u]
    unfolding run by simp_all
  show ?thesis
    unfolding c append_Nil2 update_inv_view [OF v] by (rule inv)
next
  case True
  then consider "h = H_SimpleUpdate" | "h = H_ResetAction" | "h = H_ManagerReset"
    by blast
  then show ?thesis
  proof cases
    case 1
    obtain s' g where up: "handleSimpleUpdate (re_urlParse env) (re_quote env) tm (rq_Body rq) (rf_server rf)
        = (resp, s', g)"
      and rf': "rf' = rf\<lparr>rf_server := s'\<rparr>"
      and gs: "gs = (case g of None \<Rightarrow> [] | Some (id', req) \<Rightarrow> [FirmwareUpdate id' req])"
      using run 1 by (auto split: prod.splits)
    from handleSimpleUpdate_cases [OF up] consider (no) "s' = rf_server rf" "g = None"
      | (yes) req where "rf_server rf' = (rf_server rf)\<lparr>s_nextTaskID := Suc (s_nextTaskID (rf_server rf)),
          s_tasks := AList.update (taskID (Suc (s_nextTaskID (rf_server rf))))
            (new_task (taskID (Suc (s_nextTaskID (rf_server rf)))) tm (''Firmware Update: '' @ fr_ImageURI req))
            (s_tasks (rf_server rf))\<rparr>" "g = Some (taskID (Suc (s_nextTaskID (rf_server rf))), req)"
      by (auto simp: rf' Let_def)
    then show ?thesis
    proof cases
      case yes
      then show ?thesis
        using update_inv_start [OF inv yes(1), of json_text http_do "end" u] by (simp add: gs)
    qed (use inv in \<open>simp add: rf' gs\<close>)
  next
    case 2
    then show ?thesis
      using run update_inv_system_reset [OF inv] by (auto simp: acts_def split: prod.splits)
  next
    case 3
    then show ?thesis
      using run update_inv_manager_reset [OF inv] by (auto simp: writes_def split: prod.splits)
  qed
qed

lemma update_inv_step:
  assumes "update_step env novnc errText json_text x y" and "update_inv errText v0 x"
  shows "update_inv errText v0 y"
  using assms
proof (induction rule: update_step.induct)
  case (handle tm h vs rq rf resp rf' gs js http_do "end")
  then show ?case
    by (intro update_inv_handle)
next
  case (goroutine j st rest rf js1 js2)
  then show ?case
    by (intro update_inv_goroutine)
qed

text \<open>A server that has started no update.\<close>

definition fresh_updates :: "RedfishServer \<Rightarrow> bool" where
  "fresh_updates s \<longleftrightarrow> s_tasks s = [] \<and> s_nextTaskID s = 0 \<and> s_stagedFirmware s = Map.empty"

lemma NewRedfishServer_fresh: "fresh_updates (SetInventory iv (NewRedfishServer u p))"
  by (simp add: fresh_updates_def SetInventory_def NewRedfishServer_def)

lemma update_runs_inv:
  assumes "(update_step env novnc errText json_text)\<^sup>*\<^sup>* (rf0, []) (rf, js)"
    and "fresh_updates (rf_server rf0)"
  shows "update_inv errText (s_firmwareVersions (rf_server rf0)) (rf, js)"
proof -
  have "update_inv errText (s_firmwareVersions (rf_server rf0)) (rf0, [])"
    using assms(2) by (simp add: update_inv_def fresh_updates_def)
  with assms(1) show ?thesis
    by (induction rule: rtranclp_induct) (blast intro: update_inv_step)+
qed

text \<open>A goroutine can always run to its end.\<close>

lemma job_can_finish:
  "(update_step env novnc errText json_text)\<^sup>*\<^sup>* (rf, js1 @ j # js2)
     (rf\<lparr>rf_server := fold (do_task_step errText (uj_id j)) (uj_rest j) (rf_server rf)\<rparr>,
      js1 @ j\<lparr>uj_done := uj_done j @ uj_rest j, uj_rest := []\<rparr> # js2)"
proof (induction "uj_rest j" arbitrary: j rf)
  case (Cons st rest)
  have step: "update_step env novnc errText json_text (rf, js1 @ j # js2)
      (rf\<lparr>rf_server := do_task_step errText (uj_id j) st (rf_server rf)\<rparr>,
       js1 @ j\<lparr>uj_done := uj_done j @ [st], uj_rest := rest\<rparr> # js2)"
    by (rule update_step.goroutine) (simp add: Cons.hyps(2) [symmetric])
  show ?case
  proof (rule converse_rtranclp_into_rtranclp [where r = "update_step env novnc errText json_text"])
    show "update_step env novnc errText json_text (rf, js1 @ j # js2)
      (rf\<lparr>rf_server := do_task_step errText (uj_id j) st (rf_server rf)\<rparr>,
       js1 @ j\<lparr>uj_done := uj_done j @ [st], uj_rest := rest\<rparr> # js2)"
      by (rule step)
  qed (use Cons.hyps(1) [of "j\<lparr>uj_done := uj_done j @ [st], uj_rest := rest\<rparr>"
        "rf\<lparr>rf_server := do_task_step errText (uj_id j) st (rf_server rf)\<rparr>"] in
      \<open>simp add: Cons.hyps(2) [symmetric]\<close>)
next
  case (Nil j)
  have eq: "j\<lparr>uj_rest := []\<rparr> = j"
    using Nil by (cases j) simp
  show ?case
    by (simp add: Nil [symmetric] eq)
qed

section \<open>Properties\<close>

text \<open>
  C5: Tasks follow their updates, however requests and update goroutines interleave: the tasks are
  numbered in the order of the requests, the collection lists them in that order (below 10^12), and
  each is New until its goroutine runs, then Running at one of the fixed percentages, and at the
  end Completed at 100 percent if the package was accepted, and else Exception.
\<close>

theorem tasks_follow_updates:
  assumes "(update_step env novnc errText json_text)\<^sup>*\<^sup>* (rf0, []) (rf, js)"
    and "fresh_updates (rf_server rf0)"
  shows "map uj_id js = map taskID [1..<Suc (s_nextTaskID (rf_server rf))]
    \<and> (s_nextTaskID (rf_server rf) < 10 ^ 12 \<longrightarrow> listTaskIDs (rf_server rf) = map uj_id js)
    \<and> (\<forall>j \<in> set js. \<exists>t. getTask (uj_id j) (rf_server rf) = Some t \<and> task_phase j t)"
proof (intro conjI impI ballI)
  note inv = update_runs_inv [OF assms]
  show ids: "map uj_id js = map taskID [1..<Suc (s_nextTaskID (rf_server rf))]"
    by (rule update_invD(1) [OF inv])
  show "listTaskIDs (rf_server rf) = map uj_id js" if n: "s_nextTaskID (rf_server rf) < 10 ^ 12"
  proof -
    have "sorted_wrt (<) (map taskID [1..<Suc (s_nextTaskID (rf_server rf))])"
      unfolding sorted_wrt_map
      by (rule sorted_wrt_mono_rel [OF _ sorted_wrt_upt]) (use n in \<open>auto intro!: taskID_less [THEN iffD2]\<close>)
    then have "sorted (map uj_id js)"
      unfolding ids by (simp add: strict_sorted_iff)
    then show ?thesis
      by (simp add: listTaskIDs_def update_invD(2) [OF inv] sorted_sort_id)
  qed
  fix j
  assume "j \<in> set js"
  with update_invD(3) [OF inv] job_task_phase
  show "\<exists>t. getTask (uj_id j) (rf_server rf) = Some t \<and> task_phase j t"
    by (auto simp: getTask_def)
qed

text \<open>
  C12: Firmware versions come from accepted packages only: a staged version is that of a valid
  package some request downloaded, for a component the request targets, and an installed version
  that is not the configured one was staged so before.
\<close>

theorem firmware_from_accepted_packages:
  assumes "(update_step env novnc errText json_text)\<^sup>*\<^sup>* (rf0, []) (rf, js)"
    and "fresh_updates (rf_server rf0)"
    and "getStagedFirmware c (rf_server rf) = Some v
      \<or> s_firmwareVersions (rf_server rf) c = Some v \<and> s_firmwareVersions (rf_server rf0) c \<noteq> Some v"
  shows "c \<in> {ComponentBIOS, ComponentBMC} \<and> v \<noteq> [] \<and>
    (\<exists>j \<in> set js. uj_result j = Inr \<lparr>pkg_Component = c, pkg_Version = v\<rparr>
      \<and> (fr_Targets (uj_request j) = [] \<or> c \<in> set (fr_Targets (uj_request j))))"
proof -
  note inv = update_runs_inv [OF assms(1,2)]
  have "staged_by js c v"
    using assms(3) update_invD(4,5) [OF inv] by (auto simp: getStagedFirmware_def)
  then obtain j where j: "j \<in> set js"
    and st: "StagePackage \<lparr>pkg_Component = c, pkg_Version = v\<rparr> \<in> set (uj_done j)"
    unfolding staged_by_def by blast
  then have ok: "job_ok j"
    using update_invD(3) [OF inv] by blast
  from StagePackage_plan [OF ok st] ok j show ?thesis
    by (auto simp: job_ok_def valid_package_def)
qed

text \<open>
  C11: An update installs what it downloads: a SimpleUpdate is answered with 202 and the task of a
  goroutine which, if the package is accepted, completes with the package's version staged and the
  installed versions unchanged; the reset that belongs to the component then installs it.
\<close>

theorem simple_update_installs:
  assumes "handleSimpleUpdate up q tm body s = (resp, s1, Some (id', req))"
    and "accepted json_text http_do req = Inr pkg"
    and "s2 = fold (do_task_step errText id') (runFirmwareUpdate json_text http_do end u req) s1"
  shows "rsp_Status resp = 202
    \<and> (\<exists>t. getTask id' s2 = Some t \<and> task_TaskState t = ''Completed'' \<and> task_PercentComplete t = 100)
    \<and> getStagedFirmware (pkg_Component pkg) s2 = Some (pkg_Version pkg)
    \<and> s_firmwareVersions s2 = s_firmwareVersions s
    \<and> (pkg_Component pkg = ComponentBIOS \<longrightarrow>
        getFirmwareVersion ComponentBIOS (onSystemPowerOnReset s2) = pkg_Version pkg)
    \<and> (pkg_Component pkg = ComponentBMC \<longrightarrow>
        getFirmwareVersion ComponentBMC
          (snd (handleManagerReset tm' (Some (JObj [(''ResetType'', JStr ''GracefulRestart'')])) s2)) = pkg_Version pkg)"
proof -
  obtain t where s1: "s1 = s\<lparr>s_nextTaskID := Suc (s_nextTaskID s), s_tasks := AList.update id' t (s_tasks s)\<rparr>"
    and resp: "rsp_Status resp = 202"
    using handleSimpleUpdate_Some [OF assms(1)] by blast
  have versions: "s_firmwareVersions (fold (do_task_step errText id') sts s') = s_firmwareVersions s'" for sts s'
    by (induction sts arbitrary: s') simp_all
  have "getTask id' (fold (do_task_step errText id') sts s') =
      map_option (fold (task_effect errText id') sts) (getTask id' s')" for sts s'
    by (induction sts arbitrary: s') (simp_all add: task_step_get option.map_comp comp_def option.map_id)
  then have task: "getTask id' s2 = Some (fold (task_effect errText id')
      (update_plan end (fr_ImageURI req) (Inr pkg)) t)"
    using assms(2,3) by (simp add: runFirmwareUpdate_plan s1 getTask_def update_conv')
  have staged: "getStagedFirmware (pkg_Component pkg) s2 = Some (pkg_Version pkg)"
    using assms(2,3) by (simp add: runFirmwareUpdate_plan update_plan_def getStagedFirmware_def)
  have body: "decode dec_ResetRequest zero_ResetRequest (Some (JObj [(''ResetType'', JStr ''GracefulRestart'')]))
      = Some \<lparr>rr_ResetType = ''GracefulRestart''\<rparr>"
    by code_simp
  have "\<exists>t. getTask id' s2 = Some t \<and> task_TaskState t = ''Completed'' \<and> task_PercentComplete t = 100"
    unfolding task by (simp add: update_plan_def task_effect_def task_completed_def Let_def)
  moreover have "s_firmwareVersions s2 = s_firmwareVersions s"
    by (simp add: assms(3) versions s1)
  moreover have "getFirmwareVersion ComponentBIOS (onSystemPowerOnReset s2) = pkg_Version pkg"
    if "pkg_Component pkg = ComponentBIOS"
    using staged that by (simp add: getFirmwareVersion_def onSystemPowerOnReset_eq getStagedFirmware_def)
  moreover have "getFirmwareVersion ComponentBMC
      (snd (handleManagerReset tm' (Some (JObj [(''ResetType'', JStr ''GracefulRestart'')])) s2)) = pkg_Version pkg"
    if "pkg_Component pkg = ComponentBMC"
    using staged that by (simp add: getFirmwareVersion_def handleManagerReset_def body getStagedFirmware_def
        activateStagedFirmware_def setLastResetTime_def)
  ultimately show ?thesis
    using resp staged by simp
qed

section \<open>Witnesses\<close>

text \<open>A request for a BIOS update, and a network that serves its package.\<close>

definition update_request :: json where
  "update_request = JObj [(''ImageURI'', JStr ''http://host/f'')]"

definition serve_package :: "http_get \<Rightarrow> http_answer" where
  "serve_package get = Inr (200, [], None)"

definition package_text :: "byte list \<Rightarrow> json option" where
  "package_text bs = Some (JObj [(''Component'', JStr ''BIOS''), (''Version'', JStr ''2.0'')])"

definition update_req :: Request where
  "update_req = \<lparr>fr_ImageURI = ''http://host/f'', fr_Username = [], fr_Password = [], fr_Targets = []\<rparr>"

lemma package_accepted:
  "accepted package_text serve_package update_req = Inr \<lparr>pkg_Component = ''BIOS'', pkg_Version = ''2.0''\<rparr>"
  by (simp add: accepted_def fetch_def serve_package_def read_limited_def maxPackageSize_def Parse_def
      package_text_def dec_Package_def json_dec update_req_def ComponentBIOS_def ComponentBMC_def)

lemma update_started:
  "\<exists>resp s1. handleSimpleUpdate (\<lambda>u. Some (''http'', ''host'')) (\<lambda>s. s) [] (Some update_request)
     (NewRedfishServer ''admin'' ''secret'') = (resp, s1, Some (taskID 1, update_req))"
proof -
  have "decode dec_SimpleUpdateRequest zero_SimpleUpdateRequest (Some update_request) =
      Some (zero_SimpleUpdateRequest\<lparr>sur_ImageURI := ''http://host/f''\<rparr>)"
    by code_simp
  moreover have "resolveImageURI (\<lambda>u. Some (''http'', ''host'')) ''http://host/f'' [] = Inr ''http://host/f''"
    by code_simp
  ultimately show ?thesis
    by (simp add: handleSimpleUpdate_def createTask_eq zero_SimpleUpdateRequest_def new_task_def
        NewRedfishServer_def update_req_def)
qed

lemma simple_update_installs_witness:
  "\<exists>resp s1. handleSimpleUpdate (\<lambda>u. Some (''http'', ''host'')) (\<lambda>s. s) [] (Some update_request)
      (NewRedfishServer ''admin'' ''secret'') = (resp, s1, Some (taskID 1, update_req))
    \<and> getStagedFirmware ''BIOS'' (fold (do_task_step (\<lambda>e. []) (taskID 1))
        (runFirmwareUpdate package_text serve_package [] \<lparr>u_duration = 0\<rparr> update_req) s1) = Some ''2.0''"
  using update_started simple_update_installs [OF _ package_accepted refl] by fastforce

text \<open>A run in which the update is requested and its goroutine runs to its end.\<close>

abbreviation "sample_runs \<equiv>
  (update_step vm_env (\<lambda>_. noContent) (\<lambda>e. []) package_text)\<^sup>*\<^sup>*"

lemma sample_run:
  "\<exists>rf j. sample_runs (vm_redfish, []) (rf, [j]) \<and> uj_id j = taskID 1 \<and> uj_done j \<noteq> [] \<and> uj_rest j = []
    \<and> uj_result j = Inr \<lparr>pkg_Component = ''BIOS'', pkg_Version = ''2.0''\<rparr>
    \<and> getStagedFirmware ''BIOS'' (rf_server rf) = Some ''2.0''"
proof -
  let ?rq = "request ''POST'' [] None (Some update_request)"
  obtain resp s1 where up: "handleSimpleUpdate (\<lambda>u. Some (''http'', ''host'')) (\<lambda>s. s) [] (Some update_request)
     (NewRedfishServer ''admin'' ''secret'') = (resp, s1, Some (taskID 1, update_req))"
    using update_started by blast
  have run: "run_handler vm_env (\<lambda>_. noContent) [] H_SimpleUpdate [] ?rq vm_redfish =
      (resp, vm_redfish\<lparr>rf_server := s1\<rparr>, [FirmwareUpdate (taskID 1) update_req])"
    using up by (simp add: request_def with_machine_def plain_env_def)
  let ?j = "\<lparr>uj_id = taskID 1, uj_start = [], uj_request = update_req,
    uj_result = accepted package_text serve_package update_req, uj_end = [], uj_done = [],
    uj_rest = runFirmwareUpdate package_text serve_package [] (s_firmwareUpdater (rf_server vm_redfish)) update_req\<rparr>"
  have start: "sample_runs (vm_redfish, []) (vm_redfish\<lparr>rf_server := s1\<rparr>, [?j])"
    using update_step.handle [OF run, of "\<lambda>e. []" package_text "[]" serve_package "[]"] by auto
  have "sample_runs (vm_redfish\<lparr>rf_server := s1\<rparr>, [] @ ?j # [])
     (vm_redfish\<lparr>rf_server := s1\<rparr>\<lparr>rf_server := fold (do_task_step (\<lambda>e. []) (uj_id ?j)) (uj_rest ?j)
        (rf_server (vm_redfish\<lparr>rf_server := s1\<rparr>))\<rparr>,
      [] @ ?j\<lparr>uj_done := uj_done ?j @ uj_rest ?j, uj_rest := []\<rparr> # [])"
    by (rule job_can_finish)
  with start have "sample_runs (vm_redfish, [])
     (vm_redfish\<lparr>rf_server := fold (do_task_step (\<lambda>e. []) (taskID 1)) (uj_rest ?j) s1\<rparr>,
      [?j\<lparr>uj_done := uj_rest ?j, uj_rest := []\<rparr>])"
    by simp
  then show ?thesis
    by (intro exI conjI, assumption) (simp_all add: runFirmwareUpdate_plan package_accepted
        update_plan_def getStagedFirmware_def)
qed

lemma vm_redfish_fresh: "fresh_updates (rf_server vm_redfish)"
  by (simp add: fresh_updates_def NewRedfishServer_def)

lemma tasks_follow_updates_witness:
  "\<exists>rf j t. sample_runs (vm_redfish, []) (rf, [j]) \<and> getTask (taskID 1) (rf_server rf) = Some t
    \<and> task_TaskState t = ''Completed''"
proof -
  from sample_run obtain rf j where r: "sample_runs (vm_redfish, []) (rf, [j])"
    and j: "uj_id j = taskID 1" "uj_done j \<noteq> []" "uj_rest j = []"
      "uj_result j = Inr \<lparr>pkg_Component = ''BIOS'', pkg_Version = ''2.0''\<rparr>"
    by blast
  show ?thesis
    using tasks_follow_updates [OF r vm_redfish_fresh] r j by (auto simp: task_phase_def)
qed

lemma firmware_from_accepted_packages_witness:
  "\<exists>rf js. sample_runs (vm_redfish, []) (rf, js) \<and> getStagedFirmware ''BIOS'' (rf_server rf) = Some ''2.0''
    \<and> (\<exists>j \<in> set js. uj_result j = Inr \<lparr>pkg_Component = ''BIOS'', pkg_Version = ''2.0''\<rparr>)"
proof -
  from sample_run obtain rf j where r: "sample_runs (vm_redfish, []) (rf, [j])"
    and s: "getStagedFirmware ''BIOS'' (rf_server rf) = Some ''2.0''"
    by blast
  show ?thesis
    using firmware_from_accepted_packages [OF r vm_redfish_fresh disjI1, OF s] r s by blast
qed

end
