(* ===== verification/Redfish_Events_Properties.thy ===== *)
theory Redfish_Events_Properties
  imports Redfish_Accounts_Properties "HOL-Library.Multiset"
begin

text \<open>
  The properties of the event service (src/internal/redfish/handler_events.go) and of the delivery
  of events (src/internal/events/dispatcher.go).
\<close>

section \<open>The table of subscriptions\<close>

definition subscriptions_ok :: "RedfishServer \<Rightarrow> bool" where
  "subscriptions_ok s \<longleftrightarrow>
     distinct (map fst (s_subscriptions s))
     \<and> (\<forall>(k, sub) \<in> set (s_subscriptions s). ed_ID sub = k \<and> ed_ODataID sub = subscriptionPath k
          \<and> (\<exists>n. k = itoa n \<and> 1 \<le> n \<and> n \<le> s_nextSubscriptionID s))
     \<and> distinct (map (\<lambda>(k, sub). (ed_Destination sub, ed_EventFormatType sub)) (s_subscriptions s))"

definition subscriptions_view :: "RedfishServer \<Rightarrow> (string \<times> EventDestination) list \<times> nat" where
  "subscriptions_view s = (s_subscriptions s, s_nextSubscriptionID s)"

lemma subscriptions_ok_view:
  "subscriptions_view s' = subscriptions_view s \<Longrightarrow> subscriptions_ok s' = subscriptions_ok s"
  by (simp add: subscriptions_ok_def subscriptions_view_def)

lemma create_subscription_ok:
  assumes ok: "subscriptions_ok s" and create: "handleCreateSubscription up q body s = (resp, s')"
  shows "subscriptions_ok s'"
proof (cases "s' = s")
  case False
  then obtain req where new: "\<forall>sub \<in> set (map snd (s_subscriptions s)).
      \<not> (ed_Destination sub = cedr_Destination req \<and> ed_EventFormatType sub = cedr_EventFormatType req)"
    and s': "s' = s\<lparr>s_nextSubscriptionID := Suc (s_nextSubscriptionID s),
      s_subscriptions := AList.update (itoa (Suc (s_nextSubscriptionID s)))
        (new_subscription (itoa (Suc (s_nextSubscriptionID s))) req) (s_subscriptions s)\<rparr>"
    using create by (auto simp: handleCreateSubscription_def Let_def
        split: option.splits sum.splits if_splits)
  let ?id = "itoa (Suc (s_nextSubscriptionID s))"
  have fresh: "?id \<notin> set (map fst (s_subscriptions s))"
    using ok by (auto simp: subscriptions_ok_def)
  have upd: "s_subscriptions s' = s_subscriptions s @ [(?id, new_subscription ?id req)]"
    using fresh by (simp add: s' update_fresh)
  have nxt: "s_nextSubscriptionID s' = Suc (s_nextSubscriptionID s)"
    by (simp add: s')
  show ?thesis
    unfolding subscriptions_ok_def upd nxt
    using ok new fresh by (auto simp: subscriptions_ok_def new_subscription_def intro: le_SucI)
qed (use ok in simp)

lemma delete_subscription_ok:
  assumes ok: "subscriptions_ok s" and delete: "handleDeleteSubscription vs s = (resp, s')"
  shows "subscriptions_ok s'"
proof -
  have s': "s' = s\<lparr>s_subscriptions := AList.delete (var vs ''id'') (s_subscriptions s)\<rparr>"
    using delete by (auto simp: handleDeleteSubscription_def Let_def split: option.splits)
  show ?thesis
    using ok by (auto simp: subscriptions_ok_def s' AList.delete_eq distinct_map_filter)
qed

text \<open>Every other request leaves the table as it is.\<close>

lemma setters_subscriptions [simp]:
  "subscriptions_view (setBiosAttribute nm val s) = subscriptions_view s"
  "subscriptions_view (mergeBiosPendingAttributes attrs s) = subscriptions_view s"
  "subscriptions_view (setManagerAttribute nm val s) = subscriptions_view s"
  "subscriptions_view (setLastResetTime t s) = subscriptions_view s"
  "subscriptions_view (setBootOrder order s) = subscriptions_view s"
  "subscriptions_view (setIndicatorLED led s) = subscriptions_view s"
  "subscriptions_view (setCurrentMedia img s) = subscriptions_view s"
  "subscriptions_view (snd (applyPendingBiosSettings s)) = subscriptions_view s"
  "subscriptions_view (snd (activateStagedFirmware c s)) = subscriptions_view s"
  "subscriptions_view (s\<lparr>s_users := st\<rparr>) = subscriptions_view s"
  "subscriptions_view (s\<lparr>s_nextEventID := n\<rparr>) = subscriptions_view s"
  "subscriptions_view (snd (createTask tm nm s)) = subscriptions_view s"
  by (simp_all add: subscriptions_view_def setBiosAttribute_def mergeBiosPendingAttributes_def
      setManagerAttribute_def setLastResetTime_def setBootOrder_def setIndicatorLED_def
      setCurrentMedia_def applyPendingBiosSettings_def activateStagedFirmware_def createTask_def Let_def
      split: option.split)

lemma loops_subscriptions [simp]:
  "subscriptions_view (fst (patch_bios_loop attrs s pending)) = subscriptions_view s"
  "subscriptions_view (fold (\<lambda>(nm, val). setManagerAttribute nm val) attrs s) = subscriptions_view s"
proof -
  show "subscriptions_view (fst (patch_bios_loop attrs s pending)) = subscriptions_view s"
    by (induction attrs s pending rule: patch_bios_loop.induct) simp_all
  show "subscriptions_view (fold (\<lambda>(nm, val). setManagerAttribute nm val) attrs s) = subscriptions_view s"
    by (induction attrs arbitrary: s) auto
qed

lemma handlers_subscriptions:
  "subscriptions_view (snd (handlePatchBiosSettings body s)) = subscriptions_view s"
  "subscriptions_view (snd (handleManagerReset tm body s)) = subscriptions_view s"
  "subscriptions_view (snd (handlePatchManagerAttributesSettings body s)) = subscriptions_view s"
  "subscriptions_view (fst (snd (handleSubmitTestEvent tm body s))) = subscriptions_view s"
  "subscriptions_view (fst (snd (handleSimpleUpdate up q tm body s))) = subscriptions_view s"
  by (simp_all add: handlePatchBiosSettings_def handleManagerReset_def
      handlePatchManagerAttributesSettings_def handleSubmitTestEvent_def handleSimpleUpdate_def
      Let_def case_prod_beta split: option.split sum.split)

lemma machine_handlers_subscriptions:
  "subscriptions_view (rf_server (snd (handlePatchSystem env rq rf))) = subscriptions_view (rf_server rf)"
  "subscriptions_view (rf_server (snd (handleResetAction env body rf))) = subscriptions_view (rf_server rf)"
  "subscriptions_view (rf_server (snd (handleInsertMedia env body rf))) = subscriptions_view (rf_server rf)"
  "subscriptions_view (rf_server (snd (handleEjectMedia env rf))) = subscriptions_view (rf_server rf)"
  by (simp_all add: handlePatchSystem_def patchBoot_def handleResetAction_def onSystemPowerOnReset_def
      handleInsertMedia_def handleEjectMedia_def case_prod_beta split: option.split)

lemma run_handler_subscriptions:
  assumes "h \<notin> {H_CreateSubscription, H_DeleteSubscription}"
  shows "subscriptions_view (rf_server (fst (snd (run_handler env novnc tm h vs rq rf)))) =
    subscriptions_view (rf_server rf)"
  using assms
  by (cases h) (simp_all add: handlers_subscriptions machine_handlers_subscriptions reads_def acts_def
      writes_def on_users_def case_prod_beta)

lemma run_handler_subscriptions_ok:
  assumes "subscriptions_ok (rf_server rf)"
  shows "subscriptions_ok (rf_server (fst (snd (run_handler env novnc tm h vs rq rf))))"
proof (cases "h \<in> {H_CreateSubscription, H_DeleteSubscription}")
  case True
  have "subscriptions_ok (snd (handleCreateSubscription up q body (rf_server rf)))"
    "subscriptions_ok (snd (handleDeleteSubscription vs (rf_server rf)))" for up q body
    using create_subscription_ok [OF assms prod.collapse [symmetric]]
      delete_subscription_ok [OF assms prod.collapse [symmetric]] by blast+
  with True show ?thesis
    by (auto simp: writes_def case_prod_beta)
qed (use assms subscriptions_ok_view run_handler_subscriptions in blast)

lemma serve_all_subscriptions_ok:
  "subscriptions_ok (rf_server rf) \<Longrightarrow> subscriptions_ok (rf_server (serve_all env mux novnc rqs rf))"
proof (induction rqs arbitrary: rf)
  case (Cons x rqs)
  have "subscriptions_ok (rf_server (fst (snd (ServeHTTP env mux novnc (fst x) (snd x) rf))))"
    using Cons.prems run_handler_subscriptions_ok by (auto simp: ServeHTTP_cases split: mux_result.split)
  then show ?case
    using Cons.IH by (cases x) simp
qed simp

section \<open>Listing\<close>

lemma sub_number_itoa: "ed_ID sub = itoa n \<Longrightarrow> n < 2 ^ 63 \<Longrightarrow> sub_number sub = int n"
  by (simp add: sub_number_def Atoi_itoa)

lemma set_listSubscriptions [simp]: "set (listSubscriptions s) = snd ` set (s_subscriptions s)"
  by (simp add: listSubscriptions_def)

lemma distinct_listSubscriptions:
  assumes "subscriptions_ok s"
  shows "distinct (map (\<lambda>sub. (ed_Destination sub, ed_EventFormatType sub)) (listSubscriptions s))"
proof -
  have "mset (map f (listSubscriptions s)) = mset (map (\<lambda>(k, sub). f sub) (s_subscriptions s))" for f :: "EventDestination \<Rightarrow> 'b"
    by (simp add: listSubscriptions_def case_prod_unfold image_mset.compositionality comp_def)
  from mset_eq_imp_distinct_iff [OF this] show ?thesis
    using assms unfolding subscriptions_ok_def by blast
qed

lemma listSubscriptions_ids:
  assumes ok: "subscriptions_ok s" and small: "s_nextSubscriptionID s < 2 ^ 63"
  shows "\<exists>ns. sorted_wrt (<) ns \<and> map ed_ID (listSubscriptions s) = map itoa ns"
proof -
  have num: "ed_ID sub = itoa (nat (sub_number sub))" if "sub \<in> snd ` set (s_subscriptions s)" for sub
    using that ok small sub_number_itoa [of sub] by (fastforce simp: subscriptions_ok_def)
  let ?ns = "map (\<lambda>sub. nat (sub_number sub)) (listSubscriptions s)"
  have ids: "map ed_ID (listSubscriptions s) = map itoa ?ns"
    using num by simp
  have "mset (map ed_ID (listSubscriptions s)) = mset (map (\<lambda>(k, sub). ed_ID sub) (s_subscriptions s))"
    by (simp add: listSubscriptions_def case_prod_unfold image_mset.compositionality comp_def)
  also have "map (\<lambda>(k, sub). ed_ID sub) (s_subscriptions s) = map fst (s_subscriptions s)"
    using ok by (auto simp: subscriptions_ok_def)
  finally have "distinct (map ed_ID (listSubscriptions s))"
    using ok unfolding subscriptions_ok_def by (metis mset_eq_imp_distinct_iff)
  then have "distinct ?ns"
    unfolding ids distinct_map by blast
  moreover have "sorted ?ns"
  proof -
    have "sorted (map sub_number (listSubscriptions s))"
      by (simp add: listSubscriptions_def)
    then have "sorted (map nat (map sub_number (listSubscriptions s)))"
      by (rule sorted_map_mono) (simp add: mono_on_def nat_mono)
    then show ?thesis
      by (simp add: comp_def)
  qed
  ultimately have "sorted_wrt (<) ?ns"
    by (simp add: strict_sorted_iff)
  with ids show ?thesis
    by blast
qed

section \<open>Delivery\<close>

lemma take_upto: "take k [1..n] = [1..min (int k) n]"
  by (rule nth_equalityI) (auto simp: nth_upto)

section \<open>Properties\<close>

text \<open>
  C16: Subscriptions stay unique and listed in order: whatever requests the server handles, no two
  subscriptions have the same destination and format, each is found under its id, and (below 2^63
  subscriptions) the collection lists them by strictly ascending numbers, which are never reused.
\<close>

theorem subscriptions_unique_and_ordered:
  assumes "subscriptions_ok (rf_server rf)" and "s = rf_server (serve_all env mux novnc rqs rf)"
  shows "distinct (map (\<lambda>sub. (ed_Destination sub, ed_EventFormatType sub)) (listSubscriptions s))
    \<and> (\<forall>sub \<in> set (listSubscriptions s).
        handleGetSubscription [(''id'', ed_ID sub)] s = writeJSON 200 [] (enc_EventDestination sub))
    \<and> (s_nextSubscriptionID s < 2 ^ 63 \<longrightarrow>
        (\<exists>ns. sorted_wrt (<) ns \<and> map ed_ID (listSubscriptions s) = map itoa ns))"
proof -
  have ok: "subscriptions_ok s"
    unfolding assms(2) by (rule serve_all_subscriptions_ok) (rule assms(1))
  have "handleGetSubscription [(''id'', ed_ID sub)] s = writeJSON 200 [] (enc_EventDestination sub)"
    if "sub \<in> set (listSubscriptions s)" for sub
  proof -
    from that obtain k where k: "(k, sub) \<in> set (s_subscriptions s)"
      by auto
    then have "map_of (s_subscriptions s) (ed_ID sub) = Some sub"
      using ok by (auto simp: subscriptions_ok_def)
    then show ?thesis
      by (simp add: handleGetSubscription_def var_def)
  qed
  then show ?thesis
    using distinct_listSubscriptions [OF ok] listSubscriptions_ids [OF ok] by blast
qed

text \<open>
  C31: A test event goes to exactly the subscriptions for events: answered with 204, the server
  starts one delivery to each of them, in the order of the collection and each destination once,
  with a new event id and the subscription's own context; refused, it starts none.
\<close>

theorem test_event_fan_out:
  assumes "subscriptions_ok s" and "handleSubmitTestEvent tm body s = (resp, s', ds)"
  shows "(rsp_Status resp = 400 \<and> s' = s \<and> ds = []) \<or>
    (resp = noContent \<and> s' = s\<lparr>s_nextEventID := s_nextEventID s + 1\<rparr>
      \<and> map fst ds = map ed_Destination (filter (\<lambda>sub. ed_EventFormatType sub = ''Event'') (listSubscriptions s))
      \<and> distinct (map fst ds)
      \<and> (\<exists>ev. map snd ds = map (\<lambda>sub. NewPayload (itoa (s_nextEventID s + 1)) (ed_Context sub) [ev])
            (filter (\<lambda>sub. ed_EventFormatType sub = ''Event'') (listSubscriptions s))))"
proof -
  have "distinct (map ed_Destination (filter (\<lambda>sub. ed_EventFormatType sub = f) subs))"
    if "distinct (map (\<lambda>sub. (ed_Destination sub, ed_EventFormatType sub)) subs)" for f subs
    using that by (induction subs) auto
  then have dist: "distinct (map ed_Destination (filter (\<lambda>sub. ed_EventFormatType sub = ''Event'') (listSubscriptions s)))"
    using distinct_listSubscriptions [OF assms(1)] by blast
  have list: "listSubscriptions (s\<lparr>s_nextEventID := n\<rparr>) = listSubscriptions s" for n
    by (simp add: listSubscriptions_def)
  show ?thesis
    using assms(2) dist
    by (auto simp: handleSubmitTestEvent_def Let_def eventFormatEvent_def list comp_def
        split: option.splits if_splits)
qed

text \<open>
  C17: Delivery is bounded: with n attempts (at least one), a payload is posted between one and n
  times. It is delivered exactly when the last post succeeds, after posts that all failed, each
  but the first preceded by the retry interval; else all n posts failed and the last error is
  reported.
\<close>

theorem delivery_bounded:
  assumes "Deliver client_do sleep None (NewDispatcher n interval) dest pl w = (r, k, w')"
  shows "1 \<le> k \<and> int k \<le> max 1 n \<and>
    (case r of
       None \<Rightarrow> \<exists>e w1. failing client_do (sleep interval) dest (enc_Payload pl) [1..int k - 1] ContextDone w = Some (e, w1)
         \<and> post client_do dest (enc_Payload pl) (if k > 1 then sleep interval w1 else w1) = (None, w')
     | Some err \<Rightarrow> int k = max 1 n \<and>
         (\<exists>e. failing client_do (sleep interval) dest (enc_Payload pl) [1..max 1 n] ContextDone w = Some (e, w')
           \<and> err = AfterAttempts (max 1 n) e))"
proof -
  let ?m = "max 1 n"
  have m: "d_attempts (NewDispatcher n interval) = ?m" "d_retryInterval (NewDispatcher n interval) = interval"
    by (simp_all add: NewDispatcher_def)
  note spec = deliver_loop_spec [OF assms [unfolded Deliver_def m]]
  show ?thesis
  proof (cases r)
    case None
    with spec have "1 \<le> k" "k \<le> nat ?m"
      by auto
    then have "[1..?m] ! (k - 1) = int k" "take (k - 1) [1..?m] = [1..int k - 1]" "int k \<le> ?m"
      by (auto simp: nth_upto take_upto of_nat_diff min_def)
    with spec None \<open>1 \<le> k\<close> show ?thesis
      by auto
  qed (use spec in auto)
qed

section \<open>Witnesses\<close>

lemma NewRedfishServer_subscriptions: "subscriptions_ok (NewRedfishServer u p)"
  by (simp add: subscriptions_ok_def NewRedfishServer_def)

text \<open>A request for a subscription, and the server with its subscription.\<close>

definition subscribe_request :: json where
  "subscribe_request = JObj [(''Destination'', JStr ''http://host/e''), (''Context'', JStr ''c'')]"

definition subscribed :: RedfishServer where
  "subscribed = snd (handleCreateSubscription (\<lambda>u. Some (''http'', ''host'')) (\<lambda>s. s)
     (Some subscribe_request) (NewRedfishServer ''admin'' ''secret''))"

definition sample_subscription :: EventDestination where
  "sample_subscription = new_subscription ''1'' (zero_CreateEventDestinationRequest
     \<lparr>cedr_Destination := ''http://host/e'', cedr_Context := ''c'', cedr_Protocol := ''Redfish'',
      cedr_SubscriptionType := ''RedfishEvent'', cedr_EventFormatType := ''Event''\<rparr>)"

lemma subscribed_list: "s_subscriptions subscribed = [(''1'', sample_subscription)]"
  by code_simp

lemma subscribed_ok: "subscriptions_ok subscribed"
  unfolding subscribed_def
  by (rule create_subscription_ok [OF NewRedfishServer_subscriptions prod.collapse [symmetric]])

lemma subscriptions_unique_and_ordered_witness:
  "handleGetSubscription [(''id'', ''1'')] (rf_server (serve_all stub_env first_match (\<lambda>_. noContent) []
      (stub_redfish\<lparr>rf_server := subscribed\<rparr>))) = writeJSON 200 [] (enc_EventDestination sample_subscription)"
proof -
  have "ed_ID sample_subscription = ''1''"
    by (simp add: sample_subscription_def new_subscription_def)
  then show ?thesis
    using subscriptions_unique_and_ordered [of "stub_redfish\<lparr>rf_server := subscribed\<rparr>" _ stub_env first_match
        "\<lambda>_. noContent" "[]", OF _ refl] subscribed_ok subscribed_list by simp
qed

definition test_request :: json where
  "test_request = JObj [(''MessageId'', JStr ''Alert.1.0.Test'')]"

lemma test_event_fan_out_witness:
  "map fst (snd (snd (handleSubmitTestEvent ''t'' (Some test_request) subscribed))) = [''http://host/e'']"
proof -
  have n: "rsp_Status (fst (handleSubmitTestEvent ''t'' (Some test_request) subscribed)) = 204"
    by code_simp
  have l: "filter (\<lambda>sub. ed_EventFormatType sub = ''Event'') (listSubscriptions subscribed) = [sample_subscription]"
    unfolding listSubscriptions_def subscribed_list
    by (simp add: sample_subscription_def new_subscription_def)
  have d: "ed_Destination sample_subscription = ''http://host/e''"
    by (simp add: sample_subscription_def new_subscription_def)
  obtain resp s' ds where h: "handleSubmitTestEvent ''t'' (Some test_request) subscribed = (resp, s', ds)"
    by (metis prod.exhaust)
  show ?thesis
    using test_event_fan_out [OF subscribed_ok h] n unfolding l h by (auto simp: d)
qed

text \<open>A client that fails twice and then succeeds; the world counts its posts.\<close>

definition flaky :: "nat http_post" where
  "flaky dest body w = (if w < 2 then Inr 503 else Inr 204, Suc w)"

lemma flaky_delivered:
  "Deliver flaky (\<lambda>_ w. w) None (NewDispatcher 3 5) ''d'' (NewPayload ''1'' [] []) 0 = (None, 3, 3)"
  by (simp add: Deliver_def NewDispatcher_def post_def flaky_def upto.simps)

lemma delivery_bounded_witness:
  "\<exists>e w1. failing flaky (\<lambda>w. w) ''d'' (enc_Payload (NewPayload ''1'' [] [])) [1..2] ContextDone 0 = Some (e, w1)
    \<and> post flaky ''d'' (enc_Payload (NewPayload ''1'' [] [])) w1 = (None, 3)"
  using delivery_bounded [OF flaky_delivered] by auto

end
