(* ===== verification/Redfish_Answers.thy ===== *)
theory Redfish_Answers
  imports Redfish_Accounts_Properties
begin

text \<open>
  The answers of the Redfish API: what every client may rely on, whatever it asks, and that a
  request that is refused changes nothing.
\<close>

section \<open>Well-formed answers\<close>

text \<open>
  A resource is a JSON object without an error; an error object has a code and a message and
  nothing else. A resource comes with a success code (and a location, if it was created or will be),
  an error object with a failure code, nothing with 204; every body is declared as JSON.
\<close>

definition resource :: "json \<Rightarrow> bool" where
  "resource j \<longleftrightarrow> (case j of JObj ms \<Rightarrow> ''error'' \<notin> fst ` set ms | _ \<Rightarrow> False)"

definition error_object :: "json \<Rightarrow> bool" where
  "error_object j \<longleftrightarrow> (\<exists>c m. j = JObj [(''error'', JObj [(''code'', JStr c), (''message'', JStr m)])])"

definition well_formed :: "Response \<Rightarrow> bool" where
  "well_formed resp \<longleftrightarrow>
     (case rsp_Body resp of
        NoBody \<Rightarrow> rsp_Status resp = 204
      | TextBody t \<Rightarrow> False
      | FileBody j \<Rightarrow> rsp_Status resp = 200 \<and> map_of (rsp_Header resp) ''Content-Type'' = Some ''application/json''
      | JSONBody j \<Rightarrow> map_of (rsp_Header resp) ''Content-Type'' = Some ''application/json'' \<and>
          (rsp_Status resp = 200 \<and> resource j
           \<or> rsp_Status resp \<in> {201, 202} \<and> resource j \<and> map_of (rsp_Header resp) ''Location'' \<noteq> None
           \<or> rsp_Status resp \<in> {400, 404, 409, 412, 500} \<and> error_object j))"

lemma resource_append:
  "resource (JObj (ms @ ms')) \<longleftrightarrow> resource (JObj ms) \<and> resource (JObj ms')" "resource (JObj [])"
  by (auto simp: resource_def)

lemma resource_fields:
  "k \<noteq> ''error'' \<Longrightarrow> resource (JObj (fld k j))" "k \<noteq> ''error'' \<Longrightarrow> resource (JObj (fld_str k s))"
  "k \<noteq> ''error'' \<Longrightarrow> resource (JObj (fld_list k f xs))" "k \<noteq> ''error'' \<Longrightarrow> resource (JObj (fld_ptr k g p))"
  by (auto simp: resource_def fld_def fld_str_def fld_list_def fld_ptr_def split: option.split)

lemma resources [simp]:
  "resource (enc_AccountService r0)" "resource (enc_Bios r1)"
  "resource (enc_BootOption r2)" "resource (enc_BootOptionCollection r3)"
  "resource (enc_Chassis r4)" "resource (enc_ChassisCollection r5)"
  "resource (enc_ComputerSystem r6)" "resource (enc_DellManagerAttributes r7)"
  "resource (enc_EventDestination r8)" "resource (enc_EventDestinationCollection r9)"
  "resource (enc_EventService r10)" "resource (enc_Manager r11)"
  "resource (enc_ManagerAccount r12)" "resource (enc_ManagerAccountCollection r13)"
  "resource (enc_ManagerCollection r14)" "resource (enc_MessageRegistryFile r15)"
  "resource (enc_Processor r16)" "resource (enc_ProcessorCollection r17)"
  "resource (enc_RegistryFileCollection r18)" "resource (enc_ServiceRoot r19)"
  "resource (enc_SoftwareInventory r20)" "resource (enc_SoftwareInventoryCollection r21)"
  "resource (enc_SystemCollection r22)" "resource (enc_Task r23)"
  "resource (enc_TaskCollection r24)" "resource (enc_TaskService r25)"
  "resource (enc_UpdateService r26)" "resource (enc_VirtualMedia r27)"
  "resource (enc_VirtualMediaCollection r28)"
  by (simp_all add: resource_append resource_fields
    enc_AccountService_def enc_Bios_def enc_BootOption_def
    enc_BootOptionCollection_def enc_Chassis_def enc_ChassisCollection_def
    enc_ComputerSystem_def enc_DellManagerAttributes_def enc_EventDestination_def
    enc_EventDestinationCollection_def enc_EventService_def enc_Manager_def
    enc_ManagerAccount_def enc_ManagerAccountCollection_def enc_ManagerCollection_def
    enc_MessageRegistryFile_def enc_Processor_def enc_ProcessorCollection_def
    enc_RegistryFileCollection_def enc_ServiceRoot_def enc_SoftwareInventory_def
    enc_SoftwareInventoryCollection_def enc_SystemCollection_def enc_Task_def
    enc_TaskCollection_def enc_TaskService_def enc_UpdateService_def
    enc_VirtualMedia_def enc_VirtualMediaCollection_def)

lemma status_resource [simp]: "resource (JObj [(''status'', JStr ''ok'')])"
  by (simp add: resource_def)

lemma well_formed_writeJSON [simp]:
  "resource j \<Longrightarrow> well_formed (writeJSON 200 h j)"
  "c \<in> {201, 202} \<Longrightarrow> resource j \<Longrightarrow> well_formed (writeJSON c [(''Location'', l)] j)"
  by (auto simp: well_formed_def jsonHeader_def)

definition failure_codes :: "nat set" where "failure_codes = {400, 404, 409, 412, 500}"

lemma codes [simp]:
  "400 \<in> failure_codes" "404 \<in> failure_codes" "409 \<in> failure_codes" "412 \<in> failure_codes" "500 \<in> failure_codes"
  by (simp_all add: failure_codes_def)

lemma well_formed_writeError [simp]: "c \<in> failure_codes \<Longrightarrow> well_formed (writeError c e m)"
  by (simp add: well_formed_def writeError_def jsonHeader_def error_object_def failure_codes_def
      enc_RedfishError_def enc_RedfishErrorBody_def json_enc)

lemma well_formed_others [simp]: "well_formed noContent" "well_formed malformed" "well_formed statusOK"
  by (simp_all add: malformed_def statusOK_def) (simp add: well_formed_def)

section \<open>Every handler\<close>

lemmas handler_defs = handleServiceRoot_def handleSystemCollection_def handleProcessorCollection_def
  handleGetProcessor_def handleBootOptionCollection_def handleGetBootOption_def handleGetBios_def
  handleGetBiosSettings_def handlePatchBiosSettings_def handleRegistryCollection_def
  handleGetRegistryContent_def handleGetRegistryFile_def registryNotFound_def
  handleManagerCollection_def handleGetManager_def handleManagerReset_def
  handleGetManagerAttributes_def handleGetManagerAttributesSettings_def dellAttrsEnabled_def
  handlePatchManagerAttributesSettings_def handleVirtualMediaCollection_def handleGetVirtualMedia_def
  handleGetAccountService_def handleAccountCollection_def handleCreateAccount_def handleGetAccount_def
  handlePatchAccount_def handleDeleteAccount_def accountNotFound_def accountExists_def writeAccount_def
  handleGetEventService_def handleSubscriptionCollection_def handleCreateSubscription_def
  handleGetSubscription_def handleDeleteSubscription_def subscriptionNotFound_def
  handleSubmitTestEvent_def handleGetUpdateService_def handleFirmwareInventoryCollection_def
  handleGetFirmwareInventory_def handleSimpleUpdate_def handleGetTaskService_def
  handleTaskCollection_def handleGetTask_def handleChassisCollection_def handleGetChassis_def

lemmas machine_handler_defs = handleGetSystem_def handlePatchSystem_def checkIfMatch_def patchBoot_def
  handleResetAction_def handleInsertMedia_def handleEjectMedia_def statusFailed_def

lemma well_formed_file: "well_formed \<lparr>rsp_Status = 200, rsp_Header = [jsonHeader], rsp_Body = FileBody j\<rparr>"
  by (simp add: well_formed_def jsonHeader_def)

lemma reading_answers:
  "well_formed handleServiceRoot" "well_formed handleSystemCollection" "well_formed handleProcessorCollection"
  "well_formed (handleGetProcessor vs s)" "well_formed handleBootOptionCollection"
  "well_formed (handleGetBootOption vs)" "well_formed (handleGetBios vs s)"
  "well_formed (handleGetBiosSettings vs s)" "well_formed (handleRegistryCollection s)"
  "well_formed (handleGetRegistryContent vs s)" "well_formed (handleGetRegistryFile vs s)"
  "well_formed handleManagerCollection" "well_formed (handleGetManager s)"
  "well_formed (handleGetManagerAttributes vs s)" "well_formed (handleGetManagerAttributesSettings vs s)"
  "well_formed handleVirtualMediaCollection" "well_formed (handleGetVirtualMedia s)"
  "well_formed handleGetAccountService" "well_formed (handleAccountCollection st)"
  "well_formed (handleGetAccount vs st)" "well_formed handleGetEventService"
  "well_formed (handleSubscriptionCollection s)" "well_formed (handleGetSubscription vs s)"
  "well_formed handleGetUpdateService" "well_formed (handleFirmwareInventoryCollection s)"
  "well_formed (handleGetFirmwareInventory vs s)" "well_formed handleGetTaskService"
  "well_formed (handleTaskCollection s)" "well_formed (handleGetTask vs s)"
  "well_formed handleChassisCollection" "well_formed handleGetChassis"
  by (auto simp: handler_defs well_formed_file Let_def split: option.split prod.split)

lemma writing_answers:
  "well_formed (fst (handlePatchBiosSettings body s))" "well_formed (fst (handleManagerReset tm body s))"
  "well_formed (fst (handlePatchManagerAttributesSettings body s))"
  "well_formed (fst (handleCreateAccount q body st))" "well_formed (fst (handlePatchAccount q vs body st))"
  "well_formed (fst (handleDeleteAccount vs st))"
  "well_formed (fst (handleCreateSubscription up q body s))"
  "well_formed (fst (handleDeleteSubscription vs s))" "well_formed (fst (handleSubmitTestEvent tm body s))"
  "well_formed (fst (handleSimpleUpdate up q tm body s))"
  by (auto simp: handler_defs Let_def split: option.split prod.split sum.split)

lemma machine_answers:
  "well_formed (fst (handleGetSystem env rf))" "well_formed (fst (handleResetAction env body rf))"
  "well_formed (fst (handleInsertMedia env body rf))" "well_formed (fst (handleEjectMedia env rf))"
  by (auto simp: machine_handler_defs Let_def split: option.split prod.split sum.split)

lemma checkIfMatch_answers: "checkIfMatch env m rf = (Some resp, rf1) \<Longrightarrow> well_formed resp"
  by (auto simp: machine_handler_defs Let_def split: option.splits prod.splits sum.splits if_splits)

lemma patchBoot_answers: "patchBoot env b rf = (Some resp, rf1) \<Longrightarrow> well_formed resp"
  by (auto simp: machine_handler_defs split: option.splits prod.splits if_splits)

lemma patch_answers: "well_formed (fst (handlePatchSystem env rq rf))"
  by (auto simp: handlePatchSystem_def machine_answers dest: checkIfMatch_answers patchBoot_answers
      split: option.splits prod.split)

section \<open>Refusals\<close>

text \<open>The answers that refuse a request for what it asks, other than a failure of the machine.\<close>

definition refused :: "Response \<Rightarrow> bool" where
  "refused resp \<longleftrightarrow> rsp_Status resp \<in> {400, 404, 409, 412}"

lemma refused_simps [simp]:
  "refused (writeJSON c h j) \<longleftrightarrow> c \<in> {400, 404, 409, 412}"
  "refused (writeError c e m) \<longleftrightarrow> c \<in> {400, 404, 409, 412}" "\<not> refused noContent" "\<not> refused statusOK"
  by (simp_all add: refused_def statusOK_def)

lemma patch_settings_refusals:
  "refused (fst (handlePatchBiosSettings body s)) \<Longrightarrow> snd (handlePatchBiosSettings body s) = s"
  "refused (fst (handlePatchManagerAttributesSettings body s)) \<Longrightarrow>
     snd (handlePatchManagerAttributesSettings body s) = s"
  unfolding handlePatchBiosSettings_def handlePatchManagerAttributesSettings_def
  by (auto split: option.splits prod.splits if_splits)

lemma manager_reset_refusal:
  "refused (fst (handleManagerReset tm body s)) \<Longrightarrow> snd (handleManagerReset tm body s) = s"
  unfolding handleManagerReset_def by (auto split: option.splits prod.splits if_splits)

lemma create_subscription_refusal:
  "refused (fst (handleCreateSubscription up q body s)) \<longrightarrow> snd (handleCreateSubscription up q body s) = s"
  unfolding handleCreateSubscription_def Let_def by (simp split: option.split sum.split prod.split)

lemma delete_subscription_refusal:
  "refused (fst (handleDeleteSubscription vs s)) \<longrightarrow> snd (handleDeleteSubscription vs s) = s"
  unfolding handleDeleteSubscription_def Let_def
  by (simp add: AList.delete_id map_of_eq_None_iff split: option.split)

lemmas subscription_refusals = create_subscription_refusal [rule_format] delete_subscription_refusal [rule_format]

lemma test_event_refusal:
  "refused (fst (handleSubmitTestEvent tm body s)) \<longrightarrow> snd (handleSubmitTestEvent tm body s) = (s, [])"
  unfolding handleSubmitTestEvent_def Let_def by (simp split: option.split)

lemma simple_update_refusal:
  "refused (fst (handleSimpleUpdate up q tm body s)) \<longrightarrow> snd (handleSimpleUpdate up q tm body s) = (s, None)"
  unfolding handleSimpleUpdate_def by (simp split: option.split sum.split prod.split)

lemma delete_account_refusal:
  "refused (fst (handleDeleteAccount vs st)) \<longrightarrow> snd (handleDeleteAccount vs st) = st"
  unfolding handleDeleteAccount_def
  by (simp split: option.split prod.split) (auto dest: DeleteAccount_error)

lemma create_account_refusal:
  "refused (fst (handleCreateAccount q body st)) \<longrightarrow> snd (handleCreateAccount q body st) = st"
  unfolding handleCreateAccount_def writeAccount_def
  by (simp split: option.split sum.split prod.split) (auto dest: accounts.create_error)

lemma patch_account_refusal:
  "refused (fst (handlePatchAccount q vs body st)) \<longrightarrow> snd (handlePatchAccount q vs body st) = st"
  unfolding handlePatchAccount_def writeAccount_def
  by (simp split: option.split sum.split prod.split) (auto dest: UpdateAccount_error)

lemmas handler_refusals = patch_settings_refusals manager_reset_refusal subscription_refusals
  test_event_refusal [rule_format] simple_update_refusal [rule_format] delete_account_refusal [rule_format]
  create_account_refusal [rule_format] patch_account_refusal [rule_format]

lemma machine_refusals:
  "refused (fst (handleResetAction env body rf)) \<Longrightarrow> snd (handleResetAction env body rf) = rf"
  "refused (fst (handleInsertMedia env body rf)) \<Longrightarrow> snd (handleInsertMedia env body rf) = rf"
  "\<not> refused (fst (handleGetSystem env rf))" "\<not> refused (fst (handleEjectMedia env rf))"
  by (auto simp: machine_handler_defs on_machine_def Let_def split: option.splits prod.splits sum.splits if_splits)

lemma patchBoot_server: "patchBoot env b rf = (Some resp, rf1) \<Longrightarrow> rf_server rf1 = rf_server rf"
  by (auto simp: patchBoot_def on_machine_def split: option.splits prod.splits if_splits)

lemma patch_refusals:
  assumes "refused (fst (handlePatchSystem env rq rf))"
  shows "rf_server (snd (handlePatchSystem env rq rf)) = rf_server rf"
proof -
  obtain c rf1 where c: "checkIfMatch env (rq_IfMatch rq) rf = (c, rf1)"
    by fastforce
  have rf1: "rf_server rf1 = rf_server rf"
    using checkIfMatch_server [of env "rq_IfMatch rq" rf] by (simp add: c)
  have boot: "rf_server rf2 = rf_server rf" if "patchBoot env b rf1 = (Some resp, rf2)" for b resp rf2
    using patchBoot_server [OF that] rf1 by simp
  show ?thesis
    using assms rf1
    by (auto simp: handlePatchSystem_def c machine_refusals(3) dest: boot split: option.splits prod.splits if_splits)
qed

lemma run_handler_refused:
  assumes "refused (fst (run_handler env novnc tm h vs rq rf))"
  shows "rf_server (fst (snd (run_handler env novnc tm h vs rq rf))) = rf_server rf
    \<and> snd (snd (run_handler env novnc tm h vs rq rf)) = []"
  using assms
  by (cases h) (simp_all add: reads_def writes_def acts_def on_users_def case_prod_beta machine_refusals
      patch_refusals handler_refusals)

section \<open>Properties\<close>

lemma api_handler_answers:
  assumes "h \<notin> {H_NovncRedirect, H_NovncFiles, H_WebSocket}"
  shows "well_formed (fst (run_handler env novnc tm h vs rq rf))"
  using assms
  by (cases h) (simp_all add: reads_def writes_def acts_def on_users_def case_prod_beta reading_answers
      writing_answers machine_answers patch_answers)

text \<open>
  C33: Every answer the server gives to a request it has a Redfish route for is well formed, whatever
  the state and the behaviour of the machine: if credentials are configured, the path is not public
  and the request carries none that are accepted, 401 with a challenge for basic authentication;
  else a JSON resource with 200, or with 201 or 202 and its location, a JSON error object with a
  code, a message and status 400, 404, 409, 412 or 500, or no body with 204. And a request refused
  with 400, 401, 404, 409 or 412 changes nothing in the server and starts no goroutine. Requests
  without a route get the router's own answer, and the noVNC routes their handlers'.
\<close>

theorem api_answers_well_formed:
  assumes "ServeHTTP env mux novnc tm rq rf = (resp, rf', gs)" and "mux setupRoutes rq = Matched h vs"
    and "h \<notin> {H_NovncRedirect, H_NovncFiles, H_WebSocket}"
  shows "(if s_user (rf_server rf) \<noteq> [] \<and> s_pass (rf_server rf) \<noteq> []
        \<and> trim_slash (rq_Path rq) \<notin> set redfishPublicPaths \<and> \<not> authorized rq (s_users (rf_server rf))
      then rsp_Status resp = 401
        \<and> map_of (rsp_Header resp) ''WWW-Authenticate'' = Some (''Basic realm='' @ [CHR 0x22] @ ''Redfish'' @ [CHR 0x22])
      else well_formed resp)
    \<and> (rsp_Status resp \<in> {400, 401, 404, 409, 412} \<longrightarrow> rf_server rf' = rf_server rf \<and> gs = [])"
proof (cases "\<not> credentials_set (rf_server rf) \<or> trim_slash (rq_Path rq) \<in> set redfishPublicPaths
    \<or> authorized rq (s_users (rf_server rf))")
  case True
  let ?run = "run_handler env novnc tm h vs (rq\<lparr>rq_Path := trim_slash (rq_Path rq)\<rparr>) rf"
  have run: "?run = (resp, rf', gs)"
    using assms(1,2) True by (simp add: ServeHTTP_cases)
  have wf: "well_formed resp"
    using api_handler_answers [OF assms(3), of env novnc tm vs "rq\<lparr>rq_Path := trim_slash (rq_Path rq)\<rparr>" rf]
    by (simp add: run)
  then have "rsp_Status resp \<noteq> 401"
    by (auto simp: well_formed_def split: body.splits)
  then show ?thesis
    using wf True run_handler_refused [of env novnc tm h vs "rq\<lparr>rq_Path := trim_slash (rq_Path rq)\<rparr>" rf]
    by (auto simp: run refused_def credentials_set_def)
next
  case False
  then show ?thesis
    using assms(1,2) by (auto simp: ServeHTTP_cases unauthorized_def credentials_set_def)
qed

lemma api_answers_well_formed_witness:
  "(let answer = ServeHTTP stub_env (\<lambda>_ _. Matched H_SimpleUpdate []) (\<lambda>_. noContent) []
       (request ''POST'' simpleUpdatePath (Some (''admin'', ''secret'')) None) stub_redfish
    in well_formed (fst answer) \<and> rf_server (fst (snd answer)) = rf_server stub_redfish)"
proof -
  let ?rq = "request ''POST'' simpleUpdatePath (Some (''admin'', ''secret'')) None"
  have auth: "authorized ?rq (s_users (rf_server stub_redfish))"
    unfolding stub_users by code_simp
  obtain resp rf' gs where a: "ServeHTTP stub_env (\<lambda>_ _. Matched H_SimpleUpdate []) (\<lambda>_. noContent) []
      ?rq stub_redfish = (resp, rf', gs)"
    by (metis prod_cases3)
  have "decode dec_SimpleUpdateRequest zero_SimpleUpdateRequest (rq_Body ?rq) = None"
    by (simp add: decode_def request_def)
  then have "rsp_Status resp = 400"
    using a auth by (simp add: ServeHTTP_cases handleSimpleUpdate_def)
  then show ?thesis
    using api_answers_well_formed [OF a refl] auth by (simp add: a Let_def)
qed

end
