(* ===== verification/Config.thy ===== *)
theory Config
  imports Redfish_Server
begin

text \<open>
  The configuration, src/internal/config/config.go: \<open>Load\<close> reads every setting from an environment
  variable or takes its default. \<open>time.ParseDuration\<close> is a parameter, as its fractions are computed
  in floating point; durations are nanoseconds.
\<close>

section \<open>Reading variables\<close>

text \<open>\<open>os.Getenv\<close>: the empty string if the variable is not set.\<close>

type_synonym environment = "string \<rightharpoonup> string"

definition Getenv :: "environment \<Rightarrow> string \<Rightarrow> string" where
  "Getenv env key = (case env key of None \<Rightarrow> [] | Some v \<Rightarrow> v)"

definition getEnv :: "environment \<Rightarrow> string \<Rightarrow> string \<Rightarrow> string" where
  "getEnv env key defaultValue = (if Getenv env key \<noteq> [] then Getenv env key else defaultValue)"

definition getIntEnv :: "environment \<Rightarrow> string \<Rightarrow> int \<Rightarrow> int" where
  "getIntEnv env key defaultValue =
     (if Getenv env key = [] then defaultValue
      else case Atoi (Getenv env key) of None \<Rightarrow> defaultValue | Some n \<Rightarrow> n)"

definition getDurationEnv ::
    "(string \<Rightarrow> int option) \<Rightarrow> environment \<Rightarrow> string \<Rightarrow> int \<Rightarrow> int" where
  "getDurationEnv parseDuration env key defaultValue =
     (if Getenv env key = [] then defaultValue
      else case parseDuration (Getenv env key) of None \<Rightarrow> defaultValue | Some d \<Rightarrow> d)"

definition getBoolEnv :: "environment \<Rightarrow> string \<Rightarrow> bool \<Rightarrow> bool" where
  "getBoolEnv env key defaultValue =
     (if Getenv env key \<in> {''true'', ''1'', ''yes''} then True
      else if Getenv env key \<in> {''false'', ''0'', ''no''} then False
      else defaultValue)"

section \<open>The configuration\<close>

record Config =
  cfg_QMPSocket :: string
  cfg_IPMIUser :: string
  cfg_IPMIPass :: string
  cfg_RedfishPort :: string
  cfg_IPMIPort :: string
  cfg_SerialAddr :: string
  cfg_SerialLogFile :: string
  cfg_TLSCert :: string
  cfg_TLSKey :: string
  cfg_VMBootMode :: string
  cfg_VMIPMIAddr :: string
  cfg_QEMUBinary :: string
  cfg_PowerOnAtStart :: bool
  cfg_VNCAddr :: string
  cfg_Debug :: bool
  cfg_DellBMCAttributes :: bool
  cfg_SystemUUID :: string
  cfg_SystemManufacturer :: string
  cfg_SystemModel :: string
  cfg_SystemSerial :: string
  cfg_ManagerModel :: string
  cfg_SystemFirmwareVersion :: string
  cfg_ManagerManufacturer :: string
  cfg_ManagerSerial :: string
  cfg_ManagerPartNumber :: string
  cfg_ManagerUUID :: string
  cfg_SystemSKU :: string
  cfg_SystemBiosVersion :: string
  cfg_CPUModel :: string
  cfg_CPUCount :: int
  cfg_MemoryMiB :: int
  cfg_GracefulShutdownTimeout :: int
  cfg_FirmwareUpdateDuration :: int
  cfg_FirmwareDownloadTimeout :: int
  cfg_FirmwareDownloadInsecureTLS :: bool

definition Load :: "(string \<Rightarrow> int option) \<Rightarrow> environment \<Rightarrow> Config" where
  "Load parseDuration env =
     (let systemModel = getEnv env ''SYSTEM_MODEL'' ''Standard PC (Q35 + ICH9, 2009)'';
          systemManufacturer = getEnv env ''SYSTEM_MANUFACTURER'' ''QEMU'';
          systemSerial = getEnv env ''SYSTEM_SERIAL'' []
      in \<lparr>cfg_QMPSocket = getEnv env ''QMP_SOCK'' ''/var/run/qemu/qmp.sock'',
          cfg_IPMIUser = getEnv env ''IPMI_USER'' ''admin'',
          cfg_IPMIPass = getEnv env ''IPMI_PASS'' ''password'',
          cfg_RedfishPort = getEnv env ''REDFISH_PORT'' ''443'',
          cfg_IPMIPort = getEnv env ''IPMI_PORT'' ''623'',
          cfg_SerialAddr = getEnv env ''SERIAL_ADDR'' ''localhost:9002'',
          cfg_SerialLogFile = getEnv env ''CONSOLE_LOG'' ''/vm/console.log'',
          cfg_TLSCert = getEnv env ''TLS_CERT'' [],
          cfg_TLSKey = getEnv env ''TLS_KEY'' [],
          cfg_VMBootMode = getEnv env ''VM_BOOT_MODE'' ''bios'',
          cfg_VMIPMIAddr = getEnv env ''VM_IPMI_ADDR'' [],
          cfg_QEMUBinary = getEnv env ''QEMU_BINARY'' ''qemu-system-x86_64'',
          cfg_PowerOnAtStart = getBoolEnv env ''POWER_ON_AT_START'' False,
          cfg_VNCAddr = getEnv env ''VNC_ADDR'' ''localhost:5900'',
          cfg_Debug = getBoolEnv env ''DEBUG'' False,
          cfg_DellBMCAttributes = getBoolEnv env ''ENABLE_DELL_BMC_ATTRIBUTES'' False,
          cfg_SystemUUID = getEnv env ''SYSTEM_UUID'' [],
          cfg_SystemManufacturer = systemManufacturer,
          cfg_SystemModel = systemModel,
          cfg_SystemSerial = systemSerial,
          cfg_ManagerModel = getEnv env ''SYSTEM_MANAGER_MODEL'' systemModel,
          cfg_SystemFirmwareVersion = getEnv env ''SYSTEM_FIRMWARE_VERSION'' ''1.0.0'',
          cfg_ManagerManufacturer = getEnv env ''SYSTEM_MANAGER_MANUFACTURER'' systemManufacturer,
          cfg_ManagerSerial = getEnv env ''SYSTEM_MANAGER_SERIAL'' systemSerial,
          cfg_ManagerPartNumber = getEnv env ''SYSTEM_MANAGER_PART_NUMBER'' [],
          cfg_ManagerUUID = getEnv env ''SYSTEM_MANAGER_UUID'' [],
          cfg_SystemSKU = getEnv env ''SYSTEM_SKU'' [],
          cfg_SystemBiosVersion = getEnv env ''SYSTEM_BIOS_VERSION'' ''1.0.0'',
          cfg_CPUModel = getEnv env ''SYSTEM_CPU_MODEL'' ''QEMU Virtual CPU'',
          cfg_CPUCount = getIntEnv env ''VM_CPUS'' 2,
          cfg_MemoryMiB = getIntEnv env ''VM_MEMORY'' 2048,
          cfg_GracefulShutdownTimeout = getDurationEnv parseDuration env ''GRACEFUL_SHUTDOWN_TIMEOUT'' (seconds 120),
          cfg_FirmwareUpdateDuration = getDurationEnv parseDuration env ''FIRMWARE_UPDATE_DURATION'' (seconds 20),
          cfg_FirmwareDownloadTimeout = getDurationEnv parseDuration env ''FIRMWARE_DOWNLOAD_TIMEOUT'' (seconds 30),
          cfg_FirmwareDownloadInsecureTLS = getBoolEnv env ''FIRMWARE_DOWNLOAD_INSECURE_TLS'' True\<rparr>)"

section \<open>Facts\<close>

lemma getIntEnv_itoa:
  "env k = Some (itoa n) \<Longrightarrow> n < 2 ^ 63 \<Longrightarrow> getIntEnv env k d = int n"
  by (simp add: getIntEnv_def Getenv_def Atoi_itoa)

text \<open>A variable set to the empty string is one that is not set.\<close>

definition unset_empty :: "environment \<Rightarrow> environment" where
  "unset_empty env = (\<lambda>k. if env k = Some [] then None else env k)"

lemma Getenv_unset [simp]: "Getenv (unset_empty env) k = Getenv env k"
  by (simp add: unset_empty_def Getenv_def)

lemma Load_unset: "Load pd (unset_empty env) = Load pd env"
proof -
  have "getEnv (unset_empty env) = getEnv env" "getIntEnv (unset_empty env) = getIntEnv env"
    "getDurationEnv pd (unset_empty env) = getDurationEnv pd env"
    "getBoolEnv (unset_empty env) = getBoolEnv env"
    by (simp_all add: fun_eq_iff getEnv_def getIntEnv_def getDurationEnv_def getBoolEnv_def)
  then show ?thesis
    unfolding Load_def by (simp only:)
qed

text \<open>Without variables of its own, the manager describes itself as the system does.\<close>

lemma Load_manager:
  "env ''SYSTEM_MANAGER_MODEL'' = None \<Longrightarrow> env ''SYSTEM_MANAGER_MANUFACTURER'' = None \<Longrightarrow>
   env ''SYSTEM_MANAGER_SERIAL'' = None \<Longrightarrow>
    cfg_ManagerModel (Load pd env) = cfg_SystemModel (Load pd env)
    \<and> cfg_ManagerManufacturer (Load pd env) = cfg_SystemManufacturer (Load pd env)
    \<and> cfg_ManagerSerial (Load pd env) = cfg_SystemSerial (Load pd env)"
  by (simp add: Load_def Let_def getEnv_def Getenv_def)

end
