(* ===== verification/Spec2Isabelle.thy ===== *)
theory Spec2Isabelle
  imports Account_Properties Ipmi_Access Vm_Server Machine_Properties Qmp_Properties
    Redfish_Runs Redfish_Events_Properties Redfish_Answers Config
begin

text \<open>
  qemu-bmc (src/) is a baseboard management controller for one QEMU virtual machine. Clients
  reach it over IPMI on UDP (IPMI 1.5 and RMCP+), over the OpenIPMI VM protocol from inside the
  guest, and over Redfish on HTTP. All front ends share one store of users, LAN parameters and
  channel settings (internal/bmc) and one VM controller (internal/machine), which drives QEMU
  through a QMP client (internal/qmp) and, in process management mode, a process manager
  (internal/qemu). The Redfish server (internal/redfish) adds state of its own: boot order, BIOS
  and manager attributes, virtual media, firmware update tasks (with internal/firmware) and event
  subscriptions (with internal/events). internal/config reads the environment. All of these are
  modelled.

  Theories, in the order of their imports:

  \<^item> Go_Prelude: machine integers as words, Go strings as lists of bytes, \<open>copy\<close>, slices, search
    loops, little-endian integers, flag bits. Go_Strconv: strconv and fmt's zero padding.
  \<^item> Bmc_State: internal/bmc/state.go. \<open>State\<close> holds the sixteen user slots, the LAN map and the
    sixteen channels; every method is one atomic function, as it holds the lock throughout.
    Account_Directory states what the account methods promise: the relation \<open>dir_step\<close> on an
    abstract directory, which they refine, and the interface \<open>account_store\<close>, interpreted on
    them. Account_Properties holds the properties.
  \<^item> Ipmi_Types, Rmcp: internal/ipmi/types.go and rmcp.go: constants, errors, the standard library's
    cryptographic primitives as a parameter, framing, checksums, the IPMI 1.5 wrapper.
  \<^item> Ipmi_User, Ipmi_Config, Ipmi_Chassis, Ipmi_Command: the command handlers (handler_user.go,
    handler_channel.go and handler_lan.go, handler_chassis.go, handler_app.go) and the dispatcher
    \<open>handleIPMICommand\<close>. They act on a \<open>bmc_world\<close>: the machine, the store, the random generator
    and the IPMI 1.5 package variables.
  \<^item> Machine_Api: the machine as the front ends see it: an interface of operations, and the
    contract \<open>boot_override_store\<close> of its boot override, whose client in Ipmi_Chassis is
    \<open>boot_flags_client\<close>.
  \<^item> Aes_Payload, Rmcp_Plus, Ipmi_Server: session.go, rmcp_plus.go and server.go: the session table,
    Open Session and RAKP messages, protected payloads, the receive loop. Ipmi_Safety proves the
    invariant of the session table, how sessions become authenticated, and when the server
    panics, over all sequences of datagrams; Ipmi_Handshake adds the client's packets and what they achieve;
    Ipmi_Access holds the properties about access.
  \<^item> Vm_Protocol, Vm_Server: vm_protocol.go and vm_server.go: byte stuffing, requests and responses,
    the frame reader and the connection loop over the results of its reads.
  \<^item> Machine: internal/machine/machine.go over records for the Go interfaces \<open>qmp.Client\<close> and
    \<open>ProcessManager\<close>. Machine_Control proves its invariant, the bound on the polling loop, and,
    over the contract \<open>process_control\<close>, that restarts restart. Qemu_Args is
    internal/qemu/args.go; Qemu_Process is internal/qemu/process.go over a timed operating system
    and interprets \<open>process_control\<close>. Machine_Properties holds the properties.
  \<^item> Json: JSON values, and what encoding/json does between values and structs: member order,
    omitted members, case-insensitive names, unknown members, null, type errors.
  \<^item> Qmp_Wire: internal/qmp/client.go and the messages of types.go, over a connection as a record of
    its operations. Waiting for a reply is a partial function: only events may arrive for ever.
    Qmp_Properties relates it to the first line that is no event.
  \<^item> Redfish_Types: internal/redfish/types.go: every struct as a record, with its encoder, and the
    decoder of the request bodies. Firmware: internal/firmware/firmware.go. Event_Dispatcher:
    internal/events/dispatcher.go.
  \<^item> Redfish_Server: the state of \<open>Server\<close> in server.go and its accessors. Redfish_Accounts,
    Redfish_Registries, Redfish_Systems, Redfish_Managers, Redfish_Update, Redfish_Events: the
    handlers of handler_*.go. Redfish_Router: middleware.go and the route table of server.go, with
    \<open>run_handler\<close>, which runs the handler of a route on a \<open>redfish\<close> world (server and machine) and
    yields the answer and the goroutines it starts, and \<open>ServeHTTP\<close>.
  \<^item> Redfish_Access: which handler changes what, and the contract of the router.
    Redfish_Accounts_Properties: the AccountService refines the account directory, as a client of
    \<open>account_store\<close>. Redfish_Systems_Properties: the system, reset and BIOS resources, over the
    contract \<open>system_client\<close> of the machine, interpreted on the VM controller. Redfish_Runs: the
    relation \<open>update_step\<close>, in which requests and the sections of update goroutines interleave,
    and its invariant. Redfish_Events_Properties: subscriptions and delivery. Redfish_Answers:
    the form of all answers, and that refused requests change nothing.
  \<^item> Config: internal/config/config.go: the environment as a function from names to values.
  \<^item> Spec2Isabelle: the properties that span components.

  Conventions. A Go function with an error result returns a sum or an option; a writer returns its
  new state with it. A run-time panic is the error \<open>GoPanic\<close>, which ends the receive loop. Loops
  over data are recursive functions, loops that wait (but for the QMP reply) are functions with a
  termination proof:
  \<open>waitLoop\<close> ends because each round sleeps for 100 milliseconds of a finite timeout, and
  \<open>HandleConnection\<close> because each frame consumes reads; no fuel is used. The receive loop and the
  connection loop run over the list of what their reads return. Go maps that are only looked up
  are functions to options; maps that are listed are association lists. The world of the Redfish
  server is changed by one handler at a time; a goroutine that a handler starts is part of its
  result, and what it does later is a list of atomic sections.

  Parameters. HMAC-SHA1, MD5 and the AES block cipher (\<open>crypto\<close>); \<open>crypto_ok\<close> states their result
  lengths and that AES decryption inverts encryption, and \<open>toy_crypto\<close> shows that it can hold. The
  random generator, the QMP connection, the HTTP clients, and the operating system (\<open>os_env\<close>): which
  processes start, and how long they take to react to signals. For Redfish: the route matching of
  the gorilla router (\<open>mux_ok\<close> says that a matched route is one whose method and path admit the
  request; \<open>first_match\<close> shows that it can hold), SHA-256, \<open>url.Parse\<close>, \<open>strconv.Quote\<close>,
  \<open>time.ParseDuration\<close>, the embedded registry files, the texts of errors of the machine, the clock.

  Not modelled. Log lines and debug output, sockets and listeners, a partially filled buffer of a
  failed random read, the text of JSON (a body that is no JSON value is \<open>None\<close>), the interleaving of
  two callers inside one operation of the VM controller or one Redfish handler (each runs alone
  here; the monitor goroutine of a process acts at the times its process dies), a nil BMC store
  (the server is always given one), the noVNC proxy (internal/novnc copies bytes between sockets;
  its handlers are a parameter of the router), the commands under cmd/ (start-up wiring,
  certificates) and the test helpers of integration/.

  Plan. Next: the QMP client as an instance of the interface the VM controller uses; the process
  manager's interleavings as a step relation; two Redfish handlers interleaved at the locks they
  take; the start-up sequence of cmd/qemu-bmc over \<open>Load\<close>.
\<close>

section \<open>One account table behind every front end\<close>

lemma lookup_uid:
  "LookupUserByName st nm = Some uid \<Longrightarrow> nm \<noteq> [] \<and> lookupUserByNameLocked st nm = Some uid
    \<and> 1 \<le> unat uid \<and> unat uid \<le> maxUsers \<and> slot_name (user_at st (unat uid)) = nm"
  by (auto simp: LookupUserByName_def lookup_Some split: if_splits)

text \<open>Changing a slot without changing its name does not change who has which name.\<close>

lemma lookup_same_name:
  assumes "wf_State st" and "1 \<le> unat uid" and "unat uid \<le> maxUsers"
    and "slot_name sl = slot_name (user_at st (unat uid))"
  shows "lookupUserByNameLocked (set_user_at st (unat uid) sl) nm = lookupUserByNameLocked st nm"
proof -
  have "slot_name (user_at (set_user_at st (unat uid) sl) i) = slot_name (user_at st i)" for i
    using assms by simp
  then show ?thesis
    by (simp add: lookupUserByNameLocked_def)
qed

lemma rakp3_password_lookup:
  "rakp3_password p (Some st) nm =
    (case LookupUserByName st nm of
       None \<Rightarrow> p
     | Some uid \<Rightarrow> (let pw = slot_password (user_at st (unat uid)) in if pw \<noteq> [] then pw else p))"
  by (auto simp: rakp3_password_def GetUserPassword_def Let_def validate_ok
      dest: lookup_uid split: option.split)

lemma set_enabled_eq:
  assumes "1 \<le> unat uid" and "unat uid \<le> maxUsers"
  shows "snd (set_enabled uid b st) = set_user_at st (unat uid) ((user_at st (unat uid))
    \<lparr>slot_access := (slot_access (user_at st (unat uid)))\<lparr>Enabled := b\<rparr>\<rparr>)"
  by (simp add: set_enabled_def GetUserAccess_def SetUserAccess_def validate_ok [OF assms])

lemma disable_request:
  assumes "1 \<le> unat uid" and "unat uid \<le> maxUsers"
  shows "handleSetUserPassword [uid, 0x00] st = set_enabled uid False st"
  using assms by (simp add: handleSetUserPassword_def Let_def userID_mask)

section \<open>IPMI boot flags on the VM controller\<close>

interpretation boot_flags: boot_flags_client GetBootOverride SetBootOverride "machine_interface env"
  for env
  by unfold_locales (simp_all add: machine_interface_def)

section \<open>Properties\<close>

text \<open>
  C24: A password set over IPMI is the password of the account on every front end: for the user
  whose slot is set, and who is enabled, Redfish basic authentication accepts exactly the new
  password, and RMCP+ session activation is keyed with it.
\<close>

theorem ipmi_password_is_account_password:
  assumes "wf_State st" and "LookupUserByName st nm = Some uid"
    and "Enabled (slot_access (user_at st (unat uid)))"
    and "field_string (if big then 20 else 16) pw" and "pw \<noteq> []"
    and "st' = snd (handleSetUserPassword (password_req big uid 0x02 pw) st)"
  shows "(Authenticate st' nm q \<longleftrightarrow> q = pw) \<and> rakp3_password p (Some st') nm = pw
    \<and> stored_password (Some st') nm = pw"
proof -
  note uid = lookup_uid [OF assms(2)]
  let ?sl = "(user_at st (unat uid))\<lparr>slot_password := pw\<rparr>"
  have st': "st' = set_user_at st (unat uid) ?sl"
    using uid assms(4,6) by (simp add: handle_set_password)
  have "lookupUserByNameLocked st' nm = Some uid"
    using uid assms(1) unfolding st' by (subst lookup_same_name) simp_all
  moreover have "user_at st' (unat uid) = ?sl"
    using uid assms(1) by (simp add: st')
  ultimately show ?thesis
    using uid assms(3,5)
    by (auto simp: Authenticate_def rakp3_password_lookup LookupUserByName_def Let_def
        stored_password_def GetUserPassword_def validate_ok)
qed

lemma admin_lookup: "LookupUserByName (NewState ''admin'' ''admin'') ''admin'' = Some 2"
  by (simp add: LookupUserByName_def lookupUserByNameLocked_def maxUsers_def upt_conv_Cons
      NewState_user_at zeroUserSlot_def)

lemma ipmi_password_is_account_password_witness:
  "Authenticate (snd (handleSetUserPassword (password_req False 2 0x02 ''new'')
     (NewState ''admin'' ''admin''))) ''admin'' ''new''"
proof -
  have "Enabled (slot_access (user_at (NewState ''admin'' ''admin'') (unat (2::byte))))"
    by (simp add: NewState_user_at maxUsers_def)
  then show ?thesis
    using ipmi_password_is_account_password [OF NewState_wf admin_lookup, of False "''new''" _
        "''new''" "''x''", OF _ _ _ refl]
    by (simp add: field_string_def)
qed

text \<open>
  C36: Disabling a user over IPMI ends their Redfish access and nothing else: basic authentication
  accepts no password for them any more, but RMCP+ session activation is keyed with the same
  password as before, so a disabled user still gets an IPMI session.
\<close>

theorem disabled_user_keeps_ipmi_access:
  assumes "wf_State st" and "LookupUserByName st nm = Some uid"
    and "st' = snd (handleSetUserPassword [uid, 0x00] st)"
  shows "\<not> Authenticate st' nm q
    \<and> rakp3_password p (Some st') nm = rakp3_password p (Some st) nm
    \<and> stored_password (Some st') nm = stored_password (Some st) nm"
proof -
  note uid = lookup_uid [OF assms(2)]
  let ?u = "user_at st (unat uid)"
  let ?sl = "?u\<lparr>slot_access := (slot_access ?u)\<lparr>Enabled := False\<rparr>\<rparr>"
  have st': "st' = set_user_at st (unat uid) ?sl"
    using uid assms(3) by (simp add: disable_request set_enabled_eq)
  have "lookupUserByNameLocked st' nm = Some uid"
    using uid assms(1) unfolding st' by (subst lookup_same_name) simp_all
  moreover have "user_at st' (unat uid) = ?sl"
    using uid assms(1) by (simp add: st')
  ultimately show ?thesis
    using uid by (simp add: Authenticate_def rakp3_password_lookup LookupUserByName_def Let_def
        stored_password_def GetUserPassword_def validate_ok)
qed

lemma disabled_user_keeps_ipmi_access_witness:
  "\<not> Authenticate (snd (handleSetUserPassword [2, 0x00] (NewState ''admin'' ''admin''))) ''admin''
     ''admin''
   \<and> rakp3_password ''p'' (Some (snd (handleSetUserPassword [2, 0x00]
       (NewState ''admin'' ''admin'')))) ''admin'' = ''admin''"
  using disabled_user_keeps_ipmi_access [OF NewState_wf admin_lookup refl, of "''admin''" "''p''"]
  by (simp add: admin_password)

text \<open>
  C35: Deleting an account ends its Redfish access, but RMCP+ activation falls back to the
  password the BMC was started with: for the deleted name the server expects that password, and
  for the configured user name RAKP message 1 still answers as for an existing user.
\<close>

theorem deleted_account_falls_back:
  assumes "store_inv s" and "Account_of s i = Some a" and "DeleteAccount s i = (s', None)"
  shows "\<not> Authenticate s' (acc_Name a) q
    \<and> rakp3_password p (Some s') (acc_Name a) = p \<and> stored_password (Some s') (acc_Name a) = []"
proof -
  obtain sl where sl: "dir_of s (unat i) = Some sl" "acc_Name a = slot_name sl"
    using assms(2) by (auto simp: Account_of_dir)
  note del = DeleteAccount_None [OF assms(1,3)]
  have "acc_Name a \<notin> names (dir_of s')"
    using sl assms(1) unfolding del(2) store_inv_dir dir_ok_def names_def
    by (auto simp: ran_def split: if_splits)
  moreover have "slot_name (user_at s' j) \<in> names (dir_of s')"
    if "1 \<le> j" "j \<le> maxUsers" "slot_name (user_at s' j) \<noteq> []" for j
    using that by (intro namesI [of _ j]) (simp add: dir_of_def)
  ultimately have "LookupUserByName s' (acc_Name a) = None"
    by (fastforce simp: LookupUserByName_def lookup_None)
  then show ?thesis
    using accounts.deleted_no_auth [OF assms] by (simp add: rakp3_password_def stored_password_def)
qed

lemma deleted_account_falls_back_witness:
  "rakp3_password ''startup'' (Some (fst (DeleteAccount admin_store 2))) ''admin'' = ''startup''"
proof -
  have "slot_name (user_at admin_store 2) = ''admin''"
    by (simp add: admin_store_def NewState_user_at maxUsers_def)
  then have "\<exists>a. Account_of admin_store 2 = Some a \<and> acc_Name a = ''admin''"
    and "DeleteAccount admin_store 2 = (fst (DeleteAccount admin_store 2), None)"
    by (simp_all add: Account_of_def accountLocked_def DeleteAccount_def validateUserID_def
        maxUsers_def Let_def)
  then show ?thesis
    using deleted_account_falls_back [of admin_store 2 _ "fst (DeleteAccount admin_store 2)"
        "''q''" "''startup''"] by auto
qed

text \<open>
  C25: Boot flags set over IPMI on the VM controller are read back over IPMI, from any state of
  the machine: the valid and UEFI bits as they were sent, the device code if it is one the BMC
  knows and no device otherwise; and the override the controller then holds is the one those bits
  name.
\<close>

theorem boot_flags_on_machine:
  assumes "sel AND 0x7F = 5" and "sel' AND 0x7F = 5"
    and "m' = snd (handleSetBootOptions (sel # f # dev # a # b # c # rest)
      (machine_interface env) m)"
  shows "handleGetBootOptions (sel' # rest') (machine_interface env) m' =
      (CompletionCodeOK,
       [0x01, 0x85, f AND 0xA0, push_bit 2 (known_device (drop_bit 2 dev AND 0x0F)), 0, 0, 0])
    \<and> bootOverride m' = \<lparr>bo_Enabled = (if f AND 0x80 \<noteq> 0 then ''Once'' else ''Disabled''),
        bo_Target = target_of_bits (drop_bit 2 dev AND 0x0F),
        bo_Mode = (if f AND 0x20 \<noteq> 0 then ''UEFI'' else ''Legacy'')\<rparr>"
  using boot_flags.boot_flags_read_back [OF assms(1,2)] boot_flags.set_boot_flags(2) [OF assms(1)]
  unfolding assms(3) GetBootOverride_def by (intro conjI)

lemma boot_flags_on_machine_witness:
  "handleGetBootOptions [0x05, 0, 0] (machine_interface (sample_env None stubborn_os))
     (snd (handleSetBootOptions [0x05, 0xA0, 0x04, 0, 0, 0]
        (machine_interface (sample_env None stubborn_os)) hung_machine)) =
   (CompletionCodeOK, [0x01, 0x85, 0xA0, 0x04, 0, 0, 0])"
  using boot_flags_on_machine [of "0x05" "0x05" _ "0xA0" "0x04" 0 0 0 "[]"
      "sample_env None stubborn_os" hung_machine "[0, 0]", OF _ _ refl]
  by (simp add: known_device_def)

text \<open>
  C29: An account created over Redfish is an IPMI account at once: RMCP+ session activation for the
  new name is keyed with the new password, whatever password the BMC was started with; even if the
  account was created disabled, when Redfish itself refuses it.
\<close>

theorem redfish_account_keys_ipmi:
  assumes "store_inv st" and "handleCreateAccount quote body st = (resp, st')" and "rsp_Status resp = 201"
  shows "\<exists>req. decode dec_CreateAccountRequest zero_CreateAccountRequest body = Some req
    \<and> rakp3_password p (Some st') (car_UserName req) = car_Password req
    \<and> stored_password (Some st') (car_UserName req) = car_Password req
    \<and> (car_Enabled req = Some False \<longrightarrow> (\<forall>q. \<not> Authenticate st' (car_UserName req) q))"
proof -
  obtain req pr id' where req: "decode dec_CreateAccountRequest zero_CreateAccountRequest body = Some req"
    "password_ok (car_Password req)" "rolePrivileges (car_RoleID req) = Some pr"
    and create: "CreateAccount st (car_UserName req) (car_Password req) pr (car_Enabled req \<noteq> Some False)
      = (st', Inr id')"
    by (rule created_201 [OF assms(2,3)])
  note C = CreateAccount_Inr [OF assms(1) create]
  have "dir_of st' (unat id') = Some (new_slot (car_UserName req) (car_Password req) pr (car_Enabled req \<noteq> Some False))"
    by (simp add: C(2))
  then have slot: "slot_name (user_at st' (unat id')) = car_UserName req"
    "slot_password (user_at st' (unat id')) = car_Password req"
    by (auto simp: dir_of_def new_slot_def split: if_splits)
  have range: "1 \<le> unat id'" "unat id' \<le> maxUsers"
    using C(6,7) by simp_all
  have "lookupUserByNameLocked st' (car_UserName req) = Some id'"
    using C(1,5) range slot(1) by (intro lookup_unique) (simp_all add: store_inv_def)
  then have "LookupUserByName st' (car_UserName req) = Some id'"
    using C(5) by (simp add: LookupUserByName_def)
  moreover have "car_Password req \<noteq> []"
    using req(2) by (auto simp: password_ok_def)
  moreover have "car_Enabled req = Some False \<Longrightarrow> \<not> Authenticate st' (car_UserName req) q" for q
    using accounts.create_auth [OF assms(1) create, of "car_UserName req" q] by simp
  ultimately show ?thesis
    using req(1) slot range by (auto simp: rakp3_password_lookup Let_def stored_password_def
        GetUserPassword_def validate_ok)
qed

lemma redfish_account_keys_ipmi_witness:
  "\<exists>req. decode dec_CreateAccountRequest zero_CreateAccountRequest (Some bob_request) = Some req
    \<and> rakp3_password ''startup'' (Some (snd (handleCreateAccount (\<lambda>s. s) (Some bob_request)
        (NewState ''admin'' ''secret'')))) (car_UserName req) = car_Password req"
  using redfish_account_keys_ipmi [OF NewState_store_inv prod.collapse [symmetric] bob_created] by blast

text \<open>
  C6: A boot override set over Redfish is what the next power-on boots: after a PATCH answered with
  200 and an On reset of the stopped machine answered with 204, the machine is in the state of a
  QEMU process that was started with the target the PATCH asked for worked into its command line,
  and that was then polled until it answered on QMP; and a one-time override is used up.
\<close>

theorem redfish_override_boots:
  assumes "processManager menv = Some (process_manager os)"
    and "handlePatchSystem (with_machine menv env) rq rf = (resp, rf1)" and "rsp_Status resp = 200"
    and "decode dec_PatchSystemRequest zero_PatchSystemRequest (rq_Body rq) = Some req"
    and "\<not> IsRunning os (world (rf_machine rf1))"
    and "handleResetAction (with_machine menv env) (Some (JObj [(''ResetType'', JStr ''On'')])) rf1 = (resp2, rf2)"
    and "rsp_Status resp2 = 204" and "bo = patched_override req (GetBootOverride (rf_machine rf))"
  shows "(\<exists>w1 p. Start os (bo_Target bo) (world (rf_machine rf1)) = (None, w1) \<and> IsRunning os w1
      \<and> waitLoop (qmpClient menv) (30 * Second) 0 w1 = (None, world (rf_machine rf2))
      \<and> cmd w1 = Some p \<and> proc_args p = applyMedia (ApplyBootOverride (baseArgs (world (rf_machine rf1))) (bo_Target bo))
           (media (world (rf_machine rf1))))
    \<and> GetBootOverride (rf_machine rf2) =
        (if bo_Enabled bo = ''Once'' then bo\<lparr>bo_Enabled := ''Disabled'', bo_Target := ''None''\<rparr> else bo)"
proof -
  have bo: "bootOverride (rf_machine rf1) = bo"
    using systems.patch_system_outcome [OF assms(2)] assms(3,4,8) by (auto simp: GetBootOverride_def)
  have "decode dec_ResetRequest zero_ResetRequest (Some (JObj [(''ResetType'', JStr ''On'')]))
      = Some \<lparr>rr_ResetType = ''On''\<rparr>"
    by code_simp
  then have "Reset menv ''On'' (rf_machine rf1) = (None, rf_machine rf2)"
    using assms(6,7) by (auto simp: handleResetAction_def on_machine_def split: prod.splits option.splits if_splits)
  then show ?thesis
    using power_on_boots [OF assms(1,5)] procs.start_running [of os] by (auto simp: bo GetBootOverride_def process_manager_def)
qed

definition boot_patch :: json where
  "boot_patch = JObj [(''Boot'', JObj [(''BootSourceOverrideEnabled'', JStr ''Once''),
     (''BootSourceOverrideTarget'', JStr ''Pxe'')])]"

definition stopped_machine :: "proc_world Machine" where
  "stopped_machine = NewMachine (NewProcessManager [''-m'', ''64''])"

lemma stopped_status [simp]:
  "GetQMPStatus (sample_env None stubborn_os) (stopped_machine\<lparr>bootOverride := bo\<rparr>)
     = (Inr StatusShutdown, stopped_machine\<lparr>bootOverride := bo\<rparr>)"
  by (simp add: GetQMPStatus_def getQMPStatusProcess_def sample_env_def on_world_def
      process_manager_def stopped_machine_def NewMachine_def NewProcessManager_def IsRunning_def running_at_def)

lemma redfish_override_boots_witness:
  "GetBootOverride (rf_machine (snd (handleResetAction vm_env (Some (JObj [(''ResetType'', JStr ''On'')]))
     (snd (handlePatchSystem vm_env (request ''PATCH'' [] None (Some boot_patch))
       (vm_redfish\<lparr>rf_machine := stopped_machine\<rparr>))))))
   = \<lparr>bo_Enabled = ''Disabled'', bo_Target = ''None'', bo_Mode = ''UEFI''\<rparr>"
proof -
  let ?req = "\<lparr>psr_Boot = Some \<lparr>pbs_BootSourceOverrideEnabled = ''Once'', pbs_BootSourceOverrideTarget = ''Pxe'',
    pbs_BootSourceOverrideMode = [], pbs_BootOrder = []\<rparr>, psr_IndicatorLED = None\<rparr>"
  let ?bo = "\<lparr>bo_Enabled = ''Once'', bo_Target = ''Pxe'', bo_Mode = ''UEFI''\<rparr>"
  let ?rf = "vm_redfish\<lparr>rf_machine := stopped_machine\<rparr>"
  let ?m = "stopped_machine\<lparr>bootOverride := ?bo\<rparr>"
  have d: "decode dec_PatchSystemRequest zero_PatchSystemRequest (Some boot_patch) = Some ?req"
    by code_simp
  have r: "decode dec_ResetRequest zero_ResetRequest (Some (JObj [(''ResetType'', JStr ''On'')]))
      = Some \<lparr>rr_ResetType = ''On''\<rparr>"
    by code_simp
  have b: "bootOverride stopped_machine = \<lparr>bo_Enabled = ''Disabled'', bo_Target = ''None'', bo_Mode = ''UEFI''\<rparr>"
    by (simp add: stopped_machine_def NewMachine_def)
  have patch: "handlePatchSystem vm_env (request ''PATCH'' [] None (Some boot_patch)) ?rf =
      (system_answer vm_env StatusShutdown (vm_redfish\<lparr>rf_machine := ?m\<rparr>), vm_redfish\<lparr>rf_machine := ?m\<rparr>)"
    by (simp add: handlePatchSystem_def checkIfMatch_def request_def d patchBoot_def on_machine_def
        merge_override_def GetBootOverride_def b SetBootOverride_def validTargets_def validEnabled_def
        handleGetSystem_cases)
  have stopped: "\<not> IsRunning stubborn_os (world ?m)"
    by (simp add: stopped_machine_def NewMachine_def NewProcessManager_def IsRunning_def running_at_def)
  have on: "fst (Reset (sample_env None stubborn_os) ''On'' ?m) = None"
    using sample_power_on [OF stopped] by (simp add: Reset_def resetProcessMode_def)
  have "rsp_Status (fst (handleResetAction vm_env (Some (JObj [(''ResetType'', JStr ''On'')]))
      (vm_redfish\<lparr>rf_machine := ?m\<rparr>))) = 204"
    using on by (simp add: handleResetAction_def on_machine_def r validResetTypes_def case_prod_beta)
  moreover have "rsp_Status (system_answer vm_env StatusShutdown (vm_redfish\<lparr>rf_machine := ?m\<rparr>)) = 200"
    by (simp add: system_answer_def Let_def)
  moreover have "?bo = patched_override ?req (GetBootOverride (rf_machine ?rf))"
    by (simp add: patched_override_def GetBootOverride_def b)
  moreover have "rq_Body (request ''PATCH'' [] None (Some boot_patch)) = Some boot_patch"
    by (simp add: request_def)
  moreover have "processManager (sample_env None stubborn_os) = Some (process_manager stubborn_os)"
    by simp
  moreover have "rf_machine (vm_redfish\<lparr>rf_machine := ?m\<rparr>) = ?m"
    by simp
  ultimately have "GetBootOverride (rf_machine (snd (handleResetAction vm_env
      (Some (JObj [(''ResetType'', JStr ''On'')])) (vm_redfish\<lparr>rf_machine := ?m\<rparr>)))) =
      (if bo_Enabled ?bo = ''Once'' then ?bo\<lparr>bo_Enabled := ''Disabled'', bo_Target := ''None''\<rparr> else ?bo)"
    using redfish_override_boots [OF _ patch _ _ _ prod.collapse [symmetric], of stubborn_os ?req ?bo] d stopped
    by metis
  then show ?thesis
    unfolding patch snd_conv by simp
qed

end
